(* ===== verification/GoBase.thy ===== *)
theory GoBase
  imports Main "HOL-Library.Word" "HOL-Library.Sublist"
begin

section \<open>Prelude: the Go language and library functions the server uses\<close>

text \<open>
  The shared base of the development: Go errors as values, Go strings as byte lists with the
  functions of the packages \<open>strings\<close> and \<open>strconv\<close> the server calls, times and durations with
  the two formats the server prints, and Go maps as association lists. Nothing here models a
  line of the repository; the component theories are built from these definitions and from the
  lemmas about them.

  A Go string is a sequence of bytes, and so is a HOL \<open>string\<close>: \<open>length\<close> is Go's \<open>len\<close>.
  Where a library function depends on the Unicode tables (lower casing and case folding of
  non-ASCII text, quoting of non-ASCII text), Go itself has a separate path for ASCII text, which
  is modelled exactly; the other path is a field of the record \<open>unicode\<close>, an argument of the
  definitions that need it. White space is modelled in full, since only nineteen runes beyond
  ASCII count as space.
\<close>

subsection \<open>Errors\<close>

text \<open>
  \<open>Errorf\<close> is an error made by \<open>fmt.Errorf\<close> without a wrapped error, \<open>Wrapf\<close> one with \<open>%w\<close> (its
  text and the error it wraps), \<open>Sentinel\<close> a package-level \<open>errors.New\<close> value. \<open>errors_Is\<close> follows
  the chain of wrapped errors, as \<open>errors.Is\<close> does.
\<close>

datatype goerror = Errorf string | Wrapf string goerror | Sentinel string

type_synonym 'a result = "goerror + 'a"

primrec Error :: "goerror \<Rightarrow> string" where
  "Error (Errorf m) = m"
| "Error (Wrapf m e) = m"
| "Error (Sentinel m) = m"

primrec errors_Is :: "goerror \<Rightarrow> goerror \<Rightarrow> bool" where
  "errors_Is (Errorf m) t = (Errorf m = t)"
| "errors_Is (Wrapf m e) t = (Wrapf m e = t \<or> errors_Is e t)"
| "errors_Is (Sentinel m) t = (Sentinel m = t)"

abbreviation is_ok :: "'a result \<Rightarrow> bool" where
  "is_ok r \<equiv> (\<exists>x. r = Inr x)"

text \<open>A call that can also panic (a nil dereference) returns an \<open>outcome\<close>.\<close>

datatype 'a outcome = Returns "'a result" | Panics

subsection \<open>Bytes and ASCII\<close>

definition byte :: "char \<Rightarrow> nat" where
  "byte c = of_char c"

definition isASCII :: "string \<Rightarrow> bool" where
  "isASCII s \<longleftrightarrow> list_all (\<lambda>c. byte c < 128) s"

definition isdigit :: "char \<Rightarrow> bool" where
  "isdigit c \<longleftrightarrow> 48 \<le> byte c \<and> byte c \<le> 57"

definition islower :: "char \<Rightarrow> bool" where
  "islower c \<longleftrightarrow> 97 \<le> byte c \<and> byte c \<le> 122"

definition isupper :: "char \<Rightarrow> bool" where
  "isupper c \<longleftrightarrow> 65 \<le> byte c \<and> byte c \<le> 90"

definition lower_byte :: "char \<Rightarrow> char" where
  "lower_byte c = (if isupper c then char_of (byte c + 32) else c)"

record unicode =
  uni_ToLower :: "string \<Rightarrow> string"
  uni_EqualFold :: "string \<Rightarrow> string \<Rightarrow> bool"
  uni_Quote :: "string \<Rightarrow> string"

definition ToLower :: "unicode \<Rightarrow> string \<Rightarrow> string" where
  "ToLower U s = (if isASCII s then map lower_byte s else uni_ToLower U s)"

definition EqualFold :: "unicode \<Rightarrow> string \<Rightarrow> string \<Rightarrow> bool" where
  "EqualFold U s t =
     (if isASCII s \<and> isASCII t then map lower_byte s = map lower_byte t
      else uni_EqualFold U s t)"

subsection \<open>Package strings\<close>

definition TrimPrefix :: "string \<Rightarrow> string \<Rightarrow> string" where
  "TrimPrefix s p = (if prefix p s then drop (length p) s else s)"

definition TrimSuffix :: "string \<Rightarrow> string \<Rightarrow> string" where
  "TrimSuffix s p = (if suffix p s then take (length s - length p) s else s)"

text \<open>\<open>strings.TrimRight\<close> with a cutset of one byte.\<close>

definition TrimRight :: "string \<Rightarrow> char \<Rightarrow> string" where
  "TrimRight s c = rev (dropWhile (\<lambda>x. x = c) (rev s))"

text \<open>\<open>strings.Split\<close> with a separator of one byte: never the empty list.\<close>

fun Split :: "char \<Rightarrow> string \<Rightarrow> string list" where
  "Split c [] = [[]]"
| "Split c (x # xs) =
     (if x = c then [] # Split c xs
      else (case Split c xs of [] \<Rightarrow> [[x]] | y # ys \<Rightarrow> (x # y) # ys))"

fun Join :: "string \<Rightarrow> string list \<Rightarrow> string" where
  "Join sep [] = []"
| "Join sep [x] = x"
| "Join sep (x # y # ys) = x @ sep @ Join sep (y # ys)"

text \<open>\<open>strings.ReplaceAll\<close> with an old string of one byte.\<close>

definition ReplaceAll :: "string \<Rightarrow> char \<Rightarrow> string \<Rightarrow> string" where
  "ReplaceAll s old new = concat (map (\<lambda>x. if x = old then new else [x]) s)"

text \<open>
  The byte sequences (UTF-8) of the runes for which \<open>unicode.IsSpace\<close> holds. No sequence occurs
  inside another rune, and no proper prefix of one is a space, so trimming and splitting at these
  sequences is what the rune-wise loops of the library do.
\<close>

definition space_runes :: "string list" where
  "space_runes =
     [[CHR 0x20], [CHR 0x09], [CHR 0x0A], [CHR 0x0B], [CHR 0x0C], [CHR 0x0D],
      [CHR 0xC2, CHR 0x85], [CHR 0xC2, CHR 0xA0], [CHR 0xE1, CHR 0x9A, CHR 0x80]]
     @ map (\<lambda>c. [CHR 0xE2, CHR 0x80, c])
         [CHR 0x80, CHR 0x81, CHR 0x82, CHR 0x83, CHR 0x84, CHR 0x85, CHR 0x86, CHR 0x87,
          CHR 0x88, CHR 0x89, CHR 0x8A, CHR 0xA8, CHR 0xA9, CHR 0xAF]
     @ [[CHR 0xE2, CHR 0x81, CHR 0x9F], [CHR 0xE3, CHR 0x80, CHR 0x80]]"

function strip :: "string list \<Rightarrow> string \<Rightarrow> string" where
  "strip ps [] = []"
| "strip ps (c # cs) =
     (case find (\<lambda>p. prefix p (c # cs)) ps of
        None \<Rightarrow> c # cs
      | Some p \<Rightarrow> strip ps (drop (length p - 1) cs))"
  by pat_completeness auto
termination by (relation "measure (\<lambda>(ps, s). length s)") auto

definition TrimSpace :: "string \<Rightarrow> string" where
  "TrimSpace s = rev (strip (map rev space_runes) (rev (strip space_runes s)))"

text \<open>
  \<open>strings.Fields\<close>: \<open>fields_aux\<close> carries the field read so far (reversed) and the rest of the input.
\<close>

function fields_aux :: "string \<Rightarrow> string \<Rightarrow> string list" where
  "fields_aux acc [] = (if acc = [] then [] else [rev acc])"
| "fields_aux acc (c # cs) =
     (case find (\<lambda>p. prefix p (c # cs)) space_runes of
        None \<Rightarrow> fields_aux (c # acc) cs
      | Some p \<Rightarrow> (if acc = [] then [] else [rev acc]) @ fields_aux [] (drop (length p - 1) cs))"
  by pat_completeness auto
termination by (relation "measure (\<lambda>(acc, s). length s)") auto

definition Fields :: "string \<Rightarrow> string list" where
  "Fields s = fields_aux [] s"

text \<open>\<open>strings.Index\<close> of a substring: the least offset at which it occurs.\<close>

fun Index :: "string \<Rightarrow> string \<Rightarrow> nat option" where
  "Index [] p = (if p = [] then Some 0 else None)"
| "Index (x # xs) p =
     (if prefix p (x # xs) then Some 0 else map_option Suc (Index xs p))"

text \<open>\<open>strings.LastIndexByte\<close>.\<close>

fun LastIndexByte :: "string \<Rightarrow> char \<Rightarrow> nat option" where
  "LastIndexByte [] c = None"
| "LastIndexByte (x # xs) c =
     (case LastIndexByte xs c of
        Some i \<Rightarrow> Some (Suc i)
      | None \<Rightarrow> if x = c then Some 0 else None)"

subsection \<open>Numbers as text: fmt and strconv\<close>

definition digit_char :: "nat \<Rightarrow> char" where
  "digit_char d = ''0123456789'' ! d"

definition digit_val :: "char \<Rightarrow> nat" where
  "digit_val c = byte c - 48"

fun dec :: "nat \<Rightarrow> string" where
  "dec n = (if n < 10 then [digit_char n] else dec (n div 10) @ [digit_char (n mod 10)])"

declare dec.simps [simp del]

text \<open>\<open>%d\<close> and \<open>strconv.Itoa\<close>.\<close>

definition Itoa :: "int \<Rightarrow> string" where
  "Itoa i = (if i < 0 then CHR ''-'' # dec (nat (- i)) else dec (nat i))"

definition digits_value :: "string \<Rightarrow> nat" where
  "digits_value s = foldl (\<lambda>a c. 10 * a + digit_val c) 0 s"

text \<open>A non-empty run of decimal digits, read as a number.\<close>

definition parse_digits :: "string \<Rightarrow> nat option" where
  "parse_digits s = (if s \<noteq> [] \<and> list_all isdigit s then Some (digits_value s) else None)"

text \<open>
  \<open>strconv.ParseUint(s, 10, 32)\<close>: no sign, no underscore, and a value above the maximum is an
  error.
\<close>

definition ParseUint32 :: "string \<Rightarrow> nat option" where
  "ParseUint32 s =
     (case parse_digits s of None \<Rightarrow> None | Some n \<Rightarrow> if n < 2 ^ 32 then Some n else None)"

text \<open>\<open>strconv.Atoi\<close> on a 64-bit platform.\<close>

definition Atoi :: "string \<Rightarrow> int option" where
  "Atoi s =
     (case s of
        [] \<Rightarrow> None
      | c # cs \<Rightarrow>
          (case parse_digits (if c = CHR ''-'' \<or> c = CHR ''+'' then cs else s) of
             None \<Rightarrow> None
           | Some n \<Rightarrow>
               if c = CHR ''-'' then (if n \<le> 2 ^ 63 then Some (- int n) else None)
               else (if n < 2 ^ 63 then Some (int n) else None)))"

text \<open>\<open>%q\<close> (\<open>strconv.Quote\<close>): the ASCII path in full.\<close>

definition hex_digit :: "nat \<Rightarrow> char" where
  "hex_digit d = ''0123456789abcdef'' ! d"

definition quote_byte :: "char \<Rightarrow> string" where
  "quote_byte c =
     (if c = CHR 0x22 \<or> c = CHR 0x5C then [CHR 0x5C, c]
      else if c = CHR 0x07 then [CHR 0x5C, CHR ''a'']
      else if c = CHR 0x08 then [CHR 0x5C, CHR ''b'']
      else if c = CHR 0x0C then [CHR 0x5C, CHR ''f'']
      else if c = CHR 0x0A then [CHR 0x5C, CHR ''n'']
      else if c = CHR 0x0D then [CHR 0x5C, CHR ''r'']
      else if c = CHR 0x09 then [CHR 0x5C, CHR ''t'']
      else if c = CHR 0x0B then [CHR 0x5C, CHR ''v'']
      else if byte c < 32 \<or> byte c = 127
        then [CHR 0x5C, CHR ''x'', hex_digit (byte c div 16), hex_digit (byte c mod 16)]
      else [c])"

definition Quote :: "unicode \<Rightarrow> string \<Rightarrow> string" where
  "Quote U s =
     (if isASCII s then [CHR 0x22] @ concat (map quote_byte s) @ [CHR 0x22] else uni_Quote U s)"

subsection \<open>Times and durations\<close>

text \<open>
  A \<open>time.Time\<close> is the seconds since 0001-01-01T00:00:00Z and the nanoseconds within the second;
  both are zero for the zero time. The calendar functions compute the UTC date; the two layouts
  the server uses (\<open>time.RFC3339\<close> in UTC and the WHOIS layout) print the same text.
  A \<open>time.Duration\<close> is its number of nanoseconds.
\<close>

record gotime =
  t_sec :: int
  t_nsec :: nat

definition zero_time :: gotime where
  "zero_time = \<lparr>t_sec = 0, t_nsec = 0\<rparr>"

definition IsZero :: "gotime \<Rightarrow> bool" where
  "IsZero t \<longleftrightarrow> t_sec t = 0 \<and> t_nsec t = 0"

definition Add_sec :: "gotime \<Rightarrow> int \<Rightarrow> gotime" where
  "Add_sec t d = t\<lparr>t_sec := t_sec t + d\<rparr>"

definition leap_year :: "int \<Rightarrow> bool" where
  "leap_year y \<longleftrightarrow> y mod 4 = 0 \<and> (y mod 100 \<noteq> 0 \<or> y mod 400 = 0)"

text \<open>Year and day of the year (from 0) of a day number counted from 0001-01-01.\<close>

definition year_yday :: "int \<Rightarrow> int \<times> nat" where
  "year_yday d =
     (let n400 = d div 146097; r400 = d mod 146097;
          n100 = min 3 (r400 div 36524); r100 = r400 - n100 * 36524;
          n4 = r100 div 1461; r4 = r100 mod 1461;
          n1 = min 3 (r4 div 365)
      in (400 * n400 + 100 * n100 + 4 * n4 + n1 + 1, nat (r4 - 365 * n1)))"

definition month_lengths :: "bool \<Rightarrow> nat list" where
  "month_lengths leap = [31, if leap then 29 else 28, 31, 30, 31, 30, 31, 31, 30, 31, 30, 31]"

fun month_day :: "nat list \<Rightarrow> nat \<Rightarrow> nat \<Rightarrow> nat \<times> nat" where
  "month_day [] m yd = (m, Suc yd)"
| "month_day (l # ls) m yd = (if yd < l then (m, Suc yd) else month_day ls (Suc m) (yd - l))"

definition pad :: "nat \<Rightarrow> nat \<Rightarrow> string" where
  "pad w n = replicate (w - length (dec n)) (CHR ''0'') @ dec n"

definition format_rfc3339_utc :: "gotime \<Rightarrow> string" where
  "format_rfc3339_utc t =
     (let (y, yd) = year_yday (t_sec t div 86400);
          s = nat (t_sec t mod 86400);
          (m, d) = month_day (month_lengths (leap_year y)) 1 yd
      in (if y < 0 then CHR ''-'' # pad 4 (nat (- y)) else pad 4 (nat y))
         @ ''-'' @ pad 2 m @ ''-'' @ pad 2 d @ ''T''
         @ pad 2 (s div 3600) @ '':'' @ pad 2 (s div 60 mod 60) @ '':'' @ pad 2 (s mod 60) @ ''Z'')"

text \<open>\<open>time.Duration.String\<close>, e.g. \<open>1m0s\<close>.\<close>

definition frac_text :: "nat \<Rightarrow> nat \<Rightarrow> string" where
  "frac_text v prec =
     (let ds = TrimRight (pad prec (v mod 10 ^ prec)) (CHR ''0'')
      in if v mod 10 ^ prec = 0 then [] else CHR ''.'' # ds)"

definition Duration_String :: "int \<Rightarrow> string" where
  "Duration_String ns =
     (let u = nat \<bar>ns\<bar>;
          body =
            (if u = 0 then ''0s''
             else if u < 1000 then dec u @ ''ns''
             else if u < 1000000 then dec (u div 1000) @ frac_text u 3 @ [CHR 0xC2, CHR 0xB5, CHR ''s'']
             else if u < 1000000000 then dec (u div 1000000) @ frac_text u 6 @ ''ms''
             else (let s = u div 1000000000
                   in (if s \<ge> 3600 then dec (s div 3600) @ ''h'' else [])
                      @ (if s \<ge> 60 then dec (s div 60 mod 60) @ ''m'' else [])
                      @ dec (s mod 60) @ frac_text u 9 @ ''s''))
      in if ns < 0 then CHR ''-'' # body else body)"

subsection \<open>Maps\<close>

text \<open>
  A Go map is an association list with distinct keys; \<open>map_of\<close> looks a key up and \<open>map_put\<close> stores
  a value. The order of the list is the order in which a \<open>range\<close> loop visits the map. Go leaves
  that order open: a statement about every list with distinct keys is a statement about every
  order.
\<close>

type_synonym ('k, 'v) gomap = "('k \<times> 'v) list"

definition gomap_inv :: "('k, 'v) gomap \<Rightarrow> bool" where
  "gomap_inv m \<longleftrightarrow> distinct (map fst m)"

definition map_put :: "'k \<Rightarrow> 'v \<Rightarrow> ('k, 'v) gomap \<Rightarrow> ('k, 'v) gomap" where
  "map_put k v m =
     (if k \<in> set (map fst m) then map (\<lambda>(k', v'). if k' = k then (k', v) else (k', v')) m
      else m @ [(k, v)])"

text \<open>Reading a missing key of a map of slices gives the nil slice.\<close>

definition map_get :: "('k, 'v list) gomap \<Rightarrow> 'k \<Rightarrow> 'v list" where
  "map_get m k = (case map_of m k of None \<Rightarrow> [] | Some v \<Rightarrow> v)"

subsection \<open>Lemmas the components share\<close>

text \<open>
  \<open>go_eval\<close> collects the equations with which \<open>simp\<close> evaluates closed terms over these definitions.
\<close>

named_theorems go_eval \<open>equations that evaluate closed terms\<close>

lemma replicate_numeral: "replicate (numeral k) x = x # replicate (pred_numeral k) x"
  by (simp add: numeral_eq_Suc)

lemmas go_base_eval [go_eval] =
  Let_def suffix_to_prefix char_of_def bit_0 bit_Suc_0_iff mask_eq_exp_minus_1 replicate_numeral byte_def isASCII_def isdigit_def islower_def isupper_def lower_byte_def ToLower_def EqualFold_def
  TrimPrefix_def TrimSuffix_def TrimRight_def ReplaceAll_def space_runes_def TrimSpace_def
  Fields_def digit_char_def digit_val_def dec.simps Itoa_def digits_value_def parse_digits_def
  ParseUint32_def Atoi_def hex_digit_def quote_byte_def Quote_def pad_def frac_text_def
  Duration_String_def zero_time_def IsZero_def Add_sec_def leap_year_def year_yday_def
  month_lengths_def format_rfc3339_utc_def map_put_def map_get_def

lemma isASCII_simps [simp]:
  "isASCII []"
  "isASCII (c # s) \<longleftrightarrow> byte c < 128 \<and> isASCII s"
  "isASCII (s @ t) \<longleftrightarrow> isASCII s \<and> isASCII t"
  by (auto simp: isASCII_def)

lemma byte_char_of: "n < 256 \<Longrightarrow> byte (char_of n) = n"
  by (simp add: byte_def)

lemma char_of_byte [simp]: "char_of (byte c) = c"
  by (simp add: byte_def)

lemma byte_inj [simp]: "byte c = byte d \<longleftrightarrow> c = d"
  by (simp add: byte_def)

lemma byte_less_256: "byte c < 256"
  by (simp add: byte_def of_char_def)

lemma byte_lower_byte:
  "byte (lower_byte c) = (if isupper c then byte c + 32 else byte c)"
  by (auto simp: lower_byte_def isupper_def byte_char_of)

lemma lower_byte_not_upper [simp]: "\<not> isupper (lower_byte c)"
  by (auto simp: isupper_def byte_lower_byte)

lemma lower_byte_idem [simp]: "lower_byte (lower_byte c) = lower_byte c"
  by (subst (1) lower_byte_def) simp

lemma lower_byte_ascii [simp]: "byte (lower_byte c) < 128 \<longleftrightarrow> byte c < 128"
  by (auto simp: byte_lower_byte isupper_def)

lemma isASCII_lower [simp]: "isASCII (map lower_byte s) \<longleftrightarrow> isASCII s"
  by (induction s) auto

lemma lower_byte_id: "\<not> isupper c \<Longrightarrow> lower_byte c = c"
  by (simp add: lower_byte_def)

lemma ToLower_idem: "isASCII s \<Longrightarrow> ToLower U (ToLower U s) = ToLower U s"
  by (simp add: ToLower_def comp_def)

lemma EqualFold_refl_ascii: "isASCII s \<Longrightarrow> EqualFold U s s"
  by (simp add: EqualFold_def)

lemma Split_not_Nil [simp]: "Split c s \<noteq> []"
  by (induction c s rule: Split.induct) (auto split: list.splits)

lemma Join_Split [simp]: "Join [c] (Split c s) = s"
proof (induction c s rule: Split.induct)
  case (2 c x xs)
  obtain y ys where sp: "Split c xs = y # ys" by (cases "Split c xs") auto
  then show ?case using 2 by (cases ys) (auto split: if_splits)
qed simp

lemma Split_no_sep: "p \<in> set (Split c s) \<Longrightarrow> c \<notin> set p"
proof (induction c s arbitrary: p rule: Split.induct)
  case (2 c x xs)
  then show ?case
    by (cases "Split c xs") (auto split: if_splits)
qed simp

lemma Split_single: "c \<notin> set s \<Longrightarrow> Split c s = [s]"
  by (induction s) auto

lemma Split_append: "c \<notin> set a \<Longrightarrow> Split c (a @ c # b) = a # Split c b"
  by (induction a) auto

lemma Split_snoc: "Split c (s @ [c]) = Split c s @ [[]]"
  by (induction s) (auto split: list.splits)

lemma Join_Cons: "xs \<noteq> [] \<Longrightarrow> Join sep (x # xs) = x @ sep @ Join sep xs"
  by (cases xs) auto

lemma Split_Join:
  "ps \<noteq> [] \<Longrightarrow> \<forall>p \<in> set ps. c \<notin> set p \<Longrightarrow> Split c (Join [c] ps) = ps"
proof (induction ps)
  case (Cons p ps)
  then show ?case
    by (cases "ps = []") (auto simp: Split_single Join_Cons Split_append)
qed simp

lemma set_Split_subset: "p \<in> set (Split c s) \<Longrightarrow> set p \<subseteq> set s"
proof (induction c s arbitrary: p rule: Split.induct)
  case (2 c x xs)
  obtain y ys where sp: "Split c xs = y # ys" by (cases "Split c xs") auto
  then show ?case using 2 by (auto split: if_splits) blast+
qed simp

lemma set_Join: "set (Join sep ps) \<subseteq> set sep \<union> \<Union> (set ` set ps)"
  by (induction sep ps rule: Join.induct) auto

lemma map_filter_append: "List.map_filter f (xs @ ys) = List.map_filter f xs @ List.map_filter f ys"
  by (simp add: List.map_filter_def)

lemma less_ten_cases:
  "(d::nat) < 10 \<Longrightarrow> d = 0 \<or> d = 1 \<or> d = 2 \<or> d = 3 \<or> d = 4 \<or> d = 5 \<or> d = 6 \<or> d = 7 \<or> d = 8 \<or> d = 9"
  by arith

lemma byte_digit_char: "d < 10 \<Longrightarrow> byte (digit_char d) = 48 + d"
  by (drule less_ten_cases) (auto simp: digit_char_def byte_def)

lemma LastIndexByte_None: "LastIndexByte s c = None \<longleftrightarrow> c \<notin> set s"
  by (induction s) (auto split: option.splits)

lemma LastIndexByte_append: "c \<notin> set b \<Longrightarrow> LastIndexByte (a @ c # b) c = Some (length a)"
  using LastIndexByte_None [of b c] by (induction a) auto

lemma LastIndexByte_Some:
  "LastIndexByte s c = Some i \<Longrightarrow> i < length s \<and> s ! i = c \<and> c \<notin> set (drop (Suc i) s)"
proof (induction s arbitrary: i)
  case (Cons x s)
  then show ?case
    by (auto split: option.splits if_splits simp: LastIndexByte_None)
qed simp

lemma Index_byte_append: "c \<notin> set a \<Longrightarrow> Index (a @ c # b) [c] = Some (length a)"
  by (induction a) auto

lemma Index_byte_Some:
  "Index s [c] = Some i \<Longrightarrow> i < length s \<and> s ! i = c \<and> c \<notin> set (take i s)"
  by (induction s arbitrary: i) (auto split: if_splits)

lemma isdigit_digit_char: "d < 10 \<Longrightarrow> isdigit (digit_char d) \<and> digit_val (digit_char d) = d"
  by (simp add: isdigit_def digit_val_def byte_digit_char)

lemma digits_value_snoc: "digits_value (s @ [c]) = 10 * digits_value s + digit_val c"
  by (simp add: digits_value_def)

lemma dec_digits: "dec n \<noteq> [] \<and> list_all isdigit (dec n) \<and> digits_value (dec n) = n"
proof (induction n rule: dec.induct)
  case (1 n)
  show ?case
  proof (cases "n < 10")
    case True
    then show ?thesis
      by (simp add: dec.simps [of n] isdigit_digit_char digits_value_def)
  next
    case False
    with 1 have "list_all isdigit (dec (n div 10))" "digits_value (dec (n div 10)) = n div 10"
      by auto
    with False show ?thesis
      by (simp add: dec.simps [of n] isdigit_digit_char digits_value_snoc)
  qed
qed

lemma parse_digits_dec [simp]: "parse_digits (dec n) = Some n"
  using dec_digits [of n] by (simp add: parse_digits_def)

lemma ParseUint32_dec: "n < 2 ^ 32 \<Longrightarrow> ParseUint32 (dec n) = Some n"
  by (simp add: ParseUint32_def)

lemma dec_inj: "dec m = dec n \<longleftrightarrow> m = n"
  by (metis parse_digits_dec option.inject)

lemma ParseUint32_bound: "ParseUint32 s = Some n \<Longrightarrow> n < 2 ^ 32"
  by (auto simp: ParseUint32_def split: option.splits if_splits)

lemma strip_suffix: "suffix (strip ps s) s"
proof (induction ps s rule: strip.induct)
  case (2 ps c cs)
  show ?case
  proof (cases "find (\<lambda>p. prefix p (c # cs)) ps")
    case (Some p)
    then have "suffix (strip ps (drop (length p - 1) cs)) (drop (length p - 1) cs)"
      using 2 by simp
    moreover have "suffix (drop (length p - 1) cs) (c # cs)"
      by (metis suffix_ConsI suffix_drop)
    ultimately have "suffix (strip ps (drop (length p - 1) cs)) (c # cs)"
      by (rule suffix_order.trans)
    then show ?thesis using Some by simp
  qed simp
qed simp

lemma strip_done: "strip ps s = t \<Longrightarrow> t = [] \<or> find (\<lambda>p. prefix p t) ps = None"
proof (induction ps s arbitrary: t rule: strip.induct)
  case (2 ps c cs)
  then show ?case
    by (cases "find (\<lambda>p. prefix p (c # cs)) ps") auto
qed simp

lemma strip_fixed: "t = [] \<or> find (\<lambda>p. prefix p t) ps = None \<Longrightarrow> strip ps t = t"
  by (cases t) auto

lemma find_prefix_None:
  "find (\<lambda>p. prefix p t) ps = None \<longleftrightarrow> (\<forall>p \<in> set ps. \<not> prefix p t)"
  by (auto simp: find_None_iff)

lemma TrimSpace_idem: "TrimSpace (TrimSpace s) = TrimSpace s"
proof -
  define t where "t = strip space_runes s"
  define u where "u = strip (map rev space_runes) (rev t)"
  have ts: "TrimSpace s = rev u" by (simp add: TrimSpace_def t_def u_def)
  have "suffix u (rev t)" by (simp add: u_def strip_suffix)
  then have pre: "prefix (rev u) t" by (simp add: suffix_to_prefix)
  have "rev u = [] \<or> find (\<lambda>p. prefix p (rev u)) space_runes = None"
    using strip_done [OF t_def [symmetric]] pre
    by (auto simp: find_prefix_None dest: prefix_order.trans)
  then have "strip space_runes (rev u) = rev u" by (rule strip_fixed)
  moreover have "strip (map rev space_runes) u = u"
    using strip_done [OF u_def [symmetric]] by (rule strip_fixed)
  ultimately show ?thesis by (simp add: ts) (simp add: TrimSpace_def)
qed

lemma space_runes_bytes: "\<forall>p \<in> set space_runes. \<exists>c \<in> set p. byte c \<le> 32 \<or> 128 \<le> byte c"
  by (simp add: space_runes_def byte_def)

lemma TrimSpace_id:
  assumes "\<forall>c \<in> set s. 32 < byte c \<and> byte c < 128"
  shows "TrimSpace s = s"
proof -
  have no: "\<not> prefix p s" "\<not> prefix (rev p) (rev s)" if p: "p \<in> set space_runes" for p
  proof -
    obtain c where c: "c \<in> set p" "byte c \<le> 32 \<or> 128 \<le> byte c"
      using space_runes_bytes p by blast
    then show "\<not> prefix p s" "\<not> prefix (rev p) (rev s)"
      using assms set_mono_prefix [of p s] set_mono_prefix [of "rev p" "rev s"] by fastforce+
  qed
  have "strip space_runes s = s"
    by (rule strip_fixed) (simp add: find_prefix_None no)
  moreover have "strip (map rev space_runes) (rev s) = rev s"
    by (rule strip_fixed) (simp add: find_prefix_None no)
  ultimately show ?thesis by (simp add: TrimSpace_def)
qed

lemma TrimSpace_subset: "set (TrimSpace s) \<subseteq> set s"
  using set_mono_suffix [OF strip_suffix [of space_runes s]]
    set_mono_suffix [OF strip_suffix [of "map rev space_runes" "rev (strip space_runes s)"]]
  by (auto simp: TrimSpace_def)

lemma fields_aux_acc: "acc \<noteq> [] \<Longrightarrow> fields_aux acc s \<noteq> []"
proof (induction acc s rule: fields_aux.induct)
  case (2 acc c cs)
  then show ?case
    by (cases "find (\<lambda>p. prefix p (c # cs)) space_runes") auto
qed simp

lemma Fields_TrimSpace_not_Nil:
  assumes "TrimSpace s \<noteq> []"
  shows "Fields (TrimSpace s) \<noteq> []"
proof -
  obtain c cs where cs: "TrimSpace s = c # cs" using assms by (cases "TrimSpace s") auto
  define t where "t = strip space_runes s"
  define u where "u = strip (map rev space_runes) (rev t)"
  have ru: "TrimSpace s = rev u" by (simp add: TrimSpace_def t_def u_def)
  have "prefix (rev u) t"
    using strip_suffix [of "map rev space_runes" "rev t"] by (simp add: u_def suffix_to_prefix)
  moreover have "t \<noteq> []" using calculation ru assms by (auto simp: prefix_def)
  ultimately have "find (\<lambda>p. prefix p (c # cs)) space_runes = None"
    using strip_done [OF t_def [symmetric]] cs ru
    by (auto simp: find_prefix_None dest: prefix_order.trans)
  then have "Fields (TrimSpace s) = fields_aux [c] cs"
    by (simp add: Fields_def cs)
  then show ?thesis by (simp add: fields_aux_acc)
qed

lemma map_of_overwrite:
  "map_of (map (\<lambda>(k', v'). if k' = k then (k', v) else (k', v')) m) x =
     (if x = k then map_option (\<lambda>_. v) (map_of m k) else map_of m x)"
proof (induction m)
  case (Cons e m)
  obtain a b where "e = (a, b)" by (cases e)
  with Cons show ?case by (cases "x = k") simp_all
qed simp

lemma map_of_map_put [simp]: "map_of (map_put k v m) = (map_of m)(k \<mapsto> v)"
proof (cases "k \<in> set (map fst m)")
  case True
  then obtain w where "map_of m k = Some w"
    by (metis map_of_eq_None_iff not_None_eq set_map)
  then show ?thesis using True by (simp add: map_put_def map_of_overwrite fun_eq_iff)
next
  case False
  then have "map_of m k = None" by (simp add: map_of_eq_None_iff)
  then have "map_of (m @ [(k, v)]) x = ((map_of m)(k \<mapsto> v)) x" for x
    by (simp add: map_of_append map_add_def split: option.split)
  then show ?thesis using False by (simp add: map_put_def fun_eq_iff)
qed

lemma map_put_keys: "map fst (map_put k v m) = (if k \<in> set (map fst m) then map fst m else map fst m @ [k])"
  by (auto simp: map_put_def comp_def split: prod.splits)

lemma gomap_inv_put: "gomap_inv m \<Longrightarrow> gomap_inv (map_put k v m)"
  by (simp add: gomap_inv_def map_put_keys)

lemma gomap_inv_Nil [simp]: "gomap_inv []"
  by (simp add: gomap_inv_def)

lemma map_get_put: "map_get (map_put k v m) k' = (if k' = k then v else map_get m k')"
  by (simp add: map_get_def)

end
