(* ===== verification/RdapModel.thy ===== *)
theory RdapModel
  imports GoBase
begin

section \<open>The RDAP wire types\<close>

text \<open>
  The structs of \<open>internal/rdap/models.go\<close>. \<open>Common\<close>, \<open>Entity\<close> and \<open>IPNetwork\<close> nest in one another
  (an entity holds entities and networks, both embed \<open>Common\<close>), so these three are one mutually
  recursive datatype with selectors; the other structs are records. An \<open>interface{}\<close> value, as in
  the jCard array, is a \<open>json\<close> value; a JSON number keeps its literal. A name that
  \<open>RegistryModel\<close> uses too carries the suffix \<open>_R\<close>.
\<close>

datatype json = JNull | JBool bool | JNum string | JStr string | JArr "json list"
  | JObj "(string \<times> json) list"

record Conformance =
  conf :: "string list"

record Link =
  l_Value :: string
  l_Rel :: string
  l_Href :: string
  l_Type :: string
  l_Title :: string

record Event_R =
  EventAction :: string
  EventDate :: string
  EventActor :: string

record Notice =
  n_Title :: string
  n_Type :: string
  n_Description :: "string list"
  n_Links :: "Link list"

record Remark =
  r_Title :: string
  r_Type :: string
  r_Description :: "string list"
  r_Links :: "Link list"

record PublicID_R =
  p_Type :: string
  p_Identifier :: string

record CIDR0 =
  V4Prefix :: string
  V6Prefix :: string
  Length :: int

datatype Common = Common
  (ObjectClassName: string)
  (Handle: string)
  (Links: "Link list")
  (Events: "Event_R list")
  (Common_Notices: "Notice list")
  (Remarks: "Remark list")
  (Port43: string)
  (Entities: "Entity list")
  (Status_C: "string list")
and Entity = Entity
  (Entity_Common: Common)
  (VCardArray: "json list")
  (Roles: "string list")
  (PublicIDs: "PublicID_R list")
  (Networks: "IPNetwork_R list")
  (AsEventActor: bool)
and IPNetwork_R = IPNetwork_R
  (IPNetwork_Common: Common)
  (StartAddress: string)
  (EndAddress: string)
  (IPVersion: string)
  (CIDR: "string list")
  (IPNetwork_Name: string)
  (IPNetwork_Type: string)
  (IPNetwork_Country: string)
  (ParentHandle: string)
  (CIDR0CIDRs: "CIDR0 list")

record TTL0Data =
  t_Values :: "(string, int) gomap"
  t_Remarks :: "Remark list"

record VariantName =
  vn_LDHName :: string
  vn_UnicodeName :: string

record Variant =
  v_Relation :: "string list"
  v_IDNTable :: string
  v_VariantNames :: "VariantName list"

record IPAddrSet =
  V4 :: "string list"
  V6 :: "string list"

record DSData =
  dsd_KeyTag :: int
  dsd_Algorithm :: int
  dsd_DigestType :: int
  dsd_Digest :: string
  dsd_Events :: "Event_R list"
  dsd_Links :: "Link list"

record KeyData =
  kd_Flags :: int
  kd_Protocol :: int
  kd_Algorithm :: int
  kd_PublicKey :: string
  kd_Events :: "Event_R list"
  kd_Links :: "Link list"

record SecureDNS_R =
  ZoneSigned :: bool
  DelegationSigned :: bool
  MaxSigLife :: "int option"
  dsData :: "DSData list"
  keyData :: "KeyData list"

record Nameserver =
  Nameserver_Common :: Common
  Nameserver_LDHName :: string
  Nameserver_UnicodeName :: string
  IPAddresses :: "IPAddrSet option"
  Nameserver_TTL0Data :: "TTL0Data option"

record Domain_R =
  Domain_Common :: Common
  Domain_Conformance :: Conformance
  Domain_LDHName :: string
  Domain_UnicodeName :: string
  Variants :: "Variant list"
  Nameservers :: "Nameserver list"
  SecureDNS_of :: "SecureDNS_R option"
  Network :: "IPNetwork_R option"
  Domain_Notices :: "Notice list"
  Domain_PublicIDs :: "PublicID_R list"
  Domain_TTL0Data :: "TTL0Data option"

record Autnum_R =
  Autnum_Common :: Common
  StartAutnum :: "32 word"
  EndAutnum :: "32 word"
  Autnum_Name :: string
  Autnum_Type :: string
  Autnum_Country :: string

record ReverseSearchProperty =
  SearchableResourceType :: string
  RelatedResourceType :: string
  rsp_Property :: string

record ReverseSearchPropertiesMapping =
  rsm_Property :: string
  PropertyPath :: string

record DomainSearchResult =
  ds_Conformance :: Conformance
  DomainSearchResults :: "Domain_R list"
  ds_Notices :: "Notice list"
  ds_ReverseSearchPropertiesMapping :: "ReverseSearchPropertiesMapping list"

record EntitySearchResult =
  es_Conformance :: Conformance
  EntitySearchResults :: "Entity list"
  es_Notices :: "Notice list"
  es_ReverseSearchPropertiesMapping :: "ReverseSearchPropertiesMapping list"

record NameserverSearchResult =
  nss_Conformance :: Conformance
  NameserverSearchResults :: "Nameserver list"
  nss_Notices :: "Notice list"
  nss_ReverseSearchPropertiesMapping :: "ReverseSearchPropertiesMapping list"

record FARV1Provider =
  Iss :: string
  fp_Name :: string
  Default :: bool

record FARV1OpenIDCConfiguration =
  SessionClientSupported :: bool
  TokenClientSupported :: bool
  DntSupported :: bool
  ProviderDiscoverySupported :: bool
  IssuerIdentifierSupported :: bool
  ImplicitTokenRefreshSupported :: bool
  OpenIDCProviders :: "FARV1Provider list"

record Help =
  h_Conformance :: Conformance
  h_Notices :: "Notice list"
  ReverseSearchProperties_H :: "ReverseSearchProperty list"
  FARV1OpenIDCConfiguration_H :: "FARV1OpenIDCConfiguration option"

record EntityResponse =
  er_Entity :: Entity
  er_Conformance :: Conformance
  er_Notices :: "Notice list"

record NameserverResponse =
  nr_Nameserver :: Nameserver
  nr_Conformance :: Conformance
  nr_Notices :: "Notice list"

record IPNetworkResponse =
  ir_IPNetwork :: IPNetwork_R
  ir_Conformance :: Conformance
  ir_Notices :: "Notice list"

record AutnumResponse =
  ar_Autnum :: Autnum_R
  ar_Conformance :: Conformance
  ar_Notices :: "Notice list"

record ErrorResponse =
  er2_Conformance :: Conformance
  ErrorCode :: int
  er2_Title :: string
  er2_Description :: "string list"
  er2_Notices :: "Notice list"

text \<open>Composite literals name a few fields; the others are zero.\<close>

definition mk_Link :: "string \<Rightarrow> string \<Rightarrow> string \<Rightarrow> string \<Rightarrow> Link" where
  "mk_Link value rel href type =
     \<lparr>l_Value = value, l_Rel = rel, l_Href = href, l_Type = type, l_Title = []\<rparr>"

definition mk_Event :: "string \<Rightarrow> string \<Rightarrow> Event_R" where
  "mk_Event action date = \<lparr>EventAction = action, EventDate = date, EventActor = []\<rparr>"

definition mk_Notice :: "string \<Rightarrow> string list \<Rightarrow> Link list \<Rightarrow> Notice" where
  "mk_Notice title desc links =
     \<lparr>n_Title = title, n_Type = [], n_Description = desc, n_Links = links\<rparr>"

definition rdap_json :: string where "rdap_json = ''application/rdap+json''"
definition text_html :: string where "text_html = ''text/html''"

lemmas rdap_model_eval [go_eval] =
  mk_Link_def mk_Event_def mk_Notice_def rdap_json_def text_html_def

end
