(* ===== verification/GoNet.thy ===== *)
theory GoNet
  imports GoBase
begin

unbundle bit_operations_syntax

section \<open>Go network library: host and port, IP addresses, prefixes, URLs\<close>

text \<open>
  The functions of the packages \<open>net\<close>, \<open>net/netip\<close> and \<open>net/url\<close> the server calls, translated from
  their documented behaviour, with the lemmas the components use: an address is a machine word of
  its own width, a parse error is \<open>None\<close>. The main results are the round trip of
  \<open>JoinHostPort\<close> and \<open>SplitHostPort\<close> and the reading of prefix containment as an interval of
  addresses.
\<close>

subsection \<open>Host and port\<close>

definition SplitHostPort :: "string \<Rightarrow> (string \<times> string) option" where
  "SplitHostPort hp =
     (case LastIndexByte hp (CHR '':'') of
        None \<Rightarrow> None
      | Some i \<Rightarrow>
          (if hp ! 0 = CHR ''['' then
             (case Index hp '']'' of
                None \<Rightarrow> None
              | Some e \<Rightarrow>
                  if e + 1 = i \<and> CHR ''['' \<notin> set (drop 1 hp) \<and> CHR '']'' \<notin> set (drop (e + 1) hp)
                  then Some (take (e - 1) (drop 1 hp), drop (i + 1) hp) else None)
           else
             (if CHR '':'' \<in> set (take i hp) \<or> CHR ''['' \<in> set hp \<or> CHR '']'' \<in> set hp then None
              else Some (take i hp, drop (i + 1) hp))))"

definition JoinHostPort :: "string \<Rightarrow> string \<Rightarrow> string" where
  "JoinHostPort host port =
     (if CHR '':'' \<in> set host then ''['' @ host @ '']:'' @ port else host @ '':'' @ port)"

subsection \<open>Addresses\<close>

text \<open>A \<open>netip.Addr\<close>; the second argument of \<open>Addr6\<close> is the zone, empty when there is none.\<close>

datatype addr = Addr4 "32 word" | Addr6 "128 word" string

definition octet :: "string \<Rightarrow> nat option" where
  "octet s =
     (case parse_digits s of
        None \<Rightarrow> None
      | Some n \<Rightarrow> if n \<le> 255 \<and> (length s > 1 \<longrightarrow> hd s \<noteq> CHR ''0'') then Some n else None)"

definition parseIPv4 :: "string \<Rightarrow> nat option" where
  "parseIPv4 s =
     (case map octet (Split (CHR ''.'') s) of
        [Some a, Some b, Some c, Some d] \<Rightarrow> Some (((a * 256 + b) * 256 + c) * 256 + d)
      | _ \<Rightarrow> None)"

definition hexval :: "char \<Rightarrow> nat option" where
  "hexval c =
     (if isdigit c then Some (byte c - 48)
      else if 97 \<le> byte c \<and> byte c \<le> 102 then Some (byte c - 87)
      else if 65 \<le> byte c \<and> byte c \<le> 70 then Some (byte c - 55)
      else None)"

definition hex_value :: "string \<Rightarrow> nat" where
  "hex_value s = foldl (\<lambda>a c. 16 * a + (case hexval c of None \<Rightarrow> 0 | Some v \<Rightarrow> v)) 0 s"

text \<open>
  The loop of \<open>parseIPv6\<close>: the 16-bit groups read so far, the position of the ellipsis if one was
  seen, and the text that is left. The first argument counts the groups that still fit.
\<close>

fun v6_loop ::
  "nat \<Rightarrow> nat list \<Rightarrow> nat option \<Rightarrow> string \<Rightarrow> (nat list \<times> nat option \<times> string) option" where
  "v6_loop 0 gs e s = Some (gs, e, s)"
| "v6_loop (Suc k) gs e s =
     (let hs = takeWhile (\<lambda>c. hexval c \<noteq> None) s; rest = drop (length hs) s
      in if hs = [] \<or> length hs > 4 then None
         else if rest \<noteq> [] \<and> hd rest = CHR ''.'' then
           (if (e = None \<and> length gs \<noteq> 6) \<or> length gs + 2 > 8 then None
            else (case parseIPv4 s of
                    None \<Rightarrow> None
                  | Some w \<Rightarrow> Some (gs @ [w div 65536, w mod 65536], e, [])))
         else
           (let gs' = gs @ [hex_value hs]
            in case rest of
                 [] \<Rightarrow> Some (gs', e, [])
               | c # r \<Rightarrow>
                   (if c \<noteq> CHR '':'' \<or> r = [] then None
                    else if hd r = CHR '':'' then
                      (if e \<noteq> None then None
                       else if tl r = [] then Some (gs', Some (length gs'), [])
                       else v6_loop k gs' (Some (length gs')) (tl r))
                    else v6_loop k gs' e r)))"

definition v6_groups :: "string \<Rightarrow> nat list option" where
  "v6_groups s =
     (let lead = prefix ''::'' s; s' = (if lead then drop 2 s else s)
      in if lead \<and> s' = [] then Some (replicate 8 0)
         else (case v6_loop 8 [] (if lead then Some 0 else None) s' of
                 None \<Rightarrow> None
               | Some (gs, e, left) \<Rightarrow>
                   if left \<noteq> [] then None
                   else if length gs < 8 then
                     (case e of
                        None \<Rightarrow> None
                      | Some p \<Rightarrow> Some (take p gs @ replicate (8 - length gs) 0 @ drop p gs))
                   else if e \<noteq> None then None else Some gs))"

definition word_of_groups :: "nat list \<Rightarrow> 128 word" where
  "word_of_groups gs = of_nat (foldl (\<lambda>a g. a * 65536 + g) 0 gs)"

definition parseIPv6 :: "string \<Rightarrow> addr option" where
  "parseIPv6 s =
     (case Index s ''%'' of
        None \<Rightarrow> map_option (\<lambda>gs. Addr6 (word_of_groups gs) []) (v6_groups s)
      | Some i \<Rightarrow>
          if drop (i + 1) s = [] then None
          else map_option (\<lambda>gs. Addr6 (word_of_groups gs) (drop (i + 1) s)) (v6_groups (take i s)))"

text \<open>\<open>netip.ParseAddr\<close>: the first dot, colon or percent sign decides.\<close>

definition ParseAddr :: "string \<Rightarrow> addr option" where
  "ParseAddr s =
     (case find (\<lambda>c. c = CHR ''.'' \<or> c = CHR '':'' \<or> c = CHR ''%'') s of
        None \<Rightarrow> None
      | Some c \<Rightarrow>
          if c = CHR ''.'' then map_option (\<lambda>n. Addr4 (of_nat n)) (parseIPv4 s)
          else if c = CHR '':'' then parseIPv6 s
          else None)"

primrec BitLen :: "addr \<Rightarrow> nat" where
  "BitLen (Addr4 _) = 32"
| "BitLen (Addr6 _ _) = 128"

primrec Zone :: "addr \<Rightarrow> string" where
  "Zone (Addr4 _) = []"
| "Zone (Addr6 _ z) = z"

primrec Is4 :: "addr \<Rightarrow> bool" where
  "Is4 (Addr4 _) = True"
| "Is4 (Addr6 _ _) = False"

definition v4in6 :: "128 word \<Rightarrow> bool" where
  "v4in6 w \<longleftrightarrow> drop_bit 32 w = 0xFFFF"

primrec Is4In6 :: "addr \<Rightarrow> bool" where
  "Is4In6 (Addr4 _) = False"
| "Is4In6 (Addr6 w _) = v4in6 w"

primrec As16 :: "addr \<Rightarrow> 128 word" where
  "As16 (Addr4 a) = push_bit 32 0xFFFF OR ucast a"
| "As16 (Addr6 w _) = w"

text \<open>\<open>netip.ParsePrefix\<close>: an address without zone and a prefix length without sign or leading zero.\<close>

definition ParsePrefix :: "string \<Rightarrow> (addr \<times> nat) option" where
  "ParsePrefix s =
     (case LastIndexByte s (CHR ''/'') of
        None \<Rightarrow> None
      | Some i \<Rightarrow>
          (case ParseAddr (take i s) of
             None \<Rightarrow> None
           | Some a \<Rightarrow>
               (let b = drop (i + 1) s
                in if Zone a \<noteq> [] then None
                   else if length b > 1 \<and> (hd b = CHR ''0'' \<or> \<not> isdigit (hd b)) then None
                   else (case Atoi b of
                           None \<Rightarrow> None
                         | Some n \<Rightarrow>
                             if n < 0 \<or> n > int (BitLen a) then None else Some (a, nat n)))))"

primrec Masked :: "addr \<Rightarrow> nat \<Rightarrow> addr" where
  "Masked (Addr4 a) n = Addr4 (a AND NOT (mask (32 - n)))"
| "Masked (Addr6 a z) n = Addr6 (a AND NOT (mask (128 - n))) []"

subsection \<open>Package net: IP, IPNet\<close>

text \<open>
  A \<open>net.IP\<close> in its 16-byte form is a 128-bit word (an IPv4 address as its IPv4-mapped address).
  An \<open>IPMask\<close> made by \<open>CIDRMask\<close> is its number of ones and its width in bits, 32 or 128.
\<close>

type_synonym IP = "128 word"

record IPNet =
  net_IP :: IP
  net_ones :: nat
  net_bits :: nat

definition ParseIP :: "string \<Rightarrow> IP option" where
  "ParseIP s =
     (case ParseAddr s of None \<Rightarrow> None | Some a \<Rightarrow> if Zone a \<noteq> [] then None else Some (As16 a))"

text \<open>\<open>ip.To4() != nil\<close> is \<open>v4in6 ip\<close>; the four bytes are \<open>To4 ip\<close>.\<close>

definition To4 :: "IP \<Rightarrow> 32 word" where
  "To4 ip = ucast ip"

definition Mask_IP :: "IP \<Rightarrow> nat \<Rightarrow> nat \<Rightarrow> IP" where
  "Mask_IP ip ones bits = ip AND NOT (mask (bits - ones))"

text \<open>\<open>net.ParseCIDR\<close>: the address as written and the network it lies in.\<close>

definition net_ParseCIDR :: "string \<Rightarrow> (IP \<times> IPNet) option" where
  "net_ParseCIDR s =
     (case Index s ''/'' of
        None \<Rightarrow> None
      | Some i \<Rightarrow>
          (case (ParseAddr (take i s), parse_digits (drop (i + 1) s)) of
             (Some a, Some n) \<Rightarrow>
               if Zone a \<noteq> [] \<or> n > BitLen a then None
               else Some (As16 a,
                 \<lparr>net_IP = Mask_IP (As16 a) n (BitLen a), net_ones = n, net_bits = BitLen a\<rparr>)
           | _ \<Rightarrow> None))"

definition same_prefix4 :: "nat \<Rightarrow> 32 word \<Rightarrow> 32 word \<Rightarrow> bool" where
  "same_prefix4 n a b \<longleftrightarrow> a AND NOT (mask (32 - n)) = b AND NOT (mask (32 - n))"

definition same_prefix6 :: "nat \<Rightarrow> 128 word \<Rightarrow> 128 word \<Rightarrow> bool" where
  "same_prefix6 n a b \<longleftrightarrow> a AND NOT (mask (128 - n)) = b AND NOT (mask (128 - n))"

definition net_Contains :: "IPNet \<Rightarrow> IP \<Rightarrow> bool" where
  "net_Contains n ip =
     (if v4in6 (net_IP n)
      then v4in6 ip \<and>
           same_prefix4 (if net_bits n = 32 then net_ones n else net_ones n - 96)
             (To4 (net_IP n)) (To4 ip)
      else net_bits n = 128 \<and> \<not> v4in6 ip \<and> same_prefix6 (net_ones n) (net_IP n) ip)"

subsection \<open>Printing addresses\<close>

definition groups_of_word :: "128 word \<Rightarrow> nat list" where
  "groups_of_word w = map (\<lambda>i. unat (take_bit 16 (drop_bit (16 * i) w))) [7, 6, 5, 4, 3, 2, 1, 0]"

fun hex :: "nat \<Rightarrow> string" where
  "hex n = (if n < 16 then [hex_digit n] else hex (n div 16) @ [hex_digit (n mod 16)])"

declare hex.simps [simp del]

definition ipv4_text :: "32 word \<Rightarrow> string" where
  "ipv4_text a =
     Join ''.'' (map (\<lambda>i. dec (unat (take_bit 8 (drop_bit (8 * i) a)))) [3, 2, 1, 0])"

text \<open>The longest run of zero groups, of length two at least; the first one wins.\<close>

definition zero_run :: "nat list \<Rightarrow> nat \<Rightarrow> nat" where
  "zero_run gs i = length (takeWhile (\<lambda>g. g = 0) (drop i gs))"

definition best_run :: "nat list \<Rightarrow> nat \<times> nat" where
  "best_run gs =
     foldl (\<lambda>(b, l) i. if zero_run gs i \<ge> 2 \<and> zero_run gs i > l then (i, zero_run gs i) else (b, l))
       (0, 0) [0..<length gs]"

definition ipv6_text :: "128 word \<Rightarrow> string" where
  "ipv6_text w =
     (let gs = groups_of_word w; (b, l) = best_run gs
      in if l = 0 then Join '':'' (map hex gs)
         else Join '':'' (map hex (take b gs)) @ ''::'' @ Join '':'' (map hex (drop (b + l) gs)))"

definition IP_String :: "IP \<Rightarrow> string" where
  "IP_String ip = (if v4in6 ip then ipv4_text (To4 ip) else ipv6_text ip)"

subsection \<open>Package net/url\<close>

definition isalnum :: "char \<Rightarrow> bool" where
  "isalnum c \<longleftrightarrow> isdigit c \<or> islower c \<or> isupper c"

definition upper_hex_digit :: "nat \<Rightarrow> char" where
  "upper_hex_digit d = ''0123456789ABCDEF'' ! d"

definition percent :: "char \<Rightarrow> string" where
  "percent c = [CHR ''%'', upper_hex_digit (byte c div 16), upper_hex_digit (byte c mod 16)]"

definition escape_with :: "string \<Rightarrow> string \<Rightarrow> string" where
  "escape_with keep s =
     concat (map (\<lambda>c. if isalnum c \<or> c \<in> set ''-_.~'' \<or> c \<in> set keep then [c] else percent c) s)"

text \<open>The modes \<open>encodePath\<close> and \<open>encodeHost\<close> of \<open>url.escape\<close>.\<close>

definition escape_path :: "string \<Rightarrow> string" where
  "escape_path = escape_with ''$&+,/:;=@''"

definition escape_host :: "string \<Rightarrow> string" where
  "escape_host = escape_with (''!$&()*+,;=:[]<>'' @ [CHR 0x22, CHR 0x27])"

text \<open>
  \<open>url.URL.String\<close> of a URL with a scheme, a host, a path and a raw query, no user, fragment or
  raw path.
\<close>

definition URL_String :: "string \<Rightarrow> string \<Rightarrow> string \<Rightarrow> string \<Rightarrow> string" where
  "URL_String scheme host path query =
     scheme @ '':'' @ (if host \<noteq> [] \<or> path \<noteq> [] then ''//'' else []) @ escape_host host
     @ (let p = (if path = ''*'' then path else escape_path path)
        in if p \<noteq> [] \<and> hd p \<noteq> CHR ''/'' \<and> host \<noteq> [] then CHR ''/'' # p else p)
     @ (if query = [] then [] else CHR ''?'' # query)"

text \<open>\<open>url.QueryUnescape\<close>: an error for a bad percent escape.\<close>

fun unescape :: "string \<Rightarrow> string option" where
  "unescape [] = Some []"
| "unescape (c # cs) =
     (if c = CHR ''%'' then
        (case cs of
           a # b # r \<Rightarrow>
             (case (hexval a, hexval b) of
                (Some x, Some y) \<Rightarrow> map_option (\<lambda>t. char_of (16 * x + y) # t) (unescape r)
              | _ \<Rightarrow> None)
         | _ \<Rightarrow> None)
      else map_option (\<lambda>t. (if c = CHR ''+'' then CHR '' '' else c) # t) (unescape cs))"

text \<open>
  \<open>URL.Query\<close>: the pairs of the raw query in order; a pair with a semicolon or a bad escape is
  dropped, an empty one skipped. \<open>query_Get\<close> is \<open>Values.Get\<close>: the first value of a key.
\<close>

definition query_pair :: "string \<Rightarrow> (string \<times> string) option" where
  "query_pair p =
     (if p = [] \<or> CHR '';'' \<in> set p then None
      else (let k = takeWhile (\<lambda>c. c \<noteq> CHR ''='') p; v = drop (length k + 1) p
            in case (unescape k, unescape v) of (Some k', Some v') \<Rightarrow> Some (k', v') | _ \<Rightarrow> None))"

definition ParseQuery :: "string \<Rightarrow> (string \<times> string) list" where
  "ParseQuery q = List.map_filter query_pair (Split (CHR ''&'') q)"

definition query_Get :: "string \<Rightarrow> string \<Rightarrow> string" where
  "query_Get q k = (case map_of (ParseQuery q) k of None \<Rightarrow> [] | Some v \<Rightarrow> v)"

subsection \<open>Lemmas\<close>

lemma v6_loop_8: "v6_loop 8 = v6_loop (Suc (Suc (Suc (Suc (Suc (Suc (Suc (Suc 0))))))))"
  by (simp add: eval_nat_numeral)

lemmas go_net_eval [go_eval] =
  SplitHostPort_def JoinHostPort_def octet_def parseIPv4_def hexval_def hex_value_def v6_loop_8
  v6_groups_def word_of_groups_def parseIPv6_def ParseAddr_def v4in6_def ParsePrefix_def
  ParseIP_def To4_def Mask_IP_def net_ParseCIDR_def same_prefix4_def same_prefix6_def
  net_Contains_def groups_of_word_def hex.simps ipv4_text_def zero_run_def best_run_def
  ipv6_text_def IP_String_def isalnum_def upper_hex_digit_def percent_def escape_with_def
  escape_path_def escape_host_def URL_String_def query_pair_def ParseQuery_def query_Get_def

lemma SplitHostPort_clean:
  assumes "SplitHostPort hp = Some (h, p)"
  shows "CHR ''['' \<notin> set h" "CHR '']'' \<notin> set h"
    "CHR '':'' \<notin> set p" "CHR ''['' \<notin> set p" "CHR '']'' \<notin> set p"
proof -
  obtain i where i: "LastIndexByte hp (CHR '':'') = Some i"
    using assms by (auto simp: SplitHostPort_def split: option.splits)
  have p: "p = drop (i + 1) hp"
    using assms i by (auto simp: SplitHostPort_def split: option.splits if_splits)
  show "CHR '':'' \<notin> set p"
    using LastIndexByte_Some [OF i] by (simp add: p)
  have *: "CHR ''['' \<notin> set h \<and> CHR '']'' \<notin> set h \<and> CHR ''['' \<notin> set p \<and> CHR '']'' \<notin> set p"
  proof (cases "hp ! 0 = CHR ''[''")
    case True
    then obtain e where e: "Index hp [CHR '']''] = Some e" and ei: "e + 1 = i"
      and no: "CHR ''['' \<notin> set (drop 1 hp)" "CHR '']'' \<notin> set (drop (e + 1) hp)"
      and h: "h = take (e - 1) (drop 1 hp)"
      using assms i by (auto simp: SplitHostPort_def split: option.splits if_splits)
    have "set h \<subseteq> set (take e hp)"
      unfolding h by (metis drop_take set_drop_subset)
    moreover have "set h \<subseteq> set (drop 1 hp)" unfolding h by (rule set_take_subset)
    moreover have "set p \<subseteq> set (drop 1 hp)"
      unfolding p by (metis drop_drop le_add2 set_drop_subset_set_drop)
    moreover have "set p \<subseteq> set (drop (e + 1) hp)"
      unfolding p by (rule set_drop_subset_set_drop) (simp add: ei [symmetric])
    ultimately show ?thesis using no Index_byte_Some [OF e] by blast
  next
    case False
    then have "CHR ''['' \<notin> set hp" "CHR '']'' \<notin> set hp" "h = take i hp"
      using assms i by (auto simp: SplitHostPort_def split: option.splits if_splits)
    then show ?thesis using set_take_subset [of i hp] set_drop_subset [of "i + 1" hp] p by blast
  qed
  show "CHR ''['' \<notin> set h" "CHR '']'' \<notin> set h" "CHR ''['' \<notin> set p" "CHR '']'' \<notin> set p"
    using * by auto
qed

lemma SplitHostPort_JoinHostPort:
  assumes "CHR ''['' \<notin> set h" "CHR '']'' \<notin> set h"
    and "CHR '':'' \<notin> set p" "CHR ''['' \<notin> set p" "CHR '']'' \<notin> set p"
  shows "SplitHostPort (JoinHostPort h p) = Some (h, p)"
proof (cases "CHR '':'' \<in> set h")
  case True
  have "LastIndexByte ((''['' @ h @ '']'') @ CHR '':'' # p) (CHR '':'') = Some (length h + 2)"
    using assms(3) by (subst LastIndexByte_append) auto
  moreover have "Index ((''['' @ h) @ CHR '']'' # '':'' @ p) [CHR '']''] = Some (length h + 1)"
    using assms(2) by (subst Index_byte_append) auto
  ultimately show ?thesis
    using True assms by (simp add: SplitHostPort_def JoinHostPort_def)
next
  case False
  have "LastIndexByte (h @ CHR '':'' # p) (CHR '':'') = Some (length h)"
    using assms(3) by (rule LastIndexByte_append)
  moreover have "(h @ CHR '':'' # p) ! 0 \<noteq> CHR ''[''"
    using assms(1) by (cases h) auto
  ultimately show ?thesis
    using False assms by (simp add: SplitHostPort_def JoinHostPort_def)
qed

text \<open>The text of an IPv6 address has a colon, that of an IPv4 address has none.\<close>

lemma parseIPv4_chars:
  assumes "parseIPv4 s = Some n"
  shows "\<forall>c \<in> set s. isdigit c \<or> c = CHR ''.''"
proof
  fix c assume c: "c \<in> set s"
  have parts: "\<forall>p \<in> set (Split (CHR ''.'') s). octet p \<noteq> None"
  proof (rule ccontr)
    assume "\<not> ?thesis"
    then have "None \<in> set (map octet (Split (CHR ''.'') s))" by force
    then show False using assms by (auto simp: parseIPv4_def split: list.splits option.splits)
  qed
  have "set s \<subseteq> {CHR ''.''} \<union> \<Union> (set ` set (Split (CHR ''.'') s))"
    using set_Join [of "''.''" "Split (CHR ''.'') s"] by simp
  then obtain p where "c = CHR ''.'' \<or> p \<in> set (Split (CHR ''.'') s) \<and> c \<in> set p" using c by blast
  with parts show "isdigit c \<or> c = CHR ''.''"
    by (auto simp: octet_def parse_digits_def list_all_iff split: option.splits if_splits)
qed

lemma ParseAddr_colon:
  assumes "ParseAddr s = Some a"
  shows "CHR '':'' \<in> set s \<longleftrightarrow> \<not> Is4 a"
proof -
  have colon: "\<not> isdigit (CHR '':'')" by (simp add: isdigit_def byte_def)
  obtain c where c: "find (\<lambda>c. c = CHR ''.'' \<or> c = CHR '':'' \<or> c = CHR ''%'') s = Some c"
    using assms by (auto simp: ParseAddr_def split: option.splits)
  show ?thesis
  proof (cases "c = CHR ''.''")
    case True
    then obtain n where n: "parseIPv4 s = Some n" and "a = Addr4 (of_nat n)"
      using assms c by (auto simp: ParseAddr_def)
    then show ?thesis using parseIPv4_chars [OF n] colon by auto
  next
    case False
    with c assms have "c = CHR '':''" "parseIPv6 s = Some a"
      by (auto simp: ParseAddr_def split: if_splits)
    moreover have "CHR '':'' \<in> set s"
      using c \<open>c = CHR '':''\<close> find_Some_iff [of _ s c] nth_mem by metis
    ultimately show ?thesis by (auto simp: parseIPv6_def split: option.splits if_splits)
  qed
qed

lemma ParsePrefix_append:
  assumes "ParseAddr n = Some a" "Zone a = []"
  shows "ParsePrefix (n @ ''/'' @ dec (BitLen a)) = Some (a, BitLen a)"
proof -
  have dec: "dec 32 = ''32''" "dec 128 = ''128''" by (simp_all add: dec.simps digit_char_def)
  have last: "LastIndexByte (n @ CHR ''/'' # dec (BitLen a)) (CHR ''/'') = Some (length n)"
    by (cases a) (simp_all add: dec LastIndexByte_append)
  have atoi: "Atoi ''32'' = Some 32" "Atoi ''128'' = Some 128"
    by (simp_all add: Atoi_def parse_digits_def isdigit_def byte_def digits_value_def digit_val_def)
  have digit: "isdigit (CHR ''3'')" "isdigit (CHR ''1'')" by (simp_all add: isdigit_def byte_def)
  show ?thesis
    using last assms by (cases a) (simp_all add: ParsePrefix_def dec atoi digit)
qed

end
