(* ===== verification/Rdap.thy ===== *)
theory Rdap
  imports RdapModel GoNet
begin

section \<open>RDAP helpers: names, conformance and notices\<close>

text \<open>
  \<open>internal/rdap/rdap.go\<close>: validation and normalisation of domain names, the conformance arrays and
  the notice builders. The IDNA conversions (\<open>golang.org/x/net/idna\<close>) are arguments of
  \<open>NormalizeDomainName\<close>. The loop over the runes of a label is a loop over its bytes: a label with a
  byte outside ASCII holds a rune that is no letter, digit or hyphen, so both loops refuse it.

  The lemmas characterise the accepted names, show that normalisation is idempotent and returns
  lower-case LDH names only, that extension identifiers are appended once, and that the two notices
  ICANN mandates are in every notice list.
\<close>

datatype LookupType = LookupDomain_T | LookupEntity_T | LookupNameserver_T | LookupIP_T
  | LookupAutnum_T | LookupHelp_T

datatype SearchType = SearchDomainByName_T | SearchDomainByNS_T | SearchEntityByName_T
  | SearchEntityByHandle_T | SearchNameserverByName_T | SearchNameserverByIP_T

subsection \<open>Names\<close>

definition labels_of :: "string \<Rightarrow> string list" where
  "labels_of name = Split (CHR ''.'') (TrimSuffix name ''.'')"

fun check_labels :: "string list \<Rightarrow> goerror option" where
  "check_labels [] = None"
| "check_labels (l # ls) =
     (if length l = 0 then Some (Errorf ''empty label in domain name'')
      else if length l > 63 then Some (Errorf (''label exceeds 63 characters: '' @ l))
      else check_labels ls)"

definition ValidateDomainName :: "string \<Rightarrow> goerror option" where
  "ValidateDomainName name =
     (if length name = 0 then Some (Errorf ''domain name is empty'')
      else if length name > 253 then Some (Errorf ''domain name exceeds 253 characters'')
      else if length (labels_of name) < 2
        then Some (Errorf ''domain name must have at least two labels'')
      else check_labels (labels_of name))"

definition ldh_char :: "char \<Rightarrow> bool" where
  "ldh_char c \<longleftrightarrow> islower c \<or> isdigit c \<or> c = CHR ''-''"

definition ldh_label :: "string \<Rightarrow> bool" where
  "ldh_label label \<longleftrightarrow>
     \<not> (length label = 0 \<or> length label > 63) \<and>
     list_all (\<lambda>(i, r). \<not> ((i = 0 \<or> i = length label - 1) \<and> r = CHR ''-'') \<and> ldh_char r)
       (enumerate 0 label)"

definition ValidateLDHName :: "string \<Rightarrow> bool" where
  "ValidateLDHName name \<longleftrightarrow>
     \<not> (length name = 0 \<or> length name > 253) \<and> list_all ldh_label (labels_of name)"

text \<open>Both results are returned: the LDH form and the Unicode form.\<close>

definition NormalizeDomainName ::
  "unicode \<Rightarrow> (string \<Rightarrow> string result) \<Rightarrow> (string \<Rightarrow> string result) \<Rightarrow> string \<Rightarrow> (string \<times> string) result"
  where
  "NormalizeDomainName U idna_ToASCII idna_ToUnicode raw =
     (let name = TrimSuffix (ToLower U (TrimSpace raw)) ''.''
      in if isASCII name then
           (if \<not> ValidateLDHName name then Inl (Errorf (''invalid LDH domain name: '' @ name))
            else Inr (name, name))
         else
           (case idna_ToASCII name of
              Inl e \<Rightarrow> Inl (Wrapf (''idna conversion failed: '' @ Error e) e)
            | Inr ascii \<Rightarrow>
                (case idna_ToUnicode name of
                   Inl e \<Rightarrow> Inl (Wrapf (''idna to unicode failed: '' @ Error e) e)
                 | Inr uni \<Rightarrow>
                     if \<not> ValidateLDHName ascii
                     then Inl (Errorf (''invalid domain after IDNA conversion: '' @ ascii))
                     else Inr (ascii, uni))))"

definition ExtractTLD :: "string \<Rightarrow> string" where
  "ExtractTLD name =
     (let labels = labels_of name in if length labels < 2 then [] else last labels)"

definition IsTLDSupported :: "unicode \<Rightarrow> string \<Rightarrow> string list \<Rightarrow> bool" where
  "IsTLDSupported U tld supported = list_ex (\<lambda>s. EqualFold U s (ToLower U tld)) supported"

definition ValidateIP :: "string \<Rightarrow> int \<Rightarrow> bool" where
  "ValidateIP s version =
     (case ParseAddr s of
        None \<Rightarrow> False
      | Some a \<Rightarrow>
          if version = 4 \<and> \<not> Is4 a \<and> \<not> Is4In6 a then False
          else if version = 6 \<and> Is4 a then False
          else True)"

definition rdap_ParseCIDR :: "string \<Rightarrow> IPNet result" where
  "rdap_ParseCIDR s =
     (case net_ParseCIDR s of
        None \<Rightarrow> Inl (Errorf (''invalid CIDR: invalid CIDR address: '' @ s))
      | Some (_, n) \<Rightarrow> Inr n)"

definition FormatTime :: "gotime \<Rightarrow> string" where
  "FormatTime t = (if IsZero t then [] else format_rfc3339_utc t)"

subsection \<open>Conformance\<close>

definition NewConformance :: Conformance where
  "NewConformance = \<lparr>conf = [''rdap_level_0'']\<rparr>"

definition NewConformance2019 :: Conformance where
  "NewConformance2019 =
     \<lparr>conf = [''rdap_level_0'', ''icann_rdap_technical_implementation_guide_0'',
        ''icann_rdap_response_profile_0'']\<rparr>"

definition NewConformance2024 :: Conformance where
  "NewConformance2024 =
     \<lparr>conf = [''rdap_level_0'', ''icann_rdap_technical_implementation_guide_0'',
        ''icann_rdap_response_profile_0'', ''icann_rdap_technical_implementation_guide_1'',
        ''icann_rdap_response_profile_1'']\<rparr>"

text \<open>The loop keeps the array and the identifiers seen so far.\<close>

fun extend_conf :: "string list \<Rightarrow> string list \<Rightarrow> string list \<Rightarrow> string list" where
  "extend_conf cs seen [] = cs"
| "extend_conf cs seen (i # is) =
     (if i \<noteq> [] \<and> i \<notin> set seen then extend_conf (cs @ [i]) (i # seen) is
      else extend_conf cs seen is)"

definition WithExtensions :: "Conformance \<Rightarrow> string list \<Rightarrow> Conformance" where
  "WithExtensions c ids = c\<lparr>conf := extend_conf (conf c) (conf c) ids\<rparr>"

subsection \<open>Notices\<close>

record CustomNotice =
  Custom_Title :: string
  Custom_Description :: "string list"
  Custom_URL :: string
  Custom_Rel :: string

record NoticeOptions =
  ToSTitle :: string
  ToSDescription :: "string list"
  ToSURL :: string
  Custom :: "CustomNotice list"

record RateLimitInfo =
  rl_Enabled :: bool
  rl_Requests :: int
  rl_Window :: int
  rl_Burst :: int

record SearchInfo =
  si_Enabled :: bool

definition tos_text :: string where
  "tos_text = ''Use of this RDAP server is subject to the registrar'' @ [CHR 0x27] @ ''s terms of service.''"

definition rate_text :: string where
  "rate_text = ''Access to this RDAP server is rate-limited. Excessive queries may be throttled.''"

definition help_url :: "string \<Rightarrow> string" where
  "help_url baseURL = baseURL @ ''/help''"

definition buildToSNotice :: "string \<Rightarrow> string \<Rightarrow> NoticeOptions option \<Rightarrow> Notice" where
  "buildToSNotice requestURL baseURL opts =
     (let title = (case opts of Some o' \<Rightarrow> if ToSTitle o' \<noteq> [] then ToSTitle o' else ''Terms of Service''
                   | None \<Rightarrow> ''Terms of Service'');
          desc = (case opts of Some o' \<Rightarrow> if ToSDescription o' \<noteq> [] then ToSDescription o' else [tos_text]
                  | None \<Rightarrow> [tos_text]);
          href = (case opts of Some o' \<Rightarrow> if ToSURL o' \<noteq> [] then ToSURL o' else help_url baseURL
                  | None \<Rightarrow> help_url baseURL)
      in mk_Notice title desc [mk_Link requestURL ''terms-of-service'' href text_html])"

definition custom_notice :: "string \<Rightarrow> string \<Rightarrow> CustomNotice \<Rightarrow> Notice" where
  "custom_notice value baseURL c =
     mk_Notice (Custom_Title c) (Custom_Description c)
       [mk_Link value
          (if Custom_Rel c = [] then ''terms-of-service'' else Custom_Rel c)
          (if Custom_URL c = [] then help_url baseURL else Custom_URL c) text_html]"

definition custom_notices :: "string \<Rightarrow> string \<Rightarrow> NoticeOptions option \<Rightarrow> Notice list" where
  "custom_notices value baseURL opts =
     (case opts of None \<Rightarrow> [] | Some o' \<Rightarrow> map (custom_notice value baseURL) (Custom o'))"

definition NewNotices :: "string \<Rightarrow> NoticeOptions option \<Rightarrow> Notice list" where
  "NewNotices baseURL opts =
     [buildToSNotice baseURL baseURL opts,
      mk_Notice ''Rate Limiting'' [rate_text]
        [mk_Link baseURL ''rate-limit-policy'' (help_url baseURL) rdap_json]]"

definition status_codes_notice :: "string \<Rightarrow> Notice" where
  "status_codes_notice requestURL =
     mk_Notice ''Status Codes''
       [''For more information on domain status codes, please visit https://icann.org/epp'']
       [mk_Link requestURL ''glossary'' ''https://icann.org/epp'' text_html]"

definition inaccuracy_notice :: "string \<Rightarrow> Notice" where
  "inaccuracy_notice requestURL =
     mk_Notice ''RDDS Inaccuracy Complaint Form''
       [''URL of the ICANN RDDS Inaccuracy Complaint Form: https://icann.org/wicf'']
       [mk_Link requestURL ''help'' ''https://icann.org/wicf'' text_html]"

definition NewNoticesWithICANN :: "string \<Rightarrow> string \<Rightarrow> NoticeOptions option \<Rightarrow> Notice list" where
  "NewNoticesWithICANN requestURL baseURL opts =
     [buildToSNotice requestURL baseURL opts,
      mk_Notice ''Rate Limiting'' [rate_text]
        [mk_Link requestURL ''service'' (help_url baseURL) rdap_json],
      status_codes_notice requestURL,
      inaccuracy_notice requestURL]
     @ custom_notices requestURL baseURL opts"

definition burstSuffix :: "int \<Rightarrow> string" where
  "burstSuffix burst =
     (if burst \<le> 0 then [] else '', with a burst allowance of '' @ Itoa burst)"

definition NewHelpNotices ::
  "string \<Rightarrow> NoticeOptions option \<Rightarrow> RateLimitInfo \<Rightarrow> SearchInfo \<Rightarrow> Notice list" where
  "NewHelpNotices baseURL opts rate search =
     (let rateDesc =
        (if rl_Enabled rate then
           ''Access to this RDAP server is rate-limited to '' @ Itoa (rl_Requests rate)
           @ '' requests per ''
           @ Duration_String (if rl_Window rate \<le> 0 then 60000000000 else rl_Window rate)
           @ '' per IP address'' @ burstSuffix (rl_Burst rate) @ ''.''
         else rate_text)
      in [mk_Notice ''Terms of Service'' [tos_text]
            [mk_Link baseURL ''terms-of-service'' (help_url baseURL) rdap_json],
          mk_Notice ''Rate Limiting'' [rateDesc]
            [mk_Link baseURL ''rate-limit-policy'' (help_url baseURL) rdap_json]]
         @ (if si_Enabled search then []
            else [mk_Notice ''Search Disabled''
                    [''Search queries are not enabled on this RDAP server. Lookup queries (domains, entities, nameservers, IP networks, and autnums) are supported.'']
                    [mk_Link baseURL ''service'' (help_url baseURL) rdap_json]])
         @ custom_notices baseURL baseURL opts)"

definition NewHelp ::
  "string \<Rightarrow> NoticeOptions option \<Rightarrow> RateLimitInfo \<Rightarrow> SearchInfo \<Rightarrow> Help" where
  "NewHelp baseURL opts rate search =
     \<lparr>h_Conformance = NewConformance,
      h_Notices = NewHelpNotices baseURL opts rate search,
      ReverseSearchProperties_H = [], FARV1OpenIDCConfiguration_H = None\<rparr>"

lemmas rdap_eval [go_eval] =
  labels_of_def ValidateDomainName_def ldh_char_def ldh_label_def ValidateLDHName_def
  NormalizeDomainName_def ExtractTLD_def IsTLDSupported_def ValidateIP_def rdap_ParseCIDR_def
  FormatTime_def NewConformance_def NewConformance2019_def NewConformance2024_def
  WithExtensions_def tos_text_def rate_text_def help_url_def buildToSNotice_def custom_notice_def
  custom_notices_def NewNotices_def status_codes_notice_def inaccuracy_notice_def
  NewNoticesWithICANN_def burstSuffix_def NewHelpNotices_def NewHelp_def

subsection \<open>Lemmas on names\<close>

text \<open>
  The declarative reading of an LDH label: 1 to 63 letters, digits and hyphens, no hyphen at either
  end.
\<close>

definition ldh_label_spec :: "string \<Rightarrow> bool" where
  "ldh_label_spec l \<longleftrightarrow>
     l \<noteq> [] \<and> length l \<le> 63 \<and> (\<forall>c \<in> set l. ldh_char c) \<and>
     hd l \<noteq> CHR ''-'' \<and> last l \<noteq> CHR ''-''"

lemma all_index_ends:
  "(\<forall>i < n. \<not> ((i = 0 \<or> i = n - 1) \<and> P i) \<and> Q i) \<longleftrightarrow>
     (\<forall>i < n. Q i) \<and> (n = 0 \<or> \<not> P 0 \<and> \<not> P (n - 1))" for n :: nat
  by (cases n) (auto intro!: gr0I)

lemma ldh_label_iff: "ldh_label l = ldh_label_spec l"
proof -
  have "list_all (\<lambda>(i, r). \<not> ((i = 0 \<or> i = length l - 1) \<and> r = CHR ''-'') \<and> ldh_char r)
          (enumerate 0 l) \<longleftrightarrow>
        (\<forall>i < length l. \<not> ((i = 0 \<or> i = length l - 1) \<and> l ! i = CHR ''-'') \<and> ldh_char (l ! i))"
    by (simp add: list_all_length nth_enumerate_eq)
  also have "\<dots> \<longleftrightarrow> (\<forall>c \<in> set l. ldh_char c) \<and>
               (l = [] \<or> hd l \<noteq> CHR ''-'' \<and> last l \<noteq> CHR ''-'')"
    by (subst all_index_ends) (auto simp: all_set_conv_all_nth hd_conv_nth last_conv_nth)
  finally show ?thesis
    by (auto simp: ldh_label_def ldh_label_spec_def)
qed

lemma ldh_char_ascii: "ldh_char c \<Longrightarrow> byte c < 128 \<and> \<not> isupper c"
  by (auto simp: ldh_char_def islower_def isdigit_def isupper_def byte_def)

lemma TrimSuffix_dot_cases:
  "TrimSuffix s ''.'' = s \<and> \<not> suffix ''.'' s \<or> s = TrimSuffix s ''.'' @ ''.''"
  by (auto simp: TrimSuffix_def suffix_def)

lemma ValidateLDHName_chars:
  assumes "ValidateLDHName n"
  shows "\<forall>c \<in> set n. ldh_char c \<or> c = CHR ''.''"
proof -
  have lab: "\<forall>l \<in> set (labels_of n). \<forall>c \<in> set l. ldh_char c"
    using assms by (auto simp: ValidateLDHName_def ldh_label_iff ldh_label_spec_def list_all_iff)
  have join: "TrimSuffix n ''.'' = Join ''.'' (labels_of n)"
    by (simp add: labels_of_def)
  have mem: "\<forall>c \<in> set (Join ''.'' ls). c = CHR ''.'' \<or> (\<exists>l \<in> set ls. c \<in> set l)" for ls
    by (induction ls rule: induct_list012) auto
  have "\<forall>c \<in> set (TrimSuffix n ''.''). ldh_char c \<or> c = CHR ''.''"
    using mem lab unfolding join by blast
  moreover have "set n \<subseteq> set (TrimSuffix n ''.'') \<union> {CHR ''.''}"
    using TrimSuffix_dot_cases [of n] by (metis Un_upper1 empty_set list.simps(15) set_append subset_refl)
  ultimately show ?thesis by blast
qed

lemma ValidateLDHName_lower:
  "ValidateLDHName n \<Longrightarrow> isASCII n \<and> map lower_byte n = n"
proof -
  assume "ValidateLDHName n"
  then have "\<forall>c \<in> set n. byte c < 128 \<and> \<not> isupper c"
    using ValidateLDHName_chars [of n] ldh_char_ascii
    by (auto simp: byte_def isupper_def)
  then show ?thesis
    by (auto simp: isASCII_def list_all_iff lower_byte_id intro: map_idI)
qed

lemma ValidateLDHName_TrimSuffix:
  assumes v: "ValidateLDHName n"
  shows "ValidateLDHName (TrimSuffix n ''.'') \<and> \<not> suffix ''.'' (TrimSuffix n ''.'')"
proof -
  let ?x = "TrimSuffix n ''.''"
  have ok: "list_all ldh_label (Split (CHR ''.'') ?x)" and len: "length n \<le> 253"
    using v by (auto simp: ValidateLDHName_def labels_of_def)
  have ne: "?x \<noteq> []" using ok by (auto simp: ldh_label_def)
  have nosuf: "\<not> suffix ''.'' ?x"
  proof
    assume "suffix ''.'' ?x"
    then obtain y where y: "?x = y @ ''.''" by (auto simp: suffix_def)
    then have "[] \<in> set (Split (CHR ''.'') ?x)" by (simp add: Split_snoc)
    then show False using ok by (auto simp: list_all_iff ldh_label_def)
  qed
  then have "TrimSuffix ?x ''.'' = ?x" by (simp add: TrimSuffix_def)
  moreover have "length ?x \<le> length n" by (simp add: TrimSuffix_def)
  ultimately show ?thesis
    using ok ne len nosuf by (simp add: ValidateLDHName_def labels_of_def)
qed

lemma last_Join: "ls \<noteq> [] \<Longrightarrow> last ls \<noteq> [] \<Longrightarrow> Join sep ls \<noteq> [] \<and> last (Join sep ls) = last (last ls)"
  by (induction sep ls rule: Join.induct) auto

lemma suffix_dot_iff: "suffix [c] s \<longleftrightarrow> s \<noteq> [] \<and> last s = c"
  by (cases s rule: rev_cases) auto

lemma labels_of_Join:
  assumes "ls \<noteq> []" "list_all ldh_label_spec ls"
  shows "labels_of (Join ''.'' ls) = ls" "labels_of (Join ''.'' ls @ ''.'') = ls"
proof -
  have "\<not> ldh_char (CHR ''.'')"
    by (simp add: ldh_char_def islower_def isdigit_def byte_def)
  then have nodot: "\<forall>l \<in> set ls. CHR ''.'' \<notin> set l"
    using assms(2) by (auto simp: list_all_iff ldh_label_spec_def)
  have sp: "Split (CHR ''.'') (Join ''.'' ls) = ls"
    using assms(1) nodot by (rule Split_Join)
  have l: "last ls \<in> set ls" "last ls \<noteq> []"
    using assms by (auto simp: list_all_iff ldh_label_spec_def)
  then have "last (last ls) \<noteq> CHR ''.''" using nodot last_in_set by metis
  then have "\<not> suffix ''.'' (Join ''.'' ls)"
    using last_Join [OF assms(1) l(2)] by (simp add: suffix_dot_iff)
  then show "labels_of (Join ''.'' ls) = ls"
    using sp by (simp add: labels_of_def TrimSuffix_def)
  show "labels_of (Join ''.'' ls @ ''.'') = ls"
    using sp by (simp add: labels_of_def TrimSuffix_def)
qed

lemma NormalizeDomainName_ldh:
  assumes "NormalizeDomainName U A N raw = Inr (ldh, uni)"
  shows "ValidateLDHName ldh"
  using assms
  by (auto simp: NormalizeDomainName_def Let_def split: if_splits sum.splits)

lemma NormalizeDomainName_normal:
  assumes "ValidateLDHName ldh"
  shows "NormalizeDomainName U A N ldh = Inr (TrimSuffix ldh ''.'', TrimSuffix ldh ''.'')"
proof -
  have a: "isASCII ldh" "map lower_byte ldh = ldh"
    using ValidateLDHName_lower [OF assms] by auto
  have "\<forall>c \<in> set ldh. 32 < byte c \<and> byte c < 128"
    using ValidateLDHName_chars [OF assms]
    by (auto simp: ldh_char_def islower_def isdigit_def byte_def)
  then have "TrimSpace ldh = ldh" by (rule TrimSpace_id)
  moreover have "isASCII (TrimSuffix ldh ''.'')"
    using a(1) set_take_subset [of _ ldh] by (auto simp: TrimSuffix_def isASCII_def list_all_iff)
  ultimately show ?thesis
    using a ValidateLDHName_TrimSuffix [OF assms]
    by (simp add: NormalizeDomainName_def ToLower_def Let_def)
qed

subsection \<open>Lemmas on conformance arrays\<close>

lemma extend_conf_prefix: "prefix cs (extend_conf cs seen ids)"
proof (induction cs seen ids rule: extend_conf.induct)
  case (2 cs seen i ids)
  have step: "prefix cs (cs @ [i])" by simp
  show ?case using 2 prefix_order.trans [OF step] by auto
qed simp

lemma extend_conf_set:
  "set seen = set cs \<Longrightarrow> set (extend_conf cs seen ids) = set cs \<union> (set ids - {[]})"
  by (induction cs seen ids rule: extend_conf.induct) auto

lemma extend_conf_distinct:
  "set seen = set cs \<Longrightarrow> distinct (extend_conf cs seen ids) \<longleftrightarrow> distinct cs"
  by (induction cs seen ids rule: extend_conf.induct) auto

lemma conf_WithExtensions_set [simp]:
  "set (conf (WithExtensions c ids)) = set (conf c) \<union> (set ids - {[]})"
  by (simp add: WithExtensions_def extend_conf_set)

lemma custom_notices_length:
  "length (custom_notices v b opts) = (case opts of None \<Rightarrow> 0 | Some o' \<Rightarrow> length (Custom o'))"
  by (simp add: custom_notices_def split: option.split)

lemma NewNoticesWithICANN_mandated:
  "status_codes_notice u \<in> set (NewNoticesWithICANN u b opts)"
  "inaccuracy_notice u \<in> set (NewNoticesWithICANN u b opts)"
  by (simp_all add: NewNoticesWithICANN_def)

subsection \<open>Properties\<close>

text \<open>
  C24. A name passes \<open>ValidateLDHName\<close> exactly when it has at most 253 bytes and is a dot-separated
  sequence of LDH labels (1 to 63 lower-case letters, digits and hyphens, no hyphen at either end),
  with at most one trailing dot.
\<close>

theorem ValidateLDHName_iff:
  "ValidateLDHName n \<longleftrightarrow>
     length n \<le> 253 \<and>
     (\<exists>ls. ls \<noteq> [] \<and> list_all ldh_label_spec ls \<and> (n = Join ''.'' ls \<or> n = Join ''.'' ls @ ''.''))"
  (is "?L \<longleftrightarrow> ?R")
proof
  assume v: ?L
  have "labels_of n \<noteq> []" by (simp add: labels_of_def)
  moreover have "list_all ldh_label_spec (labels_of n)"
    using v by (simp add: ValidateLDHName_def ldh_label_iff list_all_iff)
  moreover have "n = Join ''.'' (labels_of n) \<or> n = Join ''.'' (labels_of n) @ ''.''"
    using TrimSuffix_dot_cases [of n] by (auto simp: labels_of_def)
  ultimately show ?R using v by (auto simp: ValidateLDHName_def)
next
  assume ?R
  then obtain ls where ls: "ls \<noteq> []" "list_all ldh_label_spec ls"
    and n: "n = Join ''.'' ls \<or> n = Join ''.'' ls @ ''.''" and len: "length n \<le> 253" by auto
  have "labels_of n = ls" using n labels_of_Join [OF ls] by auto
  moreover have "last ls \<noteq> []"
    using ls by (auto simp: list_all_iff ldh_label_spec_def)
  then have "n \<noteq> []" using n last_Join [OF ls(1), of "''.''"] by auto
  ultimately show ?L
    using ls(2) len \<open>n \<noteq> []\<close> by (simp add: ValidateLDHName_def ldh_label_iff list_all_iff)
qed

text \<open>
  C23. A name that \<open>NormalizeDomainName\<close> returns is a valid LDH name in lower-case ASCII, whatever the
  IDNA library returns, and normalising it again succeeds and removes at most a trailing dot.
\<close>

theorem NormalizeDomainName_sound:
  assumes "NormalizeDomainName U A N raw = Inr (ldh, uni)"
  shows "ValidateLDHName ldh \<and> isASCII ldh \<and> map lower_byte ldh = ldh \<and>
    NormalizeDomainName U A N ldh = Inr (TrimSuffix ldh ''.'', TrimSuffix ldh ''.'')"
  using NormalizeDomainName_ldh [OF assms] ValidateLDHName_lower NormalizeDomainName_normal
  by blast

theorem NormalizeDomainName_sound_witness:
  "(let U = \<lparr>uni_ToLower = id, uni_EqualFold = (=), uni_Quote = id\<rparr>;
        idna = (\<lambda>s. Inl (Errorf ''idna''))
    in NormalizeDomainName U idna idna ''  Example.COM. '' = Inr (''example.com'', ''example.com'') \<and>
       ValidateLDHName ''example.com'' \<and>
       NormalizeDomainName U idna idna ''example.com'' = Inr (''example.com'', ''example.com''))"
proof -
  let ?U = "\<lparr>uni_ToLower = id, uni_EqualFold = (=), uni_Quote = id\<rparr>"
  let ?idna = "\<lambda>s::string. (Inl (Errorf ''idna'')) :: string result"
  have n: "NormalizeDomainName ?U ?idna ?idna ''  Example.COM. '' = Inr (''example.com'', ''example.com'')"
    by (simp add: go_eval)
  have t: "TrimSuffix ''example.com'' ''.'' = ''example.com''" by (simp add: go_eval)
  show ?thesis using n NormalizeDomainName_sound [OF n] unfolding t by (simp add: Let_def)
qed

text \<open>
  \<open>WithExtensions\<close> keeps the array it is given as a prefix, adds exactly the non-empty identifiers
  that are not in it, each once: no duplicate is introduced.
\<close>

theorem WithExtensions_spec:
  "prefix (conf c) (conf (WithExtensions c ids)) \<and>
   set (conf (WithExtensions c ids)) = set (conf c) \<union> (set ids - {[]}) \<and>
   (distinct (conf (WithExtensions c ids)) \<longleftrightarrow> distinct (conf c))"
  by (simp add: WithExtensions_def extend_conf_prefix extend_conf_set extend_conf_distinct)

end
