(* ===== verification/RegistryModel.thy ===== *)
theory RegistryModel
  imports GoBase
begin

section \<open>The registry data model\<close>

text \<open>
  The aggregates of \<open>internal/domain\<close> (\<open>models.go\<close>, \<open>vcard.go\<close>): every struct is a record with the
  source's fields, prefixed by the struct (HOL record fields are global names), except \<open>Contact\<close>,
  which nests and is a datatype with selectors. A pointer that may be nil is an \<open>option\<close>, a Go
  string type with constants (\<open>ContactRole\<close>, \<open>PrivacyState\<close>, \<open>ObjectKind\<close>) stays a string, since
  storage may hold any text, and an AS number is a 32-bit word.
\<close>

type_synonym ObjectKind = string

definition KindDomain :: ObjectKind where "KindDomain = ''domain''"
definition KindContact :: ObjectKind where "KindContact = ''entity''"
definition KindNameserver :: ObjectKind where "KindNameserver = ''nameserver''"
definition KindIPNetwork :: ObjectKind where "KindIPNetwork = ''ip_network''"
definition KindAutnum :: ObjectKind where "KindAutnum = ''autnum''"

record HistoryEntry =
  he_Version :: "64 word"
  he_ChangedAt :: gotime
  he_Action :: string
  he_Actor :: string
  he_Snapshot :: string

record AuditEntry =
  ae_Timestamp :: gotime
  ae_Actor :: string
  ae_Action :: string
  ae_Detail :: string

record Metadata =
  md_Version :: "64 word"
  md_CreatedAt :: gotime
  md_UpdatedAt :: gotime
  md_UpdatedBy :: string
  md_Source :: string
  md_History :: "HistoryEntry list"
  md_Audit :: "AuditEntry list"

record Status =
  st_Value :: string
  st_Reason :: string
  st_Actor :: string

record Event =
  ev_Action :: string
  ev_Date :: gotime
  ev_Actor :: string

type_synonym PrivacyState = string

definition PrivacyPublic :: PrivacyState where "PrivacyPublic = ''public''"
definition PrivacyRedacted :: PrivacyState where "PrivacyRedacted = ''redacted''"
definition PrivacyPrivate :: PrivacyState where "PrivacyPrivate = ''private''"
definition PrivacyProxy :: PrivacyState where "PrivacyProxy = ''proxy''"

type_synonym ContactRole = string

definition RoleRegistrant :: ContactRole where "RoleRegistrant = ''registrant''"
definition RoleAdministrative :: ContactRole where "RoleAdministrative = ''administrative''"
definition RoleTechnical :: ContactRole where "RoleTechnical = ''technical''"
definition RoleBilling :: ContactRole where "RoleBilling = ''billing''"
definition RoleRegistrar :: ContactRole where "RoleRegistrar = ''registrar''"
definition RoleAbuse :: ContactRole where "RoleAbuse = ''abuse''"
definition RoleReseller :: ContactRole where "RoleReseller = ''reseller''"

record VCardAddress =
  va_CountryCode :: string
  va_POBox :: string
  va_Extended :: string
  va_Street :: string
  va_Locality :: string
  va_Region :: string
  va_PostalCode :: string
  va_CountryName :: string

record VCard =
  vc_Version :: string
  vc_FullName :: string
  vc_Kind :: string
  vc_Organization :: string
  vc_Address :: "VCardAddress option"
  vc_VoiceTel :: string
  vc_FaxTel :: string
  vc_Email :: string
  vc_ContactURI :: string

record Redaction =
  rd_NameType :: string
  rd_NameDescription :: string
  rd_Method :: string
  rd_PrePath :: string
  rd_PostPath :: string
  rd_ReplacementPath :: string
  rd_PathLang :: string
  rd_Reason :: string

record PublicID =
  pid_Type :: string
  pid_Identifier :: string

datatype Contact = Contact
  (c_Handle: string)
  (c_Roles: "ContactRole list")
  (c_Status: "Status list")
  (c_VCard: "VCard option")
  (c_PublicIDs: "PublicID list")
  (c_Privacy: PrivacyState)
  (c_RegistrarID: string)
  (c_RegistrarBaseURL: string)
  (c_Entities: "Contact list")
  (c_Metadata: Metadata)

record NameServer =
  ns_Handle :: string
  ns_LDHName :: string
  ns_UnicodeName :: string
  ns_IPV4 :: "string list"
  ns_IPV6 :: "string list"
  ns_Status :: "Status list"
  ns_Metadata :: Metadata

record DSRecord =
  ds_KeyTag :: int
  ds_Algorithm :: int
  ds_DigestType :: int
  ds_Digest :: string

record KeyRecord =
  kr_Flags :: int
  kr_Protocol :: int
  kr_Algorithm :: int
  kr_PublicKey :: string

record SecureDNS =
  sd_ZoneSigned :: bool
  sd_DelegationSigned :: bool
  sd_MaxSigLife :: "int option"
  sd_DSRecords :: "DSRecord list"
  sd_KeyRecords :: "KeyRecord list"

record Domain =
  d_Handle :: string
  d_LDHName :: string
  d_UnicodeName :: string
  d_TLD :: string
  d_Status :: "Status list"
  d_ExpiresAt :: gotime
  d_Contacts :: "(ContactRole, string list) gomap"
  d_Nameservers :: "NameServer list"
  d_SecureDNS :: "SecureDNS option"
  d_Registrar :: string
  d_Metadata :: Metadata

record DomainAggregate =
  agg_Domain :: Domain
  agg_Registrar :: "Contact option"
  agg_Contacts :: "(string, Contact) gomap"
  agg_Nameservers :: "(string, NameServer) gomap"

record IPNetwork =
  ip_Handle :: string
  ip_StartAddress :: string
  ip_EndAddress :: string
  ip_IPVersion :: string
  ip_CIDR :: "string list"
  ip_Name :: string
  ip_Type :: string
  ip_Country :: string
  ip_Status :: "Status list"
  ip_ParentHandle :: string
  ip_Metadata :: Metadata

record Autnum =
  as_Handle :: string
  as_StartASN :: "32 word"
  as_EndASN :: "32 word"
  as_Name :: string
  as_Type :: string
  as_Country :: string
  as_Status :: "Status list"
  as_Metadata :: Metadata

subsection \<open>Zero values\<close>

text \<open>The zero value of a struct, from which a composite literal sets the fields it names.\<close>

definition zero_Metadata :: Metadata where
  "zero_Metadata = \<lparr>md_Version = 0, md_CreatedAt = zero_time, md_UpdatedAt = zero_time,
     md_UpdatedBy = [], md_Source = [], md_History = [], md_Audit = []\<rparr>"

definition zero_VCard :: VCard where
  "zero_VCard = \<lparr>vc_Version = [], vc_FullName = [], vc_Kind = [], vc_Organization = [],
     vc_Address = None, vc_VoiceTel = [], vc_FaxTel = [], vc_Email = [], vc_ContactURI = []\<rparr>"

definition zero_VCardAddress :: VCardAddress where
  "zero_VCardAddress = \<lparr>va_CountryCode = [], va_POBox = [], va_Extended = [], va_Street = [],
     va_Locality = [], va_Region = [], va_PostalCode = [], va_CountryName = []\<rparr>"

definition mk_Status :: "string \<Rightarrow> Status" where
  "mk_Status v = \<lparr>st_Value = v, st_Reason = [], st_Actor = []\<rparr>"

lemmas registry_consts [go_eval] =
  KindDomain_def KindContact_def KindNameserver_def KindIPNetwork_def KindAutnum_def
  PrivacyPublic_def PrivacyRedacted_def PrivacyPrivate_def PrivacyProxy_def
  RoleRegistrant_def RoleAdministrative_def RoleTechnical_def RoleBilling_def RoleRegistrar_def
  RoleAbuse_def RoleReseller_def zero_Metadata_def zero_VCard_def zero_VCardAddress_def
  mk_Status_def

end
