(* ===== verification/Config.thy ===== *)
theory Config
  imports GoBase
begin

section \<open>Configuration\<close>

text \<open>
  \<open>internal/config/config.go\<close>: the configuration structs as records (with the fields' source names,
  prefixed), and \<open>Load\<close> with its two passes \<open>setDefaults\<close> and \<open>validate\<close>. The file read and the
  YAML decoder (\<open>gopkg.in/yaml.v3\<close>) are arguments of \<open>Load\<close>. Go's \<open>int\<close> is \<open>int\<close> and a
  \<open>time.Duration\<close> its number of nanoseconds, both as \<open>int\<close>; no arithmetic is done on them here.

  The lemmas show what a loaded configuration satisfies (\<open>loaded_ok\<close>), that defaulting is
  idempotent and that it keeps every field an operator set.
\<close>

record ServerConfig =
  s_Host :: string
  s_Port :: int
  s_ReadTimeout :: int
  s_WriteTimeout :: int
  s_IdleTimeout :: int
  s_MaxHeaderBytes :: int
  s_TLSCertFile :: string
  s_TLSKeyFile :: string

record StorageConfig =
  Driver :: string
  DSN :: string
  MaxOpen :: int
  MaxIdle :: int
  CacheTTL :: string

record ExtensionRemark =
  x_Title :: string
  x_Description :: "string list"

record TTL0Config =
  TTL0_Domain :: "(string, int) gomap"
  TTL0_Nameserver :: "(string, int) gomap"
  TTL0_Remarks :: "ExtensionRemark list"

record GeofeedConfig =
  Geofeed_URL :: string

record ToSConfig =
  ToS_Title :: string
  ToS_Description :: "string list"
  ToS_URL :: string

record CustomNoticeConfig =
  cn_Title :: string
  cn_Description :: "string list"
  cn_URL :: string
  cn_Rel :: string

record RDAPConfig =
  TLDs :: "string list"
  Mode :: string
  BaseURL :: string
  RegistrarBaseURL :: string
  MaxDomainLen :: int
  MaxSearchLimit :: int
  Port43Whois :: string
  ServerName :: string
  Version :: string
  SearchEnabled :: bool
  Extensions :: "string list"
  TTL0 :: "TTL0Config option"
  Geofeed :: "GeofeedConfig option"
  ToS :: "ToSConfig option"
  CustomNotices :: "CustomNoticeConfig list"

record AuthConfig =
  a_Enabled :: bool
  JWKSEndpoint :: string
  Issuer :: string
  Audience :: string
  Algorithms :: "string list"

record MetricsConfig =
  m_Enabled :: bool
  m_Host :: string
  m_Port :: int

record RateConfig =
  r_Enabled :: bool
  Requests :: int
  Window :: int
  Burst :: int
  TrustedIPs :: "string list"

record WhoisConfig =
  w_Enabled :: bool
  w_Port :: int

record Config =
  Server_cfg :: ServerConfig
  Storage_cfg :: StorageConfig
  RDAP_cfg :: RDAPConfig
  Auth_cfg :: AuthConfig
  Metrics_cfg :: MetricsConfig
  Rate_cfg :: RateConfig
  Whois_cfg :: WhoisConfig

subsection \<open>Defaults and validation\<close>

definition second :: int where "second = 1000000000"
definition minute :: int where "minute = 60 * second"

definition dflt :: "int \<Rightarrow> int \<Rightarrow> int" where
  "dflt d v = (if v = 0 then d else v)"

definition dflt_str :: "string \<Rightarrow> string \<Rightarrow> string" where
  "dflt_str d v = (if v = [] then d else v)"

definition setDefaults :: "Config \<Rightarrow> Config" where
  "setDefaults c =
     c\<lparr>Server_cfg := (Server_cfg c)\<lparr>
          s_Port := dflt 8443 (s_Port (Server_cfg c)),
          s_ReadTimeout := dflt (10 * second) (s_ReadTimeout (Server_cfg c)),
          s_WriteTimeout := dflt (10 * second) (s_WriteTimeout (Server_cfg c)),
          s_IdleTimeout := dflt (60 * second) (s_IdleTimeout (Server_cfg c)),
          s_MaxHeaderBytes := dflt 1048576 (s_MaxHeaderBytes (Server_cfg c))\<rparr>,
        Whois_cfg := (Whois_cfg c)\<lparr>w_Port := dflt 43 (w_Port (Whois_cfg c))\<rparr>,
        RDAP_cfg := (RDAP_cfg c)\<lparr>
          MaxDomainLen := dflt 253 (MaxDomainLen (RDAP_cfg c)),
          MaxSearchLimit := dflt 100 (MaxSearchLimit (RDAP_cfg c)),
          RegistrarBaseURL := dflt_str (BaseURL (RDAP_cfg c)) (RegistrarBaseURL (RDAP_cfg c)),
          Version := dflt_str ''1.2'' (Version (RDAP_cfg c))\<rparr>,
        Metrics_cfg := (Metrics_cfg c)\<lparr>m_Port := dflt 9090 (m_Port (Metrics_cfg c))\<rparr>,
        Rate_cfg := (Rate_cfg c)\<lparr>
          Requests := dflt 100 (Requests (Rate_cfg c)),
          Window := dflt minute (Window (Rate_cfg c))\<rparr>\<rparr>"

text \<open>The map literal; the order of the list is the order in which \<open>extensionNames\<close> ranges over it.\<close>

definition supportedExtensions :: "(string, bool) gomap" where
  "supportedExtensions =
     [(''ttl0'', True), (''geofeed1'', True), (''cidr0'', True), (''reverse_search'', True)]"

definition extensionNames :: "string list" where
  "extensionNames = map fst supportedExtensions"

definition ExtensionsEnabled :: "RDAPConfig \<Rightarrow> string \<Rightarrow> bool" where
  "ExtensionsEnabled c ext = list_ex (\<lambda>e. e = ext) (Extensions c)"

definition mode_error :: "unicode \<Rightarrow> string \<Rightarrow> goerror" where
  "mode_error U m =
     Errorf (''invalid rdap.mode '' @ Quote U m @ '': must be '' @ Quote U ''registrar''
             @ '' or '' @ Quote U ''registry'')"

definition extension_error :: "unicode \<Rightarrow> string \<Rightarrow> goerror" where
  "extension_error U ext =
     Errorf (''invalid rdap.extensions entry '' @ Quote U ext @ '': must be one of [''
             @ Join '' '' extensionNames @ '']'')"

text \<open>\<open>validate\<close> fills an empty mode in place, then checks.\<close>

definition validate :: "unicode \<Rightarrow> Config \<Rightarrow> Config result" where
  "validate U c0 =
     (let c = c0\<lparr>RDAP_cfg := (RDAP_cfg c0)\<lparr>Mode := dflt_str ''registrar'' (Mode (RDAP_cfg c0))\<rparr>\<rparr>;
          r = RDAP_cfg c
      in if Mode r \<noteq> ''registrar'' \<and> Mode r \<noteq> ''registry'' then Inl (mode_error U (Mode r))
         else if BaseURL r = [] then Inl (Errorf ''rdap.base_url is required'')
         else (case find (\<lambda>ext. map_of supportedExtensions ext \<noteq> Some True) (Extensions r) of
                 Some ext \<Rightarrow> Inl (extension_error U ext)
               | None \<Rightarrow> Inr c))"

definition Load ::
  "unicode \<Rightarrow> (string \<Rightarrow> string result) \<Rightarrow> (string \<Rightarrow> Config result) \<Rightarrow> string \<Rightarrow> Config result" where
  "Load U ReadFile Unmarshal path =
     (case ReadFile path of
        Inl e \<Rightarrow> Inl (Wrapf (''read config: '' @ Error e) e)
      | Inr data \<Rightarrow>
          (case Unmarshal data of
             Inl e \<Rightarrow> Inl (Wrapf (''parse config: '' @ Error e) e)
           | Inr cfg \<Rightarrow> validate U (setDefaults cfg)))"

subsection \<open>Listen addresses\<close>

definition Addr :: "Config \<Rightarrow> string" where
  "Addr c =
     (if s_Host (Server_cfg c) = [] \<or> s_Host (Server_cfg c) = ''0.0.0.0''
      then '':'' @ Itoa (s_Port (Server_cfg c))
      else s_Host (Server_cfg c) @ '':'' @ Itoa (s_Port (Server_cfg c)))"

definition Metrics_Addr :: "MetricsConfig \<Rightarrow> string" where
  "Metrics_Addr c = m_Host c @ '':'' @ Itoa (m_Port c)"

definition WhoisAddr :: "Config \<Rightarrow> string" where
  "WhoisAddr c =
     (if s_Host (Server_cfg c) = [] \<or> s_Host (Server_cfg c) = ''0.0.0.0''
      then '':'' @ Itoa (w_Port (Whois_cfg c))
      else s_Host (Server_cfg c) @ '':'' @ Itoa (w_Port (Whois_cfg c)))"

lemmas config_eval [go_eval] =
  second_def minute_def dflt_def dflt_str_def setDefaults_def supportedExtensions_def
  extensionNames_def ExtensionsEnabled_def mode_error_def extension_error_def validate_def
  Load_def Addr_def Metrics_Addr_def WhoisAddr_def

subsection \<open>What a loaded configuration satisfies\<close>

text \<open>The invariant every later component relies on.\<close>

definition loaded_ok :: "Config \<Rightarrow> bool" where
  "loaded_ok c \<longleftrightarrow>
     (Mode (RDAP_cfg c) = ''registrar'' \<or> Mode (RDAP_cfg c) = ''registry'') \<and>
     BaseURL (RDAP_cfg c) \<noteq> [] \<and> RegistrarBaseURL (RDAP_cfg c) \<noteq> [] \<and>
     set (Extensions (RDAP_cfg c)) \<subseteq> {''ttl0'', ''geofeed1'', ''cidr0'', ''reverse_search''} \<and>
     MaxSearchLimit (RDAP_cfg c) \<noteq> 0 \<and> s_Port (Server_cfg c) \<noteq> 0 \<and>
     w_Port (Whois_cfg c) \<noteq> 0 \<and> m_Port (Metrics_cfg c) \<noteq> 0 \<and>
     Requests (Rate_cfg c) \<noteq> 0 \<and> Window (Rate_cfg c) \<noteq> 0"

lemma ExtensionsEnabled_iff: "ExtensionsEnabled c ext \<longleftrightarrow> ext \<in> set (Extensions c)"
  by (auto simp: ExtensionsEnabled_def list_ex_iff)

lemma supported_iff:
  "map_of supportedExtensions e = Some True \<longleftrightarrow>
     e \<in> {''ttl0'', ''geofeed1'', ''cidr0'', ''reverse_search''}"
  by (auto simp: supportedExtensions_def split: if_splits)

lemma dflt_nonzero [simp]: "d \<noteq> 0 \<Longrightarrow> dflt d v \<noteq> 0" "d \<noteq> 0 \<Longrightarrow> dflt d (dflt d v) = dflt d v"
  by (auto simp: dflt_def)

lemma dflt_str_simps [simp]:
  "dflt_str d v = [] \<longleftrightarrow> d = [] \<and> v = []" "dflt_str d (dflt_str d v) = dflt_str d v"
  by (auto simp: dflt_str_def)

lemma setDefaults_idem: "setDefaults (setDefaults c) = setDefaults c"
  by (simp add: setDefaults_def minute_def second_def)

lemma validate_ok:
  assumes "validate U c = Inr c'"
  shows "Mode (RDAP_cfg c') = ''registrar'' \<or> Mode (RDAP_cfg c') = ''registry''"
    and "BaseURL (RDAP_cfg c') \<noteq> []"
    and "set (Extensions (RDAP_cfg c')) \<subseteq> {''ttl0'', ''geofeed1'', ''cidr0'', ''reverse_search''}"
    and "c' = c\<lparr>RDAP_cfg := (RDAP_cfg c)\<lparr>Mode := dflt_str ''registrar'' (Mode (RDAP_cfg c))\<rparr>\<rparr>"
proof -
  let ?r = "(RDAP_cfg c)\<lparr>Mode := dflt_str ''registrar'' (Mode (RDAP_cfg c))\<rparr>"
  have guards: "Mode ?r = ''registrar'' \<or> Mode ?r = ''registry''" "BaseURL ?r \<noteq> []"
    and none: "find (\<lambda>ext. map_of supportedExtensions ext \<noteq> Some True) (Extensions ?r) = None"
    and c': "c' = c\<lparr>RDAP_cfg := ?r\<rparr>"
    using assms by (auto simp: validate_def Let_def split: if_splits option.splits)
  show "Mode (RDAP_cfg c') = ''registrar'' \<or> Mode (RDAP_cfg c') = ''registry''"
    "BaseURL (RDAP_cfg c') \<noteq> []" "c' = c\<lparr>RDAP_cfg := ?r\<rparr>"
    using guards c' by simp_all
  have "\<forall>e \<in> set (Extensions ?r). map_of supportedExtensions e = Some True"
    using none by (auto simp: find_None_iff)
  then show "set (Extensions (RDAP_cfg c')) \<subseteq> {''ttl0'', ''geofeed1'', ''cidr0'', ''reverse_search''}"
    using supported_iff c' by auto
qed

lemma validate_iff:
  "is_ok (validate U c) \<longleftrightarrow>
     Mode (RDAP_cfg c) \<in> {[], ''registrar'', ''registry''} \<and> BaseURL (RDAP_cfg c) \<noteq> [] \<and>
     set (Extensions (RDAP_cfg c)) \<subseteq> {''ttl0'', ''geofeed1'', ''cidr0'', ''reverse_search''}"
proof -
  have mode: "dflt_str ''registrar'' m = ''registrar'' \<or> dflt_str ''registrar'' m = ''registry'' \<longleftrightarrow>
      m \<in> {[], ''registrar'', ''registry''}" for m
    by (auto simp: dflt_str_def)
  have exts: "find (\<lambda>ext. map_of supportedExtensions ext \<noteq> Some True) es = None \<longleftrightarrow>
      set es \<subseteq> {''ttl0'', ''geofeed1'', ''cidr0'', ''reverse_search''}" for es
    unfolding find_None_iff using supported_iff by blast
  let ?r = "RDAP_cfg c"
  have "is_ok (validate U c) \<longleftrightarrow>
      (dflt_str ''registrar'' (Mode ?r) = ''registrar'' \<or> dflt_str ''registrar'' (Mode ?r) = ''registry'') \<and>
      BaseURL ?r \<noteq> [] \<and> find (\<lambda>ext. map_of supportedExtensions ext \<noteq> Some True) (Extensions ?r) = None"
    by (auto simp: validate_def Let_def split: option.splits)
  then show ?thesis unfolding mode exts .
qed

lemma setDefaults_keeps:
  "Mode (RDAP_cfg (setDefaults c)) = Mode (RDAP_cfg c)" "BaseURL (RDAP_cfg (setDefaults c)) = BaseURL (RDAP_cfg c)"
  "Extensions (RDAP_cfg (setDefaults c)) = Extensions (RDAP_cfg c)"
  by (simp_all add: setDefaults_def)

lemma setDefaults_ok:
  "MaxSearchLimit (RDAP_cfg (setDefaults c)) \<noteq> 0" "s_Port (Server_cfg (setDefaults c)) \<noteq> 0"
  "w_Port (Whois_cfg (setDefaults c)) \<noteq> 0" "m_Port (Metrics_cfg (setDefaults c)) \<noteq> 0"
  "Requests (Rate_cfg (setDefaults c)) \<noteq> 0" "Window (Rate_cfg (setDefaults c)) \<noteq> 0"
  "BaseURL (RDAP_cfg c) \<noteq> [] \<Longrightarrow> RegistrarBaseURL (RDAP_cfg (setDefaults c)) \<noteq> []"
  by (simp_all add: setDefaults_def minute_def second_def)

lemma setDefaults_mode:
  "setDefaults (c\<lparr>RDAP_cfg := (RDAP_cfg c)\<lparr>Mode := m\<rparr>\<rparr>) =
   (setDefaults c)\<lparr>RDAP_cfg := (RDAP_cfg (setDefaults c))\<lparr>Mode := m\<rparr>\<rparr>"
  by (simp add: setDefaults_def)

lemma loaded_ok_validate:
  assumes "validate U (setDefaults c0) = Inr c"
  shows "loaded_ok c"
proof -
  note ok = validate_ok [OF assms]
  have base: "BaseURL (RDAP_cfg c0) \<noteq> []" using ok(2,4) setDefaults_keeps(2) by simp
  show ?thesis
    unfolding loaded_ok_def using ok(1-3) setDefaults_ok [of c0] base by (simp add: ok(4))
qed

subsection \<open>Properties\<close>

text \<open>
  C29. A configuration that loads satisfies what the rest of the server relies on: a known mode, a base
  URL and a registrar base URL, known extensions only, non-zero limits, ports and rate window; and
  loading is stable: defaulting and validating it again change nothing.
\<close>

theorem Load_ok:
  assumes "Load U ReadFile Unmarshal path = Inr c"
  shows "loaded_ok c \<and> setDefaults c = c \<and> validate U c = Inr c"
proof -
  obtain c0 where v: "validate U (setDefaults c0) = Inr c"
    using assms by (auto simp: Load_def split: sum.splits)
  let ?d = "setDefaults c0"
  note ok = validate_ok [OF v]
  have c: "c = ?d\<lparr>RDAP_cfg := (RDAP_cfg ?d)\<lparr>Mode := Mode (RDAP_cfg c)\<rparr>\<rparr>"
    using ok(4) by simp
  have stable: "setDefaults c = c"
    using c setDefaults_mode [where c = ?d] setDefaults_idem [of c0] by metis
  obtain c2 where c2: "validate U c = Inr c2"
    using validate_iff [of U c] ok(1-3) by auto
  have "dflt_str ''registrar'' (Mode (RDAP_cfg c)) = Mode (RDAP_cfg c)"
    using ok(1) by (auto simp: dflt_str_def)
  then have "c2 = c" using validate_ok(4) [OF c2] by simp
  then show ?thesis using loaded_ok_validate [OF v] stable c2 by simp
qed

definition example_config :: Config where
  "example_config =
     \<lparr>Server_cfg = \<lparr>s_Host = [], s_Port = 0, s_ReadTimeout = 0, s_WriteTimeout = 0, s_IdleTimeout = 0,
        s_MaxHeaderBytes = 0, s_TLSCertFile = [], s_TLSKeyFile = []\<rparr>,
      Storage_cfg = \<lparr>Driver = ''memory'', DSN = [], MaxOpen = 0, MaxIdle = 0, CacheTTL = []\<rparr>,
      RDAP_cfg = \<lparr>TLDs = [''com''], Mode = [], BaseURL = ''https://r'', RegistrarBaseURL = [],
        MaxDomainLen = 0, MaxSearchLimit = 0, Port43Whois = [], ServerName = [], Version = [],
        SearchEnabled = False, Extensions = [''cidr0''], TTL0 = None, Geofeed = None, ToS = None,
        CustomNotices = []\<rparr>,
      Auth_cfg = \<lparr>a_Enabled = False, JWKSEndpoint = [], Issuer = [], Audience = [], Algorithms = []\<rparr>,
      Metrics_cfg = \<lparr>m_Enabled = False, m_Host = [], m_Port = 0\<rparr>,
      Rate_cfg = \<lparr>r_Enabled = False, Requests = 0, Window = 0, Burst = 0, TrustedIPs = []\<rparr>,
      Whois_cfg = \<lparr>w_Enabled = False, w_Port = 0\<rparr>\<rparr>"

theorem Load_ok_witness:
  "loaded_ok (projr (Load \<lparr>uni_ToLower = (\<lambda>s. s), uni_EqualFold = (=), uni_Quote = (\<lambda>s. s)\<rparr>
      (\<lambda>p. Inr ''yaml'') (\<lambda>d. Inr example_config) ''c.yaml''))"
proof -
  let ?L = "Load \<lparr>uni_ToLower = (\<lambda>s. s), uni_EqualFold = (=), uni_Quote = (\<lambda>s. s)\<rparr>
      (\<lambda>p. Inr ''yaml'') (\<lambda>d. Inr example_config) ''c.yaml''"
  have "\<exists>c. ?L = Inr c" by (simp add: example_config_def) (simp add: go_eval)
  then obtain c where "?L = Inr c" by blast
  from Load_ok [OF this] this show ?thesis by simp
qed

text \<open>
  C30. Loading succeeds exactly when the file is read and decoded, the mode is empty or one of the two
  known ones, a base URL is given, and every extension listed is supported; a read or decode error
  is wrapped, so that the caller can still recognise it.
\<close>

theorem Load_succeeds_iff:
  "(is_ok (Load U ReadFile Unmarshal path) \<longleftrightarrow>
      (\<exists>data c. ReadFile path = Inr data \<and> Unmarshal data = Inr c \<and>
         Mode (RDAP_cfg c) \<in> {[], ''registrar'', ''registry''} \<and> BaseURL (RDAP_cfg c) \<noteq> [] \<and>
         set (Extensions (RDAP_cfg c)) \<subseteq> {''ttl0'', ''geofeed1'', ''cidr0'', ''reverse_search''})) \<and>
   (ReadFile path = Inl e \<longrightarrow> (\<exists>e'. Load U ReadFile Unmarshal path = Inl e' \<and> errors_Is e' e))"
proof
  show "is_ok (Load U ReadFile Unmarshal path) \<longleftrightarrow>
      (\<exists>data c. ReadFile path = Inr data \<and> Unmarshal data = Inr c \<and>
         Mode (RDAP_cfg c) \<in> {[], ''registrar'', ''registry''} \<and> BaseURL (RDAP_cfg c) \<noteq> [] \<and>
         set (Extensions (RDAP_cfg c)) \<subseteq> {''ttl0'', ''geofeed1'', ''cidr0'', ''reverse_search''})"
    using validate_iff [of U "setDefaults _"] setDefaults_keeps
    by (simp add: Load_def split: sum.splits)
  have "errors_Is e e" by (cases e) simp_all
  then show "ReadFile path = Inl e \<longrightarrow> (\<exists>e'. Load U ReadFile Unmarshal path = Inl e' \<and> errors_Is e' e)"
    by (simp add: Load_def)
qed

theorem Load_succeeds_iff_witness:
  "\<exists>e'. Load \<lparr>uni_ToLower = (\<lambda>s. s), uni_EqualFold = (=), uni_Quote = (\<lambda>s. s)\<rparr>
      (\<lambda>p. Inl (Sentinel ''missing'')) (\<lambda>d. Inr example_config) ''c.yaml'' = Inl e' \<and>
      errors_Is e' (Sentinel ''missing'')"
  by (rule Load_succeeds_iff [THEN conjunct2, rule_format]) simp

end
