(* ===== verification/Store.thy ===== *)
theory Store
  imports RegistryModel Config
begin

section \<open>The storage interface\<close>

text \<open>
  \<open>internal/store/store.go\<close>. A Go interface value is the record of its methods, closed over the
  backend behind it; every method only reads, so a method is a function of its arguments. \<open>New\<close>
  chooses the backend. The laws that the query service relies on are the locales below: a search
  with a positive limit returns at most that many objects, and an aggregate is a snapshot of one
  domain together with its registrar. The backends' theories interpret them.
\<close>

definition ErrReverseSearchUnsupported :: goerror where
  "ErrReverseSearchUnsupported = Sentinel ''reverse search not supported by this storage backend''"

record Interface =
  if_LookupDomain :: "string \<Rightarrow> Domain result"
  if_GetDomainAggregate :: "string \<Rightarrow> DomainAggregate result"
  if_LookupContact :: "string \<Rightarrow> Contact result"
  if_LookupNameserver :: "string \<Rightarrow> NameServer result"
  if_LookupIPNetwork :: "string \<Rightarrow> IPNetwork result"
  if_LookupAutnum :: "int \<Rightarrow> Autnum result"
  if_SearchDomainsByName :: "string \<Rightarrow> int \<Rightarrow> Domain list result"
  if_SearchDomainsByNS :: "string \<Rightarrow> int \<Rightarrow> Domain list result"
  if_SearchContactsByName :: "string \<Rightarrow> int \<Rightarrow> Contact list result"
  if_SearchContactsByHandle :: "string \<Rightarrow> int \<Rightarrow> Contact list result"
  if_SearchNameserversByName :: "string \<Rightarrow> int \<Rightarrow> NameServer list result"
  if_SearchNameserversByIP :: "string \<Rightarrow> int \<Rightarrow> NameServer list result"
  if_ReverseSearchDomainsByEntity :: "string \<Rightarrow> string \<Rightarrow> int \<Rightarrow> Domain list result"
  if_Ping :: "goerror option"
  if_Close :: "goerror option"

text \<open>The three constructors are arguments, each from its backend's theory.\<close>

definition New ::
  "(StorageConfig \<Rightarrow> Interface result) \<Rightarrow> (StorageConfig \<Rightarrow> Interface result) \<Rightarrow>
   (StorageConfig \<Rightarrow> Interface result) \<Rightarrow> StorageConfig \<Rightarrow> Interface result" where
  "New NewMemory NewPostgres NewMySQL cfg =
     (if Driver cfg = ''memory'' then NewMemory cfg
      else if Driver cfg = ''postgres'' then NewPostgres cfg
      else if Driver cfg = ''mysql'' then NewMySQL cfg
      else Inl (Errorf (''unsupported storage driver: '' @ Driver cfg)))"

text \<open>The handles a domain refers to, as all backends collect them: the registrar and the contacts.\<close>

definition entity_handles :: "Domain \<Rightarrow> string list" where
  "entity_handles d =
     (if d_Registrar d \<noteq> [] then [d_Registrar d] else []) @ concat (map snd (d_Contacts d))"

lemmas store_eval [go_eval] = ErrReverseSearchUnsupported_def New_def entity_handles_def

subsection \<open>Search loops\<close>

text \<open>
  The loop shared by the searches: visit the candidates in order, keep what \<open>f\<close> yields, and stop
  once a positive limit is reached.
\<close>

fun collect :: "int \<Rightarrow> ('a \<Rightarrow> 'b option) \<Rightarrow> 'b list \<Rightarrow> 'a list \<Rightarrow> 'b list" where
  "collect limit f results [] = results"
| "collect limit f results (x # xs) =
     (case f x of
        None \<Rightarrow> collect limit f results xs
      | Some y \<Rightarrow>
          (let results' = results @ [y]
           in if limit > 0 \<and> int (length results') \<ge> limit then results'
              else collect limit f results' xs))"

definition keep_if :: "('a \<Rightarrow> bool) \<Rightarrow> 'a \<Rightarrow> 'a option" where
  "keep_if P x = (if P x then Some x else None)"

lemmas collect_eval [go_eval] = keep_if_def

definition at_most :: "int \<Rightarrow> 'a list \<Rightarrow> 'a list" where
  "at_most limit xs = (if limit > 0 then take (nat limit) xs else xs)"

lemma collect_acc:
  "limit \<le> 0 \<or> int (length acc) < limit \<Longrightarrow>
   collect limit f acc xs =
     acc @ (if limit > 0 then take (nat limit - length acc) (List.map_filter f xs)
            else List.map_filter f xs)"
proof (induction limit f acc xs rule: collect.induct)
  case (2 limit f acc x xs)
  show ?case
  proof (cases "f x")
    case None
    then show ?thesis using 2 by (simp add: List.map_filter_def)
  next
    case (Some y)
    show ?thesis
    proof (cases "limit > 0 \<and> int (length (acc @ [y])) \<ge> limit")
      case True
      with 2 have "nat limit - length acc = 1" by auto
      with True Some show ?thesis by (simp add: List.map_filter_def)
    next
      case False
      then have go: "limit \<le> 0 \<or> int (length (acc @ [y])) < limit" by auto
      have len: "limit > 0 \<Longrightarrow> nat limit - length acc = Suc (nat limit - length (acc @ [y]))"
        using False by auto
      from False have "collect limit f acc (x # xs) = collect limit f (acc @ [y]) xs"
        using Some by (auto simp: Let_def)
      also have "\<dots> = acc @ [y] @ (if limit > 0
           then take (nat limit - length (acc @ [y])) (List.map_filter f xs) else List.map_filter f xs)"
        using "2.IH"(2) [OF Some refl False go] by simp
      finally show ?thesis using Some len by (simp add: List.map_filter_def)
    qed
  qed
qed (simp add: List.map_filter_def)

lemma collect_spec: "collect limit f [] xs = at_most limit (List.map_filter f xs)"
  using collect_acc [of limit "[]" f xs] by (simp add: at_most_def)

lemma map_filter_keep_if: "List.map_filter (keep_if P) xs = filter P xs"
  by (induction xs) (simp_all add: List.map_filter_def keep_if_def)

lemma collect_keep_if: "collect limit (keep_if P) [] xs = at_most limit (filter P xs)"
  by (simp add: collect_spec map_filter_keep_if)

lemma length_at_most: "limit > 0 \<Longrightarrow> int (length (at_most limit xs)) \<le> limit"
  by (simp add: at_most_def)

lemma set_at_most: "set (at_most limit xs) \<subseteq> set xs"
  by (auto simp: at_most_def dest: in_set_takeD)

lemma length_collect: "limit > 0 \<Longrightarrow> int (length (collect limit f [] xs)) \<le> limit"
  by (simp add: collect_spec length_at_most)

subsection \<open>What a backend promises\<close>

text \<open>At most \<open>limit\<close> objects, when the search succeeds and the limit is positive.\<close>

definition bounded :: "int \<Rightarrow> 'a list result \<Rightarrow> bool" where
  "bounded limit r \<longleftrightarrow> (\<forall>xs. r = Inr xs \<longrightarrow> int (length xs) \<le> limit)"

lemma bounded_simps [simp]:
  "bounded limit (Inl e)" "bounded limit (Inr xs) \<longleftrightarrow> int (length xs) \<le> limit"
  by (simp_all add: bounded_def)

locale bounded_store =
  fixes st :: Interface
  assumes domains_by_name: "limit > 0 \<Longrightarrow> bounded limit (if_SearchDomainsByName st p limit)"
    and domains_by_ns: "limit > 0 \<Longrightarrow> bounded limit (if_SearchDomainsByNS st p limit)"
    and contacts_by_name: "limit > 0 \<Longrightarrow> bounded limit (if_SearchContactsByName st p limit)"
    and contacts_by_handle: "limit > 0 \<Longrightarrow> bounded limit (if_SearchContactsByHandle st p limit)"
    and nameservers_by_name: "limit > 0 \<Longrightarrow> bounded limit (if_SearchNameserversByName st p limit)"
    and nameservers_by_ip: "limit > 0 \<Longrightarrow> bounded limit (if_SearchNameserversByIP st p limit)"
    and reverse: "limit > 0 \<Longrightarrow> bounded limit (if_ReverseSearchDomainsByEntity st prop p limit)"

text \<open>
  A snapshot backend moreover returns, in an aggregate, the domain that a plain lookup of the same
  name returns, and a resolved registrar is the contact stored under the domain's registrar handle.
\<close>

locale snapshot_store = bounded_store +
  assumes aggregate_domain:
      "if_GetDomainAggregate st name = Inr agg \<Longrightarrow> if_LookupDomain st name = Inr (agg_Domain agg)"
    and aggregate_registrar:
      "if_GetDomainAggregate st name = Inr agg \<Longrightarrow> agg_Registrar agg = Some c \<Longrightarrow>
       map_of (agg_Contacts agg) (d_Registrar (agg_Domain agg)) = Some c"
    and aggregate_no_registrar:
      "if_GetDomainAggregate st name = Inr agg \<Longrightarrow> agg_Registrar agg = None \<Longrightarrow>
       d_Registrar (agg_Domain agg) \<noteq> [] \<Longrightarrow> \<exists>e. if_LookupContact st (d_Registrar (agg_Domain agg)) = Inl e"
    and aggregate_contacts:
      "if_GetDomainAggregate st name = Inr agg \<Longrightarrow> map_of (agg_Contacts agg) h = Some c \<Longrightarrow>
       if_LookupContact st h = Inr c"

end
