(* ===== verification/Service.thy ===== *)
theory Service
  imports Rdap Store
begin

section \<open>The query service\<close>

text \<open>
  \<open>internal/service\<close> (\<open>service.go\<close>, \<open>extensions.go\<close>): the resolved extension settings, the mapping
  of registry objects to RDAP objects, and the lookups and searches over a storage interface. A
  service is a record of the store, the RDAP configuration and the extensions. Interface methods
  that a backend implements come from the record \<open>Interface\<close>.
\<close>

subsection \<open>Extensions\<close>

record extensions =
  ext_ttl0 :: bool
  ext_ttl0Domain :: "(string, int) gomap"
  ext_ttl0NS :: "(string, int) gomap"
  ext_ttl0Remarks :: "Remark list"
  ext_geofeed1 :: bool
  ext_geofeedURL :: string
  ext_cidr0 :: bool
  ext_reverseSearch :: bool

definition extensionsFromConfig :: "RDAPConfig \<Rightarrow> extensions" where
  "extensionsFromConfig cfg =
     \<lparr>ext_ttl0 = ExtensionsEnabled cfg ''ttl0'',
      ext_ttl0Domain = (case TTL0 cfg of None \<Rightarrow> [] | Some t \<Rightarrow> TTL0_Domain t),
      ext_ttl0NS = (case TTL0 cfg of None \<Rightarrow> [] | Some t \<Rightarrow> TTL0_Nameserver t),
      ext_ttl0Remarks =
        (case TTL0 cfg of
           None \<Rightarrow> []
         | Some t \<Rightarrow> map (\<lambda>r. \<lparr>r_Title = x_Title r, r_Type = [], r_Description = x_Description r,
                                 r_Links = []\<rparr>) (TTL0_Remarks t)),
      ext_geofeed1 = ExtensionsEnabled cfg ''geofeed1'',
      ext_geofeedURL = (case Geofeed cfg of None \<Rightarrow> [] | Some g \<Rightarrow> Geofeed_URL g),
      ext_cidr0 = ExtensionsEnabled cfg ''cidr0'',
      ext_reverseSearch = ExtensionsEnabled cfg ''reverse_search''\<rparr>"

subsection \<open>jCards\<close>

definition jprop :: "string \<Rightarrow> (string \<times> json) list \<Rightarrow> string \<Rightarrow> json \<Rightarrow> json" where
  "jprop name params type value = JArr [JStr name, JObj params, JStr type, value]"

definition adr_value :: "string list \<Rightarrow> json" where
  "adr_value parts = JArr (map JStr parts)"

definition tel_params :: "string \<Rightarrow> (string \<times> json) list" where
  "tel_params t = [(''type'', JArr [JStr t])]"

definition jcard :: "json list \<Rightarrow> json list" where
  "jcard props = [JStr ''vcard'', JArr props]"

definition fn_of :: "VCard option \<Rightarrow> string \<Rightarrow> string" where
  "fn_of v fallbackName =
     (let fn = (case v of None \<Rightarrow> [] | Some v' \<Rightarrow> vc_FullName v') in if fn = [] then fallbackName else fn)"

definition adr_prop :: "VCardAddress \<Rightarrow> json" where
  "adr_prop a =
     jprop ''adr'' (if va_CountryCode a \<noteq> [] then [(''cc'', JStr (va_CountryCode a))] else []) ''text''
       (adr_value [va_POBox a, va_Extended a, va_Street a, va_Locality a, va_Region a, va_PostalCode a,
                   va_CountryName a])"

definition opt_prop :: "string \<Rightarrow> json \<Rightarrow> json list" where
  "opt_prop v p = (if v \<noteq> [] then [p] else [])"

definition vcardToJCard :: "VCard option \<Rightarrow> string \<Rightarrow> json list" where
  "vcardToJCard v fallbackName =
     (let props = [jprop ''version'' [] ''text'' (JStr ''4.0''),
                   jprop ''fn'' [] ''text'' (JStr (fn_of v fallbackName))]
      in case v of
           None \<Rightarrow> jcard props
         | Some c \<Rightarrow>
             jcard (props
               @ opt_prop (vc_Kind c) (jprop ''kind'' [] ''text'' (JStr (vc_Kind c)))
               @ opt_prop (vc_Organization c) (jprop ''org'' [] ''text'' (JStr (vc_Organization c)))
               @ (case vc_Address c of None \<Rightarrow> [] | Some a \<Rightarrow> [adr_prop a])
               @ opt_prop (vc_VoiceTel c) (jprop ''tel'' (tel_params ''voice'') ''uri'' (JStr (vc_VoiceTel c)))
               @ opt_prop (vc_FaxTel c) (jprop ''tel'' (tel_params ''fax'') ''uri'' (JStr (vc_FaxTel c)))
               @ opt_prop (vc_Email c) (jprop ''email'' [] ''text'' (JStr (vc_Email c)))
               @ opt_prop (vc_ContactURI c) (jprop ''contact-uri'' [] ''uri'' (JStr (vc_ContactURI c)))))"

subsection \<open>Objects\<close>

definition statusValues :: "Status list \<Rightarrow> string list" where
  "statusValues status = map st_Value status"

definition roleStrings :: "ContactRole list \<Rightarrow> string list" where
  "roleStrings roles = map (\<lambda>r. r) roles"

definition publicIDsToRDAP :: "PublicID list \<Rightarrow> PublicID_R list" where
  "publicIDsToRDAP ids = map (\<lambda>i. \<lparr>p_Type = pid_Type i, p_Identifier = pid_Identifier i\<rparr>) ids"

definition ttl0Data :: "(string, int) gomap \<Rightarrow> Remark list \<Rightarrow> TTL0Data option" where
  "ttl0Data values remarks =
     (if length values = 0 then None else Some \<lparr>t_Values = values, t_Remarks = remarks\<rparr>)"

definition cidr0FromCIDR :: "string \<Rightarrow> CIDR0 option" where
  "cidr0FromCIDR cidr =
     (case net_ParseCIDR cidr of
        None \<Rightarrow> None
      | Some (ip, ipnet) \<Rightarrow>
          if v4in6 ip
          then Some \<lparr>V4Prefix = ipv4_text (To4 ip), V6Prefix = [], Length = int (net_ones ipnet)\<rparr>
          else Some \<lparr>V4Prefix = [], V6Prefix = IP_String ip, Length = int (net_ones ipnet)\<rparr>)"

definition ns_url :: "string \<Rightarrow> string \<Rightarrow> string" where
  "ns_url baseURL name = baseURL @ ''/nameserver/'' @ name"

definition self_link :: "string \<Rightarrow> Link" where
  "self_link url = mk_Link url ''self'' url rdap_json"

definition embedded_ns :: "string \<Rightarrow> extensions option \<Rightarrow> NameServer \<Rightarrow> Nameserver" where
  "embedded_ns baseURL ext ns =
     \<lparr>Nameserver_Common = Common ''nameserver'' (ns_Handle ns) [self_link (ns_url baseURL (ns_LDHName ns))]
        [] [] [] [] [] (statusValues (ns_Status ns)),
      Nameserver_LDHName = ns_LDHName ns, Nameserver_UnicodeName = ns_UnicodeName ns,
      IPAddresses = Some \<lparr>V4 = ns_IPV4 ns, V6 = ns_IPV6 ns\<rparr>,
      Nameserver_TTL0Data =
        (case ext of Some e \<Rightarrow> if ext_ttl0 e then ttl0Data (ext_ttl0NS e) (ext_ttl0Remarks e) else None
         | None \<Rightarrow> None)\<rparr>"

definition nameserverToRDAP :: "NameServer \<Rightarrow> string \<Rightarrow> extensions option \<Rightarrow> Nameserver" where
  "nameserverToRDAP ns baseURL ext =
     \<lparr>Nameserver_Common = Common ''nameserver'' (ns_Handle ns) [self_link (ns_url baseURL (ns_LDHName ns))]
        [mk_Event ''registration'' (FormatTime (md_CreatedAt (ns_Metadata ns))),
         mk_Event ''last changed'' (FormatTime (md_UpdatedAt (ns_Metadata ns)))]
        [] [] [] [] (statusValues (ns_Status ns)),
      Nameserver_LDHName = ns_LDHName ns, Nameserver_UnicodeName = ns_UnicodeName ns,
      IPAddresses = Some \<lparr>V4 = ns_IPV4 ns, V6 = ns_IPV6 ns\<rparr>,
      Nameserver_TTL0Data =
        (case ext of Some e \<Rightarrow> if ext_ttl0 e then ttl0Data (ext_ttl0NS e) (ext_ttl0Remarks e) else None
         | None \<Rightarrow> None)\<rparr>"

definition entityToRDAP :: "Contact \<Rightarrow> string \<Rightarrow> Entity" where
  "entityToRDAP c baseURL =
     Entity (Common ''entity'' (c_Handle c) [self_link (baseURL @ ''/entity/'' @ c_Handle c)]
        [mk_Event ''registration'' (FormatTime (md_CreatedAt (c_Metadata c))),
         mk_Event ''last changed'' (FormatTime (md_UpdatedAt (c_Metadata c)))]
        [] [] [] [] (statusValues (c_Status c)))
       [] (roleStrings (c_Roles c)) (publicIDsToRDAP (c_PublicIDs c)) [] False"

definition ipNetworkToRDAP :: "IPNetwork \<Rightarrow> string \<Rightarrow> extensions option \<Rightarrow> IPNetwork_R" where
  "ipNetworkToRDAP n baseURL ext =
     (let cidr = (case ip_CIDR n of [] \<Rightarrow> [] | c # _ \<Rightarrow> c);
          url = baseURL @ ''/ip/'' @ cidr;
          geo = (case ext of
                   Some e \<Rightarrow> if ext_geofeed1 e \<and> ext_geofeedURL e \<noteq> []
                             then [mk_Link url ''geofeed'' (ext_geofeedURL e) ''application/geofeed+csv''] else []
                 | None \<Rightarrow> []);
          cidr0s = (case ext of
                      Some e \<Rightarrow> if ext_cidr0 e then List.map_filter cidr0FromCIDR (ip_CIDR n) else []
                    | None \<Rightarrow> [])
      in IPNetwork_R
           (Common ''ip network'' (ip_Handle n) (self_link url # geo)
              [mk_Event ''registration'' (FormatTime (md_CreatedAt (ip_Metadata n))),
               mk_Event ''last changed'' (FormatTime (md_UpdatedAt (ip_Metadata n)))]
              [] [] [] [] (statusValues (ip_Status n)))
           (ip_StartAddress n) (ip_EndAddress n) (ip_IPVersion n) (ip_CIDR n) (ip_Name n) (ip_Type n)
           (ip_Country n) [] cidr0s)"

subsection \<open>Domains\<close>

definition example_registrar_jcard :: "json list" where
  "example_registrar_jcard =
     jcard [jprop ''version'' [] ''text'' (JStr ''4.0''),
            jprop ''fn'' [] ''text'' (JStr ''Example Registrar Inc.''),
            jprop ''adr'' [(''cc'', JStr ''US'')] ''text''
              (adr_value [[], [], ''123 Maple Ave'', ''Los Angeles'', ''CA'', ''90210'', []])]"

definition abuse_entity :: Entity where
  "abuse_entity =
     Entity (Common ''entity'' ''ABUSE-NAME'' [] [] [] [] [] [] [''active''])
       (jcard [jprop ''version'' [] ''text'' (JStr ''4.0''),
               jprop ''fn'' [] ''text'' (JStr ''Abuse Contact''),
               jprop ''tel'' (tel_params ''voice'') ''uri'' (JStr ''tel:+1-555-123-4567''),
               jprop ''email'' [] ''text'' (JStr ''abuse@example.com'')])
       [''abuse''] [] [] False"

definition example_registrant_jcard :: "json list" where
  "example_registrant_jcard =
     jcard [jprop ''version'' [] ''text'' (JStr ''4.0''),
            jprop ''fn'' [] ''text'' (JStr ''Example Registrant''),
            jprop ''org'' [] ''text'' (JStr ''Example Organization''),
            jprop ''adr'' [(''cc'', JStr ''US'')] ''text''
              (adr_value [[], [], ''123 Elm Street'', ''Springfield'', ''IL'', ''62701'', []]),
            jprop ''tel'' (tel_params ''voice'') ''uri'' (JStr ''tel:+1-217-555-0132''),
            jprop ''email'' [] ''text'' (JStr ''registrant@example.com'')]"

definition registrar_entity :: "Domain \<Rightarrow> DomainAggregate option \<Rightarrow> string \<Rightarrow> Entity" where
  "registrar_entity d agg registrarBaseURL =
     Entity (Common ''entity'' (d_Registrar d)
               [mk_Link registrarBaseURL ''about'' registrarBaseURL rdap_json]
               [] [] [] [] [abuse_entity] [''active''])
       (case agg of
          Some a \<Rightarrow>
            (case agg_Registrar a of
               Some c \<Rightarrow> vcardToJCard (c_VCard c) (c_Handle c)
             | None \<Rightarrow> example_registrar_jcard)
        | None \<Rightarrow> example_registrar_jcard)
       [''registrar''] [\<lparr>p_Type = ''IANA Registrar ID'', p_Identifier = d_Registrar d\<rparr>] [] False"

definition registrant_entity :: "Domain \<Rightarrow> DomainAggregate option \<Rightarrow> Entity" where
  "registrant_entity d agg =
     (let mk = (\<lambda>handle jc. Entity (Common ''entity'' handle [] [] [] [] [] [] [''active'']) jc
                  [''registrant''] [] [] False)
      in case agg of
           None \<Rightarrow> mk ''REG1-NAME'' example_registrant_jcard
         | Some a \<Rightarrow>
             (case map_get (d_Contacts d) RoleRegistrant of
                [] \<Rightarrow> mk ''REG1-NAME'' example_registrant_jcard
              | h # _ \<Rightarrow>
                  (case map_of (agg_Contacts a) h of
                     Some c \<Rightarrow> mk h (vcardToJCard (c_VCard c) (c_Handle c))
                   | None \<Rightarrow> mk h example_registrant_jcard)))"

definition domain_events :: "Domain \<Rightarrow> string \<Rightarrow> Event_R list" where
  "domain_events d mode =
     [mk_Event ''registration'' (FormatTime (md_CreatedAt (d_Metadata d))),
      mk_Event ''last changed'' (FormatTime (md_UpdatedAt (d_Metadata d))),
      mk_Event ''expiration'' (FormatTime (d_ExpiresAt d)),
      mk_Event ''last update of RDAP database'' (FormatTime (md_UpdatedAt (d_Metadata d)))]
     @ (if mode = ''registrar'' then [mk_Event ''registrar expiration'' (FormatTime (d_ExpiresAt d))] else [])"

definition secure_dns :: "Domain \<Rightarrow> SecureDNS_R" where
  "secure_dns d =
     (case d_SecureDNS d of
        None \<Rightarrow> \<lparr>ZoneSigned = False, DelegationSigned = False, MaxSigLife = None, dsData = [], keyData = []\<rparr>
      | Some s \<Rightarrow> \<lparr>ZoneSigned = sd_ZoneSigned s, DelegationSigned = sd_DelegationSigned s,
                   MaxSigLife = sd_MaxSigLife s, dsData = [], keyData = []\<rparr>)"

definition domainToRDAP ::
  "Domain \<Rightarrow> DomainAggregate option \<Rightarrow> string \<Rightarrow> string \<Rightarrow> string \<Rightarrow> string \<Rightarrow> NoticeOptions option \<Rightarrow>
   extensions option \<Rightarrow> Domain_R" where
  "domainToRDAP d agg baseURL requestURL registrarBaseURL mode opts ext =
     (let entities = registrar_entity d agg registrarBaseURL
                     # (if mode = ''registrar'' then [registrant_entity d agg] else []);
          ttl = (case ext of Some e \<Rightarrow> ext_ttl0 e | None \<Rightarrow> False)
      in \<lparr>Domain_Common = Common ''domain'' (d_Handle d)
            [mk_Link requestURL ''self'' (baseURL @ ''/domain/'' @ d_LDHName d) rdap_json,
             mk_Link requestURL ''related''
               (TrimRight registrarBaseURL (CHR ''/'') @ ''/domain/'' @ d_LDHName d) rdap_json]
            (domain_events d mode) [] [] [] entities (statusValues (d_Status d)),
          Domain_Conformance =
            (if ttl then WithExtensions NewConformance2024 [''ttl0''] else NewConformance2024),
          Domain_LDHName = d_LDHName d, Domain_UnicodeName = d_UnicodeName d, Variants = [],
          Nameservers = map (embedded_ns baseURL ext) (d_Nameservers d),
          SecureDNS_of = Some (secure_dns d), Network = None,
          Domain_Notices = NewNoticesWithICANN requestURL baseURL opts, Domain_PublicIDs = [],
          Domain_TTL0Data =
            (case ext of
               Some e \<Rightarrow> if ext_ttl0 e then ttl0Data (ext_ttl0Domain e) (ext_ttl0Remarks e) else None
             | None \<Rightarrow> None)\<rparr>)"

subsection \<open>The service\<close>

record Service =
  svc_store :: Interface
  svc_cfg :: RDAPConfig
  svc_ext :: extensions

definition New_Service :: "Interface \<Rightarrow> RDAPConfig \<Rightarrow> Service" where
  "New_Service st cfg = \<lparr>svc_store = st, svc_cfg = cfg, svc_ext = extensionsFromConfig cfg\<rparr>"

definition NoticeOptionsFromConfig :: "RDAPConfig \<Rightarrow> NoticeOptions option" where
  "NoticeOptionsFromConfig cfg =
     Some \<lparr>ToSTitle = (case ToS cfg of None \<Rightarrow> [] | Some t \<Rightarrow> ToS_Title t),
           ToSDescription = (case ToS cfg of None \<Rightarrow> [] | Some t \<Rightarrow> ToS_Description t),
           ToSURL = (case ToS cfg of None \<Rightarrow> [] | Some t \<Rightarrow> ToS_URL t),
           Custom = map (\<lambda>c. \<lparr>Custom_Title = cn_Title c, Custom_Description = cn_Description c,
                               Custom_URL = cn_URL c, Custom_Rel = cn_Rel c\<rparr>) (CustomNotices cfg)\<rparr>"

definition Service_NoticeOptions :: "Service \<Rightarrow> NoticeOptions option" where
  "Service_NoticeOptions s = NoticeOptionsFromConfig (svc_cfg s)"

definition Service_BaseURL :: "Service \<Rightarrow> string" where
  "Service_BaseURL s = BaseURL (svc_cfg s)"

definition DomainToRDAP :: "Service \<Rightarrow> Domain \<Rightarrow> string \<Rightarrow> Domain_R" where
  "DomainToRDAP s d requestURL =
     domainToRDAP d None (BaseURL (svc_cfg s)) requestURL (RegistrarBaseURL (svc_cfg s)) (Mode (svc_cfg s))
       (Service_NoticeOptions s) (Some (svc_ext s))"

definition DomainAggregateToRDAP :: "Service \<Rightarrow> DomainAggregate \<Rightarrow> string \<Rightarrow> Domain_R" where
  "DomainAggregateToRDAP s agg requestURL =
     domainToRDAP (agg_Domain agg) (Some agg) (BaseURL (svc_cfg s)) requestURL
       (RegistrarBaseURL (svc_cfg s)) (Mode (svc_cfg s)) (Service_NoticeOptions s) (Some (svc_ext s))"

definition EntityToRDAP :: "Service \<Rightarrow> Contact \<Rightarrow> string \<Rightarrow> Entity" where
  "EntityToRDAP s c requestURL = entityToRDAP c (BaseURL (svc_cfg s))"

definition NameserverToRDAP :: "Service \<Rightarrow> NameServer \<Rightarrow> string \<Rightarrow> Nameserver" where
  "NameserverToRDAP s ns requestURL = nameserverToRDAP ns (BaseURL (svc_cfg s)) (Some (svc_ext s))"

definition IPNetworkToRDAP :: "Service \<Rightarrow> IPNetwork \<Rightarrow> string \<Rightarrow> IPNetwork_R" where
  "IPNetworkToRDAP s n requestURL = ipNetworkToRDAP n (BaseURL (svc_cfg s)) (Some (svc_ext s))"

definition Service_LookupDomain :: "Service \<Rightarrow> string \<Rightarrow> string \<Rightarrow> Domain_R result" where
  "Service_LookupDomain s name requestURL =
     (case if_GetDomainAggregate (svc_store s) name of
        Inl err \<Rightarrow> Inl err
      | Inr agg \<Rightarrow> Inr (DomainAggregateToRDAP s agg requestURL))"

definition Service_LookupEntity :: "Service \<Rightarrow> string \<Rightarrow> string \<Rightarrow> Entity result" where
  "Service_LookupEntity s handle requestURL =
     (case if_LookupContact (svc_store s) handle of
        Inl err \<Rightarrow> Inl err
      | Inr c \<Rightarrow> Inr (EntityToRDAP s c requestURL))"

definition Service_LookupNameserver :: "unicode \<Rightarrow> Service \<Rightarrow> string \<Rightarrow> string \<Rightarrow> Nameserver result" where
  "Service_LookupNameserver U s name requestURL =
     (case if_LookupNameserver (svc_store s) (ToLower U name) of
        Inl err \<Rightarrow> Inl err
      | Inr ns \<Rightarrow> Inr (NameserverToRDAP s ns requestURL))"

definition Service_LookupIPNetwork :: "Service \<Rightarrow> string \<Rightarrow> string \<Rightarrow> IPNetwork_R result" where
  "Service_LookupIPNetwork s cidr requestURL =
     (case if_LookupIPNetwork (svc_store s) cidr of
        Inl err \<Rightarrow> Inl err
      | Inr n \<Rightarrow> Inr (IPNetworkToRDAP s n requestURL))"

text \<open>The mapping loop of every search: a slice of the same length, in order.\<close>

definition map_result :: "('a \<Rightarrow> 'b) \<Rightarrow> 'a list result \<Rightarrow> 'b list result" where
  "map_result f r = (case r of Inl err \<Rightarrow> Inl err | Inr xs \<Rightarrow> Inr (map f xs))"

definition Service_SearchDomainsByName :: "Service \<Rightarrow> string \<Rightarrow> int \<Rightarrow> string \<Rightarrow> Domain_R list result" where
  "Service_SearchDomainsByName s pattern limit requestURL =
     map_result (\<lambda>d. DomainToRDAP s d requestURL) (if_SearchDomainsByName (svc_store s) pattern limit)"

definition Service_SearchDomainsByNS :: "Service \<Rightarrow> string \<Rightarrow> int \<Rightarrow> string \<Rightarrow> Domain_R list result" where
  "Service_SearchDomainsByNS s nsName limit requestURL =
     map_result (\<lambda>d. DomainToRDAP s d requestURL) (if_SearchDomainsByNS (svc_store s) nsName limit)"

definition Service_SearchEntitiesByName :: "Service \<Rightarrow> string \<Rightarrow> int \<Rightarrow> string \<Rightarrow> Entity list result" where
  "Service_SearchEntitiesByName s pattern limit requestURL =
     map_result (\<lambda>c. EntityToRDAP s c requestURL) (if_SearchContactsByName (svc_store s) pattern limit)"

definition Service_SearchEntitiesByHandle :: "Service \<Rightarrow> string \<Rightarrow> int \<Rightarrow> string \<Rightarrow> Entity list result" where
  "Service_SearchEntitiesByHandle s pattern limit requestURL =
     map_result (\<lambda>c. EntityToRDAP s c requestURL) (if_SearchContactsByHandle (svc_store s) pattern limit)"

definition Service_SearchNameserversByName ::
  "Service \<Rightarrow> string \<Rightarrow> int \<Rightarrow> string \<Rightarrow> Nameserver list result" where
  "Service_SearchNameserversByName s pattern limit requestURL =
     map_result (\<lambda>n. NameserverToRDAP s n requestURL) (if_SearchNameserversByName (svc_store s) pattern limit)"

definition Service_SearchNameserversByIP ::
  "Service \<Rightarrow> string \<Rightarrow> int \<Rightarrow> string \<Rightarrow> Nameserver list result" where
  "Service_SearchNameserversByIP s ip limit requestURL =
     map_result (\<lambda>n. NameserverToRDAP s n requestURL) (if_SearchNameserversByIP (svc_store s) ip limit)"

definition Service_ReverseSearchDomainsByEntity ::
  "Service \<Rightarrow> string \<Rightarrow> string \<Rightarrow> int \<Rightarrow> string \<Rightarrow> Domain_R list result" where
  "Service_ReverseSearchDomainsByEntity s property pattern limit requestURL =
     (if \<not> ext_reverseSearch (svc_ext s) then Inl ErrReverseSearchUnsupported
      else map_result (\<lambda>d. DomainToRDAP s d requestURL)
             (if_ReverseSearchDomainsByEntity (svc_store s) property pattern limit))"

definition ReverseSearchProperties :: "Service \<Rightarrow> ReverseSearchProperty list" where
  "ReverseSearchProperties s =
     (if \<not> ext_reverseSearch (svc_ext s) then []
      else map (\<lambda>p. \<lparr>SearchableResourceType = ''domains'', RelatedResourceType = ''entity'',
                     rsp_Property = p\<rparr>) [''handle'', ''role'', ''fn'', ''email''])"

definition quoted :: "string \<Rightarrow> string" where
  "quoted s = [CHR 0x27] @ s @ [CHR 0x27]"

definition reverse_paths :: "(string, string) gomap" where
  "reverse_paths =
     [(''handle'', ''$.entities[*].handle''),
      (''role'', ''$.entities[*].roles''),
      (''fn'', ''$.entities[*].vcardArray[1][?(@[0]=='' @ quoted ''fn'' @ '')][3]''),
      (''email'', ''$.entities[*].vcardArray[1][?(@[0]=='' @ quoted ''email'' @ '')][3]'')]"

definition ReverseSearchMapping :: "string list \<Rightarrow> ReverseSearchPropertiesMapping list" where
  "ReverseSearchMapping properties =
     List.map_filter
       (\<lambda>p. map_option (\<lambda>path. \<lparr>rsm_Property = p, PropertyPath = path\<rparr>) (map_of reverse_paths p)) properties"

lemmas service_objects =
  jprop_def adr_value_def tel_params_def jcard_def fn_of_def adr_prop_def opt_prop_def vcardToJCard_def
  statusValues_def roleStrings_def publicIDsToRDAP_def ttl0Data_def cidr0FromCIDR_def ns_url_def
  self_link_def embedded_ns_def nameserverToRDAP_def entityToRDAP_def ipNetworkToRDAP_def
  example_registrar_jcard_def abuse_entity_def example_registrant_jcard_def registrar_entity_def
  registrant_entity_def domain_events_def secure_dns_def domainToRDAP_def

lemmas service_ops =
  New_Service_def Service_NoticeOptions_def NoticeOptionsFromConfig_def Service_BaseURL_def
  DomainToRDAP_def DomainAggregateToRDAP_def EntityToRDAP_def NameserverToRDAP_def IPNetworkToRDAP_def
  Service_LookupDomain_def Service_LookupEntity_def Service_LookupNameserver_def
  Service_LookupIPNetwork_def map_result_def Service_SearchDomainsByName_def
  Service_SearchDomainsByNS_def Service_SearchEntitiesByName_def Service_SearchEntitiesByHandle_def
  Service_SearchNameserversByName_def Service_SearchNameserversByIP_def
  Service_ReverseSearchDomainsByEntity_def ReverseSearchProperties_def quoted_def reverse_paths_def
  ReverseSearchMapping_def

lemmas service_eval [go_eval] = extensionsFromConfig_def service_objects service_ops

subsection \<open>jCard validity\<close>

text \<open>
  The schema a jCard must satisfy (RFC 7095): the literal \<open>vcard\<close> and a list of four-element
  properties, the first of them the version, exactly one of them the full name.
\<close>

fun prop_name :: "json \<Rightarrow> string option" where
  "prop_name (JArr [JStr name, JObj params, JStr type, value]) = Some name"
| "prop_name _ = None"

fun props_of :: "json list \<Rightarrow> json list option" where
  "props_of [JStr tag, JArr props] = (if tag = ''vcard'' then Some props else None)"
| "props_of _ = None"

definition jcard_ok :: "json list \<Rightarrow> bool" where
  "jcard_ok jc =
     (case props_of jc of
        None \<Rightarrow> False
      | Some props \<Rightarrow>
          list_all (\<lambda>p. prop_name p \<noteq> None) props \<and>
          take 1 props = [jprop ''version'' [] ''text'' (JStr ''4.0'')] \<and>
          length (filter (\<lambda>p. prop_name p = Some ''fn'') props) = 1)"

lemma prop_name_jprop [simp]: "prop_name (jprop n ps t v) = Some n"
  by (simp add: jprop_def)

lemma props_of_jcard [simp]: "props_of (jcard ps) = Some ps"
  by (simp add: jcard_def)

lemma prop_name_adr [simp]: "prop_name (adr_prop a) = Some ''adr''"
  by (simp add: adr_prop_def)

lemma list_all_opt_prop [simp]: "list_all P (opt_prop v p) \<longleftrightarrow> v = [] \<or> P p"
  by (simp add: opt_prop_def)

lemma filter_opt_prop [simp]: "filter P (opt_prop v p) = (if P p then opt_prop v p else [])"
  by (simp add: opt_prop_def)

lemma vcardToJCard_ok [simp]: "jcard_ok (vcardToJCard v h)"
proof (cases v)
  case (Some c)
  then show ?thesis
    by (cases "vc_Address c") (simp_all add: jcard_ok_def vcardToJCard_def Let_def)
qed (simp add: jcard_ok_def vcardToJCard_def)

lemma example_jcards_ok [simp]:
  "jcard_ok example_registrar_jcard" "jcard_ok example_registrant_jcard" "jcard_ok (VCardArray abuse_entity)"
  by (simp_all add: jcard_ok_def example_registrar_jcard_def example_registrant_jcard_def abuse_entity_def)

lemma registrant_entity_fields:
  "Roles (registrant_entity d agg) = [''registrant'']" "jcard_ok (VCardArray (registrant_entity d agg))"
  "Entities (Entity_Common (registrant_entity d agg)) = []"
  by (simp_all add: registrant_entity_def Let_def split: option.split list.split)

lemma registrar_entity_fields:
  "Roles (registrar_entity d agg u) = [''registrar'']" "jcard_ok (VCardArray (registrar_entity d agg u))"
  "Entities (Entity_Common (registrar_entity d agg u)) = [abuse_entity]"
  "Handle (Entity_Common (registrar_entity d agg u)) = d_Registrar d"
  by (simp_all add: registrar_entity_def split: option.split)

lemma domainToRDAP_entities:
  "Entities (Domain_Common (domainToRDAP d agg base url rbase mode opts ext)) =
     registrar_entity d agg rbase # (if mode = ''registrar'' then [registrant_entity d agg] else [])"
  by (simp add: domainToRDAP_def Let_def)

lemma domainToRDAP_events:
  "Events (Domain_Common (domainToRDAP d agg base url rbase mode opts ext)) = domain_events d mode"
  by (simp add: domainToRDAP_def Let_def)

lemma registrar_expiration:
  "(\<exists>e \<in> set (domain_events d mode). EventAction e = ''registrar expiration'') \<longleftrightarrow> mode = ''registrar''"
  by (auto simp: domain_events_def mk_Event_def)

lemma ttl0Data_Some: "ttl0Data vs rs = Some t \<longleftrightarrow> vs \<noteq> [] \<and> t = \<lparr>t_Values = vs, t_Remarks = rs\<rparr>"
  by (auto simp: ttl0Data_def)

lemma bounded_map_result: "bounded limit r \<Longrightarrow> bounded limit (map_result f r)"
  by (simp add: map_result_def bounded_def split: sum.splits)

subsection \<open>Over any backend\<close>

context bounded_store
begin

lemma service_bounded:
  assumes "svc_store s = st" "limit > 0"
  shows "bounded limit (Service_SearchDomainsByName s p limit url)"
    and "bounded limit (Service_SearchDomainsByNS s p limit url)"
    and "bounded limit (Service_SearchEntitiesByName s p limit url)"
    and "bounded limit (Service_SearchEntitiesByHandle s p limit url)"
    and "bounded limit (Service_SearchNameserversByName s p limit url)"
    and "bounded limit (Service_SearchNameserversByIP s p limit url)"
    and "bounded limit (Service_ReverseSearchDomainsByEntity s prp p limit url)"
  using assms domains_by_name domains_by_ns contacts_by_name contacts_by_handle nameservers_by_name
    nameservers_by_ip reverse
  by (simp_all add: Service_SearchDomainsByName_def Service_SearchDomainsByNS_def
      Service_SearchEntitiesByName_def Service_SearchEntitiesByHandle_def
      Service_SearchNameserversByName_def Service_SearchNameserversByIP_def
      Service_ReverseSearchDomainsByEntity_def bounded_map_result)

end

context snapshot_store
begin

text \<open>The registrar entity of a domain response shows the contact a separate lookup would return.\<close>

lemma lookup_registrar:
  assumes "svc_store s = st" and "Service_LookupDomain s name url = Inr r"
  obtains d where "if_LookupDomain st name = Inr d" "Domain_LDHName r = d_LDHName d"
    "d_Registrar d \<noteq> [] \<Longrightarrow> VCardArray (hd (Entities (Domain_Common r))) =
       (case if_LookupContact st (d_Registrar d) of
          Inr c \<Rightarrow> vcardToJCard (c_VCard c) (c_Handle c)
        | Inl _ \<Rightarrow> example_registrar_jcard)"
proof -
  obtain agg where agg: "if_GetDomainAggregate st name = Inr agg"
    and r: "r = DomainAggregateToRDAP s agg url"
    using assms by (auto simp: Service_LookupDomain_def split: sum.splits)
  let ?d = "agg_Domain agg"
  have card: "VCardArray (hd (Entities (Domain_Common r))) =
      (case agg_Registrar agg of Some c \<Rightarrow> vcardToJCard (c_VCard c) (c_Handle c)
       | None \<Rightarrow> example_registrar_jcard)"
    by (simp add: r DomainAggregateToRDAP_def domainToRDAP_entities registrar_entity_def)
  have "VCardArray (hd (Entities (Domain_Common r))) =
       (case if_LookupContact st (d_Registrar ?d) of
          Inr c \<Rightarrow> vcardToJCard (c_VCard c) (c_Handle c) | Inl _ \<Rightarrow> example_registrar_jcard)"
    if reg: "d_Registrar ?d \<noteq> []"
  proof (cases "agg_Registrar agg")
    case None
    then show ?thesis using card aggregate_no_registrar [OF agg _ reg] by auto
  next
    case (Some c)
    then show ?thesis
      using card aggregate_contacts [OF agg aggregate_registrar [OF agg Some]] by simp
  qed
  moreover have "Domain_LDHName r = d_LDHName ?d"
    by (simp add: r DomainAggregateToRDAP_def domainToRDAP_def Let_def)
  ultimately show thesis using that aggregate_domain [OF agg] by blast
qed

end

subsection \<open>Properties\<close>

text \<open>
  Role separation by mode. Every domain response carries the registrar entity first; the registrant
  entity and the \<open>registrar expiration\<close> event are there exactly when the server runs in registrar
  mode, and no other entity is.
\<close>

theorem domainToRDAP_mode:
  "let r = domainToRDAP d agg base url rbase mode opts ext in
     map Roles (Entities (Domain_Common r)) =
       [''registrar''] # (if mode = ''registrar'' then [[''registrant'']] else []) \<and>
     Handle (Entity_Common (hd (Entities (Domain_Common r)))) = d_Registrar d \<and>
     ((\<exists>e \<in> set (Events (Domain_Common r)). EventAction e = ''registrar expiration'') \<longleftrightarrow>
        mode = ''registrar'')"
  unfolding Let_def domainToRDAP_entities domainToRDAP_events registrar_expiration
  by (simp add: registrar_entity_fields registrant_entity_fields)

text \<open>
  C2. In registry mode, as long as the resolved registrar is the same contact, a domain response is the same
  for every contact map of the aggregate and every contact assignment of the domain: the registrant and
  the other contacts reach it in no way but as the registrar. (Where a store makes the registrant the
  registrar, as the relational ones do, the response shows that card under the registrar role.)
\<close>

theorem domainToRDAP_registry_private:
  assumes "mode \<noteq> ''registrar''" and "agg_Registrar agg = agg_Registrar agg'"
  shows "domainToRDAP (d\<lparr>d_Contacts := cs\<rparr>) (Some agg) base url rbase mode opts ext =
         domainToRDAP d (Some agg') base url rbase mode opts ext"
proof -
  have "registrar_entity (d\<lparr>d_Contacts := cs\<rparr>) (Some agg) rbase = registrar_entity d (Some agg') rbase"
    using assms(2) by (simp add: registrar_entity_def)
  moreover have "domain_events (d\<lparr>d_Contacts := cs\<rparr>) mode = domain_events d mode"
    "secure_dns (d\<lparr>d_Contacts := cs\<rparr>) = secure_dns d"
    by (simp_all add: domain_events_def secure_dns_def)
  ultimately show ?thesis using assms(1) by (simp add: domainToRDAP_def Let_def)
qed

theorem domainToRDAP_registry_private_witness:
  "let d = \<lparr>d_Handle = ''D1'', d_LDHName = ''a.b'', d_UnicodeName = ''a.b'', d_TLD = ''b'', d_Status = [],
            d_ExpiresAt = zero_time, d_Contacts = [], d_Nameservers = [], d_SecureDNS = None,
            d_Registrar = ''R1'', d_Metadata = zero_Metadata\<rparr>;
       c = Contact ''P1'' [] [] (Some (zero_VCard\<lparr>vc_FullName := ''Jo''\<rparr>)) [] [] [] [] [] zero_Metadata;
       a = \<lparr>agg_Domain = d, agg_Registrar = None, agg_Contacts = [(''P1'', c)], agg_Nameservers = []\<rparr>
   in domainToRDAP (d\<lparr>d_Contacts := [(RoleRegistrant, [''P1''])]\<rparr>) (Some a) ''b'' ''u'' ''r'' ''registry'' None None =
      domainToRDAP d (Some (a\<lparr>agg_Contacts := []\<rparr>)) ''b'' ''u'' ''r'' ''registry'' None None"
  unfolding Let_def by (rule domainToRDAP_registry_private) simp_all

text \<open>
  C31. Every entity of a domain response, the nested abuse contact included, carries a valid jCard, also
  when the stored contact has no vCard or no name; the full name is then the handle.
\<close>

theorem domainToRDAP_jcards:
  "let r = domainToRDAP d agg base url rbase mode opts ext in
     list_all (\<lambda>e. jcard_ok (VCardArray e) \<and> list_all (\<lambda>e'. jcard_ok (VCardArray e')) (Entities (Entity_Common e)))
       (Entities (Domain_Common r)) \<and>
     (\<forall>c. agg = Some a \<and> agg_Registrar a = Some c \<longrightarrow>
        jprop ''fn'' [] ''text''
          (JStr (case c_VCard c of None \<Rightarrow> c_Handle c
                 | Some v \<Rightarrow> if vc_FullName v = [] then c_Handle c else vc_FullName v))
        \<in> set (the (props_of (VCardArray (hd (Entities (Domain_Common r)))))))"
proof -
  have fn: "jprop ''fn'' [] ''text'' (JStr (fn_of v h)) \<in> set (the (props_of (vcardToJCard v h)))" for v h
    by (simp add: vcardToJCard_def Let_def split: option.split)
  have "fn_of v h = (case v of None \<Rightarrow> h | Some c \<Rightarrow> if vc_FullName c = [] then h else vc_FullName c)" for v h
    by (simp add: fn_of_def Let_def split: option.split)
  with fn show ?thesis
    unfolding Let_def domainToRDAP_entities
    by (auto simp: registrar_entity_fields registrant_entity_fields) (simp add: registrar_entity_def)
qed

theorem domainToRDAP_jcards_witness:
  "let c = Contact ''R1'' [] [] None [] [] [] [] [] zero_Metadata;
       d = \<lparr>d_Handle = ''D1'', d_LDHName = ''a.b'', d_UnicodeName = ''a.b'', d_TLD = ''b'', d_Status = [],
            d_ExpiresAt = zero_time, d_Contacts = [], d_Nameservers = [], d_SecureDNS = None,
            d_Registrar = ''R1'', d_Metadata = zero_Metadata\<rparr>;
       a = \<lparr>agg_Domain = d, agg_Registrar = Some c, agg_Contacts = [(''R1'', c)], agg_Nameservers = []\<rparr>;
       r = domainToRDAP d (Some a) ''b'' ''u'' ''r'' ''registrar'' None None
   in jprop ''fn'' [] ''text'' (JStr ''R1'') \<in> set (the (props_of (VCardArray (hd (Entities (Domain_Common r))))))"
proof -
  let ?c = "Contact ''R1'' [] [] None [] [] [] [] [] zero_Metadata"
  let ?d = "\<lparr>d_Handle = ''D1'', d_LDHName = ''a.b'', d_UnicodeName = ''a.b'', d_TLD = ''b'', d_Status = [],
            d_ExpiresAt = zero_time, d_Contacts = [], d_Nameservers = [], d_SecureDNS = None,
            d_Registrar = ''R1'', d_Metadata = zero_Metadata\<rparr>"
  let ?a = "\<lparr>agg_Domain = ?d, agg_Registrar = Some ?c, agg_Contacts = [(''R1'', ?c)], agg_Nameservers = []\<rparr>"
  from domainToRDAP_jcards [of ?d "Some ?a" "''b''" "''u''" "''r''" "''registrar''" None None ?a, unfolded Let_def, THEN conjunct2,
    THEN spec [of _ ?c]]
  show ?thesis by (simp add: Let_def)
qed

text \<open>
  The \<open>ttl0\<close> extension is declared exactly when it is enabled, its member is emitted only then and
  never empty, on the domain and on its nameservers; the declaration changes nothing else in the
  conformance list.
\<close>

theorem domainToRDAP_ttl0:
  "let r = domainToRDAP d agg base url rbase mode opts (Some ext) in
     conf (Domain_Conformance r) = conf NewConformance2024 @ (if ext_ttl0 ext then [''ttl0''] else []) \<and>
     Domain_TTL0Data r =
       (if ext_ttl0 ext \<and> ext_ttl0Domain ext \<noteq> []
        then Some \<lparr>t_Values = ext_ttl0Domain ext, t_Remarks = ext_ttl0Remarks ext\<rparr> else None) \<and>
     map Nameserver_TTL0Data (Nameservers r) =
       replicate (length (d_Nameservers d))
         (if ext_ttl0 ext \<and> ext_ttl0NS ext \<noteq> []
          then Some \<lparr>t_Values = ext_ttl0NS ext, t_Remarks = ext_ttl0Remarks ext\<rparr> else None)"
  by (simp add: Let_def domainToRDAP_def WithExtensions_def NewConformance2024_def ttl0Data_def embedded_ns_def
      comp_def map_replicate_const)

end
