(* ===== verification/Http.thy ===== *)
theory Http
  imports RdapModel GoNet
begin

section \<open>HTTP requests, response writers and handlers\<close>

text \<open>
  What the handlers and the middleware use of \<open>net/http\<close>. A request is a record of the fields the
  code reads, with the three context values the code stores (request id, client IP, claims). A
  \<open>ResponseWriter\<close> is a record: the header map, the status codes passed to \<open>WriteHeader\<close> in order
  (only the first is sent; the header sent is the one at that moment), and the body. A JSON body is
  the value handed to the encoder, not its text.

  A handler is state passing: it takes the request and a state made of the server's own state
  (of any type), the writer and the log, and returns the new state; a panic is a flag of the state,
  which stops everything up to the recoverer.
\<close>

record Claims =
  Subject :: string
  cl_Issuer :: string
  cl_Audience :: "string list"
  Expiry :: int
  cl_IssuedAt :: int
  Scope :: string
  AllowedPurposes :: "string list"
  DoNotTrackAllowed :: bool

record request =
  Method :: string
  Host :: string
  TLS :: bool
  Header :: "(string, string list) gomap"
  URL_Path :: string
  RawQuery :: string
  RemoteAddr :: string
  URLParams :: "(string, string) gomap"
  ctx_request_id :: "string option"
  ctx_client_ip :: "string option"
  ctx_claims :: "Claims option"

definition Header_Get :: "request \<Rightarrow> string \<Rightarrow> string" where
  "Header_Get r k = (case map_get (Header r) k of [] \<Rightarrow> [] | v # _ \<Rightarrow> v)"

definition URLParam :: "request \<Rightarrow> string \<Rightarrow> string" where
  "URLParam r k = (case map_of (URLParams r) k of None \<Rightarrow> [] | Some v \<Rightarrow> v)"

definition Query_Get :: "request \<Rightarrow> string \<Rightarrow> string" where
  "Query_Get r k = query_Get (RawQuery r) k"

datatype body =
    BText string
  | BHelp Help
  | BDomain Domain_R
  | BEntity EntityResponse
  | BNameserver NameserverResponse
  | BIPNetwork IPNetworkResponse
  | BAutnum AutnumResponse
  | BDomains DomainSearchResult
  | BEntities EntitySearchResult
  | BNameservers NameserverSearchResult
  | BError ErrorResponse

record writer =
  w_header :: "(string, string) gomap"
  w_codes :: "int list"
  w_sent :: "(string, string) gomap"
  w_body :: "body list"

definition new_writer :: writer where
  "new_writer = \<lparr>w_header = [], w_codes = [], w_sent = [], w_body = []\<rparr>"

definition Header_Set :: "string \<Rightarrow> string \<Rightarrow> writer \<Rightarrow> writer" where
  "Header_Set k v w = w\<lparr>w_header := map_put k v (w_header w)\<rparr>"

definition Header_Del :: "string \<Rightarrow> writer \<Rightarrow> writer" where
  "Header_Del k w = w\<lparr>w_header := filter (\<lambda>(k', _). k' \<noteq> k) (w_header w)\<rparr>"

definition WriteHeader :: "int \<Rightarrow> writer \<Rightarrow> writer" where
  "WriteHeader code w =
     w\<lparr>w_codes := w_codes w @ [code],
       w_sent := (if w_codes w = [] then w_header w else w_sent w)\<rparr>"

definition Write_body :: "body \<Rightarrow> writer \<Rightarrow> writer" where
  "Write_body b w =
     (let w' = (if w_codes w = [] then WriteHeader 200 w else w) in w'\<lparr>w_body := w_body w' @ [b]\<rparr>)"

text \<open>The status and the header field a client sees.\<close>

definition status_of :: "writer \<Rightarrow> int" where
  "status_of w = (case w_codes w of [] \<Rightarrow> 200 | c # _ \<Rightarrow> c)"

definition sent_header :: "writer \<Rightarrow> string \<Rightarrow> string option" where
  "sent_header w k = map_of (w_sent w) k"

definition http_Error :: "string \<Rightarrow> int \<Rightarrow> writer \<Rightarrow> writer" where
  "http_Error msg code w =
     Write_body (BText (msg @ [CHR 0x0A]))
       (WriteHeader code
         (Header_Set ''X-Content-Type-Options'' ''nosniff''
           (Header_Set ''Content-Type'' ''text/plain; charset=utf-8''
             (Header_Del ''Content-Length'' w))))"

record log_entry =
  log_method :: string
  log_path :: string
  log_status :: int
  log_remote :: string
  log_user_agent :: string

record 's http =
  srv :: 's
  out :: writer
  logs :: "log_entry list"
  panicked :: bool

type_synonym 's handler = "request \<Rightarrow> 's http \<Rightarrow> 's http"
type_synonym 's middleware = "'s handler \<Rightarrow> 's handler"

text \<open>A handler that only writes a response.\<close>

definition respond :: "(request \<Rightarrow> writer \<Rightarrow> writer) \<Rightarrow> 's handler" where
  "respond f r h = h\<lparr>out := f r (out h)\<rparr>"

text \<open>\<open>r.Use(m1); r.Use(m2)\<close>: the first is the outermost.\<close>

fun chain :: "'s middleware list \<Rightarrow> 's handler \<Rightarrow> 's handler" where
  "chain [] h = h"
| "chain (m # ms) h = m (chain ms h)"

lemmas http_eval [go_eval] =
  Header_Get_def URLParam_def Query_Get_def new_writer_def Header_Set_def Header_Del_def
  WriteHeader_def Write_body_def status_of_def sent_header_def http_Error_def respond_def

subsection \<open>Lemmas\<close>

lemma map_of_filter_key:
  "map_of (filter (\<lambda>(k', _). k' \<noteq> k) m) x = (if x = k then None else map_of m x)"
proof (induction m)
  case (Cons e m)
  obtain a b where "e = (a, b)" by (cases e)
  with Cons show ?case by auto
qed simp

lemma http_Error_first:
  assumes "w_codes w = []"
  shows "status_of (http_Error msg code w) = code"
    and "sent_header (http_Error msg code w) ''Content-Type'' = Some ''text/plain; charset=utf-8''"
    and "k \<notin> {''Content-Type'', ''X-Content-Type-Options'', ''Content-Length''} \<Longrightarrow>
         sent_header (http_Error msg code w) k = map_of (w_header w) k"
    and "w_body (http_Error msg code w) = w_body w @ [BText (msg @ [CHR 0x0A])]"
  using assms
  by (auto simp: http_Error_def status_of_def sent_header_def Write_body_def WriteHeader_def
      Header_Set_def Header_Del_def map_of_filter_key Let_def)

lemma chain_append: "chain (ms @ ns) h = chain ms (chain ns h)"
  by (induction ms) auto

end
