(* ===== verification/GoRegexp.thy ===== *)
theory GoRegexp
  imports GoBase
begin

section \<open>Regular expressions of the fragment the store builds\<close>

text \<open>
  The store turns a search pattern into the text of a regular expression and hands it to the
  package \<open>regexp\<close>. Modelled here is the fragment \<open>^ item* $\<close>, where an item is a literal ASCII byte,
  an escaped dot or the dot, followed by at most one of the operators \<open>* + ?\<close> (and possibly a lazy
  mark \<open>?\<close>, which does not change what an anchored expression matches); a dot matches any character
  but the newline. For an expression outside the fragment, and for a subject that is not ASCII (where
  a character is a rune, not a byte), the library's own answer is the argument \<open>regexp_lib\<close>.

  \<open>glob\<close> is the reference meaning of a wildcard pattern; \<open>match_glob_items\<close> says that the items of a
  translated pattern match what the pattern means.
\<close>

datatype atom = Lit char | AnyChar
datatype quant = One | Star | Plus | Opt

type_synonym item = "atom \<times> quant"

record regexp_lib =
  re_compile :: "string \<Rightarrow> string option"
  re_match :: "string \<Rightarrow> string \<Rightarrow> bool"

definition metachars :: string where
  "metachars = [CHR 0x5C] @ ''.+*?()|[]{}^$''"

definition plain :: "char \<Rightarrow> bool" where
  "plain c \<longleftrightarrow> byte c < 128 \<and> c \<notin> set metachars"

definition quant_of :: "char \<Rightarrow> quant option" where
  "quant_of c =
     (if c = CHR ''*'' then Some Star else if c = CHR ''+'' then Some Plus
      else if c = CHR ''?'' then Some Opt else None)"

text \<open>
  An operator after an atom, and the rest of the text; \<open>None\<close> for a nested repetition, which the
  library rejects.
\<close>

definition take_quant :: "string \<Rightarrow> (quant \<times> string) option" where
  "take_quant s =
     (case s of
        [] \<Rightarrow> Some (One, [])
      | c # cs \<Rightarrow>
          (case quant_of c of
             None \<Rightarrow> Some (One, s)
           | Some q \<Rightarrow>
               (let rest = (if cs \<noteq> [] \<and> hd cs = CHR ''?'' then tl cs else cs)
                in if rest \<noteq> [] \<and> quant_of (hd rest) \<noteq> None then None else Some (q, rest))))"

definition take_atom :: "string \<Rightarrow> (atom \<times> string) option" where
  "take_atom s =
     (case s of
        [] \<Rightarrow> None
      | c # cs \<Rightarrow>
          if c = CHR 0x5C then
            (if cs \<noteq> [] \<and> hd cs = CHR ''.'' then Some (Lit (CHR ''.''), tl cs) else None)
          else if c = CHR ''.'' then Some (AnyChar, cs)
          else if plain c then Some (Lit c, cs)
          else None)"

lemma take_atom_shorter: "take_atom s = Some (a, r) \<Longrightarrow> length r < length s"
  by (auto simp: take_atom_def split: list.splits if_splits)

lemma take_quant_shorter: "take_quant s = Some (q, r) \<Longrightarrow> length r \<le> length s"
  by (auto simp: take_quant_def Let_def split: list.splits option.splits if_splits)

text \<open>The text after the caret, up to and with the final dollar sign.\<close>

function parse_items :: "string \<Rightarrow> item list option" where
  "parse_items s =
     (if s = ''$'' then Some []
      else (case take_atom s of
              None \<Rightarrow> None
            | Some (a, r) \<Rightarrow>
                (case take_quant r of
                   None \<Rightarrow> None
                 | Some (q, r') \<Rightarrow> map_option ((#) (a, q)) (parse_items r'))))"
  by pat_completeness auto
termination
  by (relation "measure length") (auto dest!: take_atom_shorter take_quant_shorter)

declare parse_items.simps [simp del]

definition parse_re :: "string \<Rightarrow> item list option" where
  "parse_re s = (case s of [] \<Rightarrow> None | c # cs \<Rightarrow> if c = CHR ''^'' then parse_items cs else None)"

primrec atom_ok :: "atom \<Rightarrow> char \<Rightarrow> bool" where
  "atom_ok (Lit d) c = (c = d)"
| "atom_ok AnyChar c = (c \<noteq> CHR 0x0A)"

fun match_items :: "item list \<Rightarrow> string \<Rightarrow> bool" where
  "match_items [] s = (s = [])"
| "match_items ((a, One) # is) s = (case s of [] \<Rightarrow> False | c # cs \<Rightarrow> atom_ok a c \<and> match_items is cs)"
| "match_items ((a, Opt) # is) s =
     (match_items is s \<or> (case s of [] \<Rightarrow> False | c # cs \<Rightarrow> atom_ok a c \<and> match_items is cs))"
| "match_items ((a, Star) # is) s =
     (match_items is s \<or>
      (case s of [] \<Rightarrow> False | c # cs \<Rightarrow> atom_ok a c \<and> match_items ((a, Star) # is) cs))"
| "match_items ((a, Plus) # is) s =
     (case s of [] \<Rightarrow> False | c # cs \<Rightarrow> atom_ok a c \<and> match_items ((a, Star) # is) cs)"

text \<open>\<open>regexp.Compile\<close> and \<open>MatchString\<close>: a compiled expression is its match function.\<close>

definition Compile :: "regexp_lib \<Rightarrow> string \<Rightarrow> (string \<Rightarrow> bool) result" where
  "Compile R re =
     (case parse_re re of
        Some is \<Rightarrow> Inr (\<lambda>s. if isASCII s then match_items is s else re_match R re s)
      | None \<Rightarrow>
          (case re_compile R re of
             Some msg \<Rightarrow> Inl (Errorf msg)
           | None \<Rightarrow> Inr (re_match R re)))"

lemmas regexp_eval [go_eval] =
  metachars_def plain_def quant_of_def take_quant_def take_atom_def parse_items.simps parse_re_def
  Compile_def

subsection \<open>Wildcard patterns\<close>

text \<open>The reference: a star stands for any run of characters without a newline.\<close>

fun glob :: "string \<Rightarrow> string \<Rightarrow> bool" where
  "glob [] s = (s = [])"
| "glob (p # ps) s =
     (if p = CHR ''*''
      then glob ps s \<or> (case s of [] \<Rightarrow> False | c # cs \<Rightarrow> c \<noteq> CHR 0x0A \<and> glob (p # ps) cs)
      else (case s of [] \<Rightarrow> False | c # cs \<Rightarrow> c = p \<and> glob ps cs))"

definition glob_char :: "char \<Rightarrow> bool" where
  "glob_char c \<longleftrightarrow> plain c \<or> c = CHR ''.'' \<or> c = CHR ''*''"

definition item_of :: "char \<Rightarrow> item" where
  "item_of c = (if c = CHR ''*'' then (AnyChar, Star) else (Lit c, One))"

definition item_text :: "char \<Rightarrow> string" where
  "item_text c =
     (if c = CHR ''*'' then ''.*'' else if c = CHR ''.'' then [CHR 0x5C, CHR ''.''] else [c])"

lemma match_glob_items: "match_items (map item_of p) s = glob p s"
  by (induction p s rule: glob.induct) (auto simp: item_of_def split: list.splits)

lemma plain_quant: "plain c \<Longrightarrow> quant_of c = None"
  by (auto simp: plain_def metachars_def quant_of_def)

lemma quant_of_special: "quant_of (CHR 0x5C) = None" "quant_of (CHR ''.'') = None" "quant_of (CHR ''$'') = None"
  by (simp_all add: quant_of_def)

lemma item_text_hd: "glob_char c \<Longrightarrow> quant_of (hd (item_text c)) = None \<and> item_text c \<noteq> []"
  by (auto simp: item_text_def glob_char_def plain_quant quant_of_special)

lemma body_hd:
  assumes "list_all glob_char p"
  shows "quant_of (hd (concat (map item_text p) @ ''$'')) = None"
proof (cases p)
  case Nil
  then show ?thesis by (simp add: quant_of_special)
next
  case (Cons c cs)
  then show ?thesis using assms item_text_hd [of c] by (simp add: hd_append)
qed

lemma take_quant_none: "s \<noteq> [] \<Longrightarrow> quant_of (hd s) = None \<Longrightarrow> take_quant s = Some (One, s)"
  by (cases s) (simp_all add: take_quant_def)

lemma take_quant_star: "s \<noteq> [] \<Longrightarrow> quant_of (hd s) = None \<Longrightarrow> take_quant (CHR ''*'' # s) = Some (Star, s)"
  by (auto simp: take_quant_def quant_of_def split: if_splits)

lemma parse_glob_items:
  "list_all glob_char p \<Longrightarrow> parse_items (concat (map item_text p) @ ''$'') = Some (map item_of p)"
proof (induction p)
  case Nil
  then show ?case by (simp add: parse_items.simps)
next
  case (Cons c p)
  let ?r = "concat (map item_text p) @ ''$''"
  have r: "?r \<noteq> []" "quant_of (hd ?r) = None" using body_hd [of p] Cons.prems by auto
  have IH: "parse_items ?r = Some (map item_of p)" using Cons by simp
  consider "c = CHR ''*''" | "c = CHR ''.''" | "plain c"
    using Cons.prems by (auto simp: glob_char_def)
  then show ?case
  proof cases
    case 1
    have "take_atom (CHR ''.'' # CHR ''*'' # ?r) = Some (AnyChar, CHR ''*'' # ?r)"
      by (simp add: take_atom_def)
    then show ?thesis
      using 1 IH take_quant_star [OF r] by (subst parse_items.simps) (simp add: item_text_def item_of_def)
  next
    case 2
    have "take_atom (CHR 0x5C # CHR ''.'' # ?r) = Some (Lit (CHR ''.''), ?r)"
      by (simp add: take_atom_def)
    then show ?thesis
      using 2 IH take_quant_none [OF r] by (subst parse_items.simps) (simp add: item_text_def item_of_def)
  next
    case 3
    then have ne: "c \<noteq> CHR 0x5C" "c \<noteq> CHR ''.''" "c \<noteq> CHR ''*''"
      by (auto simp: plain_def metachars_def)
    have "take_atom (c # ?r) = Some (Lit c, ?r)"
      using 3 ne by (simp add: take_atom_def)
    then show ?thesis
      using ne IH take_quant_none [OF r] by (subst parse_items.simps) (simp add: item_text_def item_of_def)
  qed
qed

end
