(* ===== verification/MemoryStore.thy ===== *)
theory MemoryStore
  imports Store GoRegexp
begin

section \<open>The in-memory store\<close>

text \<open>
  \<open>internal/store/memory.go\<close>: the maps of the store as association lists, the seed data, every lookup
  and search, and the glob compiler. The read lock is not modelled: no operation writes after \<open>seed\<close>,
  which runs in the constructor, so there is nothing to exclude. \<open>time.Now\<close> and
  \<open>time.ParseDuration\<close> are arguments, and so are the Unicode tables \<open>U\<close> and the part \<open>R\<close> of the regular
  expression library outside the modelled fragment.

  \<open>mem_inv\<close> is the invariant of a store's content; the constructor establishes it. The theorems
  characterise every search by a reference definition (\<open>glob\<close>, filtering, taking).
\<close>

record MemoryStore =
  ms_domains :: "(string, Domain) gomap"
  ms_contacts :: "(string, Contact) gomap"
  ms_nameservers :: "(string, NameServer) gomap"
  ms_ipNetworks :: "(string, IPNetwork) gomap"
  ms_autnums :: "(int, Autnum) gomap"
  ms_domainByNS :: "(string, string list) gomap"
  ms_domainByEntity :: "(string, string list) gomap"
  ms_cacheTTL :: int
  ms_seeded :: bool

subsection \<open>Seed data\<close>

definition seed_metadata :: "gotime \<Rightarrow> Metadata" where
  "seed_metadata now =
     zero_Metadata\<lparr>md_Version := 1, md_CreatedAt := Add_sec now (- (365 * 24 * 3600)),
       md_UpdatedAt := now, md_Source := ''seed''\<rparr>"

definition seed_registrar :: "gotime \<Rightarrow> Contact" where
  "seed_registrar now =
     Contact ''2'' [RoleRegistrar] [mk_Status ''active'']
       (Some (zero_VCard\<lparr>vc_Version := ''4.0'', vc_FullName := ''Example Registrar Inc.'',
          vc_Kind := ''org'', vc_Organization := ''Example Registrar Inc.'',
          vc_Address := Some (zero_VCardAddress\<lparr>va_CountryCode := ''US'',
            va_Street := ''123 Maple Ave'', va_Locality := ''Los Angeles'', va_Region := ''CA'',
            va_PostalCode := ''90210''\<rparr>)\<rparr>))
       [\<lparr>pid_Type = ''IANA Registrar ID'', pid_Identifier = ''2''\<rparr>] [] ''2''
       ''https://rdap.example.org/rdap/''
       [Contact ''ABUSE-NAME'' [RoleAbuse] [mk_Status ''active'']
          (Some (zero_VCard\<lparr>vc_Version := ''4.0'', vc_FullName := ''Abuse Contact'',
             vc_VoiceTel := ''tel:+1-555-123-4567'', vc_Email := ''abuse@example.com''\<rparr>))
          [] [] [] [] [] zero_Metadata]
       (seed_metadata now)"

definition seed_tech :: "gotime \<Rightarrow> Contact" where
  "seed_tech now =
     Contact ''888'' [RoleTechnical] [mk_Status ''active'']
       (Some (zero_VCard\<lparr>vc_Version := ''4.0'', vc_FullName := ''Example Technical Contact'',
          vc_Email := ''tech@example.com''\<rparr>))
       [] [] [] [] [] (seed_metadata now)"

definition seed_registrant :: "gotime \<Rightarrow> Contact" where
  "seed_registrant now =
     Contact ''REG1-NAME'' [RoleRegistrant] [mk_Status ''active'']
       (Some (zero_VCard\<lparr>vc_Version := ''4.0'', vc_FullName := ''Example Registrant'',
          vc_Kind := ''individual'', vc_Organization := ''Example Organization'',
          vc_Address := Some (zero_VCardAddress\<lparr>va_CountryCode := ''US'',
            va_Street := ''123 Elm Street'', va_Locality := ''Springfield'', va_Region := ''IL'',
            va_PostalCode := ''62701''\<rparr>),
          vc_VoiceTel := ''tel:+1-217-555-0132'', vc_Email := ''registrant@example.com''\<rparr>))
       [] [] [] [] [] (seed_metadata now)"

definition seed_ns1 :: "gotime \<Rightarrow> NameServer" where
  "seed_ns1 now =
     \<lparr>ns_Handle = ''NS1-NAME'', ns_LDHName = ''ns1.example.com'', ns_UnicodeName = ''ns1.example.com'',
      ns_IPV4 = [''8.8.8.8''], ns_IPV6 = [''2001:4860:4860::8888''],
      ns_Status = [mk_Status ''associated''], ns_Metadata = seed_metadata now\<rparr>"

definition seed_ns2 :: "gotime \<Rightarrow> NameServer" where
  "seed_ns2 now =
     \<lparr>ns_Handle = ''NS2-NAME'', ns_LDHName = ''ns2.example.com'', ns_UnicodeName = ''ns2.example.com'',
      ns_IPV4 = [''1.1.1.1''], ns_IPV6 = [''2606:4700:4700::1111''],
      ns_Status = [mk_Status ''associated''], ns_Metadata = seed_metadata now\<rparr>"

definition seed_domain :: "gotime \<Rightarrow> Domain" where
  "seed_domain now =
     \<lparr>d_Handle = ''EX1-NAME'', d_LDHName = ''example.com'', d_UnicodeName = ''example.com'',
      d_TLD = ''com'', d_Status = [mk_Status ''active''], d_ExpiresAt = Add_sec now (365 * 24 * 3600),
      d_Contacts = [(RoleRegistrant, [''REG1-NAME'']), (RoleTechnical, [''888'']), (RoleRegistrar, [''2''])],
      d_Nameservers = [seed_ns1 now, seed_ns2 now],
      d_SecureDNS = Some \<lparr>sd_ZoneSigned = False, sd_DelegationSigned = False, sd_MaxSigLife = None,
        sd_DSRecords = [], sd_KeyRecords = []\<rparr>,
      d_Registrar = ''2'', d_Metadata = seed_metadata now\<rparr>"

definition seed_network :: "gotime \<Rightarrow> IPNetwork" where
  "seed_network now =
     \<lparr>ip_Handle = ''NET-8-8-8-0-24'', ip_StartAddress = ''8.8.8.0'', ip_EndAddress = ''8.8.8.255'',
      ip_IPVersion = ''v4'', ip_CIDR = [''8.8.8.0/24''], ip_Name = ''GOOGLE'', ip_Type = ''ALLOCATED'',
      ip_Country = ''US'', ip_Status = [mk_Status ''active''], ip_ParentHandle = [],
      ip_Metadata = seed_metadata now\<rparr>"

definition seed_autnum :: "gotime \<Rightarrow> Autnum" where
  "seed_autnum now =
     \<lparr>as_Handle = ''AS15169'', as_StartASN = 15169, as_EndASN = 15169, as_Name = ''GOOGLE'',
      as_Type = ''DIRECT ALLOCATION'', as_Country = ''US'', as_Status = [mk_Status ''active''],
      as_Metadata = seed_metadata now\<rparr>"

definition append_to :: "'k \<Rightarrow> 'v \<Rightarrow> ('k, 'v list) gomap \<Rightarrow> ('k, 'v list) gomap" where
  "append_to k v m = map_put k (map_get m k @ [v]) m"

definition seed :: "gotime \<Rightarrow> MemoryStore \<Rightarrow> MemoryStore" where
  "seed now s =
     (if ms_seeded s then s
      else s\<lparr>ms_seeded := True,
             ms_contacts := map_put ''REG1-NAME'' (seed_registrant now)
               (map_put ''888'' (seed_tech now) (map_put ''2'' (seed_registrar now) (ms_contacts s))),
             ms_nameservers := map_put ''NS2-NAME'' (seed_ns2 now)
               (map_put ''NS1-NAME'' (seed_ns1 now) (ms_nameservers s)),
             ms_domains := map_put ''example.com'' (seed_domain now) (ms_domains s),
             ms_domainByNS := append_to ''ns2.example.com'' ''example.com''
               (append_to ''ns1.example.com'' ''example.com'' (ms_domainByNS s)),
             ms_domainByEntity := append_to ''REG1-NAME'' ''example.com'' (ms_domainByEntity s),
             ms_ipNetworks := map_put ''8.8.8.0/24'' (seed_network now) (ms_ipNetworks s),
             ms_autnums := map_put 15169 (seed_autnum now) (ms_autnums s)\<rparr>)"

definition NewMemoryStore ::
  "(string \<Rightarrow> int result) \<Rightarrow> gotime \<Rightarrow> StorageConfig \<Rightarrow> MemoryStore result" where
  "NewMemoryStore ParseDuration now cfg =
     (let ttl = (if CacheTTL cfg \<noteq> []
                 then (case ParseDuration (CacheTTL cfg) of Inr d \<Rightarrow> d | Inl _ \<Rightarrow> 5 * minute)
                 else 5 * minute)
      in Inr (seed now
           \<lparr>ms_domains = [], ms_contacts = [], ms_nameservers = [], ms_ipNetworks = [], ms_autnums = [],
            ms_domainByNS = [], ms_domainByEntity = [], ms_cacheTTL = ttl, ms_seeded = False\<rparr>))"

subsection \<open>Lookups\<close>

definition norm_name :: "unicode \<Rightarrow> string \<Rightarrow> string" where
  "norm_name U name = ToLower U (TrimSuffix name ''.'')"

definition Memory_LookupDomain :: "unicode \<Rightarrow> MemoryStore \<Rightarrow> string \<Rightarrow> Domain result" where
  "Memory_LookupDomain U s name =
     (case map_of (ms_domains s) (norm_name U name) of
        None \<Rightarrow> Inl (Errorf (''domain not found: '' @ norm_name U name))
      | Some record \<Rightarrow> Inr record)"

definition put_found :: "(string, 'v) gomap \<Rightarrow> string \<Rightarrow> (string, 'v) gomap \<Rightarrow> (string, 'v) gomap" where
  "put_found src h m = (case map_of src h of None \<Rightarrow> m | Some c \<Rightarrow> map_put h c m)"

definition Memory_GetDomainAggregate ::
  "unicode \<Rightarrow> MemoryStore \<Rightarrow> string \<Rightarrow> DomainAggregate result" where
  "Memory_GetDomainAggregate U s name =
     (case map_of (ms_domains s) (norm_name U name) of
        None \<Rightarrow> Inl (Errorf (''domain not found: '' @ norm_name U name))
      | Some d \<Rightarrow>
          (let reg = map_of (ms_contacts s) (d_Registrar d);
               cs0 = (case reg of None \<Rightarrow> [] | Some c \<Rightarrow> map_put (d_Registrar d) c []);
               cs = foldl (\<lambda>m (role, handles). foldl (\<lambda>m h. put_found (ms_contacts s) h m) m handles)
                      cs0 (d_Contacts d);
               nss = foldl (\<lambda>m ns. put_found (ms_nameservers s) (ns_Handle ns) m) [] (d_Nameservers d)
           in Inr \<lparr>agg_Domain = d, agg_Registrar = reg, agg_Contacts = cs, agg_Nameservers = nss\<rparr>))"

definition Memory_LookupContact :: "MemoryStore \<Rightarrow> string \<Rightarrow> Contact result" where
  "Memory_LookupContact s handle =
     (case map_of (ms_contacts s) handle of
        None \<Rightarrow> Inl (Errorf (''entity not found: '' @ handle))
      | Some record \<Rightarrow> Inr record)"

definition Memory_LookupNameserver :: "unicode \<Rightarrow> MemoryStore \<Rightarrow> string \<Rightarrow> NameServer result" where
  "Memory_LookupNameserver U s name0 =
     (let name = norm_name U name0
      in case find (\<lambda>n. EqualFold U (ns_LDHName n) name \<or> EqualFold U (ns_UnicodeName n) name)
               (map snd (ms_nameservers s)) of
           Some record \<Rightarrow> Inr record
         | None \<Rightarrow> Inl (Errorf (''nameserver not found: '' @ name)))"

definition Memory_LookupIPNetwork :: "MemoryStore \<Rightarrow> string \<Rightarrow> IPNetwork result" where
  "Memory_LookupIPNetwork s cidr =
     (case map_of (ms_ipNetworks s) cidr of
        None \<Rightarrow> Inl (Errorf (''IP network not found: '' @ cidr))
      | Some record \<Rightarrow> Inr record)"

definition Memory_LookupAutnum :: "MemoryStore \<Rightarrow> int \<Rightarrow> Autnum result" where
  "Memory_LookupAutnum s asn =
     (case map_of (ms_autnums s) asn of
        None \<Rightarrow> Inl (Errorf (''autnum not found: '' @ Itoa asn))
      | Some record \<Rightarrow> Inr record)"

subsection \<open>Searches\<close>

definition compileGlob :: "regexp_lib \<Rightarrow> string \<Rightarrow> (string \<Rightarrow> bool) result" where
  "compileGlob R pattern =
     (let reStr = ''^'' @ ReplaceAll (ReplaceAll pattern (CHR ''.'') [CHR 0x5C, CHR ''.'']) (CHR ''*'') ''.*''
                  @ ''$''
      in case Compile R reStr of
           Inl e \<Rightarrow> Inl (Wrapf (''invalid pattern: '' @ Error e) e)
         | Inr re \<Rightarrow> Inr re)"

definition Memory_SearchDomainsByName ::
  "unicode \<Rightarrow> regexp_lib \<Rightarrow> MemoryStore \<Rightarrow> string \<Rightarrow> int \<Rightarrow> Domain list result" where
  "Memory_SearchDomainsByName U R s pattern limit =
     (let p1 = ToLower U pattern;
          p2 = ReplaceAll p1 (CHR ''*'') ''.*'';
          p3 = ReplaceAll p2 (CHR ''?'') ''.''
      in case compileGlob R p3 of
           Inl e \<Rightarrow> Inl e
         | Inr re \<Rightarrow> Inr (collect limit (keep_if (\<lambda>d. re (d_LDHName d))) [] (map snd (ms_domains s))))"

definition Memory_SearchDomainsByNS ::
  "unicode \<Rightarrow> MemoryStore \<Rightarrow> string \<Rightarrow> int \<Rightarrow> Domain list result" where
  "Memory_SearchDomainsByNS U s nsName limit =
     Inr (collect limit (map_of (ms_domains s)) [] (map_get (ms_domainByNS s) (ToLower U nsName)))"

definition Memory_SearchContactsByName ::
  "unicode \<Rightarrow> regexp_lib \<Rightarrow> MemoryStore \<Rightarrow> string \<Rightarrow> int \<Rightarrow> Contact list result" where
  "Memory_SearchContactsByName U R s pattern limit =
     (case compileGlob R (ToLower U pattern) of
        Inl e \<Rightarrow> Inl e
      | Inr re \<Rightarrow>
          Inr (collect limit (keep_if (\<lambda>e. re (ToLower U (c_Handle e)))) [] (map snd (ms_contacts s))))"

definition Memory_SearchContactsByHandle ::
  "unicode \<Rightarrow> regexp_lib \<Rightarrow> MemoryStore \<Rightarrow> string \<Rightarrow> int \<Rightarrow> Contact list result" where
  "Memory_SearchContactsByHandle U R s pattern limit = Memory_SearchContactsByName U R s pattern limit"

definition Memory_SearchNameserversByName ::
  "unicode \<Rightarrow> regexp_lib \<Rightarrow> MemoryStore \<Rightarrow> string \<Rightarrow> int \<Rightarrow> NameServer list result" where
  "Memory_SearchNameserversByName U R s pattern limit =
     (case compileGlob R (ToLower U pattern) of
        Inl e \<Rightarrow> Inl e
      | Inr re \<Rightarrow>
          Inr (collect limit (keep_if (\<lambda>n. re (ns_LDHName n))) [] (map snd (ms_nameservers s))))"

text \<open>
  The loop over the nameservers checks the limit after the IPv4 list and again after the IPv6 list.
\<close>

fun by_ip :: "string \<Rightarrow> int \<Rightarrow> NameServer list \<Rightarrow> NameServer list \<Rightarrow> NameServer list" where
  "by_ip ip limit results [] = results"
| "by_ip ip limit results (n # ns) =
     (let r1 = (if ip \<in> set (ns_IPV4 n) then results @ [n] else results)
      in if limit > 0 \<and> int (length r1) \<ge> limit then r1
         else (let r2 = (if ip \<in> set (ns_IPV6 n) then r1 @ [n] else r1)
               in if limit > 0 \<and> int (length r2) \<ge> limit then r2 else by_ip ip limit r2 ns))"

definition Memory_SearchNameserversByIP ::
  "MemoryStore \<Rightarrow> string \<Rightarrow> int \<Rightarrow> NameServer list result" where
  "Memory_SearchNameserversByIP s ip limit = Inr (by_ip ip limit [] (map snd (ms_nameservers s)))"

text \<open>
  The set of handles (\<open>entity_handles\<close>) is built as a map; ranging over it visits each handle once, in
  any order, and the answer is a disjunction, so a list of the handles serves.
\<close>

definition contact_matches ::
  "unicode \<Rightarrow> string \<Rightarrow> (string \<Rightarrow> bool) \<Rightarrow> string \<Rightarrow> Contact \<Rightarrow> bool" where
  "contact_matches U property re handle c =
     (if property = ''role'' then list_ex (\<lambda>r. re (ToLower U r)) (c_Roles c)
      else if property = ''handle'' then re (ToLower U handle)
      else if property = ''fn'' then
        (case c_VCard c of None \<Rightarrow> False | Some v \<Rightarrow> re (ToLower U (vc_FullName v)))
      else if property = ''email'' then
        (case c_VCard c of None \<Rightarrow> False | Some v \<Rightarrow> re (ToLower U (vc_Email v)))
      else False)"

definition domainMatchesEntity ::
  "unicode \<Rightarrow> MemoryStore \<Rightarrow> Domain \<Rightarrow> string \<Rightarrow> (string \<Rightarrow> bool) \<Rightarrow> bool" where
  "domainMatchesEntity U s d property re =
     list_ex (\<lambda>h. case map_of (ms_contacts s) h of
                    None \<Rightarrow> False
                  | Some c \<Rightarrow> contact_matches U property re h c) (entity_handles d)"

definition Memory_ReverseSearchDomainsByEntity ::
  "unicode \<Rightarrow> regexp_lib \<Rightarrow> MemoryStore \<Rightarrow> string \<Rightarrow> string \<Rightarrow> int \<Rightarrow> Domain list result" where
  "Memory_ReverseSearchDomainsByEntity U R s property pattern limit =
     (case compileGlob R (ToLower U pattern) of
        Inl e \<Rightarrow> Inl (Wrapf (''invalid pattern: '' @ Error e) e)
      | Inr re \<Rightarrow>
          Inr (collect limit (keep_if (\<lambda>d. domainMatchesEntity U s d property re)) []
                (map snd (ms_domains s))))"

definition Memory_Ping :: "goerror option" where
  "Memory_Ping = None"

definition Memory_Close :: "goerror option" where
  "Memory_Close = None"

text \<open>The interface value of a memory store.\<close>

definition memory_interface :: "unicode \<Rightarrow> regexp_lib \<Rightarrow> MemoryStore \<Rightarrow> Interface" where
  "memory_interface U R s =
     \<lparr>if_LookupDomain = Memory_LookupDomain U s,
      if_GetDomainAggregate = Memory_GetDomainAggregate U s,
      if_LookupContact = Memory_LookupContact s,
      if_LookupNameserver = Memory_LookupNameserver U s,
      if_LookupIPNetwork = Memory_LookupIPNetwork s,
      if_LookupAutnum = Memory_LookupAutnum s,
      if_SearchDomainsByName = Memory_SearchDomainsByName U R s,
      if_SearchDomainsByNS = Memory_SearchDomainsByNS U s,
      if_SearchContactsByName = Memory_SearchContactsByName U R s,
      if_SearchContactsByHandle = Memory_SearchContactsByHandle U R s,
      if_SearchNameserversByName = Memory_SearchNameserversByName U R s,
      if_SearchNameserversByIP = Memory_SearchNameserversByIP s,
      if_ReverseSearchDomainsByEntity = Memory_ReverseSearchDomainsByEntity U R s,
      if_Ping = Memory_Ping,
      if_Close = Memory_Close\<rparr>"

lemmas memory_seed_eval [go_eval] =
  seed_metadata_def seed_registrar_def seed_tech_def seed_registrant_def seed_ns1_def seed_ns2_def
  seed_domain_def seed_network_def seed_autnum_def append_to_def seed_def NewMemoryStore_def

lemmas memory_ops = 
  Memory_LookupDomain_def Memory_GetDomainAggregate_def Memory_LookupContact_def
  Memory_LookupNameserver_def Memory_LookupIPNetwork_def Memory_LookupAutnum_def
  Memory_SearchDomainsByName_def Memory_SearchDomainsByNS_def Memory_SearchContactsByName_def
  Memory_SearchContactsByHandle_def Memory_SearchNameserversByName_def
  Memory_SearchNameserversByIP_def Memory_ReverseSearchDomainsByEntity_def Memory_Ping_def
  Memory_Close_def

lemmas memory_eval [go_eval] =
  memory_ops norm_name_def put_found_def compileGlob_def contact_matches_def
  domainMatchesEntity_def memory_interface_def

subsection \<open>Invariant\<close>

text \<open>
  Objects are filed under their own names, names are lower case without a trailing dot, the
  nameserver index lists exactly the domains delegated to a name, and the nameservers embedded in a
  domain are the stored ones.
\<close>

definition mem_inv :: "MemoryStore \<Rightarrow> bool" where
  "mem_inv s \<longleftrightarrow>
     gomap_inv (ms_domains s) \<and> gomap_inv (ms_contacts s) \<and> gomap_inv (ms_nameservers s) \<and>
     gomap_inv (ms_ipNetworks s) \<and> gomap_inv (ms_autnums s) \<and>
     (\<forall>(k, d) \<in> set (ms_domains s). k = d_LDHName d \<and> isASCII k \<and> map lower_byte k = k \<and> \<not> suffix ''.'' k) \<and>
     (\<forall>(k, c) \<in> set (ms_contacts s). k = c_Handle c) \<and>
     (\<forall>(k, n) \<in> set (ms_nameservers s). k = ns_Handle n) \<and>
     (\<forall>(k, d) \<in> set (ms_domains s). \<forall>n \<in> set (d_Nameservers d). map_of (ms_nameservers s) (ns_Handle n) = Some n) \<and>
     (\<forall>(k, d) \<in> set (ms_domains s). \<forall>n \<in> set (d_Nameservers d). k \<in> set (map_get (ms_domainByNS s) (ns_LDHName n))) \<and>
     (\<forall>(ns, dns) \<in> set (ms_domainByNS s). distinct dns \<and>
        (\<forall>dn \<in> set dns. \<exists>d. map_of (ms_domains s) dn = Some d \<and> ns \<in> ns_LDHName ` set (d_Nameservers d)))"

lemma NewMemoryStore_cases:
  "\<exists>ttl. NewMemoryStore PD now cfg =
     Inr (seed now \<lparr>ms_domains = [], ms_contacts = [], ms_nameservers = [], ms_ipNetworks = [], ms_autnums = [],
            ms_domainByNS = [], ms_domainByEntity = [], ms_cacheTTL = ttl, ms_seeded = False\<rparr>)"
  unfolding NewMemoryStore_def Let_def by blast

lemma seeded_maps:
  assumes "NewMemoryStore PD now cfg = Inr s"
  shows "ms_domains s = [(''example.com'', seed_domain now)]"
    and "ms_contacts s = [(''2'', seed_registrar now), (''888'', seed_tech now), (''REG1-NAME'', seed_registrant now)]"
    and "ms_nameservers s = [(''NS1-NAME'', seed_ns1 now), (''NS2-NAME'', seed_ns2 now)]"
    and "ms_domainByNS s = [(''ns1.example.com'', [''example.com'']), (''ns2.example.com'', [''example.com''])]"
    and "ms_ipNetworks s = [(''8.8.8.0/24'', seed_network now)]"
    and "ms_autnums s = [(15169, seed_autnum now)]"
  using assms NewMemoryStore_cases [of PD now cfg]
  by (auto simp: seed_def map_put_def append_to_def map_get_def)

lemma NewMemoryStore_inv:
  assumes "NewMemoryStore PD now cfg = Inr s"
  shows "mem_inv s"
  unfolding mem_inv_def seeded_maps [OF assms]
  by (simp add: gomap_inv_def map_get_def seed_domain_def seed_ns1_def seed_ns2_def
      seed_registrar_def seed_tech_def seed_registrant_def byte_def lower_byte_def isupper_def
      suffix_to_prefix)

subsection \<open>Lookups and aggregates\<close>

lemma map_of_put_found: "map_of (put_found src h m) x = (if x = h \<and> map_of src h \<noteq> None then map_of src h else map_of m x)"
  by (auto simp: put_found_def split: option.splits)

text \<open>A map that agrees with the source on its own keys.\<close>

lemma fold_put_found:
  assumes "\<forall>x. map_of m x = (if x \<in> K then map_of src x else None)"
  shows "map_of (foldl (\<lambda>m h. put_found src h m) m hs) x =
           (if x \<in> K \<union> set hs then map_of src x else None)"
  using assms
proof (induction hs arbitrary: m K)
  case (Cons h hs)
  have "\<forall>x. map_of (put_found src h m) x = (if x \<in> insert h K then map_of src x else None)"
    using Cons.prems by (auto simp: map_of_put_found)
  from Cons.IH [OF this] show ?case by simp
qed simp

lemma fold_put_found_roles:
  assumes "\<forall>x. map_of m x = (if x \<in> K then map_of src x else None)"
  shows "map_of (foldl (\<lambda>m (role, handles). foldl (\<lambda>m h. put_found src h m) m handles) m cs) x =
           (if x \<in> K \<union> \<Union> (set ` snd ` set cs) then map_of src x else None)"
  using assms
proof (induction cs arbitrary: m K)
  case (Cons e cs)
  obtain r hs where e: "e = (r, hs)" by (cases e)
  have "\<forall>x. map_of (foldl (\<lambda>m h. put_found src h m) m hs) x =
          (if x \<in> K \<union> set hs then map_of src x else None)"
    using fold_put_found [OF Cons.prems] by blast
  from Cons.IH [OF this] show ?case by (simp add: e Un_assoc)
qed simp

lemma fold_put_found_map:
  "foldl (\<lambda>m n. put_found src (f n) m) m ns = foldl (\<lambda>m h. put_found src h m) m (map f ns)"
  by (induction ns arbitrary: m) auto

definition domain_handles :: "Domain \<Rightarrow> string set" where
  "domain_handles d = insert (d_Registrar d) (\<Union> (set ` snd ` set (d_Contacts d)))"

lemma aggregate_maps:
  assumes "Memory_GetDomainAggregate U s name = Inr agg"
  shows "map_of (ms_domains s) (norm_name U name) = Some (agg_Domain agg)"
    and "agg_Registrar agg = map_of (ms_contacts s) (d_Registrar (agg_Domain agg))"
    and "map_of (agg_Contacts agg) h =
           (if h \<in> domain_handles (agg_Domain agg) then map_of (ms_contacts s) h else None)"
    and "map_of (agg_Nameservers agg) h =
           (if h \<in> ns_Handle ` set (d_Nameservers (agg_Domain agg)) then map_of (ms_nameservers s) h else None)"
proof -
  obtain d where d: "map_of (ms_domains s) (norm_name U name) = Some d"
    using assms by (auto simp: Memory_GetDomainAggregate_def split: option.splits)
  let ?m = "case map_of (ms_contacts s) (d_Registrar d) of None \<Rightarrow> [] | Some c \<Rightarrow> map_put (d_Registrar d) c []"
  have m: "\<forall>x. map_of ?m x = (if x \<in> {d_Registrar d} then map_of (ms_contacts s) x else None)"
    by (auto split: option.splits)
  note agg = assms [unfolded Memory_GetDomainAggregate_def d, simplified Let_def option.case sum.inject]
  have dom: "agg_Domain agg = d"
    and cs: "agg_Contacts agg = foldl (\<lambda>m (role, handles). foldl (\<lambda>m h. put_found (ms_contacts s) h m) m handles)
           ?m (d_Contacts d)"
    and nss: "agg_Nameservers agg =
           foldl (\<lambda>m h. put_found (ms_nameservers s) h m) [] (map ns_Handle (d_Nameservers d))"
    using agg unfolding fold_put_found_map [symmetric] by auto
  show "map_of (ms_domains s) (norm_name U name) = Some (agg_Domain agg)"
    "agg_Registrar agg = map_of (ms_contacts s) (d_Registrar (agg_Domain agg))"
    using agg d by auto
  show "map_of (agg_Contacts agg) h =
           (if h \<in> domain_handles (agg_Domain agg) then map_of (ms_contacts s) h else None)"
    unfolding dom domain_handles_def cs fold_put_found_roles [OF m] by simp
  show "map_of (agg_Nameservers agg) h =
           (if h \<in> ns_Handle ` set (d_Nameservers (agg_Domain agg)) then map_of (ms_nameservers s) h else None)"
    unfolding dom nss
    using fold_put_found [of "[]" "{}" "ms_nameservers s" "map ns_Handle (d_Nameservers d)" h] by simp
qed

subsection \<open>Globs\<close>

lemma ReplaceAll_simps [simp]:
  "ReplaceAll [] c t = []"
  "ReplaceAll (x # xs) c t = (if x = c then t else [x]) @ ReplaceAll xs c t"
  "ReplaceAll (xs @ ys) c t = ReplaceAll xs c t @ ReplaceAll ys c t"
  by (simp_all add: ReplaceAll_def)

lemma glob_text: "ReplaceAll (ReplaceAll p (CHR ''.'') [CHR 0x5C, CHR ''.'']) (CHR ''*'') ''.*'' = concat (map item_text p)"
  by (induction p) (simp_all add: item_text_def)

lemma compileGlob_glob:
  assumes "list_all glob_char p"
  obtains re where "compileGlob R p = Inr re" "\<And>t. isASCII t \<Longrightarrow> re t = glob p t"
proof -
  have "parse_re (''^'' @ concat (map item_text p) @ ''$'') = Some (map item_of p)"
    using parse_glob_items [OF assms] by (simp add: parse_re_def)
  then have "compileGlob R p =
      Inr (\<lambda>t. if isASCII t then glob p t else re_match R (''^'' @ concat (map item_text p) @ ''$'') t)"
    by (simp add: compileGlob_def Let_def glob_text Compile_def match_glob_items)
  then show thesis by (rule that) simp
qed

text \<open>What the domain search makes of a pattern before the glob compiler sees it.\<close>

definition expand_wild :: "char \<Rightarrow> string" where
  "expand_wild c = (if c = CHR ''*'' then ''.*'' else if c = CHR ''?'' then ''.'' else [c])"

lemma expand_wild_text: "ReplaceAll (ReplaceAll p (CHR ''*'') ''.*'') (CHR ''?'') ''.'' = concat (map expand_wild p)"
  by (induction p) (simp_all add: expand_wild_def)

definition domain_pattern_char :: "char \<Rightarrow> bool" where
  "domain_pattern_char c \<longleftrightarrow> glob_char c \<or> c = CHR ''?''"

lemma expand_wild_glob: "list_all domain_pattern_char p \<Longrightarrow> list_all glob_char (concat (map expand_wild p))"
  by (induction p) (auto simp: expand_wild_def domain_pattern_char_def glob_char_def)

lemma glob_char_ascii: "glob_char c \<Longrightarrow> byte c < 128"
  by (auto simp: glob_char_def plain_def byte_def)

lemma glob_char_lower:
  assumes "glob_char c"
  shows "glob_char (lower_byte c)"
proof (cases "isupper c")
  case True
  then have "islower (lower_byte c)" by (auto simp: islower_def isupper_def byte_lower_byte)
  then have "plain (lower_byte c)"
    by (auto simp: plain_def metachars_def islower_def byte_def)
  then show ?thesis by (simp add: glob_char_def)
next
  case False
  then show ?thesis using assms by (simp add: lower_byte_id)
qed

lemma lower_special: "lower_byte (CHR ''?'') = CHR ''?''"
  by (simp add: lower_byte_def isupper_def byte_def)

lemma domain_pattern_lower: "list_all domain_pattern_char p \<Longrightarrow> list_all domain_pattern_char (map lower_byte p)"
  by (induction p) (auto simp: domain_pattern_char_def glob_char_lower lower_special)

lemma byte_question: "byte (CHR ''?'') = 63"
  by (simp add: byte_def)

lemma domain_pattern_ascii: "list_all domain_pattern_char p \<Longrightarrow> isASCII p"
  by (induction p) (auto simp: domain_pattern_char_def glob_char_ascii byte_question)

lemma glob_pattern_lower: "list_all glob_char p \<Longrightarrow> isASCII p \<and> list_all glob_char (map lower_byte p)"
  by (induction p) (auto simp: glob_char_ascii glob_char_lower)

lemma filter_cong_snd: "(\<And>x. x \<in> snd ` set m \<Longrightarrow> P x = Q x) \<Longrightarrow> filter P (map snd m) = filter Q (map snd m)"
  by (rule filter_cong) auto

lemma by_ip_bounded:
  "limit > 0 \<Longrightarrow> int (length acc) < limit \<Longrightarrow> int (length (by_ip ip limit acc ns)) \<le> limit"
proof (induction ip limit acc ns rule: by_ip.induct)
  case (2 ip limit acc n ns)
  then show ?case by (auto simp: Let_def)
qed simp

lemma by_ip_set: "n \<in> set (by_ip ip limit acc ns) \<Longrightarrow> n \<in> set acc \<or> n \<in> set ns \<and> ip \<in> set (ns_IPV4 n) \<union> set (ns_IPV6 n)"
proof (induction ip limit acc ns rule: by_ip.induct)
  case (2 ip limit acc n ns)
  then show ?case by (auto simp: Let_def split: if_splits)
qed simp

subsection \<open>The contract\<close>

interpretation mem: snapshot_store "memory_interface U R s" for U R s
proof unfold_locales
  fix limit :: int and p property :: string
  assume pos: "limit > 0"
  show "bounded limit (if_SearchDomainsByName (memory_interface U R s) p limit)"
    "bounded limit (if_SearchDomainsByNS (memory_interface U R s) p limit)"
    "bounded limit (if_SearchContactsByName (memory_interface U R s) p limit)"
    "bounded limit (if_SearchContactsByHandle (memory_interface U R s) p limit)"
    "bounded limit (if_SearchNameserversByName (memory_interface U R s) p limit)"
    "bounded limit (if_SearchNameserversByIP (memory_interface U R s) p limit)"
    "bounded limit (if_ReverseSearchDomainsByEntity (memory_interface U R s) property p limit)"
    using pos by (auto simp: memory_interface_def memory_ops length_collect by_ip_bounded Let_def
        split: sum.splits)
next
  fix name h :: string and agg c
  assume "if_GetDomainAggregate (memory_interface U R s) name = Inr agg"
  then have agg: "Memory_GetDomainAggregate U s name = Inr agg"
    by (simp add: memory_interface_def)
  show "if_LookupDomain (memory_interface U R s) name = Inr (agg_Domain agg)"
    using aggregate_maps(1) [OF agg] by (simp add: memory_interface_def Memory_LookupDomain_def)
  show "agg_Registrar agg = Some c \<Longrightarrow>
      map_of (agg_Contacts agg) (d_Registrar (agg_Domain agg)) = Some c"
    using aggregate_maps(2,3) [OF agg] by (simp add: domain_handles_def)
  show "agg_Registrar agg = None \<Longrightarrow> d_Registrar (agg_Domain agg) \<noteq> [] \<Longrightarrow>
      \<exists>e. if_LookupContact (memory_interface U R s) (d_Registrar (agg_Domain agg)) = Inl e"
    using aggregate_maps(2) [OF agg] by (simp add: memory_interface_def Memory_LookupContact_def)
  show "map_of (agg_Contacts agg) h = Some c \<Longrightarrow> if_LookupContact (memory_interface U R s) h = Inr c"
    using aggregate_maps(3) [OF agg, of h]
    by (simp add: memory_interface_def Memory_LookupContact_def split: if_splits)
qed

subsection \<open>Search specifications\<close>

lemma contact_search_glob:
  assumes "list_all glob_char p" and "\<forall>c \<in> snd ` set (ms_contacts s). isASCII (c_Handle c)"
  shows "Memory_SearchContactsByName U R s p limit =
           Inr (at_most limit (filter (\<lambda>c. glob (map lower_byte p) (map lower_byte (c_Handle c)))
                  (map snd (ms_contacts s))))"
proof -
  have p: "isASCII p" "list_all glob_char (map lower_byte p)" using glob_pattern_lower assms(1) by auto
  obtain re where re: "compileGlob R (map lower_byte p) = Inr re"
    "\<And>t. isASCII t \<Longrightarrow> re t = glob (map lower_byte p) t"
    using compileGlob_glob [OF p(2), where R = R] by blast
  have "filter (\<lambda>e. re (ToLower U (c_Handle e))) (map snd (ms_contacts s)) =
        filter (\<lambda>c. glob (map lower_byte p) (map lower_byte (c_Handle c))) (map snd (ms_contacts s))"
    using assms(2) re(2) by (intro filter_cong_snd) (auto simp: ToLower_def)
  then show ?thesis
    using p(1) re(1) by (simp add: Memory_SearchContactsByName_def ToLower_def collect_keep_if)
qed

lemma domain_search_glob:
  assumes "list_all domain_pattern_char p" and "\<forall>d \<in> snd ` set (ms_domains s). isASCII (d_LDHName d)"
  shows "Memory_SearchDomainsByName U R s p limit =
           Inr (at_most limit (filter (\<lambda>d. glob (concat (map expand_wild (map lower_byte p))) (d_LDHName d))
                  (map snd (ms_domains s))))"
proof -
  have p: "isASCII p" using domain_pattern_ascii assms(1) by auto
  obtain re where re: "compileGlob R (concat (map expand_wild (map lower_byte p))) = Inr re"
    "\<And>t. isASCII t \<Longrightarrow> re t = glob (concat (map expand_wild (map lower_byte p))) t"
    using compileGlob_glob [OF expand_wild_glob [OF domain_pattern_lower [OF assms(1)]], where R = R] by blast
  have "filter (\<lambda>d. re (d_LDHName d)) (map snd (ms_domains s)) =
        filter (\<lambda>d. glob (concat (map expand_wild (map lower_byte p))) (d_LDHName d)) (map snd (ms_domains s))"
    using assms(2) re(2) by (intro filter_cong_snd) auto
  then show ?thesis
    using p re(1)
    by (simp add: Memory_SearchDomainsByName_def ToLower_def collect_keep_if Let_def expand_wild_text)
qed

text \<open>The values of a contact that a reverse search property looks at.\<close>

definition entity_values :: "string \<Rightarrow> string \<Rightarrow> Contact \<Rightarrow> string list" where
  "entity_values property h c =
     (if property = ''role'' then c_Roles c
      else if property = ''handle'' then [h]
      else if property = ''fn'' then (case c_VCard c of None \<Rightarrow> [] | Some v \<Rightarrow> [vc_FullName v])
      else if property = ''email'' then (case c_VCard c of None \<Rightarrow> [] | Some v \<Rightarrow> [vc_Email v])
      else [])"

lemma contact_matches_values:
  "contact_matches U property re h c = list_ex (\<lambda>v. re (ToLower U v)) (entity_values property h c)"
  by (cases "c_VCard c") (simp_all add: contact_matches_def entity_values_def)

definition ascii_contacts :: "MemoryStore \<Rightarrow> bool" where
  "ascii_contacts s \<longleftrightarrow>
     (\<forall>(h, c) \<in> set (ms_contacts s). isASCII h \<and> list_all isASCII (c_Roles c) \<and>
        (case c_VCard c of None \<Rightarrow> True | Some v \<Rightarrow> isASCII (vc_FullName v) \<and> isASCII (vc_Email v)))"

lemma ascii_contacts_values:
  assumes "ascii_contacts s" "map_of (ms_contacts s) h = Some c" "v \<in> set (entity_values property h c)"
  shows "isASCII v"
proof -
  have "isASCII h \<and> list_all isASCII (c_Roles c) \<and>
      (case c_VCard c of None \<Rightarrow> True | Some v \<Rightarrow> isASCII (vc_FullName v) \<and> isASCII (vc_Email v))"
    using assms(1) map_of_SomeD [OF assms(2)] by (auto simp: ascii_contacts_def)
  then show ?thesis
    using assms(3) by (auto simp: entity_values_def list_all_iff split: option.splits if_splits)
qed

lemma at_most_Nil [simp]: "at_most limit [] = []"
  by (simp add: at_most_def)

subsection \<open>Properties\<close>

definition no_unicode :: unicode where
  "no_unicode = \<lparr>uni_ToLower = (\<lambda>s. s), uni_EqualFold = (=), uni_Quote = (\<lambda>s. s)\<rparr>"

definition no_regexp :: regexp_lib where
  "no_regexp = \<lparr>re_compile = (\<lambda>s. Some s), re_match = (\<lambda>r s. False)\<rparr>"

text \<open>The store the constructor builds, at the zero time.\<close>

definition example_store :: MemoryStore where
  "example_store =
     seed zero_time \<lparr>ms_domains = [], ms_contacts = [], ms_nameservers = [], ms_ipNetworks = [],
       ms_autnums = [], ms_domainByNS = [], ms_domainByEntity = [], ms_cacheTTL = 0, ms_seeded = False\<rparr>"

lemma example_store_maps:
  "ms_domains example_store = [(''example.com'', seed_domain zero_time)]"
  "ms_contacts example_store =
     [(''2'', seed_registrar zero_time), (''888'', seed_tech zero_time), (''REG1-NAME'', seed_registrant zero_time)]"
  "ms_nameservers example_store = [(''NS1-NAME'', seed_ns1 zero_time), (''NS2-NAME'', seed_ns2 zero_time)]"
  "ms_domainByNS example_store =
     [(''ns1.example.com'', [''example.com'']), (''ns2.example.com'', [''example.com''])]"
  by (simp_all add: example_store_def seed_def map_put_def append_to_def map_get_def)

lemmas example_eval [go_eval] = no_unicode_def no_regexp_def example_store_maps

text \<open>
  An aggregate is one snapshot: it holds the domain filed under the normalised name, its
  registrar is the contact filed under the domain's registrar handle, and its contacts and
  nameservers are, handle by handle, exactly those stored under the handles the domain refers to;
  an unknown name gives an error.
\<close>

theorem Memory_GetDomainAggregate_snapshot:
  "case map_of (ms_domains s) (norm_name U name) of
     None \<Rightarrow> Memory_GetDomainAggregate U s name = Inl (Errorf (''domain not found: '' @ norm_name U name))
   | Some d \<Rightarrow>
       \<exists>agg. Memory_GetDomainAggregate U s name = Inr agg \<and> agg_Domain agg = d \<and>
         agg_Registrar agg = map_of (ms_contacts s) (d_Registrar d) \<and>
         (\<forall>h. map_of (agg_Contacts agg) h =
            (if h \<in> domain_handles d then map_of (ms_contacts s) h else None)) \<and>
         (\<forall>h. map_of (agg_Nameservers agg) h =
            (if h \<in> ns_Handle ` set (d_Nameservers d) then map_of (ms_nameservers s) h else None))"
proof (cases "map_of (ms_domains s) (norm_name U name)")
  case None
  then show ?thesis by (simp add: Memory_GetDomainAggregate_def)
next
  case (Some d)
  then obtain agg where agg: "Memory_GetDomainAggregate U s name = Inr agg"
    by (simp add: Memory_GetDomainAggregate_def Let_def)
  then have "agg_Domain agg = d" using aggregate_maps(1) [OF agg] Some by simp
  with Some agg show ?thesis
    using aggregate_maps(2-4) [OF agg] by (intro option.case_eq_if [THEN iffD2]) auto
qed

text \<open>
  The entity searches are glob matching: for a pattern of letters, digits, other plain characters,
  dots and stars, the result is the prefix (up to the limit) of the contacts whose handle matches
  the pattern with star as any run of characters, ignoring case.
\<close>

theorem Memory_SearchContacts_glob:
  assumes "list_all glob_char p" and "\<forall>c \<in> snd ` set (ms_contacts s). isASCII (c_Handle c)"
  shows "Memory_SearchContactsByHandle U R s p limit =
           Inr (at_most limit (filter (\<lambda>c. glob (map lower_byte p) (map lower_byte (c_Handle c)))
                  (map snd (ms_contacts s))))"
  using contact_search_glob [OF assms] by (simp add: Memory_SearchContactsByHandle_def)

theorem Memory_SearchContacts_glob_witness:
  "Memory_SearchContactsByHandle no_unicode no_regexp example_store ''reg*'' 5 =
     Inr [seed_registrant zero_time]"
  by (subst Memory_SearchContacts_glob) (simp_all add: go_eval glob_char_def at_most_def)

text \<open>
  C26. The domain search expands a star to a dot and a star, and a question mark to a dot, before the
  glob compiler escapes the dots: the result is the domains whose name matches that expanded
  pattern as a glob, where a dot is only a dot.
\<close>

theorem Memory_SearchDomains_glob:
  assumes "list_all domain_pattern_char p" and "\<forall>d \<in> snd ` set (ms_domains s). isASCII (d_LDHName d)"
  shows "Memory_SearchDomainsByName U R s p limit =
           Inr (at_most limit (filter (\<lambda>d. glob (concat (map expand_wild (map lower_byte p))) (d_LDHName d))
                  (map snd (ms_domains s))))"
  using domain_search_glob [OF assms] .

theorem Memory_SearchDomains_glob_witness:
  "Memory_SearchDomainsByName no_unicode no_regexp example_store ''EXAMPLE*'' 5 =
     Inr [seed_domain zero_time]"
  by (subst Memory_SearchDomains_glob)
    (simp_all add: go_eval glob_char_def domain_pattern_char_def expand_wild_def at_most_def)

text \<open>
  A domain search whose pattern starts with a star finds nothing, whatever the rest of the
  pattern and the limit: no domain name begins with a dot. So the documented wildcard does not work
  in that position.
\<close>

theorem Memory_SearchDomains_leading_star:
  assumes "list_all domain_pattern_char p"
    and "\<forall>d \<in> snd ` set (ms_domains s). isASCII (d_LDHName d) \<and> \<not> prefix ''.'' (d_LDHName d)"
  shows "Memory_SearchDomainsByName U R s (''*'' @ p) limit = Inr []"
proof -
  have star: "lower_byte (CHR ''*'') = CHR ''*''"
    by (simp add: lower_byte_def isupper_def byte_def)
  have "\<not> glob (CHR ''.'' # q) t" if "\<not> prefix ''.'' t" for q t
    using that by (cases t) auto
  then have "filter (\<lambda>d. glob (concat (map expand_wild (map lower_byte (''*'' @ p)))) (d_LDHName d))
      (map snd (ms_domains s)) = []"
    using assms(2) by (auto simp: filter_empty_conv star expand_wild_def)
  moreover have "list_all domain_pattern_char (''*'' @ p)"
    using assms(1) by (simp add: domain_pattern_char_def glob_char_def)
  ultimately show ?thesis using domain_search_glob assms(2) by fastforce
qed

theorem Memory_SearchDomains_leading_star_witness:
  "Memory_SearchDomainsByName no_unicode no_regexp example_store (''*'' @ ''.com'') 5 = Inr []"
  by (rule Memory_SearchDomains_leading_star)
    (simp_all add: go_eval glob_char_def domain_pattern_char_def)

lemma domainMatchesEntity_glob:
  assumes "ascii_contacts s" and "\<And>t. isASCII t \<Longrightarrow> re t = glob q t"
  shows "domainMatchesEntity U s d property re \<longleftrightarrow>
           (\<exists>h \<in> set (entity_handles d). \<exists>c. map_of (ms_contacts s) h = Some c \<and>
              list_ex (\<lambda>v. glob q (map lower_byte v)) (entity_values property h c))"
proof -
  have "list_ex (\<lambda>v. re (ToLower U v)) (entity_values property h c) =
        list_ex (\<lambda>v. glob q (map lower_byte v)) (entity_values property h c)"
    if "map_of (ms_contacts s) h = Some c" for h c
    using ascii_contacts_values [OF assms(1) that] assms(2) by (intro list_ex_cong) (auto simp: ToLower_def)
  then have "(case map_of (ms_contacts s) h of None \<Rightarrow> False | Some c \<Rightarrow> contact_matches U property re h c) \<longleftrightarrow>
      (\<exists>c. map_of (ms_contacts s) h = Some c \<and>
         list_ex (\<lambda>v. glob q (map lower_byte v)) (entity_values property h c))" for h
    by (cases "map_of (ms_contacts s) h") (simp_all add: contact_matches_values)
  then show ?thesis unfolding domainMatchesEntity_def list_ex_iff [of _ "entity_handles d"] by simp
qed

text \<open>
  C25. A reverse search returns, up to the limit, exactly the domains related to a matching entity: a
  contact filed under the domain's registrar handle or one of its contact handles, one of whose
  values for the property (role, handle, fn, email) matches the pattern as a glob, ignoring case.
\<close>

theorem Memory_ReverseSearch_exact:
  assumes "list_all glob_char p" and "ascii_contacts s"
  shows "Memory_ReverseSearchDomainsByEntity U R s property p limit =
           Inr (at_most limit (filter
             (\<lambda>d. \<exists>h \<in> set (entity_handles d). \<exists>c. map_of (ms_contacts s) h = Some c \<and>
                list_ex (\<lambda>v. glob (map lower_byte p) (map lower_byte v)) (entity_values property h c))
             (map snd (ms_domains s))))"
proof -
  have p: "isASCII p" "list_all glob_char (map lower_byte p)" using glob_pattern_lower assms(1) by auto
  obtain re where re: "compileGlob R (map lower_byte p) = Inr re"
    "\<And>t. isASCII t \<Longrightarrow> re t = glob (map lower_byte p) t"
    using compileGlob_glob [OF p(2), where R = R] by blast
  show ?thesis
    using p(1) re(1) domainMatchesEntity_glob [OF assms(2) re(2)]
    by (simp add: Memory_ReverseSearchDomainsByEntity_def ToLower_def collect_keep_if)
qed

theorem Memory_ReverseSearch_exact_witness:
  "Memory_ReverseSearchDomainsByEntity no_unicode no_regexp example_store ''email'' ''tech*'' 5 =
     Inr [seed_domain zero_time]"
  by (subst Memory_ReverseSearch_exact)
    (simp_all add: go_eval glob_char_def ascii_contacts_def entity_values_def at_most_def)

lemma set_map_filter_map_of:
  "set (List.map_filter f xs) = {y. \<exists>x \<in> set xs. f x = Some y}"
  by (force simp: List.map_filter_def)

lemma distinct_map_filter_inj:
  "distinct xs \<Longrightarrow> \<forall>x x' y. f x = Some y \<longrightarrow> f x' = Some y \<longrightarrow> x = x' \<Longrightarrow> distinct (List.map_filter f xs)"
proof (induction xs)
  case (Cons x xs)
  then show ?case
    by (cases "f x") (auto simp: set_map_filter_map_of)
qed simp

lemma mem_inv_key:
  assumes "mem_inv s" "map_of (ms_domains s) k = Some d"
  shows "k = d_LDHName d"
  using assms map_of_SomeD [OF assms(2)] by (auto simp: mem_inv_def)

lemma mem_inv_stored:
  assumes "mem_inv s"
  shows "map_of (ms_domains s) n = Some d \<longleftrightarrow> d \<in> snd ` set (ms_domains s) \<and> d_LDHName d = n"
proof -
  have dist: "distinct (map fst (ms_domains s))" using assms by (simp add: mem_inv_def gomap_inv_def)
  have keys: "\<forall>(k, d) \<in> set (ms_domains s). k = d_LDHName d"
    using assms by (auto simp: mem_inv_def)
  have "map_of (ms_domains s) n = Some d \<longleftrightarrow> (n, d) \<in> set (ms_domains s)"
    using dist by simp
  also have "\<dots> \<longleftrightarrow> d \<in> snd ` set (ms_domains s) \<and> d_LDHName d = n"
    using keys by (force simp: image_iff)
  finally show ?thesis .
qed

lemma mem_inv_index:
  assumes inv: "mem_inv s"
  shows "distinct (map_get (ms_domainByNS s) ns)"
    and "dn \<in> set (map_get (ms_domainByNS s) ns) \<longleftrightarrow>
           (\<exists>d. map_of (ms_domains s) dn = Some d \<and> ns \<in> ns_LDHName ` set (d_Nameservers d))"
proof -
  have all: "\<forall>(ns, dns) \<in> set (ms_domainByNS s). distinct dns \<and>
        (\<forall>dn \<in> set dns. \<exists>d. map_of (ms_domains s) dn = Some d \<and> ns \<in> ns_LDHName ` set (d_Nameservers d))"
    and listed: "\<forall>(k, d) \<in> set (ms_domains s). \<forall>n \<in> set (d_Nameservers d).
        k \<in> set (map_get (ms_domainByNS s) (ns_LDHName n))"
    using inv unfolding mem_inv_def by blast+
  have fwd: "distinct (map_get (ms_domainByNS s) ns) \<and>
      (\<forall>dn \<in> set (map_get (ms_domainByNS s) ns). \<exists>d. map_of (ms_domains s) dn = Some d \<and>
         ns \<in> ns_LDHName ` set (d_Nameservers d))"
  proof (cases "map_of (ms_domainByNS s) ns")
    case (Some dns)
    then show ?thesis using bspec [OF all map_of_SomeD [OF Some]] by (simp add: map_get_def)
  qed (simp add: map_get_def)
  then show "distinct (map_get (ms_domainByNS s) ns)" by blast
  show "dn \<in> set (map_get (ms_domainByNS s) ns) \<longleftrightarrow>
         (\<exists>d. map_of (ms_domains s) dn = Some d \<and> ns \<in> ns_LDHName ` set (d_Nameservers d))"
    using fwd listed by (fastforce dest!: map_of_SomeD)
qed

text \<open>
  C27. On a store that satisfies the invariant, the search by nameserver returns, for every limit, a
  prefix of one list without repetitions that holds exactly the domains delegated to a nameserver
  of that name (in lower case).
\<close>

theorem Memory_SearchDomainsByNS_exact:
  assumes "mem_inv s"
  shows "\<exists>ds. (\<forall>limit. Memory_SearchDomainsByNS U s ns limit = Inr (at_most limit ds)) \<and> distinct ds \<and>
           set ds = {d. map_of (ms_domains s) (d_LDHName d) = Some d \<and>
                        ToLower U ns \<in> ns_LDHName ` set (d_Nameservers d)}"
proof -
  let ?dns = "map_get (ms_domainByNS s) (ToLower U ns)"
  let ?ds = "List.map_filter (map_of (ms_domains s)) ?dns"
  have "distinct ?ds"
    using mem_inv_index(1) [OF assms] mem_inv_key [OF assms] by (intro distinct_map_filter_inj) metis+
  moreover have "set ?ds = {d. map_of (ms_domains s) (d_LDHName d) = Some d \<and>
                        ToLower U ns \<in> ns_LDHName ` set (d_Nameservers d)}"
  proof (rule set_eqI)
    fix d
    have "k \<in> set ?dns \<and> map_of (ms_domains s) k = Some d \<longleftrightarrow>
        map_of (ms_domains s) k = Some d \<and> ToLower U ns \<in> ns_LDHName ` set (d_Nameservers d)" for k
      unfolding mem_inv_index(2) [OF assms] by auto
    then show "d \<in> set ?ds \<longleftrightarrow> d \<in> {d. map_of (ms_domains s) (d_LDHName d) = Some d \<and>
                        ToLower U ns \<in> ns_LDHName ` set (d_Nameservers d)}"
      unfolding set_map_filter_map_of using mem_inv_key [OF assms] by blast
  qed
  ultimately show ?thesis
    by (intro exI [of _ ?ds]) (simp add: Memory_SearchDomainsByNS_def collect_spec)
qed

lemma example_store_inv: "mem_inv example_store"
proof -
  have "NewMemoryStore (\<lambda>_. Inr 0) zero_time
      \<lparr>Driver = [], DSN = [], MaxOpen = 0, MaxIdle = 0, CacheTTL = ''0s''\<rparr> = Inr example_store"
    by (simp add: NewMemoryStore_def example_store_def)
  then show ?thesis by (rule NewMemoryStore_inv)
qed

theorem Memory_SearchDomainsByNS_exact_witness:
  "\<exists>ds. (\<forall>limit. Memory_SearchDomainsByNS no_unicode example_store ''NS1.example.com'' limit =
            Inr (at_most limit ds)) \<and> distinct ds \<and>
        set ds = {d. map_of (ms_domains example_store) (d_LDHName d) = Some d \<and>
                     ToLower no_unicode ''NS1.example.com'' \<in> ns_LDHName ` set (d_Nameservers d)}"
  by (rule Memory_SearchDomainsByNS_exact) (rule example_store_inv)

text \<open>
  C28. The constructor always succeeds and its store satisfies the invariant, and in any store that does a
  domain lookup finds a domain exactly when the name, with a trailing dot removed and in lower
  case, is a domain's own name, which is then the domain returned.
\<close>

theorem Memory_LookupDomain_own_name:
  "(\<exists>s. NewMemoryStore PD now cfg = Inr s \<and> mem_inv s) \<and>
   (mem_inv s \<longrightarrow>
      (Memory_LookupDomain U s name = Inr d \<longleftrightarrow>
         d \<in> snd ` set (ms_domains s) \<and> d_LDHName d = norm_name U name))"
proof (intro conjI impI)
  show "\<exists>s. NewMemoryStore PD now cfg = Inr s \<and> mem_inv s"
    using NewMemoryStore_cases [of PD now cfg] NewMemoryStore_inv [of PD now cfg] by metis
next
  assume inv: "mem_inv s"
  have "Memory_LookupDomain U s name = Inr d \<longleftrightarrow> map_of (ms_domains s) (norm_name U name) = Some d"
    by (simp add: Memory_LookupDomain_def split: option.split)
  also have "\<dots> \<longleftrightarrow> d \<in> snd ` set (ms_domains s) \<and> d_LDHName d = norm_name U name"
    by (rule mem_inv_stored [OF inv])
  finally show "Memory_LookupDomain U s name = Inr d \<longleftrightarrow>
         d \<in> snd ` set (ms_domains s) \<and> d_LDHName d = norm_name U name" .
qed

theorem Memory_LookupDomain_own_name_witness:
  "Memory_LookupDomain no_unicode example_store ''Example.COM.'' = Inr (seed_domain zero_time)"
proof -
  have "seed_domain zero_time \<in> snd ` set (ms_domains example_store) \<and>
      d_LDHName (seed_domain zero_time) = norm_name no_unicode ''Example.COM.''"
    by (simp add: example_store_maps) (simp add: go_eval)
  then show ?thesis
    using Memory_LookupDomain_own_name [where s = example_store and d = "seed_domain zero_time"]
      example_store_inv by blast
qed

end
