(* ===== verification/Handlers.thy ===== *)
theory Handlers
  imports Service Http MemoryStore
begin

section \<open>HTTP handlers\<close>

text \<open>
  \<open>internal/handlers\<close> (\<open>handlers.go\<close>, \<open>response.go\<close>): the routes and the handlers behind them. A
  handler is a function from the request to a change of the response writer. The router
  (\<open>github.com/go-chi/chi\<close>) is not modelled: \<open>RegisterRoutes\<close> is the table the code hands to it, and the
  URL parameters it extracts are fields of the request. The IDNA profile (\<open>golang.org/x/net/idna\<close>)
  is a pair of arguments \<open>A\<close> (to ASCII) and \<open>N\<close> (to Unicode), as in the normalisation of names.
  Go's \<open>int\<close> parse of the limit is bounded by \<open>Atoi\<close>.

  The theorems show that every route answers once, with the RDAP media type and a status that agrees
  with its body, that a search never returns more than the configured maximum, and when each lookup
  answers 200, 400 or 404.
\<close>

record Handler =
  hd_svc :: Service
  hd_cfg :: RDAPConfig
  hd_port :: int
  hd_rate :: RateConfig
  hd_auth :: AuthConfig

definition New_Handler :: "Service \<Rightarrow> RDAPConfig \<Rightarrow> RateConfig \<Rightarrow> AuthConfig \<Rightarrow> int \<Rightarrow> Handler" where
  "New_Handler svc cfg rate authCfg serverPort =
     \<lparr>hd_svc = svc, hd_cfg = cfg, hd_port = serverPort, hd_rate = rate, hd_auth = authCfg\<rparr>"

subsection \<open>Responses\<close>

definition writeJSON :: "int \<Rightarrow> body \<Rightarrow> writer \<Rightarrow> writer" where
  "writeJSON status v w =
     Write_body v (WriteHeader status (Header_Set ''Content-Type'' ''application/rdap+json'' w))"

definition error_response :: "int \<Rightarrow> string \<Rightarrow> string \<Rightarrow> ErrorResponse" where
  "error_response errorCode title description =
     \<lparr>er2_Conformance = NewConformance, ErrorCode = errorCode, er2_Title = title,
      er2_Description = [description], er2_Notices = []\<rparr>"

definition writeError :: "int \<Rightarrow> int \<Rightarrow> string \<Rightarrow> string \<Rightarrow> writer \<Rightarrow> writer" where
  "writeError status errorCode title description w =
     writeJSON status (BError (error_response errorCode title description)) w"

definition requestURL :: "unicode \<Rightarrow> Handler \<Rightarrow> request \<Rightarrow> string" where
  "requestURL U h r =
     (let scheme = (if TLS r \<or> EqualFold U (Header_Get r ''X-Forwarded-Proto'') ''https''
                    then ''https'' else ''http'');
          host = (case SplitHostPort (Host r) of
                    Some _ \<Rightarrow> Host r
                  | None \<Rightarrow>
                      if \<not> (scheme = ''http'' \<and> hd_port h = 80) \<and> \<not> (scheme = ''https'' \<and> hd_port h = 443)
                      then JoinHostPort (Host r) (Itoa (hd_port h)) else Host r)
      in URL_String scheme host (URL_Path r) (RawQuery r))"

definition noticeOpts :: "Handler \<Rightarrow> NoticeOptions option" where
  "noticeOpts h = NoticeOptionsFromConfig (hd_cfg h)"

definition icann_notices :: "unicode \<Rightarrow> Handler \<Rightarrow> request \<Rightarrow> Notice list" where
  "icann_notices U h r = NewNoticesWithICANN (requestURL U h r) (BaseURL (hd_cfg h)) (noticeOpts h)"

subsection \<open>Help\<close>

definition farv1Providers :: "AuthConfig \<Rightarrow> FARV1Provider list" where
  "farv1Providers authCfg =
     (if Issuer authCfg = [] then []
      else [\<lparr>Iss = Issuer authCfg, fp_Name = Issuer authCfg, Default = True\<rparr>])"

definition Handler_Help :: "Handler \<Rightarrow> request \<Rightarrow> writer \<Rightarrow> writer" where
  "Handler_Help h r =
     (let rateInfo = (if r_Enabled (hd_rate h)
                      then \<lparr>rl_Enabled = True, rl_Requests = Requests (hd_rate h),
                            rl_Window = Window (hd_rate h), rl_Burst = Burst (hd_rate h)\<rparr>
                      else \<lparr>rl_Enabled = False, rl_Requests = 0, rl_Window = 0, rl_Burst = 0\<rparr>);
          help0 = NewHelp (BaseURL (hd_cfg h)) (noticeOpts h) rateInfo
                    \<lparr>si_Enabled = SearchEnabled (hd_cfg h)\<rparr>;
          help1 = (if ExtensionsEnabled (hd_cfg h) ''reverse_search''
                   then help0\<lparr>ReverseSearchProperties_H := ReverseSearchProperties (hd_svc h),
                              h_Conformance := WithExtensions (h_Conformance help0) [''reverse_search'']\<rparr>
                   else help0);
          help2 = (if a_Enabled (hd_auth h)
                   then help1\<lparr>FARV1OpenIDCConfiguration_H := Some
                                \<lparr>SessionClientSupported = False, TokenClientSupported = True,
                                 DntSupported = False, ProviderDiscoverySupported = False,
                                 IssuerIdentifierSupported = (Issuer (hd_auth h) \<noteq> []),
                                 ImplicitTokenRefreshSupported = False,
                                 OpenIDCProviders = farv1Providers (hd_auth h)\<rparr>,
                              h_Conformance := WithExtensions (h_Conformance help1) [''farv1'']\<rparr>
                   else help1)
      in writeJSON 200 (BHelp help2))"

subsection \<open>Lookups\<close>

definition Handler_LookupDomain ::
  "unicode \<Rightarrow> (string \<Rightarrow> string result) \<Rightarrow> (string \<Rightarrow> string result) \<Rightarrow> Handler \<Rightarrow> request \<Rightarrow> writer \<Rightarrow> writer"
  where
  "Handler_LookupDomain U A N h r =
     (let domainName = URLParam r ''domainName''
      in if domainName = []
         then writeError 400 400 ''Invalid domain name'' ''Domain name parameter is required''
         else (case NormalizeDomainName U A N domainName of
                 Inl err \<Rightarrow> writeError 400 400 ''Invalid domain name'' (Error err)
               | Inr (ldhName, _) \<Rightarrow>
                   (case Service_LookupDomain (hd_svc h) ldhName (requestURL U h r) of
                      Inl err \<Rightarrow>
                        writeError 404 404 ''Domain not found'' (''No domain found for: '' @ domainName)
                    | Inr resp \<Rightarrow> writeJSON 200 (BDomain resp))))"

definition Handler_LookupEntity :: "unicode \<Rightarrow> Handler \<Rightarrow> request \<Rightarrow> writer \<Rightarrow> writer" where
  "Handler_LookupEntity U h r =
     (let handle = URLParam r ''handle''
      in if handle = []
         then writeError 400 400 ''Invalid entity handle'' ''Entity handle parameter is required''
         else (case Service_LookupEntity (hd_svc h) handle (requestURL U h r) of
                 Inl err \<Rightarrow>
                   writeError 404 404 ''Entity not found'' (''No entity found for handle: '' @ handle)
               | Inr entity \<Rightarrow>
                   writeJSON 200 (BEntity \<lparr>er_Entity = entity, er_Conformance = NewConformance,
                                           er_Notices = icann_notices U h r\<rparr>)))"

definition Handler_LookupNameserver :: "unicode \<Rightarrow> Handler \<Rightarrow> request \<Rightarrow> writer \<Rightarrow> writer" where
  "Handler_LookupNameserver U h r =
     (let name = URLParam r ''name''
      in if name = []
         then writeError 400 400 ''Invalid nameserver name'' ''Nameserver name parameter is required''
         else (case Service_LookupNameserver U (hd_svc h) name (requestURL U h r) of
                 Inl err \<Rightarrow>
                   writeError 404 404 ''Nameserver not found'' (''No nameserver found for: '' @ name)
               | Inr ns \<Rightarrow>
                   writeJSON 200 (BNameserver
                     \<lparr>nr_Nameserver = ns,
                      nr_Conformance =
                        (if ExtensionsEnabled (hd_cfg h) ''ttl0''
                         then WithExtensions NewConformance [''ttl0''] else NewConformance),
                      nr_Notices = icann_notices U h r\<rparr>)))"

text \<open>The key under which a network is looked up; \<open>None\<close> when the parameter is no address or prefix.\<close>

definition network_key :: "string \<Rightarrow> string option" where
  "network_key network =
     (case ParsePrefix network of
        Some _ \<Rightarrow> Some network
      | None \<Rightarrow>
          (case ParseAddr network of
             None \<Rightarrow> None
           | Some _ \<Rightarrow> Some (if CHR '':'' \<in> set network then network @ ''/128'' else network @ ''/32'')))"

definition ipNetworkConformance :: "Handler \<Rightarrow> Conformance" where
  "ipNetworkConformance h =
     (let conf0 = NewConformance;
          conf1 = (if ExtensionsEnabled (hd_cfg h) ''geofeed1'' then WithExtensions conf0 [''geofeed1''] else conf0)
      in if ExtensionsEnabled (hd_cfg h) ''cidr0'' then WithExtensions conf1 [''cidr0''] else conf1)"

definition Handler_LookupIPNetwork :: "unicode \<Rightarrow> Handler \<Rightarrow> request \<Rightarrow> writer \<Rightarrow> writer" where
  "Handler_LookupIPNetwork U h r =
     (let network = URLParam r ''*''
      in if network = [] then writeError 400 400 ''Invalid network'' ''Network parameter is required''
         else (case network_key network of
                 None \<Rightarrow>
                   writeError 400 400 ''Invalid network'' ''Must be a valid IP address or CIDR notation''
               | Some network' \<Rightarrow>
                   (case Service_LookupIPNetwork (hd_svc h) network' (requestURL U h r) of
                      Inl err \<Rightarrow>
                        writeError 404 404 ''IP network not found'' (''No IP network found for: '' @ network')
                    | Inr ipnet \<Rightarrow>
                        writeJSON 200 (BIPNetwork
                          \<lparr>ir_IPNetwork = ipnet, ir_Conformance = ipNetworkConformance h,
                           ir_Notices = icann_notices U h r\<rparr>))))"

definition autnum_object :: "32 word \<Rightarrow> Autnum_R" where
  "autnum_object asn32 =
     \<lparr>Autnum_Common = Common ''autnum'' (''AS'' @ dec (unat asn32)) [] [] [] [] [] [] [''active''],
      StartAutnum = asn32, EndAutnum = asn32, Autnum_Name = ''AS'' @ dec (unat asn32),
      Autnum_Type = [], Autnum_Country = []\<rparr>"

definition Handler_LookupAutnum :: "unicode \<Rightarrow> Handler \<Rightarrow> request \<Rightarrow> writer \<Rightarrow> writer" where
  "Handler_LookupAutnum U h r =
     (let asnStr = URLParam r ''asn''
      in if asnStr = [] then writeError 400 400 ''Invalid ASN'' ''ASN parameter is required''
         else (case ParseUint32 asnStr of
                 None \<Rightarrow> writeError 400 400 ''Invalid ASN'' ''ASN must be a valid 32-bit unsigned integer''
               | Some asn \<Rightarrow>
                   writeJSON 200 (BAutnum
                     \<lparr>ar_Autnum = autnum_object (of_nat asn), ar_Conformance = NewConformance,
                      ar_Notices = icann_notices U h r\<rparr>)))"

subsection \<open>Searches\<close>

definition SearchNotImplemented :: "request \<Rightarrow> writer \<Rightarrow> writer" where
  "SearchNotImplemented r =
     writeError 501 501 ''Search not implemented'' ''Search queries are disabled on this server''"

text \<open>The limit of a search: the configured maximum, or a smaller positive number the client asks for.\<close>

definition search_limit :: "Handler \<Rightarrow> request \<Rightarrow> int" where
  "search_limit h r =
     (let limit = MaxSearchLimit (hd_cfg h); l = Query_Get r ''limit''
      in if l \<noteq> []
         then (case Atoi l of
                 Some parsed \<Rightarrow> if parsed > 0 \<and> parsed \<le> limit then parsed else limit
               | None \<Rightarrow> limit)
         else limit)"

definition predicates :: "request \<Rightarrow> (string \<times> string) list" where
  "predicates r =
     List.map_filter (\<lambda>p. if Query_Get r p \<noteq> [] then Some (p, Query_Get r p) else None)
       [''handle'', ''role'', ''fn'', ''email'']"

definition missing_predicate :: string where
  "missing_predicate =
     ''One of '' @ quoted ''handle'' @ '', '' @ quoted ''role'' @ '', '' @ quoted ''fn'' @ '', or ''
     @ quoted ''email'' @ '' is required''"

definition ReverseSearchDomains :: "unicode \<Rightarrow> Handler \<Rightarrow> request \<Rightarrow> writer \<Rightarrow> writer" where
  "ReverseSearchDomains U h r =
     (if \<not> ExtensionsEnabled (hd_cfg h) ''reverse_search''
      then writeError 501 501 ''Reverse search not implemented''
             ''The reverse_search extension is not enabled on this server''
      else
        (case predicates r of
           [] \<Rightarrow> writeError 400 400 ''Missing search parameter'' missing_predicate
         | [(property, pattern)] \<Rightarrow>
             (case Service_ReverseSearchDomainsByEntity (hd_svc h) property pattern (search_limit h r)
                     (requestURL U h r) of
                Inl err \<Rightarrow>
                  if errors_Is err ErrReverseSearchUnsupported
                  then writeError 501 501 ''Reverse search not implemented''
                         ''The storage backend does not support reverse search''
                  else writeError 500 500 ''Reverse search failed'' (Error err)
              | Inr results \<Rightarrow>
                  writeJSON 200 (BDomains
                    \<lparr>ds_Conformance = WithExtensions NewConformance [''reverse_search''],
                     DomainSearchResults = results, ds_Notices = icann_notices U h r,
                     ds_ReverseSearchPropertiesMapping = ReverseSearchMapping [property]\<rparr>))
         | _ \<Rightarrow> writeError 400 400 ''Ambiguous search'' ''Only one reverse search property may be specified''))"

text \<open>
  The three searches share their frame: two mutually exclusive parameters, the search of the one
  given, and the response built from the results.
\<close>

definition search_frame ::
  "string \<Rightarrow> string \<Rightarrow> (string \<Rightarrow> 'a list result) \<Rightarrow> (string \<Rightarrow> 'a list result) \<Rightarrow> ('a list \<Rightarrow> body) \<Rightarrow>
   request \<Rightarrow> writer \<Rightarrow> writer" where
  "search_frame p1 p2 search1 search2 mk r =
     (let v1 = Query_Get r p1; v2 = Query_Get r p2
      in if v1 \<noteq> [] \<and> v2 \<noteq> []
         then writeError 400 400 ''Ambiguous search''
                (''Cannot specify both '' @ quoted p1 @ '' and '' @ quoted p2 @ '' parameters'')
         else if v1 = [] \<and> v2 = []
         then writeError 400 400 ''Missing search parameter''
                (''Either '' @ quoted p1 @ '' or '' @ quoted p2 @ '' parameter is required'')
         else (case (if v1 \<noteq> [] then search1 v1 else search2 v2) of
                 Inl err \<Rightarrow> writeError 500 500 ''Search failed'' (Error err)
               | Inr results \<Rightarrow> writeJSON 200 (mk results)))"

definition SearchDomains :: "unicode \<Rightarrow> Handler \<Rightarrow> request \<Rightarrow> writer \<Rightarrow> writer" where
  "SearchDomains U h r =
     search_frame ''name'' ''nsLdhName''
       (\<lambda>p. Service_SearchDomainsByName (hd_svc h) p (search_limit h r) (requestURL U h r))
       (\<lambda>p. Service_SearchDomainsByNS (hd_svc h) p (search_limit h r) (requestURL U h r))
       (\<lambda>results. BDomains \<lparr>ds_Conformance = NewConformance, DomainSearchResults = results,
          ds_Notices = icann_notices U h r, ds_ReverseSearchPropertiesMapping = []\<rparr>) r"

definition SearchEntities :: "unicode \<Rightarrow> Handler \<Rightarrow> request \<Rightarrow> writer \<Rightarrow> writer" where
  "SearchEntities U h r =
     search_frame ''fn'' ''handle''
       (\<lambda>p. Service_SearchEntitiesByName (hd_svc h) p (search_limit h r) (requestURL U h r))
       (\<lambda>p. Service_SearchEntitiesByHandle (hd_svc h) p (search_limit h r) (requestURL U h r))
       (\<lambda>results. BEntities \<lparr>es_Conformance = NewConformance, EntitySearchResults = results,
          es_Notices = icann_notices U h r, es_ReverseSearchPropertiesMapping = []\<rparr>) r"

definition SearchNameservers :: "unicode \<Rightarrow> Handler \<Rightarrow> request \<Rightarrow> writer \<Rightarrow> writer" where
  "SearchNameservers U h r =
     search_frame ''name'' ''ip''
       (\<lambda>p. Service_SearchNameserversByName (hd_svc h) p (search_limit h r) (requestURL U h r))
       (\<lambda>p. Service_SearchNameserversByIP (hd_svc h) p (search_limit h r) (requestURL U h r))
       (\<lambda>results. BNameservers \<lparr>nss_Conformance = NewConformance, NameserverSearchResults = results,
          nss_Notices = icann_notices U h r, nss_ReverseSearchPropertiesMapping = []\<rparr>) r"

subsection \<open>Routes\<close>

record route =
  rt_method :: string
  rt_pattern :: string
  rt_handler :: "request \<Rightarrow> writer \<Rightarrow> writer"

definition get_head :: "string \<Rightarrow> (request \<Rightarrow> writer \<Rightarrow> writer) \<Rightarrow> route list" where
  "get_head pattern f =
     [\<lparr>rt_method = ''GET'', rt_pattern = pattern, rt_handler = f\<rparr>,
      \<lparr>rt_method = ''HEAD'', rt_pattern = pattern, rt_handler = f\<rparr>]"

definition RegisterRoutes ::
  "unicode \<Rightarrow> (string \<Rightarrow> string result) \<Rightarrow> (string \<Rightarrow> string result) \<Rightarrow> Handler \<Rightarrow> route list" where
  "RegisterRoutes U A N h =
     get_head ''/help'' (Handler_Help h)
     @ [\<lparr>rt_method = ''GET'', rt_pattern = ''/'', rt_handler = Handler_Help h\<rparr>]
     @ get_head ''/domain/{domainName}'' (Handler_LookupDomain U A N h)
     @ get_head ''/entity/{handle}'' (Handler_LookupEntity U h)
     @ get_head ''/nameserver/{name}'' (Handler_LookupNameserver U h)
     @ get_head ''/ip/*'' (Handler_LookupIPNetwork U h)
     @ get_head ''/autnum/{asn}'' (Handler_LookupAutnum U h)
     @ (if SearchEnabled (hd_cfg h)
        then get_head ''/domains'' (SearchDomains U h)
             @ get_head ''/entities'' (SearchEntities U h)
             @ get_head ''/nameservers'' (SearchNameservers U h)
        else get_head ''/domains'' SearchNotImplemented
             @ get_head ''/entities'' SearchNotImplemented
             @ get_head ''/nameservers'' SearchNotImplemented)
     @ get_head ''/domains/reverse_search/entity'' (ReverseSearchDomains U h)"

lemmas handler_eval [go_eval] =
  New_Handler_def writeJSON_def error_response_def writeError_def requestURL_def noticeOpts_def
  icann_notices_def farv1Providers_def Handler_Help_def Handler_LookupDomain_def
  Handler_LookupEntity_def Handler_LookupNameserver_def network_key_def ipNetworkConformance_def
  Handler_LookupIPNetwork_def autnum_object_def Handler_LookupAutnum_def SearchNotImplemented_def
  search_limit_def predicates_def missing_predicate_def ReverseSearchDomains_def search_frame_def
  SearchDomains_def SearchEntities_def SearchNameservers_def get_head_def RegisterRoutes_def

subsection \<open>One proper answer per request\<close>

text \<open>
  The notices a success body carries; the status of a response and the kind of its body agree when
  an error body repeats the status and a success is never an error body.
\<close>

primrec body_notices :: "body \<Rightarrow> Notice list" where
  "body_notices (BText t) = []"
| "body_notices (BHelp h) = h_Notices h"
| "body_notices (BDomain d) = Domain_Notices d"
| "body_notices (BEntity e) = er_Notices e"
| "body_notices (BNameserver n) = nr_Notices n"
| "body_notices (BIPNetwork n) = ir_Notices n"
| "body_notices (BAutnum a) = ar_Notices a"
| "body_notices (BDomains ds) = ds_Notices ds"
| "body_notices (BEntities es) = es_Notices es"
| "body_notices (BNameservers ns) = nss_Notices ns"
| "body_notices (BError e) = er2_Notices e"

definition agrees :: "int \<Rightarrow> body \<Rightarrow> bool" where
  "agrees code b \<longleftrightarrow>
     code \<in> {200, 400, 404, 500, 501} \<and>
     (case b of BText _ \<Rightarrow> False | BError e \<Rightarrow> code \<noteq> 200 \<and> ErrorCode e = code | _ \<Rightarrow> code = 200)"

text \<open>\<open>answers w w' P\<close>: one status and one body were added to a fresh writer, and \<open>P\<close> holds of them.\<close>

definition answers :: "writer \<Rightarrow> writer \<Rightarrow> (int \<Rightarrow> body \<Rightarrow> bool) \<Rightarrow> bool" where
  "answers w w' P \<longleftrightarrow>
     (\<exists>code b. w_codes w' = [code] \<and> w_body w' = w_body w @ [b] \<and>
        sent_header w' ''Content-Type'' = Some ''application/rdap+json'' \<and> P code b)"

lemma answers_writeJSON:
  "w_codes w = [] \<Longrightarrow> answers w (writeJSON status b w) P \<longleftrightarrow> P status b"
  by (simp add: answers_def writeJSON_def Write_body_def WriteHeader_def Header_Set_def sent_header_def Let_def)

lemma answers_writeError:
  "w_codes w = [] \<Longrightarrow>
   answers w (writeError status code t d w) P \<longleftrightarrow> P status (BError (error_response code t d))"
  by (simp add: writeError_def answers_writeJSON)

lemma status_of_writeJSON: "w_codes w = [] \<Longrightarrow> status_of (writeJSON status b w) = status"
  by (simp add: status_of_def writeJSON_def Write_body_def WriteHeader_def Header_Set_def Let_def)

lemma status_of_writeError: "w_codes w = [] \<Longrightarrow> status_of (writeError status code t d w) = status"
  by (simp add: writeError_def status_of_writeJSON)

lemma body_of_writeJSON: "w_body (writeJSON status b w) = w_body w @ [b]"
  by (simp add: writeJSON_def Write_body_def WriteHeader_def Header_Set_def Let_def)

lemma body_of_writeError: "w_body (writeError status code t d w) = w_body w @ [BError (error_response code t d)]"
  by (simp add: writeError_def body_of_writeJSON)

lemmas write_simps = answers_writeJSON answers_writeError status_of_writeJSON status_of_writeError
  body_of_writeJSON body_of_writeError

lemma error_response_code [simp]: "ErrorCode (error_response c t d) = c"
  by (simp add: error_response_def)

text \<open>What every handler but \<open>Help\<close> guarantees, and what \<open>Help\<close> does.\<close>

definition icann_ok :: "unicode \<Rightarrow> Handler \<Rightarrow> request \<Rightarrow> int \<Rightarrow> body \<Rightarrow> bool" where
  "icann_ok U h r code b \<longleftrightarrow>
     agrees code b \<and>
     (code = 200 \<longrightarrow> status_codes_notice (requestURL U h r) \<in> set (body_notices b) \<and>
                     inaccuracy_notice (requestURL U h r) \<in> set (body_notices b))"

lemma icann_ok_error: "c \<in> {400, 404, 500, 501} \<Longrightarrow> icann_ok U h r c (BError (error_response c t d))"
  by (auto simp: icann_ok_def agrees_def)

lemma icann_notices_mandated [simp]:
  "status_codes_notice (requestURL U h r) \<in> set (icann_notices U h r)"
  "inaccuracy_notice (requestURL U h r) \<in> set (icann_notices U h r)"
  by (simp_all add: icann_notices_def NewNoticesWithICANN_mandated)

lemma domain_notices:
  "Service_LookupDomain s n url = Inr d \<Longrightarrow>
   status_codes_notice url \<in> set (Domain_Notices d) \<and> inaccuracy_notice url \<in> set (Domain_Notices d)"
  by (auto simp: Service_LookupDomain_def DomainAggregateToRDAP_def domainToRDAP_def Let_def
      NewNoticesWithICANN_mandated split: sum.splits)

lemma Help_answers:
  assumes fresh: "w_codes w = []"
  shows "answers w (Handler_Help h r w) agrees"
  using fresh by (simp add: Handler_Help_def Let_def write_simps agrees_def)

lemma LookupDomain_answers:
  assumes fresh: "w_codes w = []"
  shows "answers w (Handler_LookupDomain U A N h r w) (icann_ok U h r)"
  using fresh
  by (auto simp: Handler_LookupDomain_def Let_def write_simps icann_ok_error dest: domain_notices
      split: sum.splits) (auto simp: icann_ok_def agrees_def dest: domain_notices)

lemma LookupEntity_answers:
  assumes fresh: "w_codes w = []"
  shows "answers w (Handler_LookupEntity U h r w) (icann_ok U h r)"
  using fresh
  by (simp add: Handler_LookupEntity_def Let_def write_simps icann_ok_error split: sum.splits)
    (simp add: icann_ok_def agrees_def)

lemma LookupNameserver_answers:
  assumes fresh: "w_codes w = []"
  shows "answers w (Handler_LookupNameserver U h r w) (icann_ok U h r)"
  using fresh
  by (simp add: Handler_LookupNameserver_def Let_def write_simps icann_ok_error split: sum.splits)
    (simp add: icann_ok_def agrees_def)

lemma LookupIPNetwork_answers:
  assumes fresh: "w_codes w = []"
  shows "answers w (Handler_LookupIPNetwork U h r w) (icann_ok U h r)"
  using fresh
  by (simp add: Handler_LookupIPNetwork_def Let_def write_simps icann_ok_error split: sum.splits option.splits)
    (simp add: icann_ok_def agrees_def)

lemma LookupAutnum_answers:
  assumes fresh: "w_codes w = []"
  shows "answers w (Handler_LookupAutnum U h r w) (icann_ok U h r)"
  using fresh
  by (simp add: Handler_LookupAutnum_def Let_def write_simps icann_ok_error split: option.splits)
    (simp add: icann_ok_def agrees_def)

lemma search_frame_answers:
  assumes fresh: "w_codes w = []" and "\<And>res. icann_ok U h r 200 (mk res)"
  shows "answers w (search_frame p1 p2 s1 s2 mk r w) (icann_ok U h r)"
  using assms
  by (simp add: search_frame_def Let_def write_simps icann_ok_error split: sum.splits)

lemma Search_answers:
  assumes fresh: "w_codes w = []"
  shows "answers w (SearchDomains U h r w) (icann_ok U h r)"
  "answers w (SearchEntities U h r w) (icann_ok U h r)"
  "answers w (SearchNameservers U h r w) (icann_ok U h r)"
  "answers w (SearchNotImplemented r w) (icann_ok U h r)"
  unfolding SearchDomains_def SearchEntities_def SearchNameservers_def
  by (rule search_frame_answers [OF fresh], simp add: icann_ok_def agrees_def)+
    (simp add: SearchNotImplemented_def write_simps fresh icann_ok_error)

lemma ReverseSearch_answers:
  assumes fresh: "w_codes w = []"
  shows "answers w (ReverseSearchDomains U h r w) (icann_ok U h r)"
  using fresh
  by (simp add: ReverseSearchDomains_def write_simps icann_ok_error split: list.splits sum.splits)
    (simp add: icann_ok_def agrees_def)

lemma icann_ok_agrees: "answers w w' (icann_ok U h r) \<Longrightarrow> answers w w' agrees"
  by (auto simp: answers_def icann_ok_def)

lemmas route_answers =
  LookupDomain_answers LookupEntity_answers LookupNameserver_answers LookupIPNetwork_answers
  LookupAutnum_answers Search_answers ReverseSearch_answers

lemma routes_cases:
  assumes "rt \<in> set (RegisterRoutes U A N h)"
  shows "rt_handler rt = Handler_Help h \<and> rt_pattern rt \<in> {''/help'', ''/''} \<or>
         rt_pattern rt \<notin> {''/help'', ''/''} \<and>
         (\<forall>r w. w_codes w = [] \<longrightarrow> answers w (rt_handler rt r w) (icann_ok U h r))"
  using assms by (auto simp: RegisterRoutes_def get_head_def route_answers split: if_splits)

subsection \<open>Limits\<close>

lemma search_limit_clamp:
  "search_limit h r \<le> MaxSearchLimit (hd_cfg h)"
  "MaxSearchLimit (hd_cfg h) > 0 \<Longrightarrow> search_limit h r > 0"
  by (simp_all add: search_limit_def Let_def split: option.split)

text \<open>The number of objects in a search response.\<close>

primrec body_count :: "body \<Rightarrow> nat" where
  "body_count (BText t) = 0"
| "body_count (BHelp h) = 0"
| "body_count (BDomain d) = 1"
| "body_count (BEntity e) = 1"
| "body_count (BNameserver n) = 1"
| "body_count (BIPNetwork n) = 1"
| "body_count (BAutnum a) = 1"
| "body_count (BDomains ds) = length (DomainSearchResults ds)"
| "body_count (BEntities es) = length (EntitySearchResults es)"
| "body_count (BNameservers ns) = length (NameserverSearchResults ns)"
| "body_count (BError e) = 0"

lemma search_frame_count:
  assumes "w_codes w = []" "0 \<le> l" "\<And>res. body_count (mk res) = length res"
    and "\<And>p. bounded l (s1 p)" "\<And>p. bounded l (s2 p)"
  shows "answers w (search_frame p1 p2 s1 s2 mk r w) (\<lambda>code b. int (body_count b) \<le> l)"
  using assms by (auto simp: search_frame_def Let_def write_simps bounded_def split: sum.splits)

context bounded_store
begin

lemma search_responses_bounded:
  assumes "svc_store (hd_svc h) = st" "MaxSearchLimit (hd_cfg h) > 0" "w_codes w = []"
    and "f \<in> {SearchDomains U h, SearchEntities U h, SearchNameservers U h, ReverseSearchDomains U h}"
  shows "answers w (f r w) (\<lambda>code b. int (body_count b) \<le> search_limit h r)"
proof -
  have pos: "search_limit h r > 0" using search_limit_clamp(2) [OF assms(2)] .
  have nonneg: "0 \<le> search_limit h r" using pos by simp
  note bound = service_bounded [OF assms(1) pos]
  have "answers w (SearchDomains U h r w) (\<lambda>code b. int (body_count b) \<le> search_limit h r)"
    "answers w (SearchEntities U h r w) (\<lambda>code b. int (body_count b) \<le> search_limit h r)"
    "answers w (SearchNameservers U h r w) (\<lambda>code b. int (body_count b) \<le> search_limit h r)"
    unfolding SearchDomains_def SearchEntities_def SearchNameservers_def
    by (rule search_frame_count [OF assms(3) nonneg], simp_all add: bound)+
  moreover have "answers w (ReverseSearchDomains U h r w) (\<lambda>code b. int (body_count b) \<le> search_limit h r)"
    using bound(7) assms(3) nonneg
    by (auto simp: ReverseSearchDomains_def write_simps bounded_def split: list.splits sum.splits)
  ultimately show ?thesis using assms(4) by blast
qed

end

subsection \<open>Lookups\<close>

lemma norm_name_ldh:
  assumes "ValidateLDHName ldh"
  shows "norm_name U ldh = TrimSuffix ldh ''.''"
proof -
  have "isASCII (TrimSuffix ldh ''.'') \<and> map lower_byte (TrimSuffix ldh ''.'') = TrimSuffix ldh ''.''"
    using ValidateLDHName_lower ValidateLDHName_TrimSuffix [OF assms] by blast
  then show ?thesis by (simp add: norm_name_def ToLower_def)
qed

lemma Normalize_empty: "\<exists>e. NormalizeDomainName U A N [] = Inl e"
  by (simp add: NormalizeDomainName_def TrimSpace_def ToLower_def TrimSuffix_def ValidateLDHName_def)

lemma lookup_domain_memory:
  assumes "svc_store svc = memory_interface U R s" and "ValidateLDHName ldh"
  shows "(case map_of (ms_domains s) (TrimSuffix ldh ''.'') of
            None \<Rightarrow> \<exists>e. Service_LookupDomain svc ldh url = Inl e
          | Some d \<Rightarrow> \<exists>resp. Service_LookupDomain svc ldh url = Inr resp \<and> Domain_LDHName resp = d_LDHName d)"
proof (cases "map_of (ms_domains s) (TrimSuffix ldh ''.'')")
  case None
  then show ?thesis
    using assms by (simp add: Service_LookupDomain_def memory_interface_def Memory_GetDomainAggregate_def
        norm_name_ldh)
next
  case (Some d)
  then obtain agg where agg: "Memory_GetDomainAggregate U s ldh = Inr agg"
    using assms(2) by (simp add: Memory_GetDomainAggregate_def norm_name_ldh Let_def)
  have "agg_Domain agg = d" using aggregate_maps(1) [OF agg] Some assms(2) by (simp add: norm_name_ldh)
  with agg Some assms(1) show ?thesis
    by (simp add: Service_LookupDomain_def memory_interface_def DomainAggregateToRDAP_def domainToRDAP_def Let_def)
qed

lemma NewHelp_fields:
  "h_Conformance (NewHelp b opts rate search) = \<lparr>conf = [''rdap_level_0'']\<rparr>"
  "ReverseSearchProperties_H (NewHelp b opts rate search) = []"
  "FARV1OpenIDCConfiguration_H (NewHelp b opts rate search) = None"
  by (simp_all add: NewHelp_def NewConformance_def)

subsection \<open>Properties\<close>

definition example_rdap_config :: RDAPConfig where
  "example_rdap_config =
     \<lparr>TLDs = [''com''], Mode = ''registrar'', BaseURL = ''https://r'', RegistrarBaseURL = ''https://r'',
      MaxDomainLen = 253, MaxSearchLimit = 2, Port43Whois = [], ServerName = [], Version = ''1.2'',
      SearchEnabled = False, Extensions = [''cidr0'', ''reverse_search''], TTL0 = None, Geofeed = None,
      ToS = None, CustomNotices = []\<rparr>"

definition example_handler :: Handler where
  "example_handler =
     New_Handler (New_Service (memory_interface no_unicode no_regexp example_store) example_rdap_config)
       example_rdap_config
       \<lparr>r_Enabled = False, Requests = 100, Window = 0, Burst = 0, TrustedIPs = []\<rparr>
       \<lparr>a_Enabled = False, JWKSEndpoint = [], Issuer = [], Audience = [], Algorithms = []\<rparr> 8443"

definition example_request :: "(string \<times> string) list \<Rightarrow> string \<Rightarrow> request" where
  "example_request params query =
     \<lparr>Method = ''GET'', Host = ''h'', TLS = False, Header = [], URL_Path = ''/x'', RawQuery = query,
      RemoteAddr = ''192.0.2.7:4711'', URLParams = params, ctx_request_id = None,
      ctx_client_ip = None, ctx_claims = None\<rparr>"

definition no_idna :: "string \<Rightarrow> string result" where
  "no_idna s = Inl (Errorf ''idna'')"

lemmas example_handler_eval [go_eval] =
  example_rdap_config_def example_handler_def example_request_def no_idna_def

text \<open>
  C21. Every route that the handler registers (the health check is the server's own and not among them)
  answers a request exactly once, with the media type
  \<open>application/rdap+json\<close>, a status among 200, 400, 404, 500 and 501, and a body that agrees with the
  status: an RDAP error object carrying the same code, or for 200 a response object. Every success
  of a route other than \<open>/help\<close> and \<open>/\<close>, which both show the help page, carries the two notices ICANN
  mandates.
\<close>

theorem RegisterRoutes_answers:
  assumes "rt \<in> set (RegisterRoutes U A N h)" and "w_codes w = []"
  shows "answers w (rt_handler rt r w) agrees \<and>
         (rt_pattern rt \<notin> {''/help'', ''/''} \<longrightarrow> answers w (rt_handler rt r w) (icann_ok U h r))"
  using routes_cases [OF assms(1)] Help_answers [OF assms(2)] assms(2) icann_ok_agrees by metis

theorem RegisterRoutes_answers_witness:
  "answers new_writer (Handler_LookupAutnum no_unicode example_handler (example_request [] []) new_writer)
     (icann_ok no_unicode example_handler (example_request [] []))"
proof -
  let ?rt = "\<lparr>rt_method = ''GET'', rt_pattern = ''/autnum/{asn}'',
    rt_handler = Handler_LookupAutnum no_unicode example_handler\<rparr>"
  have "?rt \<in> set (RegisterRoutes no_unicode no_idna no_idna example_handler)"
    by (simp add: RegisterRoutes_def get_head_def)
  from RegisterRoutes_answers [OF this, of new_writer] show ?thesis by (simp add: new_writer_def)
qed

text \<open>
  When search is disabled the three search routes exist and answer 501, whatever the query and
  whatever the store holds.
\<close>

theorem search_disabled_501:
  assumes "\<not> SearchEnabled (hd_cfg h)" and "rt \<in> set (RegisterRoutes U A N h)"
    and "rt_pattern rt \<in> {''/domains'', ''/entities'', ''/nameservers''}" and "w_codes w = []"
  shows "status_of (rt_handler rt r w) = 501"
  using assms by (auto simp: RegisterRoutes_def get_head_def SearchNotImplemented_def write_simps)

theorem search_disabled_501_witness:
  "status_of (SearchNotImplemented (example_request [] ''name=a'') new_writer) = 501"
  using search_disabled_501 [of example_handler "\<lparr>rt_method = ''GET'', rt_pattern = ''/domains'',
    rt_handler = SearchNotImplemented\<rparr>" no_unicode no_idna no_idna new_writer "example_request [] ''name=a''"]
  by (simp add: RegisterRoutes_def get_head_def example_handler_def example_rdap_config_def New_Handler_def
      new_writer_def)

text \<open>
  C22. Over the memory store, every search and reverse search response holds at most as many objects as
  the configured maximum (when it is positive), and at most as many as a smaller limit the client
  asked for.
\<close>

theorem search_results_limited:
  assumes "svc_store (hd_svc h) = memory_interface U' R s" and "MaxSearchLimit (hd_cfg h) > 0"
    and "f \<in> {SearchDomains U h, SearchEntities U h, SearchNameservers U h, ReverseSearchDomains U h}"
    and "w_codes w = []"
  shows "answers w (f r w) (\<lambda>code b. int (body_count b) \<le> search_limit h r) \<and>
         0 < search_limit h r \<and> search_limit h r \<le> MaxSearchLimit (hd_cfg h) \<and>
         (Query_Get r ''limit'' = dec n \<and> 0 < n \<and> int n \<le> MaxSearchLimit (hd_cfg h) \<and> n < 2 ^ 63 \<longrightarrow>
            search_limit h r = int n)"
proof -
  have head: "dec n \<noteq> [] \<and> hd (dec n) \<noteq> CHR ''-'' \<and> hd (dec n) \<noteq> CHR ''+''"
    using dec_digits [of n] by (cases "dec n") (auto simp: isdigit_def byte_def)
  then have "Atoi (dec n) = (if n < 2 ^ 63 then Some (int n) else None)"
    using parse_digits_dec [of n] by (cases "dec n") (auto simp: Atoi_def)
  with head show ?thesis
    using mem.search_responses_bounded [OF assms(1,2,4,3)] search_limit_clamp [of h r] assms(2)
    by (simp add: search_limit_def Let_def)
qed

theorem search_results_limited_witness:
  "answers new_writer (SearchDomains no_unicode example_handler (example_request [] ''name=e*&limit=9'') new_writer)
     (\<lambda>code b. int (body_count b) \<le> 2)"
proof -
  let ?r = "example_request [] ''name=e*&limit=9''"
  have lim: "search_limit example_handler ?r = 2"
    by (simp add: go_eval)
  have "answers new_writer (SearchDomains no_unicode example_handler ?r new_writer)
      (\<lambda>code b. int (body_count b) \<le> search_limit example_handler ?r)"
    by (rule search_results_limited [where U' = no_unicode and R = no_regexp and s = example_store
          and U = no_unicode, THEN conjunct1])
      (simp_all add: example_handler_def New_Handler_def New_Service_def example_rdap_config_def new_writer_def)
  then show ?thesis by (simp add: lim)
qed

lemma lookup_domain_status:
  assumes "svc_store (hd_svc h) = memory_interface U R s" and "mem_inv s" and "w_codes w = []"
  shows "case NormalizeDomainName U A N (URLParam r ''domainName'') of
           Inl _ \<Rightarrow> status_of (Handler_LookupDomain U A N h r w) = 400
         | Inr (ldh, _) \<Rightarrow>
             if \<exists>d \<in> snd ` set (ms_domains s). d_LDHName d = TrimSuffix ldh ''.''
             then status_of (Handler_LookupDomain U A N h r w) = 200 \<and>
                  (\<exists>resp. w_body (Handler_LookupDomain U A N h r w) = w_body w @ [BDomain resp] \<and>
                          Domain_LDHName resp = TrimSuffix ldh ''.'')
             else status_of (Handler_LookupDomain U A N h r w) = 404"
proof (cases "NormalizeDomainName U A N (URLParam r ''domainName'')")
  case (Inl e)
  then show ?thesis using assms(3) by (simp add: Handler_LookupDomain_def Let_def write_simps)
next
  case (Inr p)
  obtain ldh uni where p: "p = (ldh, uni)" by (cases p)
  have ne: "URLParam r ''domainName'' \<noteq> []" using Inr Normalize_empty [of U A N] by auto
  have ldh: "ValidateLDHName ldh" using NormalizeDomainName_ldh Inr p by metis
  let ?n = "TrimSuffix ldh ''.''"
  have iff: "(\<exists>d \<in> snd ` set (ms_domains s). d_LDHName d = ?n) \<longleftrightarrow> (\<exists>d. map_of (ms_domains s) ?n = Some d)"
    and name: "map_of (ms_domains s) ?n = Some d \<Longrightarrow> d_LDHName d = ?n" for d
    using mem_inv_stored [OF assms(2), of ?n] by auto
  show ?thesis
  proof (cases "map_of (ms_domains s) ?n")
    case None
    with lookup_domain_memory [OF assms(1) ldh, of "requestURL U h r"] obtain e
      where "Service_LookupDomain (hd_svc h) ldh (requestURL U h r) = Inl e" by auto
    then show ?thesis
      using Inr p ne iff None assms(3) by (simp add: Handler_LookupDomain_def Let_def write_simps)
  next
    case (Some d)
    with lookup_domain_memory [OF assms(1) ldh, of "requestURL U h r"] obtain resp
      where "Service_LookupDomain (hd_svc h) ldh (requestURL U h r) = Inr resp"
        "Domain_LDHName resp = d_LDHName d" by auto
    then show ?thesis
      using Inr p ne iff Some name [OF Some] assms(3)
      by (simp add: Handler_LookupDomain_def Let_def write_simps)
  qed
qed

text \<open>
  C20. The domain lookup over a memory store that satisfies its invariant: 400 exactly when the name
  does not normalise (an empty one included), 200 with the domain of that very name when one is
  stored, 404 otherwise; and this whatever the configuration says: neither \<open>rdap.tlds\<close> nor
  \<open>rdap.max_domain_length\<close> restricts the names that are answered.
\<close>

theorem Handler_LookupDomain_status:
  assumes "svc_store (hd_svc h) = memory_interface U R s" and "mem_inv s" and "w_codes w = []"
  shows "case NormalizeDomainName U A N (URLParam r ''domainName'') of
           Inl _ \<Rightarrow> status_of (Handler_LookupDomain U A N h r w) = 400
         | Inr (ldh, _) \<Rightarrow>
             if \<exists>d \<in> snd ` set (ms_domains s). d_LDHName d = TrimSuffix ldh ''.''
             then status_of (Handler_LookupDomain U A N h r w) = 200 \<and>
                  (\<exists>resp. w_body (Handler_LookupDomain U A N h r w) = w_body w @ [BDomain resp] \<and>
                          Domain_LDHName resp = TrimSuffix ldh ''.'')
             else status_of (Handler_LookupDomain U A N h r w) = 404"
  using lookup_domain_status [OF assms] .

theorem Handler_LookupDomain_status_witness:
  "status_of (Handler_LookupDomain no_unicode no_idna no_idna example_handler
     (example_request [(''domainName'', ''Example.COM'')] []) new_writer) = 200"
proof -
  let ?r = "example_request [(''domainName'', ''Example.COM'')] []"
  have norm: "NormalizeDomainName no_unicode no_idna no_idna (URLParam ?r ''domainName'') =
      Inr (''example.com'', ''example.com'')"
    by (simp add: example_request_def URLParam_def) (simp add: go_eval)
  have trim: "TrimSuffix ''example.com'' ''.'' = ''example.com''"
    by (simp add: TrimSuffix_def suffix_to_prefix)
  have stored: "\<exists>d \<in> snd ` set (ms_domains example_store). d_LDHName d = ''example.com''"
    by (simp add: example_store_maps seed_domain_def)
  show ?thesis
    using Handler_LookupDomain_status [of example_handler no_unicode no_regexp example_store new_writer
        no_idna no_idna ?r, unfolded norm sum.case prod.case trim] stored example_store_inv
    by (simp add: example_handler_def New_Handler_def New_Service_def new_writer_def)
qed

text \<open>
  The number lookup answers 200 for exactly the texts of 32-bit numbers, and the object it returns
  starts and ends at that number and is named after it. The answer does not depend on the store: two
  handlers that differ only in their service answer alike.
\<close>

theorem Handler_LookupAutnum_echo:
  assumes "w_codes w = []"
  shows "status_of (Handler_LookupAutnum U h r w) =
           (if ParseUint32 (URLParam r ''asn'') = None then 400 else 200) \<and>
         (\<forall>n < 2 ^ 32. URLParam r ''asn'' = dec n \<longrightarrow>
            (\<exists>a. w_body (Handler_LookupAutnum U h r w) = w_body w @ [BAutnum a] \<and>
                 unat (StartAutnum (ar_Autnum a)) = n \<and> unat (EndAutnum (ar_Autnum a)) = n \<and>
                 Handle (Autnum_Common (ar_Autnum a)) = ''AS'' @ URLParam r ''asn'')) \<and>
         Handler_LookupAutnum U (h\<lparr>hd_svc := svc\<rparr>) r w = Handler_LookupAutnum U h r w"
proof (intro conjI)
  have empty: "ParseUint32 [] = None" by (simp add: ParseUint32_def parse_digits_def)
  show "status_of (Handler_LookupAutnum U h r w) = (if ParseUint32 (URLParam r ''asn'') = None then 400 else 200)"
    using assms empty by (simp add: Handler_LookupAutnum_def Let_def write_simps split: option.split)
  have "\<exists>a. w_body (Handler_LookupAutnum U h r w) = w_body w @ [BAutnum a] \<and>
          unat (StartAutnum (ar_Autnum a)) = n \<and> unat (EndAutnum (ar_Autnum a)) = n \<and>
          Handle (Autnum_Common (ar_Autnum a)) = ''AS'' @ URLParam r ''asn''"
    if n: "n < 2 ^ 32" and t: "URLParam r ''asn'' = dec n" for n
  proof -
    have "unat (of_nat n :: 32 word) = n" using n by (simp add: unat_of_nat take_bit_nat_eq_self)
    then show ?thesis
      using ParseUint32_dec [OF n] dec_digits [of n]
      by (simp add: Handler_LookupAutnum_def Let_def t body_of_writeJSON autnum_object_def)
  qed
  then show "\<forall>n < 2 ^ 32. URLParam r ''asn'' = dec n \<longrightarrow>
            (\<exists>a. w_body (Handler_LookupAutnum U h r w) = w_body w @ [BAutnum a] \<and>
                 unat (StartAutnum (ar_Autnum a)) = n \<and> unat (EndAutnum (ar_Autnum a)) = n \<and>
                 Handle (Autnum_Common (ar_Autnum a)) = ''AS'' @ URLParam r ''asn'')" by blast
  have same: "hd_port (h\<lparr>hd_svc := svc\<rparr>) = hd_port h" "hd_cfg (h\<lparr>hd_svc := svc\<rparr>) = hd_cfg h"
    by simp_all
  have "icann_notices U (h\<lparr>hd_svc := svc\<rparr>) r = icann_notices U h r"
    unfolding icann_notices_def requestURL_def noticeOpts_def same by (rule refl)
  then show "Handler_LookupAutnum U (h\<lparr>hd_svc := svc\<rparr>) r w = Handler_LookupAutnum U h r w"
    by (simp only: Handler_LookupAutnum_def)
qed

theorem Handler_LookupAutnum_echo_witness:
  "\<exists>a. w_body (Handler_LookupAutnum no_unicode example_handler (example_request [(''asn'', ''64512'')] []) new_writer) =
        [BAutnum a] \<and> unat (StartAutnum (ar_Autnum a)) = 64512"
proof -
  have asn: "URLParam (example_request [(''asn'', ''64512'')] []) ''asn'' = dec 64512"
    by (simp add: example_request_def URLParam_def dec.simps digit_char_def)
  have "\<forall>n < 2 ^ 32. URLParam (example_request [(''asn'', ''64512'')] []) ''asn'' = dec n \<longrightarrow>
      (\<exists>a. w_body (Handler_LookupAutnum no_unicode example_handler (example_request [(''asn'', ''64512'')] []) new_writer) =
          w_body new_writer @ [BAutnum a] \<and> unat (StartAutnum (ar_Autnum a)) = n \<and> unat (EndAutnum (ar_Autnum a)) = n \<and>
          Handle (Autnum_Common (ar_Autnum a)) = ''AS'' @ URLParam (example_request [(''asn'', ''64512'')] []) ''asn'')"
    by (rule Handler_LookupAutnum_echo [THEN conjunct2, THEN conjunct1]) (simp add: new_writer_def)
  from this [rule_format, of 64512] asn show ?thesis by (auto simp: new_writer_def)
qed

text \<open>
  The network lookup rejects with 400 exactly the texts that are neither an address nor a prefix;
  an address is looked up as its full-length prefix: the key then parses as a prefix of the same
  address and of its full width, 32 or 128 bits (for an address without a zone).
\<close>

theorem network_key_prefix:
  assumes "w_codes w = []"
  shows "(status_of (Handler_LookupIPNetwork U h r w) = 400 \<longleftrightarrow> network_key (URLParam r ''*'') = None) \<and>
         (network_key n = None \<longleftrightarrow> ParsePrefix n = None \<and> ParseAddr n = None) \<and>
         (ParsePrefix n = None \<and> ParseAddr n = Some a \<and> Zone a = [] \<longrightarrow>
            (\<exists>key. network_key n = Some key \<and> prefix n key \<and> ParsePrefix key = Some (a, BitLen a)))"
proof (intro conjI impI)
  have empty: "network_key [] = None"
    by (simp add: network_key_def ParsePrefix_def ParseAddr_def)
  show "status_of (Handler_LookupIPNetwork U h r w) = 400 \<longleftrightarrow> network_key (URLParam r ''*'') = None"
    using assms empty
    by (auto simp: Handler_LookupIPNetwork_def Let_def write_simps split: option.splits sum.splits)
  show "network_key n = None \<longleftrightarrow> ParsePrefix n = None \<and> ParseAddr n = None"
    by (auto simp: network_key_def split: option.splits)
  assume a: "ParsePrefix n = None \<and> ParseAddr n = Some a \<and> Zone a = []"
  have lits: "dec 32 = ''32''" "dec 128 = ''128''" by (simp_all add: dec.simps digit_char_def)
  have "network_key n = Some (n @ ''/'' @ dec (BitLen a))"
    using a ParseAddr_colon [of n a] by (cases a) (auto simp: network_key_def lits)
  then show "\<exists>key. network_key n = Some key \<and> prefix n key \<and> ParsePrefix key = Some (a, BitLen a)"
    using ParsePrefix_append [of n a] a by simp
qed

theorem network_key_prefix_witness:
  "\<exists>key. network_key ''8.8.8.8'' = Some key \<and> prefix ''8.8.8.8'' key \<and>
         ParsePrefix key = Some (Addr4 134744072, 32)"
proof -
  have "ParsePrefix ''8.8.8.8'' = None \<and> ParseAddr ''8.8.8.8'' = Some (Addr4 134744072) \<and> Zone (Addr4 134744072) = []"
    by (simp add: go_eval)
  moreover have "w_codes new_writer = []" by (simp add: new_writer_def)
  ultimately show ?thesis
    using network_key_prefix [of new_writer no_unicode example_handler "example_request [] []" "''8.8.8.8''" "Addr4 134744072"]
    by simp
qed

text \<open>
  C32. A reverse search answers 501 when the extension is off, whatever the request; when it is on, 400
  unless exactly one of the four properties is given; and then over the memory store, for a plain
  pattern, 200.
\<close>

theorem ReverseSearch_status:
  assumes "hd_svc h = New_Service (memory_interface U R s) (hd_cfg h)" and "w_codes w = []"
    and "\<forall>(p, v) \<in> set (predicates r). list_all glob_char v"
  shows "status_of (ReverseSearchDomains U h r w) =
           (if ''reverse_search'' \<notin> set (Extensions (hd_cfg h)) then 501
            else if length (predicates r) = 1 then 200 else 400)"
proof (cases "''reverse_search'' \<in> set (Extensions (hd_cfg h)) \<and> length (predicates r) = 1")
  case True
  then obtain p v where pr: "predicates r = [(p, v)]" by (auto simp: length_Suc_conv)
  then have v: "isASCII v" "list_all glob_char (map lower_byte v)"
    using assms(3) glob_pattern_lower by auto
  obtain re where "compileGlob R (map lower_byte v) = Inr re"
    using compileGlob_glob [OF v(2)] by blast
  then have "\<exists>ds. Service_ReverseSearchDomainsByEntity (hd_svc h) p v (search_limit h r) (requestURL U h r) = Inr ds"
    using True v(1) assms(1)
    by (simp add: Service_ReverseSearchDomainsByEntity_def New_Service_def extensionsFromConfig_def
        ExtensionsEnabled_iff map_result_def memory_interface_def Memory_ReverseSearchDomainsByEntity_def ToLower_def)
  with True pr show ?thesis
    using assms(2) by (auto simp: ReverseSearchDomains_def ExtensionsEnabled_iff write_simps)
next
  case False
  then show ?thesis
    using assms(2)
    by (auto simp: ReverseSearchDomains_def ExtensionsEnabled_iff write_simps split: list.splits)
qed

theorem ReverseSearch_status_witness:
  "status_of (ReverseSearchDomains no_unicode example_handler (example_request [] ''handle=REG*'') new_writer) = 200"
proof -
  have pr: "predicates (example_request [] ''handle=REG*'') = [(''handle'', ''REG*'')]"
    by (simp add: go_eval List.map_filter_def)
  show ?thesis
    by (subst ReverseSearch_status [where R = no_regexp and s = example_store])
      (simp_all add: pr glob_char_def plain_def metachars_def byte_def example_handler_def New_Handler_def
        example_rdap_config_def new_writer_def)
qed

text \<open>
  Extension identifiers are declared exactly when enabled: the conformance of a network response is
  the base level followed by \<open>geofeed1\<close> and \<open>cidr0\<close> as configured, and the help page declares
  \<open>reverse_search\<close> and its properties, and \<open>farv1\<close> and its configuration, only together.
\<close>

theorem conformance_declares_extensions:
  "conf (ipNetworkConformance h) =
     [''rdap_level_0''] @ filter (\<lambda>e. e \<in> set (Extensions (hd_cfg h))) [''geofeed1'', ''cidr0''] \<and>
   (\<exists>hp. w_body (Handler_Help h r w) = w_body w @ [BHelp hp] \<and>
      (''reverse_search'' \<in> set (conf (h_Conformance hp)) \<longleftrightarrow> ''reverse_search'' \<in> set (Extensions (hd_cfg h))) \<and>
      (''farv1'' \<in> set (conf (h_Conformance hp)) \<longleftrightarrow> a_Enabled (hd_auth h)) \<and>
      (FARV1OpenIDCConfiguration_H hp \<noteq> None \<longleftrightarrow> a_Enabled (hd_auth h)) \<and>
      (ReverseSearchProperties_H hp \<noteq> [] \<longleftrightarrow>
         ''reverse_search'' \<in> set (Extensions (hd_cfg h)) \<and> ext_reverseSearch (svc_ext (hd_svc h))))"
proof
  show "conf (ipNetworkConformance h) =
     [''rdap_level_0''] @ filter (\<lambda>e. e \<in> set (Extensions (hd_cfg h))) [''geofeed1'', ''cidr0'']"
    by (simp add: ipNetworkConformance_def ExtensionsEnabled_iff Let_def NewConformance_def WithExtensions_def)
  show "\<exists>hp. w_body (Handler_Help h r w) = w_body w @ [BHelp hp] \<and>
      (''reverse_search'' \<in> set (conf (h_Conformance hp)) \<longleftrightarrow> ''reverse_search'' \<in> set (Extensions (hd_cfg h))) \<and>
      (''farv1'' \<in> set (conf (h_Conformance hp)) \<longleftrightarrow> a_Enabled (hd_auth h)) \<and>
      (FARV1OpenIDCConfiguration_H hp \<noteq> None \<longleftrightarrow> a_Enabled (hd_auth h)) \<and>
      (ReverseSearchProperties_H hp \<noteq> [] \<longleftrightarrow>
         ''reverse_search'' \<in> set (Extensions (hd_cfg h)) \<and> ext_reverseSearch (svc_ext (hd_svc h)))"
    by (simp add: Handler_Help_def Let_def body_of_writeJSON ExtensionsEnabled_iff NewHelp_fields
        ReverseSearchProperties_def)
qed

end
