(* ===== verification/GoJSON.thy ===== *)
theory GoJSON
  imports RdapModel
begin

section \<open>JSON text\<close>

text \<open>
  What the server uses of \<open>encoding/json\<close> to read: the text syntax, from bytes to a value. As the
  library does, invalid UTF-8 inside a string and unpaired surrogates become U+FFFD, a value nested
  more than 10000 deep is an error, and object members keep their order and duplicates. The parser
  runs on fuel; \<open>parse_fuel\<close> shows that twice the length of the text is always enough.
\<close>

subsection \<open>UTF-8\<close>

definition cont :: "char \<Rightarrow> bool" where
  "cont c \<longleftrightarrow> 128 \<le> byte c \<and> byte c < 192"

text \<open>The length of the encoding at the head of the bytes (\<open>utf8.DecodeRune\<close>), 0 if it is invalid.\<close>

definition utf8_len :: "string \<Rightarrow> nat" where
  "utf8_len s =
     (case s of
        [] \<Rightarrow> 0
      | a # r \<Rightarrow>
          if byte a < 128 then 1
          else (case r of
             [] \<Rightarrow> 0
           | b # r' \<Rightarrow>
               if 194 \<le> byte a \<and> byte a < 224 then (if cont b then 2 else 0)
               else (case r' of
                  [] \<Rightarrow> 0
                | c # r'' \<Rightarrow>
                    if 224 \<le> byte a \<and> byte a < 240 then
                      (if cont b \<and> cont c \<and> (byte a = 224 \<longrightarrow> 160 \<le> byte b) \<and> (byte a = 237 \<longrightarrow> byte b < 160)
                       then 3 else 0)
                    else (case r'' of
                       [] \<Rightarrow> 0
                     | d # _ \<Rightarrow>
                         if 240 \<le> byte a \<and> byte a < 245 \<and> cont b \<and> cont c \<and> cont d \<and>
                            (byte a = 240 \<longrightarrow> 144 \<le> byte b) \<and> (byte a = 244 \<longrightarrow> byte b < 144)
                         then 4 else 0))))"

definition utf8 :: "nat \<Rightarrow> string" where
  "utf8 u =
     (if u < 128 then [char_of u]
      else if u < 2048 then [char_of (192 + u div 64), char_of (128 + u mod 64)]
      else if u < 65536 then
        [char_of (224 + u div 4096), char_of (128 + u div 64 mod 64), char_of (128 + u mod 64)]
      else [char_of (240 + u div 262144), char_of (128 + u div 4096 mod 64),
            char_of (128 + u div 64 mod 64), char_of (128 + u mod 64)])"

subsection \<open>String literals\<close>

text \<open>A literal is first read into raw bytes and \<open>\\u\<close> escapes.\<close>

datatype chunk = Raw char | Esc nat

definition hex_nibble :: "char \<Rightarrow> nat option" where
  "hex_nibble c =
     (if isdigit c then Some (byte c - 48)
      else if 97 \<le> byte c \<and> byte c \<le> 102 then Some (byte c - 87)
      else if 65 \<le> byte c \<and> byte c \<le> 70 then Some (byte c - 55)
      else None)"

definition hex4 :: "char \<Rightarrow> char \<Rightarrow> char \<Rightarrow> char \<Rightarrow> nat option" where
  "hex4 a b c d =
     (case (hex_nibble a, hex_nibble b, hex_nibble c, hex_nibble d) of
        (Some i, Some j, Some k, Some l) \<Rightarrow> Some (((i * 16 + j) * 16 + k) * 16 + l)
      | _ \<Rightarrow> None)"

definition simple_escape :: "char \<Rightarrow> char option" where
  "simple_escape c =
     map_of [(CHR 0x22, CHR 0x22), (CHR 0x5C, CHR 0x5C), (CHR ''/'', CHR ''/''), (CHR ''b'', CHR 0x08),
             (CHR ''f'', CHR 0x0C), (CHR ''n'', CHR 0x0A), (CHR ''r'', CHR 0x0D), (CHR ''t'', CHR 0x09)] c"

definition add_chunk :: "chunk \<Rightarrow> (chunk list \<times> string) option \<Rightarrow> (chunk list \<times> string) option" where
  "add_chunk k r = map_option (\<lambda>(ks, rest). (k # ks, rest)) r"

fun lex_string :: "string \<Rightarrow> (chunk list \<times> string) option" where
  "lex_string [] = None"
| "lex_string (c # r) =
     (if c = CHR 0x22 then Some ([], r)
      else if byte c < 32 then None
      else if c = CHR 0x5C then
        (case r of
           [] \<Rightarrow> None
         | e # r' \<Rightarrow>
             if e = CHR ''u'' then
               (case r' of
                  h1 # h2 # h3 # h4 # r'' \<Rightarrow>
                    (case hex4 h1 h2 h3 h4 of
                       None \<Rightarrow> None
                     | Some u \<Rightarrow> add_chunk (Esc u) (lex_string r''))
                | _ \<Rightarrow> None)
             else (case simple_escape e of
                     None \<Rightarrow> None
                   | Some x \<Rightarrow> add_chunk (Raw x) (lex_string r')))
      else add_chunk (Raw c) (lex_string r))"

definition replacement :: string where
  "replacement = [CHR 0xEF, CHR 0xBF, CHR 0xBD]"

definition surrogate :: "nat \<Rightarrow> bool" where
  "surrogate u \<longleftrightarrow> 55296 \<le> u \<and> u < 57344"

fun raw_bytes :: "chunk list \<Rightarrow> string" where
  "raw_bytes (Raw c # ks) = c # raw_bytes ks"
| "raw_bytes _ = []"

function chunks_text :: "chunk list \<Rightarrow> string" where
  "chunks_text [] = []"
| "chunks_text (Esc u # ks) =
     (case ks of
        Esc l # ks' \<Rightarrow>
          if 55296 \<le> u \<and> u < 56320 \<and> 56320 \<le> l \<and> l < 57344
          then utf8 ((u - 55296) * 1024 + (l - 56320) + 65536) @ chunks_text ks'
          else (if surrogate u then replacement else utf8 u) @ chunks_text ks
      | _ \<Rightarrow> (if surrogate u then replacement else utf8 u) @ chunks_text ks)"
| "chunks_text (Raw c # ks) =
     (let n = utf8_len (c # raw_bytes ks)
      in if n \<le> 1 then (if n = 0 then replacement else [c]) @ chunks_text ks
         else take n (c # raw_bytes ks) @ chunks_text (drop (n - 1) ks))"
  by pat_completeness auto
termination by (relation "measure length") auto

subsection \<open>Numbers\<close>

definition number_byte :: "char \<Rightarrow> bool" where
  "number_byte c \<longleftrightarrow> isdigit c \<or> c \<in> set ''+-.eE''"

definition after_digits :: "string \<Rightarrow> string option" where
  "after_digits s = (if takeWhile isdigit s = [] then None else Some (dropWhile isdigit s))"

definition number_fraction :: "string \<Rightarrow> string option" where
  "number_fraction s =
     (case s of c # r \<Rightarrow> if c = CHR ''.'' then after_digits r else Some s | [] \<Rightarrow> Some s)"

definition number_exponent :: "string \<Rightarrow> string option" where
  "number_exponent s =
     (case s of
        c # r \<Rightarrow>
          if c = CHR ''e'' \<or> c = CHR ''E''
          then after_digits (case r of x # r' \<Rightarrow> if x = CHR ''+'' \<or> x = CHR ''-'' then r' else r | [] \<Rightarrow> r)
          else Some s
      | [] \<Rightarrow> Some s)"

definition valid_number :: "string \<Rightarrow> bool" where
  "valid_number s =
     (let t = (case s of c # r \<Rightarrow> if c = CHR ''-'' then r else s | [] \<Rightarrow> s);
          ip = takeWhile isdigit t
      in ip \<noteq> [] \<and> (ip = ''0'' \<or> hd ip \<noteq> CHR ''0'') \<and>
         (case number_fraction (dropWhile isdigit t) of
            None \<Rightarrow> False
          | Some r \<Rightarrow> number_exponent r = Some []))"

subsection \<open>Values\<close>

definition skip_ws :: "string \<Rightarrow> string" where
  "skip_ws s = dropWhile (\<lambda>c. c \<in> {CHR 0x20, CHR 0x09, CHR 0x0A, CHR 0x0D}) s"

definition strip_literal :: "string \<Rightarrow> json \<Rightarrow> string \<Rightarrow> (json \<times> string) option" where
  "strip_literal l v s = (if prefix l s then Some (v, drop (length l) s) else None)"

definition string_value :: "string \<Rightarrow> (string \<times> string) option" where
  "string_value r = map_option (\<lambda>(ks, rest). (chunks_text ks, rest)) (lex_string r)"

definition number_value :: "string \<Rightarrow> (json \<times> string) option" where
  "number_value s =
     (let n = takeWhile number_byte s
      in if valid_number n then Some (JNum n, dropWhile number_byte s) else None)"

fun jvalue :: "nat \<Rightarrow> nat \<Rightarrow> string \<Rightarrow> (json \<times> string) option"
and jelems :: "nat \<Rightarrow> nat \<Rightarrow> string \<Rightarrow> (json list \<times> string) option"
and jmembers :: "nat \<Rightarrow> nat \<Rightarrow> string \<Rightarrow> ((string \<times> json) list \<times> string) option" where
  "jvalue 0 d s = None"
| "jvalue (Suc n) d s =
     (case skip_ws s of
        [] \<Rightarrow> None
      | c # r \<Rightarrow>
          if c = CHR ''{'' then
            (if d = 0 then None
             else if take 1 (skip_ws r) = ''}'' then Some (JObj [], tl (skip_ws r))
             else map_option (\<lambda>(ms, r'). (JObj ms, r')) (jmembers n (d - 1) r))
          else if c = CHR ''['' then
            (if d = 0 then None
             else if take 1 (skip_ws r) = '']'' then Some (JArr [], tl (skip_ws r))
             else map_option (\<lambda>(vs, r'). (JArr vs, r')) (jelems n (d - 1) r))
          else if c = CHR 0x22 then map_option (\<lambda>(t, r'). (JStr t, r')) (string_value r)
          else if c = CHR ''t'' then strip_literal ''true'' (JBool True) (c # r)
          else if c = CHR ''f'' then strip_literal ''false'' (JBool False) (c # r)
          else if c = CHR ''n'' then strip_literal ''null'' JNull (c # r)
          else number_value (c # r))"
| "jelems 0 d s = None"
| "jelems (Suc n) d s =
     (case jvalue n d s of
        None \<Rightarrow> None
      | Some (v, r) \<Rightarrow>
          (case skip_ws r of
             [] \<Rightarrow> None
           | c # r' \<Rightarrow>
               if c = CHR '']'' then Some ([v], r')
               else if c = CHR '','' then map_option (\<lambda>(vs, r''). (v # vs, r'')) (jelems n d r')
               else None))"
| "jmembers 0 d s = None"
| "jmembers (Suc n) d s =
     (case skip_ws s of
        [] \<Rightarrow> None
      | q # r0 \<Rightarrow>
          if q \<noteq> CHR 0x22 then None
          else (case string_value r0 of
             None \<Rightarrow> None
           | Some (k, r1) \<Rightarrow>
               (case skip_ws r1 of
                  [] \<Rightarrow> None
                | colon # r2 \<Rightarrow>
                    if colon \<noteq> CHR '':'' then None
                    else (case jvalue n d r2 of
                       None \<Rightarrow> None
                     | Some (v, r) \<Rightarrow>
                         (case skip_ws r of
                            [] \<Rightarrow> None
                          | c # r' \<Rightarrow>
                              if c = CHR ''}'' then Some ([(k, v)], r')
                              else if c = CHR '','' then
                                map_option (\<lambda>(ms, r''). ((k, v) # ms, r'')) (jmembers n d r')
                              else None)))))"

definition json_fuel :: "string \<Rightarrow> nat" where
  "json_fuel s = 2 * length s + 1"

definition parse_with :: "nat \<Rightarrow> string \<Rightarrow> json option" where
  "parse_with n s =
     (case jvalue n 10000 s of
        Some (v, r) \<Rightarrow> if skip_ws r = [] then Some v else None
      | None \<Rightarrow> None)"

definition json_parse :: "string \<Rightarrow> json option" where
  "json_parse s = parse_with (json_fuel s) s"

subsection \<open>Untyped values\<close>

text \<open>
  A number decoded into an \<open>interface{}\<close> becomes a \<open>float64\<close>; one that rounds to an infinity is an
  error of the whole call: at least the midpoint between the largest finite value and \<open>2 ^ 1024\<close>.
\<close>

definition decimal :: "string \<Rightarrow> int" where
  "decimal s = foldl (\<lambda>n c. n * 10 + int (digit_val c)) 0 s"

definition float_overflow :: "string \<Rightarrow> bool" where
  "float_overflow s =
     (let t = filter (\<lambda>c. c \<noteq> CHR ''-'') (takeWhile (\<lambda>c. c \<notin> set ''eE'') s);
          x = drop 1 (dropWhile (\<lambda>c. c \<notin> set ''eE'') s);
          ip = takeWhile isdigit t;
          frac = drop 1 (dropWhile isdigit t);
          e = (if take 1 x = ''-'' then - decimal (drop 1 x)
               else decimal (filter isdigit x)) - int (length frac);
          m = decimal (ip @ frac)
      in if e \<ge> 0 then m * 10 ^ nat e \<ge> 2 ^ 1024 - 2 ^ 970
         else m \<ge> (2 ^ 1024 - 2 ^ 970) * 10 ^ nat (- e))"

fun numbers_fit :: "json \<Rightarrow> bool" where
  "numbers_fit (JNum s) = (\<not> float_overflow s)"
| "numbers_fit (JArr xs) = list_all numbers_fit xs"
| "numbers_fit (JObj ps) = list_all (\<lambda>(_, v). numbers_fit v) ps"
| "numbers_fit _ = True"

lemmas json_eval [go_eval] =
  decimal_def float_overflow_def
  cont_def utf8_len_def utf8_def hex_nibble_def hex4_def simple_escape_def add_chunk_def replacement_def
  surrogate_def number_byte_def after_digits_def number_fraction_def number_exponent_def valid_number_def
  skip_ws_def strip_literal_def string_value_def number_value_def json_fuel_def parse_with_def json_parse_def

lemmas jvalue_numeral [go_eval] =
  jvalue.simps(2) [of "pred_numeral k", folded numeral_eq_Suc]
  jelems.simps(2) [of "pred_numeral k", folded numeral_eq_Suc]
  jmembers.simps(2) [of "pred_numeral k", folded numeral_eq_Suc] for k

subsection \<open>Enough fuel\<close>

lemma lex_string_shorter: "lex_string s = Some (ks, r) \<Longrightarrow> length r < length s"
  by (induction s arbitrary: ks r rule: lex_string.induct)
    (fastforce simp: add_chunk_def split: if_splits list.splits option.splits)+

lemma string_value_shorter: "string_value s = Some (t, r) \<Longrightarrow> length r < length s"
  by (auto simp: string_value_def dest: lex_string_shorter)

lemma skip_ws_length: "length (skip_ws s) \<le> length s"
  by (simp add: skip_ws_def length_dropWhile_le)

lemma skip_ws_cons: "skip_ws s = c # r \<Longrightarrow> length r < length s"
  using skip_ws_length [of s] by simp

lemma strip_literal_shorter: "strip_literal l v s = Some (x, r) \<Longrightarrow> l \<noteq> [] \<Longrightarrow> length r < length s"
  by (cases l; cases s) (auto simp: strip_literal_def split: if_splits)

lemma number_value_shorter:
  assumes "number_value s = Some (v, r)"
  shows "length r < length s"
proof -
  have "takeWhile number_byte s \<noteq> []"
    using assms by (auto simp: number_value_def valid_number_def Let_def split: if_splits)
  then have "length (dropWhile number_byte s) < length s"
    using takeWhile_dropWhile_id [of number_byte s] by (metis length_append length_greater_0_conv less_add_same_cancel2)
  then show ?thesis using assms by (auto simp: number_value_def Let_def split: if_splits)
qed

lemma tl_ws_shorter: "take 1 (skip_ws r) = [c] \<Longrightarrow> length (tl (skip_ws r)) < length r"
  using skip_ws_length [of r] by (cases "skip_ws r") auto

lemma skip_ws_pred: "length a < n \<Longrightarrow> length (skip_ws a) - Suc 0 < n"
  using skip_ws_length [of a] by simp

lemma parse_shorter:
  "(\<forall>d s v r. jvalue n d s = Some (v, r) \<longrightarrow> length r < length s) \<and>
   (\<forall>d s vs r. jelems n d s = Some (vs, r) \<longrightarrow> length r < length s) \<and>
   (\<forall>d s ms r. jmembers n d s = Some (ms, r) \<longrightarrow> length r < length s)"
proof (induction n)
  case (Suc n)
  then have v: "\<And>d s v r. jvalue n d s = Some (v, r) \<Longrightarrow> length r < length s"
    and e: "\<And>d s vs r. jelems n d s = Some (vs, r) \<Longrightarrow> length r < length s"
    and m: "\<And>d s ms r. jmembers n d s = Some (ms, r) \<Longrightarrow> length r < length s" by blast+
  have "length r < length s" if "jvalue (Suc n) d s = Some (v, r)" for d s v r
    using that
    by (auto split: list.splits if_splits dest!: skip_ws_cons e m tl_ws_shorter string_value_shorter
        number_value_shorter strip_literal_shorter intro: skip_ws_pred)
  moreover have "length r < length s" if "jelems (Suc n) d s = Some (vs, r)" for d s vs r
    using that by (fastforce split: list.splits if_splits option.splits dest!: v e skip_ws_cons)
  moreover have "length r < length s" if "jmembers (Suc n) d s = Some (ms, r)" for d s ms r
    using that by (fastforce split: list.splits if_splits option.splits
        dest!: v m skip_ws_cons string_value_shorter)
  ultimately show ?case by blast
qed simp

lemmas jvalue_shorter = parse_shorter [THEN conjunct1, rule_format]
lemmas jelems_shorter = parse_shorter [THEN conjunct2, THEN conjunct1, rule_format]

lemma fuel_step:
  "(\<forall>d s. 2 * length s + 1 \<le> n \<longrightarrow> jvalue (Suc n) d s = jvalue n d s) \<and>
   (\<forall>d s. 2 * length s + 2 \<le> n \<longrightarrow> jelems (Suc n) d s = jelems n d s) \<and>
   (\<forall>d s. 2 * length s + 2 \<le> n \<longrightarrow> jmembers (Suc n) d s = jmembers n d s)"
proof (induction n)
  case (Suc n)
  then have v: "\<And>d s. 2 * length s + 1 \<le> n \<Longrightarrow> jvalue (Suc n) d s = jvalue n d s"
    and e: "\<And>d s. 2 * length s + 2 \<le> n \<Longrightarrow> jelems (Suc n) d s = jelems n d s"
    and m: "\<And>d s. 2 * length s + 2 \<le> n \<Longrightarrow> jmembers (Suc n) d s = jmembers n d s" by blast+
  have "jvalue (Suc (Suc n)) d s = jvalue (Suc n) d s" if "2 * length s + 1 \<le> Suc n" for d s
  proof (cases "skip_ws s")
    case (Cons c r)
    with that skip_ws_cons [OF Cons] have "2 * length r + 2 \<le> n" by simp
    from e [OF this] m [OF this] Cons show ?thesis by (simp del: jelems.simps jmembers.simps)
  qed simp
  moreover have "jelems (Suc (Suc n)) d s = jelems (Suc n) d s" if le: "2 * length s + 2 \<le> Suc n" for d s
  proof -
    have "jelems (Suc n) d r' = jelems n d r'" if "jvalue n d s = Some (x, r)" "skip_ws r = c # r'" for x r c r'
      using jvalue_shorter [OF that(1)] skip_ws_cons [OF that(2)] le by (intro e) simp
    moreover have "jvalue (Suc n) d s = jvalue n d s" using le by (intro v) simp
    ultimately show ?thesis
      by (simp del: jvalue.simps jelems.simps add: jelems.simps(2) split: option.split list.split)
  qed
  moreover have "jmembers (Suc (Suc n)) d s = jmembers (Suc n) d s" if le: "2 * length s + 2 \<le> Suc n" for d s
  proof (cases "skip_ws s")
    case (Cons q r0)
    have l0: "length r0 < length s" by (rule skip_ws_cons [OF Cons])
    show ?thesis
    proof (cases "string_value r0")
      case (Some kr)
      obtain k r1 where kr: "kr = (k, r1)" by (cases kr)
      note l1 = string_value_shorter [OF Some [unfolded kr]]
      show ?thesis
      proof (cases "skip_ws r1")
        case (Cons x r2)
        have lv: "2 * length r2 + 1 \<le> n" using l0 l1 skip_ws_cons [OF Cons] le by simp
        have "jmembers (Suc n) d r' = jmembers n d r'"
          if "jvalue n d r2 = Some (y, r)" "skip_ws r = c # r'" for y r c r'
          using l0 l1 skip_ws_cons [OF Cons] jvalue_shorter [OF that(1)] skip_ws_cons [OF that(2)] le
          by (intro m) simp
        then show ?thesis
          by (simp del: jvalue.simps jmembers.simps add: jmembers.simps(2) \<open>skip_ws s = q # r0\<close> Some kr Cons
              v [OF lv] split: option.split list.split)
      qed (simp del: jvalue.simps jmembers.simps add: jmembers.simps(2) Cons Some kr)
    qed (simp del: jvalue.simps jmembers.simps add: jmembers.simps(2) Cons)
  qed (simp del: jvalue.simps jmembers.simps add: jmembers.simps(2))
  ultimately show ?case by blast
qed simp

text \<open>More fuel than twice the length of the text changes nothing: \<open>json_parse\<close> is the parser.\<close>

lemma parse_fuel:
  assumes "json_fuel s \<le> n"
  shows "parse_with n s = json_parse s"
proof -
  have "jvalue n d s = jvalue (json_fuel s) d s" for d
    using assms
  proof (induction rule: dec_induct)
    case (step k)
    then show ?case using fuel_step [of k] by (simp add: json_fuel_def del: jvalue.simps)
  qed simp
  then show ?thesis by (simp add: json_parse_def parse_with_def)
qed

end
