(* ===== verification/Mapping_JSON.thy ===== *)
theory Mapping_JSON
  imports Service GoJSON
begin

section \<open>JSON columns\<close>

text \<open>
  \<open>internal/store/mapping.go\<close>: the JSON columns of the relational stores, read into the registry model.
  The text is parsed by \<open>json_parse\<close>. What \<open>encoding/json\<close> then does to fill typed Go values: a value of
  the wrong type leaves the zero value and sets the error that the call returns at the end, \<open>null\<close>
  leaves the zero value without an error, and an object member fills the field whose name it matches
  up to case, the last one if there are several. A \<open>decoded\<close> value is what was filled in, with that
  error flag.

  The main result is the round trip: the vCard parser reads back what the service's jCard printer
  writes, except for the telephone numbers.
\<close>

type_synonym 'a decoded = "'a \<times> bool"

subsection \<open>Typed decoding\<close>

definition decode :: "(json \<Rightarrow> 'a decoded) \<Rightarrow> 'a \<Rightarrow> string \<Rightarrow> 'a decoded" where
  "decode f zero text = (case json_parse text of None \<Rightarrow> (zero, True) | Some j \<Rightarrow> f j)"

fun dec_string :: "json \<Rightarrow> string decoded" where
  "dec_string (JStr s) = (s, False)"
| "dec_string JNull = ([], False)"
| "dec_string _ = ([], True)"

fun dec_bool :: "json \<Rightarrow> bool decoded" where
  "dec_bool (JBool b) = (b, False)"
| "dec_bool JNull = (False, False)"
| "dec_bool _ = (False, True)"

fun dec_int :: "json \<Rightarrow> int decoded" where
  "dec_int (JNum s) = (case Atoi s of Some i \<Rightarrow> (i, False) | None \<Rightarrow> (0, True))"
| "dec_int JNull = (0, False)"
| "dec_int _ = (0, True)"

fun dec_int_ptr :: "json \<Rightarrow> int option decoded" where
  "dec_int_ptr (JNum s) = (case Atoi s of Some i \<Rightarrow> (Some i, False) | None \<Rightarrow> (Some 0, True))"
| "dec_int_ptr JNull = (None, False)"
| "dec_int_ptr _ = (Some 0, True)"

fun dec_list :: "(json \<Rightarrow> 'a decoded) \<Rightarrow> json \<Rightarrow> 'a list decoded" where
  "dec_list f (JArr xs) = (map (\<lambda>x. fst (f x)) xs, list_ex (\<lambda>x. snd (f x)) xs)"
| "dec_list f JNull = ([], False)"
| "dec_list f _ = ([], True)"

definition member :: "unicode \<Rightarrow> (string \<times> json) list \<Rightarrow> string \<Rightarrow> json" where
  "member U ps name = (case find (\<lambda>(k, _). EqualFold U k name) (rev ps) of None \<Rightarrow> JNull | Some (_, v) \<Rightarrow> v)"

text \<open>A struct: the fields from the members, or the zero value (no members).\<close>

fun dec_struct :: "((string \<times> json) list \<Rightarrow> 'a decoded) \<Rightarrow> json \<Rightarrow> 'a decoded" where
  "dec_struct f (JObj ps) = f ps"
| "dec_struct f JNull = (fst (f []), False)"
| "dec_struct f _ = (fst (f []), True)"

subsection \<open>Statuses, nameservers, DNSSEC\<close>

definition parseStatusVal :: "string list \<Rightarrow> Status list" where
  "parseStatusVal vals = map mk_Status vals"

definition parseStatus :: "string \<Rightarrow> Status list" where
  "parseStatus statusJSON =
     (case decode (dec_list dec_string) [] statusJSON of
        (vals, err) \<Rightarrow> if err then [] else map mk_Status vals)"

record nsJSON =
  nj_Handle :: string
  nj_LDHName :: string
  nj_UnicodeName :: string
  nj_IPV4 :: "string list"
  nj_IPV6 :: "string list"
  nj_Status :: "string list"

definition dec_nsJSON :: "unicode \<Rightarrow> json \<Rightarrow> nsJSON decoded" where
  "dec_nsJSON U =
     dec_struct (\<lambda>ps.
       let h = dec_string (member U ps ''handle''); l = dec_string (member U ps ''ldhName'');
           u = dec_string (member U ps ''unicodeName'');
           v4 = dec_list dec_string (member U ps ''ipv4''); v6 = dec_list dec_string (member U ps ''ipv6'');
           st = dec_list dec_string (member U ps ''status'')
       in (\<lparr>nj_Handle = fst h, nj_LDHName = fst l, nj_UnicodeName = fst u, nj_IPV4 = fst v4,
            nj_IPV6 = fst v6, nj_Status = fst st\<rparr>,
           snd h \<or> snd l \<or> snd u \<or> snd v4 \<or> snd v6 \<or> snd st))"

definition parseNameservers :: "unicode \<Rightarrow> string \<Rightarrow> NameServer list" where
  "parseNameservers U raw =
     (case decode (dec_list (dec_nsJSON U)) [] raw of
        (items, err) \<Rightarrow>
          if err then []
          else map (\<lambda>n. \<lparr>ns_Handle = nj_Handle n, ns_LDHName = nj_LDHName n, ns_UnicodeName = nj_UnicodeName n,
                         ns_IPV4 = nj_IPV4 n, ns_IPV6 = nj_IPV6 n, ns_Status = parseStatusVal (nj_Status n),
                         ns_Metadata = zero_Metadata\<rparr>) items)"

definition dec_ds :: "unicode \<Rightarrow> json \<Rightarrow> DSRecord decoded" where
  "dec_ds U =
     dec_struct (\<lambda>ps.
       let t = dec_int (member U ps ''keyTag''); a = dec_int (member U ps ''algorithm'');
           d = dec_int (member U ps ''digestType''); g = dec_string (member U ps ''digest'')
       in (\<lparr>ds_KeyTag = fst t, ds_Algorithm = fst a, ds_DigestType = fst d, ds_Digest = fst g\<rparr>,
           snd t \<or> snd a \<or> snd d \<or> snd g))"

definition dec_key :: "unicode \<Rightarrow> json \<Rightarrow> KeyRecord decoded" where
  "dec_key U =
     dec_struct (\<lambda>ps.
       let f = dec_int (member U ps ''flags''); p = dec_int (member U ps ''protocol'');
           a = dec_int (member U ps ''algorithm''); k = dec_string (member U ps ''publicKey'')
       in (\<lparr>kr_Flags = fst f, kr_Protocol = fst p, kr_Algorithm = fst a, kr_PublicKey = fst k\<rparr>,
           snd f \<or> snd p \<or> snd a \<or> snd k))"

definition dec_secureDNS :: "unicode \<Rightarrow> json \<Rightarrow> SecureDNS decoded" where
  "dec_secureDNS U =
     dec_struct (\<lambda>ps.
       let z = dec_bool (member U ps ''zoneSigned''); d = dec_bool (member U ps ''delegationSigned'');
           m = dec_int_ptr (member U ps ''maxSigLife''); ds = dec_list (dec_ds U) (member U ps ''dsData'');
           ks = dec_list (dec_key U) (member U ps ''keyData'')
       in (\<lparr>sd_ZoneSigned = fst z, sd_DelegationSigned = fst d, sd_MaxSigLife = fst m,
            sd_DSRecords = fst ds, sd_KeyRecords = fst ks\<rparr>,
           snd z \<or> snd d \<or> snd m \<or> snd ds \<or> snd ks))"

definition zero_SecureDNS :: SecureDNS where
  "zero_SecureDNS =
     \<lparr>sd_ZoneSigned = False, sd_DelegationSigned = False, sd_MaxSigLife = None, sd_DSRecords = [],
      sd_KeyRecords = []\<rparr>"

text \<open>A column that is NULL is the empty byte slice.\<close>

definition parseSecureDNS :: "unicode \<Rightarrow> string \<Rightarrow> SecureDNS option" where
  "parseSecureDNS U sdJSON =
     (if length sdJSON = 0 then None
      else (case decode (dec_secureDNS U) zero_SecureDNS sdJSON of
              (s, err) \<Rightarrow> if err then None else Some s))"

definition dec_public_id :: "unicode \<Rightarrow> json \<Rightarrow> PublicID decoded" where
  "dec_public_id U =
     dec_struct (\<lambda>ps.
       let t = dec_string (member U ps ''type''); i = dec_string (member U ps ''identifier'')
       in (\<lparr>pid_Type = fst t, pid_Identifier = fst i\<rparr>, snd t \<or> snd i))"

definition store_statusStrings :: "Status list \<Rightarrow> string list" where
  "store_statusStrings status = map st_Value status"

subsection \<open>vCards\<close>

text \<open>
  The untyped value: type assertions that fail give the zero value, and the last member of an object
  with a given name counts.
\<close>

fun str :: "json \<Rightarrow> string" where
  "str (JStr s) = s"
| "str _ = []"

fun obj_get :: "json \<Rightarrow> string \<Rightarrow> string" where
  "obj_get (JObj ps) k = (case map_of (rev ps) k of Some (JStr s) \<Rightarrow> s | _ \<Rightarrow> [])"
| "obj_get _ k = []"

text \<open>\<open>if s, ok := prop[3].(string)\<close>: run the update with a string, keep the card otherwise.\<close>

fun with_str :: "json \<Rightarrow> (string \<Rightarrow> VCard) \<Rightarrow> VCard \<Rightarrow> VCard" where
  "with_str (JStr s) f v = f s"
| "with_str _ f v = v"

definition parse_adr :: "json \<Rightarrow> json \<Rightarrow> VCardAddress" where
  "parse_adr params value =
     (let adr = zero_VCardAddress\<lparr>va_CountryCode := obj_get params ''cc''\<rparr>
      in case value of
           JArr (a # b # c # d # e # f # g # _) \<Rightarrow>
             adr\<lparr>va_POBox := str a, va_Extended := str b, va_Street := str c, va_Locality := str d,
                 va_Region := str e, va_PostalCode := str f, va_CountryName := str g\<rparr>
         | _ \<Rightarrow> adr)"

text \<open>One property; the address is collected in the card directly, the last one wins.\<close>

definition vcard_step :: "VCard \<Rightarrow> json \<Rightarrow> VCard" where
  "vcard_step v p =
     (case p of
        JArr (name_j # params # type_j # value # _) \<Rightarrow>
          (let name = str name_j
           in if name = ''fn'' then with_str value (\<lambda>s. v\<lparr>vc_FullName := s\<rparr>) v
              else if name = ''kind'' then with_str value (\<lambda>s. v\<lparr>vc_Kind := s\<rparr>) v
              else if name = ''org'' then with_str value (\<lambda>s. v\<lparr>vc_Organization := s\<rparr>) v
              else if name = ''tel'' then
                with_str value (\<lambda>s. if obj_get params ''type'' = ''fax'' then v\<lparr>vc_FaxTel := s\<rparr>
                                     else v\<lparr>vc_VoiceTel := s\<rparr>) v
              else if name = ''email'' then with_str value (\<lambda>s. v\<lparr>vc_Email := s\<rparr>) v
              else if name = ''contact-uri'' then with_str value (\<lambda>s. v\<lparr>vc_ContactURI := s\<rparr>) v
              else if name = ''adr'' then v\<lparr>vc_Address := Some (parse_adr params value)\<rparr>
              else v)
      | _ \<Rightarrow> v)"

definition parse_vcard :: "json \<Rightarrow> VCard option" where
  "parse_vcard j =
     (case j of
        JArr (_ # JArr props # _) \<Rightarrow> Some (foldl vcard_step (zero_VCard\<lparr>vc_Version := ''4.0''\<rparr>) props)
      | _ \<Rightarrow> None)"

definition parseVCardJSON :: "string \<Rightarrow> VCard option" where
  "parseVCardJSON raw =
     (case json_parse raw of
        None \<Rightarrow> None
      | Some j \<Rightarrow> if numbers_fit j then parse_vcard j else None)"

lemmas mapping_eval [go_eval] =
  decode_def member_def parseStatusVal_def parseStatus_def dec_nsJSON_def parseNameservers_def dec_ds_def
  dec_key_def dec_secureDNS_def zero_SecureDNS_def parseSecureDNS_def dec_public_id_def
  store_statusStrings_def parse_adr_def vcard_step_def parse_vcard_def parseVCardJSON_def

subsection \<open>Round trip\<close>

lemma foldl_opt_prop: "foldl vcard_step v (opt_prop s p) = (if s \<noteq> [] then vcard_step v p else v)"
  by (simp add: opt_prop_def)

lemma vcard_step_jprop:
  "vcard_step v (jprop ''version'' ps t (JStr s)) = v"
  "vcard_step v (jprop ''fn'' ps t (JStr s)) = v\<lparr>vc_FullName := s\<rparr>"
  "vcard_step v (jprop ''kind'' ps t (JStr s)) = v\<lparr>vc_Kind := s\<rparr>"
  "vcard_step v (jprop ''org'' ps t (JStr s)) = v\<lparr>vc_Organization := s\<rparr>"
  "vcard_step v (jprop ''tel'' (tel_params k) t (JStr s)) = v\<lparr>vc_VoiceTel := s\<rparr>"
  "vcard_step v (jprop ''email'' ps t (JStr s)) = v\<lparr>vc_Email := s\<rparr>"
  "vcard_step v (jprop ''contact-uri'' ps t (JStr s)) = v\<lparr>vc_ContactURI := s\<rparr>"
  by (simp_all add: vcard_step_def jprop_def tel_params_def)

lemma vcard_step_adr: "vcard_step v (adr_prop a) = v\<lparr>vc_Address := Some a\<rparr>"
  by (cases "va_CountryCode a = []")
    (simp_all add: vcard_step_def adr_prop_def jprop_def adr_value_def parse_adr_def zero_VCardAddress_def Let_def)

text \<open>What reading the printed card gives.\<close>

definition reread :: "string \<Rightarrow> VCard \<Rightarrow> VCard" where
  "reread h v =
     v\<lparr>vc_Version := ''4.0'', vc_FullName := fn_of (Some v) h,
       vc_VoiceTel := (if vc_FaxTel v \<noteq> [] then vc_FaxTel v else vc_VoiceTel v), vc_FaxTel := []\<rparr>"

lemma parse_vcardToJCard: "parse_vcard (JArr (vcardToJCard (Some v) h)) = Some (reread h v)"
proof -
  have "foldl vcard_step (zero_VCard\<lparr>vc_Version := ''4.0''\<rparr>)
      (case vcardToJCard (Some v) h of [_, JArr ps] \<Rightarrow> ps | _ \<Rightarrow> []) = reread h v"
    by (cases v; cases "vc_Address v")
      (simp_all add: vcardToJCard_def jcard_def Let_def foldl_opt_prop vcard_step_jprop vcard_step_adr
        reread_def zero_VCard_def)
  then show ?thesis by (simp add: parse_vcard_def vcardToJCard_def jcard_def Let_def)
qed

lemma fn_of_reread: "fn_of (Some (reread h v)) h = fn_of (Some v) h"
  by (simp add: reread_def fn_of_def Let_def)

text \<open>The number of telephone properties, which tells a card with a fax number from its copy.\<close>

lemma tel_kinds:
  "jprop ''tel'' (tel_params ''voice'') t x \<noteq> jprop ''tel'' (tel_params ''fax'') t y"
  "jprop ''tel'' ps t x \<noteq> jprop ''email'' qs u y" "jprop ''tel'' ps t x \<noteq> jprop ''contact-uri'' qs u y"
  by (simp_all add: jprop_def tel_params_def)

lemma reprint_reread:
  "vcardToJCard (Some (reread h v)) h = vcardToJCard (Some v) h \<longleftrightarrow> vc_FaxTel v = []"
proof (cases "vc_FaxTel v = []")
  case True
  then show ?thesis
    by (simp add: vcardToJCard_def Let_def fn_of_reread) (simp add: reread_def)
next
  case False
  then show ?thesis
    by (simp add: vcardToJCard_def Let_def fn_of_reread jcard_def)
      (auto simp: reread_def opt_prop_def tel_kinds)
qed

text \<open>
  C40. Printing and reading a contact's card: the store's parser reads the jCard that the service prints
  for any card back as the same card, completed by the version and the fallback name, except that a fax
  number comes back as the voice number; printing the card it read gives the same jCard exactly when
  there was no fax number.
\<close>

theorem vcard_roundtrip:
  "\<exists>v'. parse_vcard (JArr (vcardToJCard (Some v) h)) = Some v' \<and>
        v' = v\<lparr>vc_Version := ''4.0'', vc_FullName := fn_of (Some v) h,
               vc_VoiceTel := (if vc_FaxTel v = [] then vc_VoiceTel v else vc_FaxTel v), vc_FaxTel := []\<rparr> \<and>
        (vcardToJCard (Some v') h = vcardToJCard (Some v) h \<longleftrightarrow> vc_FaxTel v = [])"
  using parse_vcardToJCard [of v h] reprint_reread [of h v] by (simp add: reread_def)

end
