(* ===== verification/SqlRange.thy ===== *)
theory SqlRange
  imports GoNet GoBase
begin

section \<open>Address ranges of the MySQL store\<close>

text \<open>
  \<open>ipRange\<close> of \<open>internal/store/mysql.go\<close>: MySQL has no network type, so a prefix is compared through
  the range of addresses it covers, two \<open>uint64\<close> values for IPv4 and two 16-byte strings, compared
  byte by byte, for IPv6. The theorems show that the range contains exactly the addresses of the
  prefix, and that one range lies inside another exactly when the prefixes do.
\<close>

unbundle bit_operations_syntax

subsection \<open>Byte strings\<close>

text \<open>\<open>addr.As16()\<close>: the address as 16 bytes, the most significant first.\<close>

fun be_bytes :: "nat \<Rightarrow> nat \<Rightarrow> 8 word list" where
  "be_bytes 0 n = []"
| "be_bytes (Suc k) n = be_bytes k (n div 256) @ [of_nat (n mod 256)]"

definition bytes16 :: "128 word \<Rightarrow> 8 word list" where
  "bytes16 a = be_bytes 16 (unat a)"

text \<open>The order of binary strings: at the first byte that differs.\<close>

fun bytes_le :: "8 word list \<Rightarrow> 8 word list \<Rightarrow> bool" where
  "bytes_le [] ys = True"
| "bytes_le (x # xs) [] = False"
| "bytes_le (x # xs) (y # ys) = (x < y \<or> x = y \<and> bytes_le xs ys)"

subsection \<open>The range of a prefix\<close>

datatype ip_range = V4 "64 word" "64 word" | V6 "8 word list" "8 word list"

text \<open>The loop that sets the host bits, counting up from \<open>i\<close>.\<close>

function set_host_bits :: "nat \<Rightarrow> nat \<Rightarrow> 8 word list \<Rightarrow> 8 word list" where
  "set_host_bits i hostBits end =
     (if i < hostBits
      then let byteIdx = 15 - i div 8; bitIdx = i mod 8
           in set_host_bits (i + 1) hostBits (end[byteIdx := end ! byteIdx OR push_bit bitIdx 1])
      else end)"
  by pat_completeness auto
termination by (relation "measure (\<lambda>(i, hostBits, _). hostBits - i)") auto

declare set_host_bits.simps [simp del]

text \<open>\<open>ipRange\<close>; of its error the text of the wrapped parse error is left out.\<close>

definition ipRange :: "unicode \<Rightarrow> string \<Rightarrow> ip_range result" where
  "ipRange U cidr =
     (case ParsePrefix cidr of
        None \<Rightarrow> Inl (Errorf (''invalid CIDR '' @ Quote U cidr))
      | Some (a, bits) \<Rightarrow>
          (case Masked a bits of
             Addr4 addr \<Rightarrow>
               (let start = ucast addr;
                    hostBits = 32 - bits;
                    end = start + push_bit hostBits 1 - 1
                in Inr (V4 start end))
           | Addr6 addr zone \<Rightarrow>
               (let start = bytes16 addr; hostBits = 128 - bits
                in Inr (V6 start (set_host_bits 0 hostBits start)))))"

lemmas range_eval [go_eval] = bytes16_def ipRange_def set_host_bits.simps

subsection \<open>Byte strings as numbers\<close>

lemma length_be_bytes [simp]: "length (be_bytes k n) = k"
  by (induction k arbitrary: n) auto

lemma nth_be_bytes: "j < k \<Longrightarrow> be_bytes k n ! j = of_nat (n div 256 ^ (k - 1 - j) mod 256)"
proof (induction k arbitrary: n)
  case (Suc k)
  show ?case
  proof (cases "j < k")
    case True
    then have "k - j = Suc (k - 1 - j)" by simp
    then show ?thesis using True Suc.IH [OF True, of "n div 256"] by (simp add: nth_append div_mult2_eq)
  next
    case False
    with Suc.prems have "j = k" by simp
    then show ?thesis by (simp add: nth_append)
  qed
qed simp

definition bytes_value :: "8 word list \<Rightarrow> nat" where
  "bytes_value bs = foldl (\<lambda>n b. n * 256 + unat b) 0 bs"

lemma bytes_value_snoc: "bytes_value (bs @ [b]) = bytes_value bs * 256 + unat b"
  by (simp add: bytes_value_def)

lemma bytes_value_be_bytes: "bytes_value (be_bytes k n) = n mod 256 ^ k"
proof (induction k arbitrary: n)
  case 0
  show ?case by (simp add: bytes_value_def)
next
  case (Suc k)
  have "unat (of_nat (n mod 256) :: 8 word) = n mod 256" by (simp add: unat_of_nat)
  then show ?case using Suc.IH [of "n div 256"] mod_mult2_eq [of n 256 "256 ^ k"]
    by (simp add: bytes_value_snoc mult.commute)
qed

lemma foldl_bytes: "foldl (\<lambda>n b. n * 256 + unat b) a bs = a * 256 ^ length bs + bytes_value bs"
proof (induction bs rule: rev_induct)
  case (snoc b bs)
  then show ?case by (simp add: bytes_value_snoc algebra_simps)
qed (simp add: bytes_value_def)

lemma bytes_value_Cons: "bytes_value (b # bs) = unat b * 256 ^ length bs + bytes_value bs"
  using foldl_bytes [of "unat b" bs] by (simp add: bytes_value_def)

lemma bytes_value_bound: "bytes_value bs < 256 ^ length bs"
proof (induction bs rule: rev_induct)
  case (snoc b bs)
  have "unat b < 2 ^ LENGTH(8)" by (rule unsigned_less)
  with snoc show ?case by (simp add: bytes_value_snoc)
qed (simp add: bytes_value_def)

lemma bytes_le_iff: "length xs = length ys \<Longrightarrow> bytes_le xs ys \<longleftrightarrow> bytes_value xs \<le> bytes_value ys"
proof (induction xs ys rule: bytes_le.induct)
  case (3 x xs y ys)
  then have len: "length xs = length ys" by simp
  have lt: "unat a * 256 ^ n + u < unat b * 256 ^ n + v" if "a < b" "u < 256 ^ n" for a b :: "8 word" and u v n
  proof -
    have "Suc (unat a) * 256 ^ n \<le> unat b * 256 ^ n"
      using that(1) by (intro mult_right_mono) (simp_all add: word_less_nat_alt Suc_le_eq)
    with that(2) show ?thesis by simp
  qed
  show ?case
  proof (cases x y rule: linorder_cases)
    case less
    then show ?thesis using lt [OF less bytes_value_bound [of xs], of "bytes_value ys"] len
      by (simp add: bytes_value_Cons)
  next
    case equal
    then show ?thesis using 3 len by (simp add: bytes_value_Cons)
  next
    case greater
    then show ?thesis using lt [OF greater bytes_value_bound [of ys], of "bytes_value xs"] len
      by (auto simp: bytes_value_Cons)
  qed
qed simp_all

lemma bytes16_value [simp]: "bytes_value (bytes16 a) = unat a"
proof -
  have "unat a < 2 ^ LENGTH(128)" by (rule unsigned_less)
  then show ?thesis by (simp add: bytes16_def bytes_value_be_bytes)
qed

lemma length_bytes16 [simp]: "length (bytes16 a) = 16"
  by (simp add: bytes16_def)

lemma bytes16_le: "bytes_le (bytes16 a) (bytes16 b) \<longleftrightarrow> a \<le> b"
  by (simp add: bytes_le_iff word_le_nat_alt)

subsection \<open>The loop sets exactly the host bits\<close>

lemma bit_bytes16:
  assumes "j < 16" and "b < 8"
  shows "bit (bytes16 a ! j) b \<longleftrightarrow> bit a (8 * (15 - j) + b)"
proof -
  have "(256 :: nat) ^ (15 - j) = 2 ^ (8 * (15 - j))" by (simp add: power_mult)
  then have "bytes16 a ! j = of_nat (take_bit 8 (drop_bit (8 * (15 - j)) (unat a)))"
    using assms by (simp add: bytes16_def nth_be_bytes drop_bit_eq_div take_bit_eq_mod)
  then show ?thesis using assms
    by (simp add: bit_of_nat_iff bit_take_bit_iff bit_drop_bit_eq bit_unsigned_iff)
qed

lemma length_set_host_bits [simp]: "length (set_host_bits i n bs) = length bs"
  by (induction i n bs rule: set_host_bits.induct) (subst set_host_bits.simps, simp add: Let_def)

lemma set_host_bits_bit:
  assumes "n \<le> 128" and "length bs = 16" and "j < 16" and "b < 8"
  shows "bit (set_host_bits i n bs ! j) b \<longleftrightarrow>
           bit (bs ! j) b \<or> (i \<le> 8 * (15 - j) + b \<and> 8 * (15 - j) + b < n)"
  using assms
proof (induction i n bs rule: set_host_bits.induct)
  case (1 i n bs)
  show ?case
  proof (cases "i < n")
    case True
    let ?k = "15 - i div 8" and ?m = "i mod 8"
    let ?bs = "bs[?k := bs ! ?k OR push_bit ?m 1]"
    have le: "i div 8 < 16" using True "1.prems"(1) by linarith
    have one: "bit (push_bit ?m 1 :: 8 word) b \<longleftrightarrow> b = ?m"
      using "1.prems"(4) by (auto simp: bit_exp_iff)
    have pos: "j = ?k \<and> b = ?m \<longleftrightarrow> 8 * (15 - j) + b = i"
    proof
      assume "j = ?k \<and> b = ?m"
      moreover have "8 * (i div 8) + i mod 8 = i" by simp
      ultimately show "8 * (15 - j) + b = i" using le by simp
    next
      assume "8 * (15 - j) + b = i"
      then have "i div 8 = 15 - j" "i mod 8 = b" using "1.prems"(4) by auto
      then show "j = ?k \<and> b = ?m" using "1.prems"(3) by simp
    qed
    have "bit (?bs ! j) b \<longleftrightarrow> bit (bs ! j) b \<or> 8 * (15 - j) + b = i"
      using "1.prems"(2,3) one pos by (auto simp: nth_list_update bit_or_iff)
    moreover have "bit (set_host_bits i n bs ! j) b = bit (set_host_bits (i + 1) n ?bs ! j) b"
      using True by (subst set_host_bits.simps) (simp add: Let_def)
    moreover have "bit (set_host_bits (i + 1) n ?bs ! j) b \<longleftrightarrow>
        bit (?bs ! j) b \<or> (i + 1 \<le> 8 * (15 - j) + b \<and> 8 * (15 - j) + b < n)"
      by (rule "1.IH" [OF True refl refl]) (use "1.prems" in simp_all)
    ultimately show ?thesis using True by linarith
  next
    case False
    then show ?thesis by (subst set_host_bits.simps) auto
  qed
qed

lemma set_host_bits_mask:
  assumes "n \<le> 128"
  shows "set_host_bits 0 n (bytes16 a) = bytes16 (a OR mask n)"
proof (rule nth_equalityI)
  fix j assume "j < length (set_host_bits 0 n (bytes16 a))"
  then have j: "j < 16" by simp
  show "set_host_bits 0 n (bytes16 a) ! j = bytes16 (a OR mask n) ! j"
  proof (rule bit_word_eqI)
    fix b assume "b < LENGTH(8)"
    then have b: "b < 8" by simp
    then have "8 * (15 - j) + b < 128" using j by simp
    then show "bit (set_host_bits 0 n (bytes16 a) ! j) b = bit (bytes16 (a OR mask n) ! j) b"
      using set_host_bits_bit [OF assms length_bytes16 j b] bit_bytes16 [OF j b]
      by (simp add: bit_or_iff bit_mask_iff)
  qed
qed simp

subsection \<open>A prefix is an interval\<close>

lemma nat_interval:
  assumes "N mod m = 0" and "0 < (m :: nat)"
  shows "N \<le> x \<and> x \<le> N + (m - 1) \<longleftrightarrow> x div m * m = N"
proof -
  obtain k where N: "N = k * m" using assms(1) by (metis dvd_div_mult_self mod_eq_0_iff_dvd)
  have "x div m * m = k * m \<longleftrightarrow> x div m = k" using assms(2) by simp
  moreover have "x div m = k \<longleftrightarrow> k * m \<le> x \<and> x < Suc k * m"
  proof
    assume "x div m = k"
    then show "k * m \<le> x \<and> x < Suc k * m"
      using div_mult_mod_eq [of x m] mod_less_divisor [OF assms(2), of x] by simp
  next
    assume "k * m \<le> x \<and> x < Suc k * m"
    then show "x div m = k" using assms(2) by (intro div_nat_eqI) (simp_all add: mult.commute)
  qed
  ultimately show ?thesis using N assms(2) by auto
qed

lemma unat_mask: "h \<le> LENGTH('a) \<Longrightarrow> unat (mask h :: 'a::len word) = mask h"
  by (rule bit_eqI) (auto simp: bit_unsigned_iff bit_mask_iff)

lemma unat_top:
  fixes a :: "'a::len word"
  assumes "a AND mask h = 0" and "h \<le> LENGTH('a)"
  shows "unat (a OR mask h) = unat a + (2 ^ h - 1)"
proof -
  have "unat a AND mask h = unat (a AND mask h)"
    using assms(2) by (simp add: unsigned_and_eq unat_mask)
  then have "unat a AND mask h = 0" using assms(1) by simp
  then have "unat a + mask h = unat a OR mask h" by (rule disjunctive_add_eq_or)
  moreover have "unat (a OR mask h) = unat a OR mask h"
    using assms(2) by (simp add: unsigned_or_eq unat_mask)
  ultimately show ?thesis by (simp add: mask_eq_exp_minus_1)
qed

lemma unat_base:
  fixes x :: "'a::len word"
  shows "unat (x AND NOT (mask h)) = unat x div 2 ^ h * 2 ^ h"
proof -
  have "unat (x AND NOT (mask h)) = push_bit h (drop_bit h (unat x))"
    by (rule bit_eqI) (auto simp: bit_unsigned_iff bit_and_iff bit_not_iff bit_mask_iff bit_push_bit_iff
        bit_drop_bit_eq dest: bit_imp_le_length)
  then show ?thesis by (simp add: push_bit_eq_mult drop_bit_eq_div)
qed

lemma mask_interval:
  fixes a x :: "'a::len word"
  assumes "a AND mask h = 0" and "h \<le> LENGTH('a)"
  shows "a \<le> x \<and> x \<le> a OR mask h \<longleftrightarrow> x AND NOT (mask h) = a"
proof -
  have "unat a AND mask h = unat (a AND mask h)"
    using assms(2) by (simp add: unsigned_and_eq unat_mask)
  then have "unat a mod 2 ^ h = 0" using assms(1) by (simp add: take_bit_eq_mask [symmetric] take_bit_eq_mod)
  from nat_interval [OF this, of "unat x"] show ?thesis
    using unat_top [OF assms] unat_base [of x h]
    by (simp add: word_le_nat_alt word_unat_eq_iff)
qed

text \<open>One block of size \<open>2 ^ hp\<close> lies inside another of size \<open>2 ^ hq\<close>.\<close>

lemma nat_block_inside:
  fixes x y P Q :: nat
  assumes P_def: "P = 2 ^ hp" and Q_def: "Q = 2 ^ hq"
  shows "y div Q * Q \<le> x div P * P \<and> x div P * P + (P - 1) \<le> y div Q * Q + (Q - 1) \<longleftrightarrow>
           hp \<le> hq \<and> x div Q = y div Q"
proof
  assume l: "y div Q * Q \<le> x div P * P \<and> x div P * P + (P - 1) \<le> y div Q * Q + (Q - 1)"
  have pos: "0 < P" "0 < Q" by (simp_all add: P_def Q_def)
  have "P \<le> Q" using l pos by linarith
  then have "hp \<le> hq" by (simp add: P_def Q_def)
  moreover have "x div P * P \<le> x" "x \<le> x div P * P + (P - 1)"
    using mod_less_divisor [OF pos(1), of x] div_mult_mod_eq [of x P] by linarith+
  with l have "y div Q * Q \<le> x" "x \<le> y div Q * Q + (Q - 1)" by linarith+
  then have "x div Q * Q = y div Q * Q" using nat_interval [of "y div Q * Q" Q x] pos by simp
  then have "x div Q = y div Q" using pos by simp
  ultimately show "hp \<le> hq \<and> x div Q = y div Q" by blast
next
  assume "hp \<le> hq \<and> x div Q = y div Q"
  then have q: "x div Q = y div Q" and "hp \<le> hq" by simp_all
  then obtain k where k: "Q = P * 2 ^ k" unfolding P_def Q_def by (metis le_Suc_ex power_add)
  have pos: "0 < P" "0 < Q" by (simp_all add: P_def Q_def)
  have "x div Q = x div P div 2 ^ k" by (simp add: k div_mult2_eq)
  then have "x div Q * 2 ^ k \<le> x div P" "x div P < (x div Q + 1) * 2 ^ k"
    using dividend_less_div_times [of "2 ^ k" "x div P"] by simp_all
  then have "x div Q * 2 ^ k * P \<le> x div P * P" "(x div P + 1) * P \<le> (x div Q + 1) * 2 ^ k * P"
    by (intro mult_right_mono; simp)+
  then show "y div Q * Q \<le> x div P * P \<and> x div P * P + (P - 1) \<le> y div Q * Q + (Q - 1)"
    using q pos by (simp add: k algebra_simps)
qed

definition base :: "nat \<Rightarrow> 'a::len word \<Rightarrow> 'a word" where
  "base h a = a AND NOT (mask h)"

definition top_of :: "nat \<Rightarrow> 'a::len word \<Rightarrow> 'a word" where
  "top_of h a = base h a OR mask h"

lemma base_mask: "base h a AND mask h = 0"
  by (rule bit_word_eqI) (simp add: base_def bit_and_iff bit_not_iff bit_mask_iff)

lemma unat_base_top:
  fixes a :: "'a::len word"
  shows "unat (base h a) = unat a div 2 ^ h * 2 ^ h"
    and "h \<le> LENGTH('a) \<Longrightarrow> unat (top_of h a) = unat a div 2 ^ h * 2 ^ h + (2 ^ h - 1)"
  by (simp_all add: unat_base base_def) (simp add: top_of_def unat_top base_mask, simp add: unat_base base_def)

lemma block_contains:
  fixes a x :: "'a::len word"
  shows "h \<le> LENGTH('a) \<Longrightarrow> base h a \<le> x \<and> x \<le> top_of h a \<longleftrightarrow> base h a = base h x"
  using mask_interval [OF base_mask [of h a], of x] by (auto simp: top_of_def base_def)

lemma block_inside:
  fixes a b :: "'a::len word"
  assumes "hp \<le> LENGTH('a)" and "hq \<le> LENGTH('a)"
  shows "base hq b \<le> base hp a \<and> top_of hp a \<le> top_of hq b \<longleftrightarrow> hp \<le> hq \<and> base hq b = base hq a"
proof -
  have "base hq b = base hq a \<longleftrightarrow> unat a div 2 ^ hq = unat b div 2 ^ hq"
    by (auto simp: word_unat_eq_iff unat_base_top)
  then show ?thesis
    using nat_block_inside [OF refl refl, of "unat b" hq "unat a" hp] assms
    by (simp add: word_le_nat_alt unat_base_top)
qed

lemma range4:
  fixes a :: "32 word"
  assumes "h \<le> 32"
  shows "unat (ucast (base h a) + push_bit h 1 - 1 :: 64 word) = unat (top_of h a)"
proof -
  let ?s = "ucast (base h a) :: 64 word"
  have s: "unat ?s = unat (base h a)" 
  proof -
    have "unat (base h a) < 2 ^ LENGTH(32)" by (rule unsigned_less)
    then show ?thesis by (simp add: unsigned_ucast_eq take_bit_nat_eq_self)
  qed
  have e: "?s + push_bit h 1 - 1 = ?s + mask h" by (simp add: mask_eq_exp_minus_1)
  have "unat (base h a) + (2 ^ h - 1) = unat (top_of h a)"
    using assms by (simp add: unat_base_top)
  moreover have "unat (top_of h a) < 2 ^ LENGTH(32)" by (rule unsigned_less)
  moreover have "unat (mask h :: 64 word) = 2 ^ h - 1"
    using unat_mask [where 'a = 64, of h] assms by (simp add: mask_eq_exp_minus_1 [where 'a = nat])
  ultimately show ?thesis using s unfolding e by (subst unat_add_lem [THEN iffD1]) simp_all
qed

text \<open>\<open>same_prefix4\<close> and \<open>same_prefix6\<close> compare bases.\<close>

lemma same_prefix_base:
  "same_prefix4 n a b \<longleftrightarrow> base (32 - n) a = base (32 - n) b"
  "same_prefix6 n c d \<longleftrightarrow> base (128 - n) c = base (128 - n) d"
  by (simp_all add: same_prefix4_def same_prefix6_def base_def)

lemma ParsePrefix_bits: "ParsePrefix s = Some (a, n) \<Longrightarrow> n \<le> BitLen a"
  by (auto simp: ParsePrefix_def Let_def split: option.splits if_splits)

lemma ipRange_v4:
  assumes "ParsePrefix cidr = Some (Addr4 a, n)"
  shows "\<exists>s e. ipRange U cidr = Inr (V4 s e) \<and> unat s = unat (base (32 - n) a) \<and>
               unat e = unat (top_of (32 - n) a)"
proof -
  have "unat (base (32 - n) a) < 2 ^ LENGTH(32)" by (rule unsigned_less)
  then have "unat (ucast (base (32 - n) a) :: 64 word) = unat (base (32 - n) a)"
    by (simp add: unsigned_ucast_eq take_bit_nat_eq_self)
  then show ?thesis
    using range4 [of "32 - n" a] by (simp add: ipRange_def assms Let_def base_def)
qed

lemma ipRange_v6:
  assumes "ParsePrefix cidr = Some (Addr6 a z, n)"
  shows "ipRange U cidr = Inr (V6 (bytes16 (base (128 - n) a)) (bytes16 (top_of (128 - n) a)))"
  by (simp add: ipRange_def assms Let_def set_host_bits_mask base_def top_of_def)

text \<open>A stored range covers a queried one, as the two queries of \<open>LookupIPNetwork\<close> compare them.\<close>

fun range_covers :: "ip_range \<Rightarrow> ip_range \<Rightarrow> bool" where
  "range_covers (V4 s e) (V4 s' e') \<longleftrightarrow> s \<le> s' \<and> e \<ge> e'"
| "range_covers (V6 s e) (V6 s' e') \<longleftrightarrow> bytes_le s s' \<and> bytes_le e' e"
| "range_covers _ _ \<longleftrightarrow> False"

text \<open>
  C18. The range of a prefix: \<open>ipRange\<close> fails exactly for text that is no prefix; otherwise an address
  of the same family lies between the two bounds exactly when it agrees with the prefix on the
  prefix's bits (the uint64 arithmetic does not wrap, and the loop sets the host bits and no others).
\<close>

theorem ipRange_addresses:
  "case ParsePrefix cidr of
     None \<Rightarrow> ipRange U cidr = Inl (Errorf (''invalid CIDR '' @ Quote U cidr))
   | Some (Addr4 a, n) \<Rightarrow>
       \<exists>s e. ipRange U cidr = Inr (V4 s e) \<and> (\<forall>x. s \<le> ucast x \<and> ucast x \<le> e \<longleftrightarrow> same_prefix4 n a x)
   | Some (Addr6 a z, n) \<Rightarrow>
       \<exists>s e. ipRange U cidr = Inr (V6 s e) \<and>
             (\<forall>x. bytes_le s (bytes16 x) \<and> bytes_le (bytes16 x) e \<longleftrightarrow> same_prefix6 n a x)"
proof (cases "ParsePrefix cidr")
  case (Some p)
  then obtain a n where p: "ParsePrefix cidr = Some (a, n)" by (cases p) auto
  show ?thesis
  proof (cases a)
    case (Addr4 w)
    then obtain s e where r: "ipRange U cidr = Inr (V4 s e)" "unat s = unat (base (32 - n) w)"
      "unat e = unat (top_of (32 - n) w)" using ipRange_v4 p by blast
    have "s \<le> ucast x \<and> ucast x \<le> e \<longleftrightarrow> same_prefix4 n w x" for x
    proof -
      have "unat x < 2 ^ LENGTH(32)" by (rule unsigned_less)
      then have "unat (ucast x :: 64 word) = unat x" by (simp add: unsigned_ucast_eq take_bit_nat_eq_self)
      then show ?thesis
        using block_contains [of "32 - n" w x] r by (simp add: word_le_nat_alt same_prefix_base)
    qed
    with r p Addr4 show ?thesis by simp
  next
    case (Addr6 w z)
    with p show ?thesis
      using block_contains [of "128 - n" w] by (simp add: ipRange_v6 bytes16_le same_prefix_base)
  qed
qed (simp add: ipRange_def)

text \<open>
  Containment of networks is containment of ranges: the range of one prefix covers the range of
  another exactly when both are of one family, the first is not longer, and the second agrees with it
  on its bits.
\<close>

definition prefix_covers :: "addr \<times> nat \<Rightarrow> addr \<times> nat \<Rightarrow> bool" where
  "prefix_covers p q \<longleftrightarrow>
     (case (p, q) of
        ((Addr4 v, m), (Addr4 w, n)) \<Rightarrow> m \<le> n \<and> same_prefix4 m v w
      | ((Addr6 v _, m), (Addr6 w _, n)) \<Rightarrow> m \<le> n \<and> same_prefix6 m v w
      | _ \<Rightarrow> False)"

lemma ipRange_covers:
  assumes "ParsePrefix stored = Some (a, m)" and "ParsePrefix cidr = Some (b, n)"
    and "ipRange U stored = Inr r" and "ipRange U cidr = Inr r'"
  shows "range_covers r r' \<longleftrightarrow> prefix_covers (a, m) (b, n)"
proof -
  have le: "m \<le> BitLen a" "n \<le> BitLen b" using ParsePrefix_bits assms(1,2) by blast+
  show ?thesis
  proof (cases a)
    case A: (Addr4 v)
    obtain s e where r: "r = V4 s e" "unat s = unat (base (32 - m) v)" "unat e = unat (top_of (32 - m) v)"
      using ipRange_v4 [of stored v m U] assms(1,3) A by auto
    show ?thesis
    proof (cases b)
      case B: (Addr4 w)
      obtain s' e' where r': "r' = V4 s' e'" "unat s' = unat (base (32 - n) w)"
        "unat e' = unat (top_of (32 - n) w)"
        using ipRange_v4 [of cidr w n U] assms(2,4) B by auto
      have "32 - n \<le> 32 - m \<longleftrightarrow> m \<le> n" using le A B by auto
      then show ?thesis
        using block_inside [of "32 - n" "32 - m" v w] r r' A B
        by (simp add: word_le_nat_alt same_prefix_base prefix_covers_def)
    next
      case B: (Addr6 w z)
      then show ?thesis using ipRange_v6 [of cidr w z n U] assms(2,4) r A by (auto simp: prefix_covers_def)
    qed
  next
    case A: (Addr6 v y)
    have r: "r = V6 (bytes16 (base (128 - m) v)) (bytes16 (top_of (128 - m) v))"
      using ipRange_v6 [of stored v y m U] assms(1,3) A by simp
    show ?thesis
    proof (cases b)
      case B: (Addr4 w)
      then show ?thesis using ipRange_v4 [of cidr w n U] assms(2,4) r A by (auto simp: prefix_covers_def)
    next
      case B: (Addr6 w z)
      have r': "r' = V6 (bytes16 (base (128 - n) w)) (bytes16 (top_of (128 - n) w))"
        using ipRange_v6 [of cidr w z n U] assms(2,4) B by simp
      have "128 - n \<le> 128 - m \<longleftrightarrow> m \<le> n" using le A B by auto
      then show ?thesis
        using block_inside [of "128 - n" "128 - m" v w] r r' A B
        by (simp add: bytes16_le same_prefix_base prefix_covers_def)
    qed
  qed
qed

end
