(* ===== verification/SqlTables.thy ===== *)
theory SqlTables
  imports Store Mapping_JSON SqlRange
begin

section \<open>Tables and rows of the relational stores\<close>

text \<open>
  The part that \<open>internal/store/mysql.go\<close> and \<open>postgres.go\<close> share: how a row becomes a registry object.
  A row is a record of the columns the queries select (\<open>migrations/\<close>), a nullable column an \<open>option\<close>,
  a JSON column its text; the CIDR column is JSON text in MySQL and an array in PostgreSQL, hence the
  type variable. The tables are lists: the order in which the database yields the rows.

  The databases and their drivers are outside the repository: a \<open>dialect\<close> is what the code relies on.
  \<open>dl_view\<close> says which state of the database the \<open>k\<close>-th statement of a transaction sees, given the
  states that the database goes through and the isolation level asked for; \<open>dl_fails\<close> and
  \<open>dl_rows_err\<close> give the error of a statement with its arguments (\<open>None\<close> if it succeeds);
  \<open>dl_no_rows\<close>, \<open>dl_scan_null\<close> and \<open>dl_scan_range\<close> are the errors of \<open>Scan\<close> for an empty result, a NULL and
  a number out of range; the others are the comparison operators of the \<open>WHERE\<close> clauses.
\<close>

subsection \<open>Rows\<close>

record domain_row =
  dr_handle :: string
  dr_ldh_name :: string
  dr_unicode_name :: string
  dr_tld :: string
  dr_status :: string
  dr_created_at :: gotime
  dr_updated_at :: gotime
  dr_expires_at :: "gotime option"
  dr_registrant :: "string option"
  dr_admin :: "string option"
  dr_tech :: "string option"
  dr_billing :: "string option"
  dr_nameservers :: string
  dr_secure_dns :: "string option"

record entity_row =
  er_handle :: string
  er_vcard_json :: "string option"
  er_roles :: string
  er_status :: string
  er_created_at :: gotime
  er_updated_at :: gotime
  er_public_ids :: string

record nameserver_row =
  nr_handle :: string
  nr_ldh_name :: string
  nr_unicode_name :: string
  nr_ipv4 :: "string option"
  nr_ipv6 :: "string option"
  nr_status :: string
  nr_created_at :: gotime
  nr_updated_at :: gotime

record 'c network_row =
  wr_handle :: string
  wr_start_address :: string
  wr_end_address :: string
  wr_ip_version :: string
  wr_start_ip :: "64 word option"
  wr_end_ip :: "64 word option"
  wr_start_ip6 :: "8 word list option"
  wr_end_ip6 :: "8 word list option"
  wr_cidr :: 'c
  wr_name :: "string option"
  wr_type :: "string option"
  wr_country :: "string option"
  wr_status :: string
  wr_created_at :: gotime
  wr_updated_at :: gotime

record autnum_row =
  ar_handle :: string
  ar_start_asn :: int
  ar_end_asn :: int
  ar_name :: "string option"
  ar_type :: "string option"
  ar_country :: "string option"
  ar_status :: string
  ar_created_at :: gotime
  ar_updated_at :: gotime

record 'c database =
  db_domains :: "domain_row list"
  db_entities :: "entity_row list"
  db_nameservers :: "nameserver_row list"
  db_domain_nameservers :: "(string \<times> string) list"
  db_ip_networks :: "'c network_row list"
  db_autnums :: "autnum_row list"

subsection \<open>Statements\<close>

datatype isolation = DefaultIsolation | RepeatableRead

record 'c dialect =
  dl_view :: "isolation \<Rightarrow> (nat \<Rightarrow> 'c database) \<Rightarrow> nat \<Rightarrow> 'c database"
  dl_fails :: "string \<Rightarrow> string list \<Rightarrow> goerror option"
  dl_rows_err :: "string \<Rightarrow> string list \<Rightarrow> goerror option"
  dl_no_rows :: goerror
  dl_scan_null :: "string \<Rightarrow> goerror"
  dl_scan_range :: "string \<Rightarrow> goerror"
  dl_eq :: "string \<Rightarrow> string \<Rightarrow> bool"
  dl_like :: "string \<Rightarrow> string \<Rightarrow> bool"
  dl_ilike :: "string \<Rightarrow> string \<Rightarrow> bool"
  dl_json_contains :: "string option \<Rightarrow> string \<Rightarrow> bool"
  dl_inet_within :: "string \<Rightarrow> string list \<Rightarrow> bool"
  dl_inet_text :: "string \<Rightarrow> string"

definition wrap_err :: "string \<Rightarrow> 'a result \<Rightarrow> 'a result" where
  "wrap_err m r = (case r of Inl err \<Rightarrow> Inl (Wrapf (m @ '': '' @ Error err) err) | Inr x \<Rightarrow> Inr x)"

definition and_then :: "'a result \<Rightarrow> ('a \<Rightarrow> 'b result) \<Rightarrow> 'b result" where
  "and_then r f = (case r of Inl err \<Rightarrow> Inl err | Inr x \<Rightarrow> f x)"

text \<open>
  \<open>QueryRow\<close>: the first row, or the error that \<open>Scan\<close> will report. The string names the statement,
  the list its arguments.
\<close>

definition QueryRow :: "'c dialect \<Rightarrow> string \<Rightarrow> string list \<Rightarrow> 'r list \<Rightarrow> 'r result" where
  "QueryRow D stmt args rows =
     (case dl_fails D stmt args of
        Some err \<Rightarrow> Inl err
      | None \<Rightarrow> (case rows of [] \<Rightarrow> Inl (dl_no_rows D) | r # _ \<Rightarrow> Inr r))"

text \<open>\<open>for rows.Next()\<close>: the first row that does not scan ends the loop with its error.\<close>

fun scan_rows :: "('r \<Rightarrow> 'a result) \<Rightarrow> 'r list \<Rightarrow> 'a list result" where
  "scan_rows scan [] = Inr []"
| "scan_rows scan (r # rs) =
     (case scan r of
        Inl err \<Rightarrow> Inl err
      | Inr x \<Rightarrow> (case scan_rows scan rs of Inl err \<Rightarrow> Inl err | Inr xs \<Rightarrow> Inr (x # xs)))"

text \<open>
  A search: run the statement, whose last argument is the limit, scan the rows it returns, and ask
  for the error of the iteration.
\<close>

definition search_rows ::
  "'c dialect \<Rightarrow> string \<Rightarrow> string \<Rightarrow> string list \<Rightarrow> int \<Rightarrow> 'r list \<Rightarrow> ('r \<Rightarrow> 'a result) \<Rightarrow> 'a list result" where
  "search_rows D msg stmt args limit rows scan =
     (case dl_fails D stmt (args @ [Itoa limit]) of
        Some err \<Rightarrow> Inl (Wrapf (msg @ '': '' @ Error err) err)
      | None \<Rightarrow>
          and_then (scan_rows scan (take (nat limit) rows))
            (\<lambda>results. case dl_rows_err D stmt (args @ [Itoa limit]) of
                         Some err \<Rightarrow> Inl err
                       | None \<Rightarrow> Inr results))"

subsection \<open>Scanning\<close>

text \<open>A nullable column scanned into a Go value that is not a pointer.\<close>

definition not_null :: "'c dialect \<Rightarrow> string \<Rightarrow> 'a option \<Rightarrow> 'a result" where
  "not_null D col v = (case v of None \<Rightarrow> Inl (dl_scan_null D col) | Some x \<Rightarrow> Inr x)"

text \<open>A \<open>BIGINT\<close> scanned into a \<open>uint32\<close>.\<close>

definition scan_uint32 :: "'c dialect \<Rightarrow> string \<Rightarrow> int \<Rightarrow> 32 word result" where
  "scan_uint32 D col v = (if 0 \<le> v \<and> v < 2 ^ 32 then Inr (of_int v) else Inl (dl_scan_range D col))"

definition row_metadata :: "string \<Rightarrow> gotime \<Rightarrow> gotime \<Rightarrow> Metadata" where
  "row_metadata source created updated =
     zero_Metadata\<lparr>md_Version := 1, md_CreatedAt := created, md_UpdatedAt := updated, md_Source := source\<rparr>"

text \<open>The bytes of a JSON column; NULL is the nil slice.\<close>

definition column :: "string option \<Rightarrow> string" where
  "column c = (case c of None \<Rightarrow> [] | Some s \<Rightarrow> s)"

definition set_role :: "ContactRole \<Rightarrow> string option \<Rightarrow> Domain \<Rightarrow> Domain" where
  "set_role role handle d =
     (case handle of None \<Rightarrow> d | Some h \<Rightarrow> d\<lparr>d_Contacts := map_put role [h] (d_Contacts d)\<rparr>)"

definition populateDomainContacts ::
  "Domain \<Rightarrow> string option \<Rightarrow> string option \<Rightarrow> string option \<Rightarrow> string option \<Rightarrow> Domain" where
  "populateDomainContacts d registrant admin tech billing =
     (let d0 = d\<lparr>d_Contacts := []\<rparr>;
          d1 = (case registrant of
                  None \<Rightarrow> d0
                | Some h \<Rightarrow> (set_role RoleRegistrant registrant d0)\<lparr>d_Registrar := h\<rparr>);
          d2 = set_role RoleAdministrative admin d1;
          d3 = set_role RoleTechnical tech d2
      in set_role RoleBilling billing d3)"

text \<open>A domain row after \<open>Scan\<close>; \<open>source\<close> is the constant each store writes into the metadata.\<close>

definition domain_record :: "unicode \<Rightarrow> string \<Rightarrow> domain_row \<Rightarrow> gotime \<Rightarrow> Domain" where
  "domain_record U source r expires =
     (let record0 =
            \<lparr>d_Handle = dr_handle r, d_LDHName = dr_ldh_name r, d_UnicodeName = dr_unicode_name r,
             d_TLD = dr_tld r, d_Status = parseStatus (dr_status r), d_ExpiresAt = expires,
             d_Contacts = [], d_Nameservers = [],
             d_SecureDNS = parseSecureDNS U (column (dr_secure_dns r)), d_Registrar = [],
             d_Metadata = row_metadata source (dr_created_at r) (dr_updated_at r)\<rparr>;
          record1 = populateDomainContacts record0 (dr_registrant r) (dr_admin r) (dr_tech r) (dr_billing r)
      in if length (dr_nameservers r) > 0
         then record1\<lparr>d_Nameservers := parseNameservers U (dr_nameservers r)\<rparr> else record1)"

text \<open>\<open>expires_at\<close> is the only nullable column scanned into a plain value.\<close>

definition scan_domain :: "'c dialect \<Rightarrow> unicode \<Rightarrow> string \<Rightarrow> domain_row \<Rightarrow> Domain result" where
  "scan_domain D U source r =
     and_then (not_null D ''expires_at'' (dr_expires_at r)) (\<lambda>expires. Inr (domain_record U source r expires))"

definition contact_record :: "unicode \<Rightarrow> string \<Rightarrow> entity_row \<Rightarrow> Contact" where
  "contact_record U source r =
     (let roles = fst (decode (dec_list dec_string) [] (er_roles r));
          pids = fst (decode (dec_list (dec_public_id U)) [] (er_public_ids r));
          vcard = (case er_vcard_json r of
                     None \<Rightarrow> None
                   | Some t \<Rightarrow> if t = [] then None else parseVCardJSON t)
      in Contact (er_handle r) roles (parseStatus (er_status r)) vcard pids [] [] [] []
           (row_metadata source (er_created_at r) (er_updated_at r)))"

definition nameserver_record :: "string \<Rightarrow> nameserver_row \<Rightarrow> NameServer" where
  "nameserver_record source r =
     \<lparr>ns_Handle = nr_handle r, ns_LDHName = nr_ldh_name r, ns_UnicodeName = nr_unicode_name r,
      ns_IPV4 = fst (decode (dec_list dec_string) [] (column (nr_ipv4 r))),
      ns_IPV6 = fst (decode (dec_list dec_string) [] (column (nr_ipv6 r))),
      ns_Status = parseStatus (nr_status r),
      ns_Metadata = row_metadata source (nr_created_at r) (nr_updated_at r)\<rparr>"

text \<open>The columns in the order of \<open>Scan\<close>; \<open>cidrs\<close> reads the CIDR column, \<open>addr\<close> what the query selects.\<close>

definition scan_network ::
  "'c dialect \<Rightarrow> string \<Rightarrow> (string \<Rightarrow> string) \<Rightarrow> ('c \<Rightarrow> string list) \<Rightarrow> 'c network_row \<Rightarrow> IPNetwork result" where
  "scan_network D source addr cidrs r =
     and_then (not_null D ''name'' (wr_name r)) (\<lambda>name.
     and_then (not_null D ''type'' (wr_type r)) (\<lambda>type.
     and_then (not_null D ''country'' (wr_country r)) (\<lambda>country.
       Inr \<lparr>ip_Handle = wr_handle r, ip_StartAddress = addr (wr_start_address r),
            ip_EndAddress = addr (wr_end_address r), ip_IPVersion = wr_ip_version r,
            ip_CIDR = cidrs (wr_cidr r), ip_Name = name, ip_Type = type, ip_Country = country,
            ip_Status = parseStatus (wr_status r), ip_ParentHandle = [],
            ip_Metadata = row_metadata source (wr_created_at r) (wr_updated_at r)\<rparr>)))"

definition scan_autnum :: "'c dialect \<Rightarrow> string \<Rightarrow> autnum_row \<Rightarrow> Autnum result" where
  "scan_autnum D source r =
     and_then (scan_uint32 D ''start_asn'' (ar_start_asn r)) (\<lambda>first.
     and_then (scan_uint32 D ''end_asn'' (ar_end_asn r)) (\<lambda>last.
     and_then (not_null D ''name'' (ar_name r)) (\<lambda>name.
     and_then (not_null D ''type'' (ar_type r)) (\<lambda>type.
     and_then (not_null D ''country'' (ar_country r)) (\<lambda>country.
       Inr \<lparr>as_Handle = ar_handle r, as_StartASN = first, as_EndASN = last, as_Name = name,
            as_Type = type, as_Country = country, as_Status = parseStatus (ar_status r),
            as_Metadata = row_metadata source (ar_created_at r) (ar_updated_at r)\<rparr>)))))"

text \<open>
  The row functions of the two stores: a row that \<open>QueryRow\<close> or \<open>rows.Next\<close> delivers, or the error
  that \<open>Scan\<close> reports.
\<close>

definition scan_domain_row :: "'c dialect \<Rightarrow> unicode \<Rightarrow> string \<Rightarrow> domain_row result \<Rightarrow> Domain result" where
  "scan_domain_row D U source row = wrap_err ''scan domain'' (and_then row (scan_domain D U source))"

definition scan_contact_row :: "unicode \<Rightarrow> string \<Rightarrow> entity_row result \<Rightarrow> Contact result" where
  "scan_contact_row U source row = wrap_err ''scan entity'' (and_then row (\<lambda>r. Inr (contact_record U source r)))"

definition scan_nameserver_row :: "string \<Rightarrow> nameserver_row result \<Rightarrow> NameServer result" where
  "scan_nameserver_row source row =
     wrap_err ''scan nameserver'' (and_then row (\<lambda>r. Inr (nameserver_record source r)))"

text \<open>The resolution loops of an aggregate; the counter is the number of the next statement.\<close>

fun resolve_contacts ::
  "(nat \<Rightarrow> string \<Rightarrow> Contact result) \<Rightarrow> nat \<Rightarrow> string list \<Rightarrow> DomainAggregate \<Rightarrow> DomainAggregate" where
  "resolve_contacts lookup k [] agg = agg"
| "resolve_contacts lookup k (h # hs) agg =
     resolve_contacts lookup (k + 1) hs
       (case lookup k h of
          Inl _ \<Rightarrow> agg
        | Inr contact \<Rightarrow>
            (let agg' = agg\<lparr>agg_Contacts := map_put h contact (agg_Contacts agg)\<rparr>
             in if h = d_Registrar (agg_Domain agg) then agg'\<lparr>agg_Registrar := Some contact\<rparr> else agg'))"

fun resolve_nameservers ::
  "(nat \<Rightarrow> string \<Rightarrow> NameServer result) \<Rightarrow> nat \<Rightarrow> NameServer list \<Rightarrow> DomainAggregate \<Rightarrow> DomainAggregate" where
  "resolve_nameservers lookup k [] agg = agg"
| "resolve_nameservers lookup k (ns # nss) agg =
     resolve_nameservers lookup (k + 1) nss
       (case lookup k (ns_Handle ns) of
          Inl _ \<Rightarrow> agg
        | Inr n \<Rightarrow> agg\<lparr>agg_Nameservers := map_put (ns_Handle n) n (agg_Nameservers agg)\<rparr>)"

text \<open>\<open>patternToSQL\<close>.\<close>

definition patternToSQL :: "string \<Rightarrow> string" where
  "patternToSQL p = ReplaceAll (ReplaceAll p (CHR ''*'') ''%'') (CHR ''?'') ''_''"

lemmas sql_tables_eval [go_eval] =
  wrap_err_def and_then_def QueryRow_def search_rows_def not_null_def scan_uint32_def row_metadata_def
  column_def set_role_def populateDomainContacts_def domain_record_def scan_domain_def contact_record_def
  nameserver_record_def scan_network_def scan_autnum_def scan_domain_row_def scan_contact_row_def
  scan_nameserver_row_def patternToSQL_def

subsection \<open>Lemmas\<close>

lemma wrap_err_simps [simp]:
  "wrap_err m (Inr x) = Inr x" "wrap_err m (Inl e) = Inl (Wrapf (m @ '': '' @ Error e) e)"
  "wrap_err m r = Inr x \<longleftrightarrow> r = Inr x"
  by (auto simp: wrap_err_def split: sum.split)

lemma and_then_simps [simp]:
  "and_then (Inr x) f = f x" "and_then (Inl e) f = Inl e"
  "and_then r f = Inr y \<longleftrightarrow> (\<exists>x. r = Inr x \<and> f x = Inr y)"
  by (auto simp: and_then_def split: sum.split)

lemma scan_rows_length: "scan_rows scan rs = Inr xs \<Longrightarrow> length xs = length rs"
  by (induction rs arbitrary: xs) (auto split: sum.splits)

lemma scan_rows_all: "(\<And>r. r \<in> set rs \<Longrightarrow> scan r = Inr (f r)) \<Longrightarrow> scan_rows scan rs = Inr (map f rs)"
  by (induction rs) auto

lemma scan_rows_error: "r \<in> set rs \<Longrightarrow> scan r = Inl e \<Longrightarrow> \<exists>e'. scan_rows scan rs = Inl e'"
  by (induction rs) (auto split: sum.split)

lemma search_rows_bounded: "0 < limit \<Longrightarrow> bounded limit (search_rows D msg stmt args limit rows scan)"
  by (auto simp: search_rows_def bounded_def dest!: scan_rows_length split: option.splits)

lemma set_role_simps [simp]:
  "d_Registrar (set_role role h d) = d_Registrar d" "d_LDHName (set_role role h d) = d_LDHName d"
  "d_Handle (set_role role h d) = d_Handle d" "d_UnicodeName (set_role role h d) = d_UnicodeName d"
  by (simp_all add: set_role_def split: option.split)

lemma domain_record_simps [simp]:
  "d_LDHName (domain_record U src r t) = dr_ldh_name r"
  "d_Handle (domain_record U src r t) = dr_handle r"
  "d_Registrar (domain_record U src r t) = (case dr_registrant r of None \<Rightarrow> [] | Some h \<Rightarrow> h)"
  by (simp_all add: domain_record_def populateDomainContacts_def Let_def split: option.split)

lemma domain_record_contacts:
  "d_Contacts (domain_record U src r t) =
     concat [case dr_registrant r of None \<Rightarrow> [] | Some h \<Rightarrow> [(RoleRegistrant, [h])],
             case dr_admin r of None \<Rightarrow> [] | Some h \<Rightarrow> [(RoleAdministrative, [h])],
             case dr_tech r of None \<Rightarrow> [] | Some h \<Rightarrow> [(RoleTechnical, [h])],
             case dr_billing r of None \<Rightarrow> [] | Some h \<Rightarrow> [(RoleBilling, [h])]]"
  by (simp add: domain_record_def populateDomainContacts_def set_role_def Let_def map_put_def
      RoleRegistrant_def RoleAdministrative_def RoleTechnical_def RoleBilling_def split: option.split)

subsection \<open>The resolution loops\<close>

text \<open>What the loops compute when every statement sees the same state of the database.\<close>


lemma resolve_contacts_spec:
  assumes "\<And>k h. lookup k h = look h"
  shows "agg_Domain (resolve_contacts lookup k hs agg) = agg_Domain agg"
    and "map_of (agg_Contacts (resolve_contacts lookup k hs agg)) x =
           (case look x of Inr c \<Rightarrow> if x \<in> set hs then Some c else map_of (agg_Contacts agg) x
                         | Inl _ \<Rightarrow> map_of (agg_Contacts agg) x)"
    and "agg_Registrar (resolve_contacts lookup k hs agg) =
           (case look (d_Registrar (agg_Domain agg)) of
              Inr c \<Rightarrow> if d_Registrar (agg_Domain agg) \<in> set hs then Some c else agg_Registrar agg
            | Inl _ \<Rightarrow> agg_Registrar agg)"
    and "agg_Nameservers (resolve_contacts lookup k hs agg) = agg_Nameservers agg"
  by (induction hs arbitrary: k agg) (auto simp: assms Let_def split: sum.splits if_splits)

lemma resolve_nameservers_spec:
  assumes "\<And>k h. (case lookup k h of Inr n \<Rightarrow> Some n | Inl _ \<Rightarrow> None) = look h"
  shows "map_of (agg_Nameservers (resolve_nameservers lookup k nss agg)) x =
           (case find (\<lambda>n. ns_Handle n = x) (rev (List.map_filter (\<lambda>ns. look (ns_Handle ns)) nss)) of
              Some n \<Rightarrow> Some n | None \<Rightarrow> map_of (agg_Nameservers agg) x)"
proof (induction nss arbitrary: k agg)
  case (Cons ns nss)
  have find_append: "find P (xs @ ys) = (case find P xs of Some y \<Rightarrow> Some y | None \<Rightarrow> find P ys)"
    for P and xs ys :: "NameServer list"
    by (induction xs) auto
  have "look (ns_Handle ns) = (case lookup k (ns_Handle ns) of Inr n \<Rightarrow> Some n | Inl _ \<Rightarrow> None)"
    by (simp add: assms)
  then show ?case
    by (auto simp: Cons.IH map_filter_simps find_append split: sum.split option.split)
qed (simp add: List.map_filter_def)

lemma resolve_nameservers_other [simp]:
  "agg_Domain (resolve_nameservers lookup k nss agg) = agg_Domain agg"
  "agg_Contacts (resolve_nameservers lookup k nss agg) = agg_Contacts agg"
  "agg_Registrar (resolve_nameservers lookup k nss agg) = agg_Registrar agg"
  by (induction nss arbitrary: k agg) (simp_all split: sum.split)

end
