(* ===== verification/SqlStore.thy ===== *)
theory SqlStore
  imports SqlTables MemoryStore
begin

section \<open>The relational stores\<close>

text \<open>
  \<open>internal/store/mysql.go\<close> and \<open>postgres.go\<close>. Both stores run the same queries and scan the same
  columns, so each operation is one definition (\<open>sql_\<dots>\<close>) over the dialect, the constant each store
  writes as metadata source, and, for the entity searches, the pattern operator; the definitions named
  after the stores are these instances and the operations that differ: the transaction of the
  aggregate, the network lookup, and closing.

  A store works over the states \<open>hist\<close> that the database goes through while it serves a call: a plain
  query sees the first, the statements of a transaction see what the isolation level lets them see.
  The lemmas show that with the documented meaning of repeatable read an aggregate is a snapshot
  (\<open>snapshot_store\<close>), that searches are bounded (\<open>bounded_store\<close>), and what the lookups find and when
  they fail.
\<close>

subsection \<open>Queries\<close>

definition domains_named :: "'c dialect \<Rightarrow> 'c database \<Rightarrow> string \<Rightarrow> domain_row list" where
  "domains_named D db name =
     filter (\<lambda>r. dl_eq D (dr_ldh_name r) name \<or> dl_eq D (dr_unicode_name r) name) (db_domains db)"

definition entities_with :: "'c dialect \<Rightarrow> 'c database \<Rightarrow> string \<Rightarrow> entity_row list" where
  "entities_with D db handle = filter (\<lambda>r. dl_eq D (er_handle r) handle) (db_entities db)"

definition nameservers_with :: "'c dialect \<Rightarrow> 'c database \<Rightarrow> string \<Rightarrow> nameserver_row list" where
  "nameservers_with D db handle = filter (\<lambda>r. dl_eq D (nr_handle r) handle) (db_nameservers db)"

definition domains_served_by :: "'c dialect \<Rightarrow> 'c database \<Rightarrow> string \<Rightarrow> domain_row list" where
  "domains_served_by D db nsName =
     [d. d \<leftarrow> db_domains db,
         (domain_handle, ns_handle) \<leftarrow> db_domain_nameservers db, dl_eq D (dr_handle d) domain_handle,
         n \<leftarrow> db_nameservers db, dl_eq D ns_handle (nr_handle n),
         dl_eq D (nr_ldh_name n) nsName \<or> dl_eq D (nr_unicode_name n) nsName]"

subsection \<open>Lookups\<close>

definition sql_LookupDomain ::
  "string \<Rightarrow> 'c dialect \<Rightarrow> unicode \<Rightarrow> 'c database \<Rightarrow> string \<Rightarrow> Domain result" where
  "sql_LookupDomain source D U db name =
     wrap_err ''domain lookup''
       (and_then (QueryRow D ''SELECT domain'' [name] (domains_named D db name)) (scan_domain D U source))"

definition sql_LookupContact ::
  "string \<Rightarrow> 'c dialect \<Rightarrow> unicode \<Rightarrow> 'c database \<Rightarrow> string \<Rightarrow> Contact result" where
  "sql_LookupContact source D U db handle =
     wrap_err ''entity lookup''
       (and_then (QueryRow D ''SELECT entity'' [handle] (entities_with D db handle))
          (\<lambda>r. Inr (contact_record U source r)))"

definition sql_LookupNameserver ::
  "string \<Rightarrow> 'c dialect \<Rightarrow> 'c database \<Rightarrow> string \<Rightarrow> NameServer result" where
  "sql_LookupNameserver source D db name =
     wrap_err ''nameserver lookup''
       (and_then (QueryRow D ''SELECT nameserver'' [name]
            (filter (\<lambda>r. dl_eq D (nr_ldh_name r) name \<or> dl_eq D (nr_unicode_name r) name) (db_nameservers db)))
          (\<lambda>r. Inr (nameserver_record source r)))"

definition sql_LookupAutnum :: "string \<Rightarrow> 'c dialect \<Rightarrow> 'c database \<Rightarrow> int \<Rightarrow> Autnum result" where
  "sql_LookupAutnum source D db asn =
     wrap_err ''autnum lookup''
       (and_then (QueryRow D ''SELECT autnum'' [Itoa asn]
            (take 1 (filter (\<lambda>r. ar_start_asn r \<le> asn \<and> ar_end_asn r \<ge> asn) (db_autnums db))))
          (scan_autnum D source))"

subsection \<open>The aggregate\<close>

text \<open>
  The statements of the transaction in order: the domain (number 0), one per handle, one per
  nameserver. \<open>view k\<close> is the state that statement \<open>k\<close> sees. A Go map ranges over its keys in any
  order; the result does not depend on it.
\<close>

definition lookupContactTx ::
  "string \<Rightarrow> 'c dialect \<Rightarrow> unicode \<Rightarrow> 'c database \<Rightarrow> string \<Rightarrow> Contact result" where
  "lookupContactTx source D U db handle =
     scan_contact_row U source (QueryRow D ''SELECT entity'' [handle] (entities_with D db handle))"

definition sql_aggregate ::
  "string \<Rightarrow> 'c dialect \<Rightarrow> unicode \<Rightarrow> (nat \<Rightarrow> 'c database) \<Rightarrow> string \<Rightarrow> DomainAggregate result" where
  "sql_aggregate source D U view name =
     and_then
       (wrap_err ''domain lookup''
          (scan_domain_row D U source (QueryRow D ''SELECT domain'' [name] (domains_named D (view 0) name))))
       (\<lambda>d.
          let agg = \<lparr>agg_Domain = d, agg_Registrar = None, agg_Contacts = [], agg_Nameservers = []\<rparr>;
              handles = remdups (entity_handles d);
              agg1 = resolve_contacts (\<lambda>k. lookupContactTx source D U (view k)) 1 handles agg
          in Inr (resolve_nameservers
               (\<lambda>k h. scan_nameserver_row source
                        (QueryRow D ''SELECT nameserver by handle'' [h] (nameservers_with D (view k) h)))
               (1 + length handles) (d_Nameservers d) agg1))"

definition commit :: "'c dialect \<Rightarrow> 'a \<Rightarrow> 'a result" where
  "commit D x =
     (case dl_fails D ''COMMIT'' [] of
        Some err \<Rightarrow> Inl (Wrapf (''commit transaction: '' @ Error err) err)
      | None \<Rightarrow> Inr x)"

definition MySQL_GetDomainAggregate ::
  "'c dialect \<Rightarrow> unicode \<Rightarrow> (nat \<Rightarrow> 'c database) \<Rightarrow> string \<Rightarrow> DomainAggregate result" where
  "MySQL_GetDomainAggregate D U hist name =
     (case dl_fails D ''BEGIN'' [] of
        Some err \<Rightarrow> Inl (Wrapf (''begin transaction: '' @ Error err) err)
      | None \<Rightarrow> and_then (sql_aggregate ''mysql'' D U (dl_view D RepeatableRead hist) name) (commit D))"

definition Postgres_GetDomainAggregate ::
  "'c dialect \<Rightarrow> unicode \<Rightarrow> (nat \<Rightarrow> 'c database) \<Rightarrow> string \<Rightarrow> DomainAggregate result" where
  "Postgres_GetDomainAggregate D U hist name =
     (case dl_fails D ''BEGIN'' [] of
        Some err \<Rightarrow> Inl (Wrapf (''begin transaction: '' @ Error err) err)
      | None \<Rightarrow>
          (case dl_fails D ''SET TRANSACTION ISOLATION LEVEL REPEATABLE READ'' [] of
             Some err \<Rightarrow> Inl (Wrapf (''set isolation level: '' @ Error err) err)
           | None \<Rightarrow>
               and_then (sql_aggregate ''postgres'' D U (dl_view D RepeatableRead hist) name) (commit D)))"

subsection \<open>Network lookups\<close>

text \<open>MySQL: a \<open>WHERE\<close> clause over the numeric columns; a NULL column never matches.\<close>

definition row_covers :: "ip_range \<Rightarrow> 'c network_row \<Rightarrow> bool" where
  "row_covers queried r =
     (case queried of
        V4 start4 end4 \<Rightarrow>
          wr_ip_version r = ''v4'' \<and>
          (case wr_start_ip r of None \<Rightarrow> False | Some s \<Rightarrow> s \<le> start4) \<and>
          (case wr_end_ip r of None \<Rightarrow> False | Some e \<Rightarrow> e \<ge> end4)
      | V6 start6 end6 \<Rightarrow>
          wr_ip_version r = ''v6'' \<and>
          (case wr_start_ip6 r of None \<Rightarrow> False | Some s \<Rightarrow> bytes_le s start6) \<and>
          (case wr_end_ip6 r of None \<Rightarrow> False | Some e \<Rightarrow> bytes_le end6 e))"

definition MySQL_LookupIPNetwork ::
  "string dialect \<Rightarrow> unicode \<Rightarrow> string database \<Rightarrow> string \<Rightarrow> IPNetwork result" where
  "MySQL_LookupIPNetwork D U db cidr =
     and_then (ipRange U cidr) (\<lambda>queried.
       wrap_err ''IP network lookup''
         (and_then (QueryRow D ''SELECT network'' [cidr] (take 1 (filter (row_covers queried) (db_ip_networks db))))
            (scan_network D ''mysql'' (\<lambda>a. a) (\<lambda>t. fst (decode (dec_list dec_string) [] t)))))"

text \<open>PostgreSQL: \<open>$1::inet <<= ANY(cidr::inet[])\<close>, and the addresses cast to text.\<close>

definition Postgres_LookupIPNetwork ::
  "string list dialect \<Rightarrow> string list database \<Rightarrow> string \<Rightarrow> IPNetwork result" where
  "Postgres_LookupIPNetwork D db cidr =
     wrap_err ''IP network lookup''
       (and_then (QueryRow D ''SELECT network'' [cidr]
            (filter (\<lambda>r. dl_inet_within D cidr (wr_cidr r)) (db_ip_networks db)))
          (scan_network D ''postgres'' (dl_inet_text D) (\<lambda>cidrs. cidrs)))"

subsection \<open>Searches\<close>

definition sql_SearchDomainsByName ::
  "string \<Rightarrow> 'c dialect \<Rightarrow> unicode \<Rightarrow> 'c database \<Rightarrow> string \<Rightarrow> int \<Rightarrow> Domain list result" where
  "sql_SearchDomainsByName source D U db pattern limit =
     (let sqlPattern = patternToSQL pattern
      in search_rows D ''search domains'' ''SELECT domains by name'' [sqlPattern] limit
           (filter (\<lambda>r. dl_like D (dr_ldh_name r) sqlPattern \<or> dl_like D (dr_unicode_name r) sqlPattern)
              (db_domains db))
           (\<lambda>r. scan_domain_row D U source (Inr r)))"

definition sql_SearchDomainsByNS ::
  "string \<Rightarrow> 'c dialect \<Rightarrow> unicode \<Rightarrow> 'c database \<Rightarrow> string \<Rightarrow> int \<Rightarrow> Domain list result" where
  "sql_SearchDomainsByNS source D U db nsName limit =
     search_rows D ''search domains by NS'' ''SELECT domains by nameserver'' [nsName] limit
       (domains_served_by D db nsName) (\<lambda>r. scan_domain_row D U source (Inr r))"

definition sql_SearchContactsByName ::
  "string \<Rightarrow> (string \<Rightarrow> string \<Rightarrow> bool) \<Rightarrow> 'c dialect \<Rightarrow> unicode \<Rightarrow> 'c database \<Rightarrow> string \<Rightarrow> int \<Rightarrow> Contact list result"
  where
  "sql_SearchContactsByName source like D U db pattern limit =
     (let sqlPattern = ''%'' @ patternToSQL pattern @ ''%''
      in search_rows D ''search entities'' ''SELECT entities by name'' [sqlPattern] limit
           (filter (\<lambda>r. (case er_vcard_json r of None \<Rightarrow> False | Some t \<Rightarrow> like t sqlPattern) \<or>
                        like (er_handle r) sqlPattern) (db_entities db))
           (\<lambda>r. scan_contact_row U source (Inr r)))"

definition sql_SearchContactsByHandle ::
  "string \<Rightarrow> (string \<Rightarrow> string \<Rightarrow> bool) \<Rightarrow> 'c dialect \<Rightarrow> unicode \<Rightarrow> 'c database \<Rightarrow> string \<Rightarrow> int \<Rightarrow> Contact list result"
  where
  "sql_SearchContactsByHandle source like D U db pattern limit =
     (let sqlPattern = patternToSQL pattern
      in search_rows D ''search entities by handle'' ''SELECT entities by handle'' [sqlPattern] limit
           (filter (\<lambda>r. like (er_handle r) sqlPattern) (db_entities db))
           (\<lambda>r. scan_contact_row U source (Inr r)))"

definition sql_SearchNameserversByName ::
  "string \<Rightarrow> 'c dialect \<Rightarrow> 'c database \<Rightarrow> string \<Rightarrow> int \<Rightarrow> NameServer list result" where
  "sql_SearchNameserversByName source D db pattern limit =
     (let sqlPattern = patternToSQL pattern
      in search_rows D ''search nameservers'' ''SELECT nameservers by name'' [sqlPattern] limit
           (filter (\<lambda>r. dl_like D (nr_ldh_name r) sqlPattern \<or> dl_like D (nr_unicode_name r) sqlPattern)
              (db_nameservers db))
           (\<lambda>r. scan_nameserver_row source (Inr r)))"

definition sql_SearchNameserversByIP ::
  "string \<Rightarrow> 'c dialect \<Rightarrow> 'c database \<Rightarrow> string \<Rightarrow> int \<Rightarrow> NameServer list result" where
  "sql_SearchNameserversByIP source D db ip limit =
     (let ipJSON = ''['' @ [CHR 0x22] @ ip @ [CHR 0x22] @ '']''
      in search_rows D ''search nameservers by IP'' ''SELECT nameservers by address'' [ipJSON] limit
           (filter (\<lambda>r. dl_json_contains D (nr_ipv4 r) ipJSON \<or> dl_json_contains D (nr_ipv6 r) ipJSON)
              (db_nameservers db))
           (\<lambda>r. scan_nameserver_row source (Inr r)))"

text \<open>Neither store maintains the index for reverse searches.\<close>

definition sql_ReverseSearchDomainsByEntity :: "string \<Rightarrow> string \<Rightarrow> int \<Rightarrow> Domain list result" where
  "sql_ReverseSearchDomainsByEntity property pattern limit = Inl ErrReverseSearchUnsupported"

subsection \<open>The stores\<close>

text \<open>PostgreSQL's methods: the same statements, with case-insensitive entity searches.\<close>

definition Postgres_LookupDomain :: "'c dialect \<Rightarrow> unicode \<Rightarrow> 'c database \<Rightarrow> string \<Rightarrow> Domain result" where
  "Postgres_LookupDomain = sql_LookupDomain ''postgres''"

definition Postgres_LookupContact :: "'c dialect \<Rightarrow> unicode \<Rightarrow> 'c database \<Rightarrow> string \<Rightarrow> Contact result" where
  "Postgres_LookupContact = sql_LookupContact ''postgres''"

definition Postgres_LookupNameserver :: "'c dialect \<Rightarrow> 'c database \<Rightarrow> string \<Rightarrow> NameServer result" where
  "Postgres_LookupNameserver = sql_LookupNameserver ''postgres''"

definition Postgres_LookupAutnum :: "'c dialect \<Rightarrow> 'c database \<Rightarrow> int \<Rightarrow> Autnum result" where
  "Postgres_LookupAutnum = sql_LookupAutnum ''postgres''"

definition Postgres_SearchDomainsByName ::
  "'c dialect \<Rightarrow> unicode \<Rightarrow> 'c database \<Rightarrow> string \<Rightarrow> int \<Rightarrow> Domain list result" where
  "Postgres_SearchDomainsByName = sql_SearchDomainsByName ''postgres''"

definition Postgres_SearchDomainsByNS ::
  "'c dialect \<Rightarrow> unicode \<Rightarrow> 'c database \<Rightarrow> string \<Rightarrow> int \<Rightarrow> Domain list result" where
  "Postgres_SearchDomainsByNS = sql_SearchDomainsByNS ''postgres''"

definition Postgres_SearchContactsByName ::
  "'c dialect \<Rightarrow> unicode \<Rightarrow> 'c database \<Rightarrow> string \<Rightarrow> int \<Rightarrow> Contact list result" where
  "Postgres_SearchContactsByName D = sql_SearchContactsByName ''postgres'' (dl_ilike D) D"

definition Postgres_SearchContactsByHandle ::
  "'c dialect \<Rightarrow> unicode \<Rightarrow> 'c database \<Rightarrow> string \<Rightarrow> int \<Rightarrow> Contact list result" where
  "Postgres_SearchContactsByHandle D = sql_SearchContactsByHandle ''postgres'' (dl_ilike D) D"

definition Postgres_SearchNameserversByName ::
  "'c dialect \<Rightarrow> 'c database \<Rightarrow> string \<Rightarrow> int \<Rightarrow> NameServer list result" where
  "Postgres_SearchNameserversByName = sql_SearchNameserversByName ''postgres''"

definition Postgres_SearchNameserversByIP ::
  "'c dialect \<Rightarrow> 'c database \<Rightarrow> string \<Rightarrow> int \<Rightarrow> NameServer list result" where
  "Postgres_SearchNameserversByIP = sql_SearchNameserversByIP ''postgres''"

definition Postgres_ReverseSearchDomainsByEntity :: "string \<Rightarrow> string \<Rightarrow> int \<Rightarrow> Domain list result" where
  "Postgres_ReverseSearchDomainsByEntity property pattern limit = Inl ErrReverseSearchUnsupported"

definition sql_Ping :: "'c dialect \<Rightarrow> goerror option" where
  "sql_Ping D = dl_fails D ''PING'' []"

definition MySQL_Close :: "'c dialect \<Rightarrow> goerror option" where
  "MySQL_Close D = dl_fails D ''CLOSE'' []"

definition Postgres_Close :: "goerror option" where
  "Postgres_Close = None"

lemmas postgres_methods =
  Postgres_LookupDomain_def Postgres_LookupContact_def Postgres_LookupNameserver_def Postgres_LookupAutnum_def
  Postgres_SearchDomainsByName_def Postgres_SearchDomainsByNS_def Postgres_SearchContactsByName_def
  Postgres_SearchContactsByHandle_def Postgres_SearchNameserversByName_def Postgres_SearchNameserversByIP_def
  Postgres_ReverseSearchDomainsByEntity_def sql_Ping_def MySQL_Close_def Postgres_Close_def

definition mysql_interface :: "string dialect \<Rightarrow> unicode \<Rightarrow> (nat \<Rightarrow> string database) \<Rightarrow> Interface" where
  "mysql_interface D U hist =
     \<lparr>if_LookupDomain = sql_LookupDomain ''mysql'' D U (hist 0),
      if_GetDomainAggregate = MySQL_GetDomainAggregate D U hist,
      if_LookupContact = sql_LookupContact ''mysql'' D U (hist 0),
      if_LookupNameserver = sql_LookupNameserver ''mysql'' D (hist 0),
      if_LookupIPNetwork = MySQL_LookupIPNetwork D U (hist 0),
      if_LookupAutnum = sql_LookupAutnum ''mysql'' D (hist 0),
      if_SearchDomainsByName = sql_SearchDomainsByName ''mysql'' D U (hist 0),
      if_SearchDomainsByNS = sql_SearchDomainsByNS ''mysql'' D U (hist 0),
      if_SearchContactsByName = sql_SearchContactsByName ''mysql'' (dl_like D) D U (hist 0),
      if_SearchContactsByHandle = sql_SearchContactsByHandle ''mysql'' (dl_like D) D U (hist 0),
      if_SearchNameserversByName = sql_SearchNameserversByName ''mysql'' D (hist 0),
      if_SearchNameserversByIP = sql_SearchNameserversByIP ''mysql'' D (hist 0),
      if_ReverseSearchDomainsByEntity = sql_ReverseSearchDomainsByEntity,
      if_Ping = sql_Ping D,
      if_Close = MySQL_Close D\<rparr>"

definition postgres_interface ::
  "string list dialect \<Rightarrow> unicode \<Rightarrow> (nat \<Rightarrow> string list database) \<Rightarrow> Interface" where
  "postgres_interface D U hist =
     \<lparr>if_LookupDomain = Postgres_LookupDomain D U (hist 0),
      if_GetDomainAggregate = Postgres_GetDomainAggregate D U hist,
      if_LookupContact = Postgres_LookupContact D U (hist 0),
      if_LookupNameserver = Postgres_LookupNameserver D (hist 0),
      if_LookupIPNetwork = Postgres_LookupIPNetwork D (hist 0),
      if_LookupAutnum = Postgres_LookupAutnum D (hist 0),
      if_SearchDomainsByName = Postgres_SearchDomainsByName D U (hist 0),
      if_SearchDomainsByNS = Postgres_SearchDomainsByNS D U (hist 0),
      if_SearchContactsByName = Postgres_SearchContactsByName D U (hist 0),
      if_SearchContactsByHandle = Postgres_SearchContactsByHandle D U (hist 0),
      if_SearchNameserversByName = Postgres_SearchNameserversByName D (hist 0),
      if_SearchNameserversByIP = Postgres_SearchNameserversByIP D (hist 0),
      if_ReverseSearchDomainsByEntity = Postgres_ReverseSearchDomainsByEntity,
      if_Ping = sql_Ping D,
      if_Close = Postgres_Close\<rparr>"

lemmas sql_searches =
  sql_SearchDomainsByName_def sql_SearchDomainsByNS_def sql_SearchContactsByName_def
  sql_SearchContactsByHandle_def sql_SearchNameserversByName_def sql_SearchNameserversByIP_def
  sql_ReverseSearchDomainsByEntity_def

lemmas sql_eval [go_eval] =
  domains_named_def entities_with_def nameservers_with_def domains_served_by_def sql_LookupDomain_def
  sql_LookupContact_def sql_LookupNameserver_def sql_LookupAutnum_def lookupContactTx_def
  sql_aggregate_def commit_def MySQL_GetDomainAggregate_def Postgres_GetDomainAggregate_def
  row_covers_def MySQL_LookupIPNetwork_def Postgres_LookupIPNetwork_def sql_searches
  mysql_interface_def postgres_interface_def postgres_methods

subsection \<open>The contracts\<close>

interpretation mysql: bounded_store "mysql_interface D U hist" for D U hist
  by unfold_locales (auto simp: mysql_interface_def sql_searches search_rows_bounded Let_def)

interpretation postgres: bounded_store "postgres_interface D U hist" for D U hist
  by unfold_locales (auto simp: postgres_interface_def postgres_methods sql_searches search_rows_bounded Let_def)

text \<open>The nameserver stored under a handle: the first row with it.\<close>

definition stored_nameserver :: "string \<Rightarrow> 'c dialect \<Rightarrow> 'c database \<Rightarrow> string \<Rightarrow> NameServer option" where
  "stored_nameserver src D db h =
     (if dl_fails D ''SELECT nameserver by handle'' [h] = None
      then map_option (nameserver_record src) (find (\<lambda>r. dl_eq D (nr_handle r) h) (db_nameservers db)) else None)"

lemma scan_nameserver_stored:
  "(case scan_nameserver_row src (QueryRow D ''SELECT nameserver by handle'' [h] (nameservers_with D db h)) of
      Inr n \<Rightarrow> Some n | Inl _ \<Rightarrow> None) = stored_nameserver src D db h"
proof -
  have "find P xs = (case filter P xs of [] \<Rightarrow> None | x # _ \<Rightarrow> Some x)" for P and xs :: "nameserver_row list"
    by (induction xs) auto
  then show ?thesis
    by (simp add: stored_nameserver_def nameservers_with_def QueryRow_def scan_nameserver_row_def split: list.split option.split)
qed

text \<open>An aggregate whose statements all see one state of the database.\<close>

lemma sql_aggregate_maps:
  assumes "sql_aggregate src D U (\<lambda>_. db) name = Inr agg"
  shows "sql_LookupDomain src D U db name = Inr (agg_Domain agg)"
    and "map_of (agg_Contacts agg) h =
           (if h \<in> set (entity_handles (agg_Domain agg))
            then (case sql_LookupContact src D U db h of Inr c \<Rightarrow> Some c | Inl _ \<Rightarrow> None) else None)"
    and "agg_Registrar agg =
           (if d_Registrar (agg_Domain agg) \<in> set (entity_handles (agg_Domain agg))
            then (case sql_LookupContact src D U db (d_Registrar (agg_Domain agg)) of
                    Inr c \<Rightarrow> Some c | Inl _ \<Rightarrow> None) else None)"
    and "map_of (agg_Nameservers agg) h =
           find (\<lambda>n. ns_Handle n = h)
             (rev (List.map_filter (\<lambda>ns. stored_nameserver src D db (ns_Handle ns)) (d_Nameservers (agg_Domain agg))))"
proof -
  let ?agg0 = "\<lambda>d. \<lparr>agg_Domain = d, agg_Registrar = None, agg_Contacts = [], agg_Nameservers = []\<rparr>"
  obtain d where d: "wrap_err ''domain lookup''
      (scan_domain_row D U src (QueryRow D ''SELECT domain'' [name] (domains_named D db name))) = Inr d"
    and agg: "agg = resolve_nameservers (\<lambda>k h. scan_nameserver_row src
           (QueryRow D ''SELECT nameserver by handle'' [h] (nameservers_with D db h)))
         (1 + length (remdups (entity_handles d))) (d_Nameservers d)
         (resolve_contacts (\<lambda>k. lookupContactTx src D U db) 1 (remdups (entity_handles d)) (?agg0 d))"
    using assms by (auto simp: sql_aggregate_def Let_def)
  note spec = resolve_contacts_spec [where lookup = "\<lambda>k. lookupContactTx src D U db"
      and look = "lookupContactTx src D U db" and k = "Suc 0" and hs = "remdups (entity_handles d)"
      and agg = "?agg0 d", OF refl]
  have dom: "agg_Domain agg = d" by (simp add: agg spec(1))
  have same: "(case lookupContactTx src D U db h of Inr c \<Rightarrow> Some c | Inl _ \<Rightarrow> None) =
      (case sql_LookupContact src D U db h of Inr c \<Rightarrow> Some c | Inl _ \<Rightarrow> None)" for h
    by (auto simp: lookupContactTx_def sql_LookupContact_def scan_contact_row_def wrap_err_def and_then_def
        split: sum.split)
  show "sql_LookupDomain src D U db name = Inr (agg_Domain agg)"
    using d dom by (simp add: sql_LookupDomain_def scan_domain_row_def)
  show "map_of (agg_Contacts agg) h =
      (if h \<in> set (entity_handles (agg_Domain agg))
       then (case sql_LookupContact src D U db h of Inr c \<Rightarrow> Some c | Inl _ \<Rightarrow> None) else None)"
    using spec(2) [of h] dom by (simp add: agg same [symmetric] split: sum.split)
  show "agg_Registrar agg =
      (if d_Registrar (agg_Domain agg) \<in> set (entity_handles (agg_Domain agg))
       then (case sql_LookupContact src D U db (d_Registrar (agg_Domain agg)) of
               Inr c \<Rightarrow> Some c | Inl _ \<Rightarrow> None) else None)"
    using spec(3) dom by (simp add: agg same [symmetric] split: sum.split)
  have "map_of (agg_Nameservers agg) h =
      (case find (\<lambda>n. ns_Handle n = h)
              (rev (List.map_filter (\<lambda>ns. stored_nameserver src D db (ns_Handle ns)) (d_Nameservers d))) of
         Some n \<Rightarrow> Some n | None \<Rightarrow> None)"
    unfolding agg by (subst resolve_nameservers_spec [OF scan_nameserver_stored]) (simp add: spec(4) split: option.split)
  then show "map_of (agg_Nameservers agg) h = find (\<lambda>n. ns_Handle n = h)
      (rev (List.map_filter (\<lambda>ns. stored_nameserver src D db (ns_Handle ns)) (d_Nameservers (agg_Domain agg))))"
    by (simp add: dom split: option.splits)
qed

lemma sql_transactions:
  "MySQL_GetDomainAggregate D U hist name = Inr agg \<Longrightarrow>
     sql_aggregate ''mysql'' D U (dl_view D RepeatableRead hist) name = Inr agg"
  "Postgres_GetDomainAggregate D U hist name = Inr agg \<Longrightarrow>
     sql_aggregate ''postgres'' D U (dl_view D RepeatableRead hist) name = Inr agg"
  by (auto simp: MySQL_GetDomainAggregate_def Postgres_GetDomainAggregate_def commit_def split: option.splits)

text \<open>
  The documented meaning of repeatable read: every statement of the transaction sees the state that
  the first one saw.
\<close>

definition repeatable :: "'c dialect \<Rightarrow> bool" where
  "repeatable D \<longleftrightarrow> (\<forall>hist. dl_view D RepeatableRead hist = (\<lambda>_. hist 0))"

lemma sql_snapshot_laws:
  assumes "sql_aggregate src D U (\<lambda>_. db) name = Inr agg"
  shows "agg_Registrar agg = Some c \<Longrightarrow> map_of (agg_Contacts agg) (d_Registrar (agg_Domain agg)) = Some c"
    and "agg_Registrar agg = None \<Longrightarrow> d_Registrar (agg_Domain agg) \<noteq> [] \<Longrightarrow>
           \<exists>e. sql_LookupContact src D U db (d_Registrar (agg_Domain agg)) = Inl e"
    and "map_of (agg_Contacts agg) h = Some c \<Longrightarrow> sql_LookupContact src D U db h = Inr c"
  using sql_aggregate_maps(2,3) [OF assms]
  by (auto simp: entity_handles_def split: if_splits sum.splits)

lemma mysql_snapshot: "repeatable D \<Longrightarrow> snapshot_store (mysql_interface D U hist)"
proof unfold_locales
  fix name h agg c
  assume "repeatable D" and "if_GetDomainAggregate (mysql_interface D U hist) name = Inr agg"
  then have agg: "sql_aggregate ''mysql'' D U (\<lambda>_. hist 0) name = Inr agg"
    using sql_transactions(1) [of D U hist name agg] by (simp add: mysql_interface_def repeatable_def)
  show "if_LookupDomain (mysql_interface D U hist) name = Inr (agg_Domain agg)"
    using sql_aggregate_maps(1) [OF agg] by (simp add: mysql_interface_def)
  show "agg_Registrar agg = Some c \<Longrightarrow> map_of (agg_Contacts agg) (d_Registrar (agg_Domain agg)) = Some c"
    "agg_Registrar agg = None \<Longrightarrow> d_Registrar (agg_Domain agg) \<noteq> [] \<Longrightarrow>
      \<exists>e. if_LookupContact (mysql_interface D U hist) (d_Registrar (agg_Domain agg)) = Inl e"
    "map_of (agg_Contacts agg) h = Some c \<Longrightarrow> if_LookupContact (mysql_interface D U hist) h = Inr c"
    using sql_snapshot_laws [OF agg] by (simp_all add: mysql_interface_def)
qed

lemma postgres_snapshot: "repeatable D \<Longrightarrow> snapshot_store (postgres_interface D U hist)"
proof unfold_locales
  fix name h agg c
  assume "repeatable D" and "if_GetDomainAggregate (postgres_interface D U hist) name = Inr agg"
  then have agg: "sql_aggregate ''postgres'' D U (\<lambda>_. hist 0) name = Inr agg"
    using sql_transactions(2) [of D U hist name agg] by (simp add: postgres_interface_def postgres_methods repeatable_def)
  show "if_LookupDomain (postgres_interface D U hist) name = Inr (agg_Domain agg)"
    using sql_aggregate_maps(1) [OF agg] by (simp add: postgres_interface_def postgres_methods)
  show "agg_Registrar agg = Some c \<Longrightarrow> map_of (agg_Contacts agg) (d_Registrar (agg_Domain agg)) = Some c"
    "agg_Registrar agg = None \<Longrightarrow> d_Registrar (agg_Domain agg) \<noteq> [] \<Longrightarrow>
      \<exists>e. if_LookupContact (postgres_interface D U hist) (d_Registrar (agg_Domain agg)) = Inl e"
    "map_of (agg_Contacts agg) h = Some c \<Longrightarrow> if_LookupContact (postgres_interface D U hist) h = Inr c"
    using sql_snapshot_laws [OF agg] by (simp_all add: postgres_interface_def postgres_methods)
qed

text \<open>
  The documented meaning of \<open>LIKE\<close> for a pattern without the escape character: a percent sign stands for
  any text, an underscore for one character, and every other character for the characters that the
  collation of the column identifies with it. A text is the list of its characters, each the bytes of
  its UTF-8 encoding; \<open>eq\<close> is the collation.
\<close>

definition continuation :: "char \<Rightarrow> bool" where
  "continuation c \<longleftrightarrow> 0x80 \<le> byte c \<and> byte c < 0xC0"

fun characters :: "string \<Rightarrow> string list" where
  "characters [] = []"
| "characters (c # s) =
     (case characters s of
        [] \<Rightarrow> [[c]]
      | g # gs \<Rightarrow> if continuation (hd g) then (c # g) # gs else [c] # g # gs)"

text \<open>The well-formed byte sequences of the Unicode standard.\<close>

definition utf8_char :: "string \<Rightarrow> bool" where
  "utf8_char g \<longleftrightarrow>
     (case g of
        [] \<Rightarrow> False
      | [a] \<Rightarrow> byte a < 0x80
      | a # b # cs \<Rightarrow>
          (\<forall>c \<in> set (b # cs). continuation c) \<and>
          (if length cs = 0 then 0xC2 \<le> byte a \<and> byte a < 0xE0
           else if length cs = 1 then
             0xE0 \<le> byte a \<and> byte a < 0xF0 \<and> (byte a = 0xE0 \<longrightarrow> 0xA0 \<le> byte b) \<and> (byte a = 0xED \<longrightarrow> byte b < 0xA0)
           else
             length cs = 2 \<and> 0xF0 \<le> byte a \<and> byte a < 0xF5 \<and>
             (byte a = 0xF0 \<longrightarrow> 0x90 \<le> byte b) \<and> (byte a = 0xF4 \<longrightarrow> byte b < 0x90)))"

definition utf8_text :: "string \<Rightarrow> bool" where
  "utf8_text s \<longleftrightarrow> (\<forall>g \<in> set (characters s). utf8_char g)"

fun like_match :: "(string \<Rightarrow> string \<Rightarrow> bool) \<Rightarrow> string list \<Rightarrow> string list \<Rightarrow> bool" where
  "like_match eq [] s = (s = [])"
| "like_match eq (c # p) s =
     (if c = ''%'' then like_match eq p s \<or> (case s of [] \<Rightarrow> False | _ # s' \<Rightarrow> like_match eq (c # p) s')
      else (case s of [] \<Rightarrow> False | x # s' \<Rightarrow> (c = ''_'' \<or> eq x c) \<and> like_match eq p s'))"

definition documented_like :: "(string \<Rightarrow> string \<Rightarrow> bool) \<Rightarrow> (string \<Rightarrow> string \<Rightarrow> bool) \<Rightarrow> bool" where
  "documented_like eq like \<longleftrightarrow>
     (\<forall>s p. utf8_text s \<and> utf8_text p \<and> CHR 0x5C \<notin> set p \<longrightarrow>
        like s p = like_match eq (characters p) (characters s))"

text \<open>
  Two collations on ASCII: the schema of MySQL asks for \<open>utf8mb4_general_ci\<close>, which ignores case;
  PostgreSQL's \<open>LIKE\<close> compares exactly.
\<close>

definition ignoring_case :: "string \<Rightarrow> string \<Rightarrow> bool" where
  "ignoring_case x c \<longleftrightarrow> map lower_byte x = map lower_byte c"

subsection \<open>An example database\<close>

text \<open>
  A dialect with exact equality and case-insensitive \<open>LIKE\<close>, and a database of two domains, one contact and
  one network.
\<close>

definition example_dialect :: "'c dialect" where
  "example_dialect =
     \<lparr>dl_view = (\<lambda>iso hist. case iso of RepeatableRead \<Rightarrow> (\<lambda>_. hist 0) | DefaultIsolation \<Rightarrow> hist),
      dl_fails = (\<lambda>_ _. None), dl_rows_err = (\<lambda>_ _. None),
      dl_no_rows = Sentinel ''sql: no rows in result set'', dl_scan_null = Errorf, dl_scan_range = Errorf,
      dl_eq = (=), dl_like = (\<lambda>s p. like_match ignoring_case (characters p) (characters s)),
      dl_ilike = (\<lambda>s p. like_match ignoring_case (characters p) (characters s)),
      dl_json_contains = (\<lambda>c t. c = Some t), dl_inet_within = (\<lambda>x cs. x \<in> set cs),
      dl_inet_text = (\<lambda>a. a @ ''/32'')\<rparr>"

definition example_domain_row :: "string \<Rightarrow> gotime option \<Rightarrow> domain_row" where
  "example_domain_row name expires =
     \<lparr>dr_handle = ''D1'', dr_ldh_name = name, dr_unicode_name = name, dr_tld = ''org'', dr_status = ''[]'',
      dr_created_at = zero_time, dr_updated_at = zero_time, dr_expires_at = expires,
      dr_registrant = Some ''R1'', dr_admin = None, dr_tech = None, dr_billing = None,
      dr_nameservers = ''[]'', dr_secure_dns = None\<rparr>"

definition example_entity_row :: entity_row where
  "example_entity_row =
     \<lparr>er_handle = ''R1'', er_vcard_json = None, er_roles = ''[]'', er_status = ''[]'',
      er_created_at = zero_time, er_updated_at = zero_time, er_public_ids = ''[]''\<rparr>"

definition example_network_row :: "string network_row" where
  "example_network_row =
     \<lparr>wr_handle = ''NET1'', wr_start_address = ''192.0.2.0'', wr_end_address = ''192.0.2.255'',
      wr_ip_version = ''v4'', wr_start_ip = Some 0xC0000200, wr_end_ip = Some 0xC00002FF,
      wr_start_ip6 = None, wr_end_ip6 = None, wr_cidr = ''[]'', wr_name = Some ''TEST-NET-1'',
      wr_type = Some ''RESERVED'', wr_country = Some ''ZZ'', wr_status = ''[]'',
      wr_created_at = zero_time, wr_updated_at = zero_time\<rparr>"

definition example_db :: "string database" where
  "example_db =
     \<lparr>db_domains = [example_domain_row ''example.org'' (Some zero_time), example_domain_row ''expired.org'' None],
      db_entities = [example_entity_row], db_nameservers = [], db_domain_nameservers = [],
      db_ip_networks = [example_network_row], db_autnums = []\<rparr>"

definition empty_db :: "string database" where
  "empty_db =
     \<lparr>db_domains = [], db_entities = [], db_nameservers = [], db_domain_nameservers = [],
      db_ip_networks = [], db_autnums = []\<rparr>"

text \<open>The database is emptied right after the first statement.\<close>

definition example_hist :: "nat \<Rightarrow> string database" where
  "example_hist k = (if k = 0 then example_db else empty_db)"

lemma example_dialect_repeatable: "repeatable example_dialect"
  by (simp add: repeatable_def example_dialect_def)

lemma example_dialect_fails [simp]:
  "dl_fails example_dialect stmt args = None" "dl_rows_err example_dialect stmt args = None"
  by (simp_all add: example_dialect_def)

subsection \<open>Snapshots\<close>

text \<open>
  An aggregate that shows one state of the database: its domain and contacts are what single lookups
  find in that state, and its nameservers, by handle, are those stored there under the handles that the
  domain names (the later one, should two stored nameservers have the same handle).
\<close>

definition is_snapshot ::
  "string \<Rightarrow> 'c dialect \<Rightarrow> unicode \<Rightarrow> 'c database \<Rightarrow> string \<Rightarrow> DomainAggregate \<Rightarrow> bool" where
  "is_snapshot src D U db name agg \<longleftrightarrow>
     sql_LookupDomain src D U db name = Inr (agg_Domain agg) \<and>
     (\<forall>h. map_of (agg_Contacts agg) h =
            (if h \<in> set (entity_handles (agg_Domain agg))
             then (case sql_LookupContact src D U db h of Inr c \<Rightarrow> Some c | Inl _ \<Rightarrow> None) else None)) \<and>
     agg_Registrar agg = map_of (agg_Contacts agg) (d_Registrar (agg_Domain agg)) \<and>
     (\<forall>h. map_of (agg_Nameservers agg) h =
            find (\<lambda>n. ns_Handle n = h)
              (rev (List.map_filter (\<lambda>ns. stored_nameserver src D db (ns_Handle ns))
                 (d_Nameservers (agg_Domain agg)))))"

text \<open>
  C13. No torn responses: when repeatable read has its documented meaning, an aggregate of either store
  shows the single state of the database that its first statement saw, however the database changes
  while the other statements run: the domain, its registrar, each contact and each nameserver are those
  of that state, and none that it has is missing.
\<close>

theorem sql_aggregate_snapshot:
  assumes "repeatable D"
  shows "(MySQL_GetDomainAggregate D U hist name = Inr agg \<longrightarrow>
            is_snapshot ''mysql'' D U (hist 0) name agg) \<and>
         (Postgres_GetDomainAggregate D U hist name = Inr agg \<longrightarrow>
            is_snapshot ''postgres'' D U (hist 0) name agg)"
proof -
  have "is_snapshot src D U (hist 0) name agg"
    if "sql_aggregate src D U (dl_view D RepeatableRead hist) name = Inr agg" for src
  proof -
    have agg: "sql_aggregate src D U (\<lambda>_. hist 0) name = Inr agg"
      using that assms by (simp add: repeatable_def)
    show ?thesis using sql_aggregate_maps [OF agg] by (simp add: is_snapshot_def)
  qed
  then show ?thesis using sql_transactions by blast
qed

text \<open>A delegated domain and its nameserver, in a database that is emptied after the first statement.\<close>

definition ns_column :: string where
  "ns_column = ''[{'' @ [CHR 0x22] @ ''handle'' @ [CHR 0x22, CHR '':'', CHR 0x22] @ ''NS1'' @ [CHR 0x22] @ ''}]''"

definition delegated_row :: domain_row where
  "delegated_row = (example_domain_row ''example.org'' (Some zero_time))\<lparr>dr_nameservers := ns_column\<rparr>"

definition delegated_db :: "string database" where
  "delegated_db = example_db
     \<lparr>db_domains := [delegated_row],
      db_nameservers := [\<lparr>nr_handle = ''NS1'', nr_ldh_name = ''ns1.example.org'', nr_unicode_name = ''ns1.example.org'',
        nr_ipv4 = None, nr_ipv6 = None, nr_status = ''[]'', nr_created_at = zero_time, nr_updated_at = zero_time\<rparr>]\<rparr>"

definition delegated_hist :: "nat \<Rightarrow> string database" where
  "delegated_hist k = (if k = 0 then delegated_db else empty_db)"

lemma ns_column_handles: "map ns_Handle (parseNameservers no_unicode ns_column) = [''NS1'']"
  by (simp add: ns_column_def go_eval)

lemma delegated_domain:
  "sql_LookupDomain ''mysql'' example_dialect no_unicode delegated_db ''example.org'' =
     Inr (domain_record no_unicode ''mysql'' delegated_row zero_time)"
  "d_Nameservers (domain_record no_unicode ''mysql'' delegated_row zero_time) = parseNameservers no_unicode ns_column"
proof -
  have row: "dr_ldh_name delegated_row = ''example.org''" "dr_expires_at delegated_row = Some zero_time"
    "dr_nameservers delegated_row = ns_column" "dr_registrant delegated_row = Some ''R1''"
    "dr_admin delegated_row = None" "dr_tech delegated_row = None" "dr_billing delegated_row = None"
    by (simp_all add: delegated_row_def example_domain_row_def)
  show "sql_LookupDomain ''mysql'' example_dialect no_unicode delegated_db ''example.org'' =
      Inr (domain_record no_unicode ''mysql'' delegated_row zero_time)"
    by (simp add: sql_LookupDomain_def domains_named_def QueryRow_def scan_domain_def not_null_def delegated_db_def row)
      (simp add: example_dialect_def)
  have "ns_column \<noteq> []" by (simp add: ns_column_def)
  then show "d_Nameservers (domain_record no_unicode ''mysql'' delegated_row zero_time) =
      parseNameservers no_unicode ns_column"
    by (simp add: domain_record_def populateDomainContacts_def set_role_def row Let_def)
qed

theorem sql_aggregate_snapshot_witness:
  "\<exists>agg n. MySQL_GetDomainAggregate example_dialect no_unicode delegated_hist ''example.org'' = Inr agg \<and>
           is_snapshot ''mysql'' example_dialect no_unicode delegated_db ''example.org'' agg \<and>
           map_of (agg_Nameservers agg) ''NS1'' = Some n \<and> ns_LDHName n = ''ns1.example.org''"
proof -
  have first: "dl_view example_dialect RepeatableRead delegated_hist = (\<lambda>_. delegated_db)"
    by (simp add: example_dialect_def delegated_hist_def)
  obtain agg where agg: "MySQL_GetDomainAggregate example_dialect no_unicode delegated_hist ''example.org'' = Inr agg"
    using delegated_domain(1)
    by (auto simp: MySQL_GetDomainAggregate_def commit_def first sql_aggregate_def sql_LookupDomain_def
        scan_domain_row_def Let_def)
  have snapshot: "is_snapshot ''mysql'' example_dialect no_unicode delegated_db ''example.org'' agg"
    using sql_aggregate_snapshot [OF example_dialect_repeatable] agg by (fastforce simp: delegated_hist_def)
  then have "d_Nameservers (agg_Domain agg) = parseNameservers no_unicode ns_column"
    using delegated_domain by (simp add: is_snapshot_def)
  moreover obtain ns where "parseNameservers no_unicode ns_column = [ns]" "ns_Handle ns = ''NS1''"
    using ns_column_handles by (auto simp: map_eq_Cons_conv)
  ultimately have "map_of (agg_Nameservers agg) ''NS1'' =
      Some (nameserver_record ''mysql'' (hd (db_nameservers delegated_db)))"
    using snapshot
    by (simp add: is_snapshot_def stored_nameserver_def delegated_db_def map_filter_simps nameserver_record_def)
      (simp add: example_dialect_def)
  with agg snapshot show ?thesis by (simp add: delegated_db_def nameserver_record_def)
qed

subsection \<open>Network lookups\<close>

text \<open>A network row that stores the range of the prefix \<open>p\<close>, as the schema describes its columns.\<close>

definition stored_as :: "unicode \<Rightarrow> 'c network_row \<Rightarrow> string \<Rightarrow> bool" where
  "stored_as U r p \<longleftrightarrow>
     (case ipRange U p of
        Inl _ \<Rightarrow> False
      | Inr (V4 s e) \<Rightarrow> wr_ip_version r = ''v4'' \<and> wr_start_ip r = Some s \<and> wr_end_ip r = Some e
      | Inr (V6 s e) \<Rightarrow> wr_ip_version r = ''v6'' \<and> wr_start_ip6 r = Some s \<and> wr_end_ip6 r = Some e)"

definition named_row :: "'c network_row \<Rightarrow> bool" where
  "named_row r \<longleftrightarrow> wr_name r \<noteq> None \<and> wr_type r \<noteq> None \<and> wr_country r \<noteq> None"

lemma ipRange_parses: "ipRange U p = Inr x \<Longrightarrow> \<exists>a n. ParsePrefix p = Some (a, n)"
  by (auto simp: ipRange_def split: option.splits)

lemma row_covers_prefix:
  assumes "stored_as U r p" and "ParsePrefix p = Some q" and "ParsePrefix cidr = Some q'"
    and "ipRange U cidr = Inr x"
  shows "row_covers x r \<longleftrightarrow> prefix_covers q q'"
proof -
  obtain y where y: "ipRange U p = Inr y" using assms(1) by (auto simp: stored_as_def split: sum.splits)
  have "row_covers x r \<longleftrightarrow> range_covers y x"
    using assms(1) y by (cases x; cases y) (auto simp: stored_as_def row_covers_def)
  also have "\<dots> \<longleftrightarrow> prefix_covers q q'"
    using ipRange_covers [of p "fst q" "snd q" cidr "fst q'" "snd q'", OF _ _ y assms(4)] assms(2,3) by simp
  finally show ?thesis .
qed

lemma scan_network_named:
  "named_row r \<Longrightarrow> \<exists>n. scan_network D src addr cidrs r = Inr n \<and> ip_Handle n = wr_handle r \<and>
     ip_StartAddress n = addr (wr_start_address r) \<and> ip_EndAddress n = addr (wr_end_address r) \<and>
     Some (ip_Name n) = wr_name r"
  by (auto simp: named_row_def scan_network_def not_null_def)

lemma find_filter: "find P xs = (case filter P xs of [] \<Rightarrow> None | x # _ \<Rightarrow> Some x)"
  by (induction xs) auto

lemma find_cong_set: "(\<And>x. x \<in> set xs \<Longrightarrow> P x = Q x) \<Longrightarrow> find P xs = find Q xs"
  by (rule find_cong) simp_all

text \<open>
  C14. Network lookups in MySQL by numeric ranges are lookups by containment: over rows that hold the
  range of their prefix and whose nullable columns (name, type, country) are not NULL, a lookup answers
  with the first row, in the order of the table, whose prefix covers the queried one (same family, not
  longer, equal on its bits), and fails with the driver's empty-result error when no row does.
\<close>

theorem MySQL_LookupIPNetwork_covers:
  assumes "\<forall>r \<in> set (db_ip_networks db). stored_as U r (prefix_of r) \<and> named_row r"
    and "dl_fails D ''SELECT network'' [cidr] = None" and "ParsePrefix cidr = Some q"
  shows "case find (\<lambda>r. case ParsePrefix (prefix_of r) of Some p \<Rightarrow> prefix_covers p q | None \<Rightarrow> False)
                (db_ip_networks db) of
           None \<Rightarrow> MySQL_LookupIPNetwork D U db cidr = wrap_err ''IP network lookup'' (Inl (dl_no_rows D))
         | Some r \<Rightarrow> (\<exists>n. MySQL_LookupIPNetwork D U db cidr = Inr n \<and> ip_Handle n = wr_handle r \<and>
                       ip_StartAddress n = wr_start_address r \<and> ip_EndAddress n = wr_end_address r \<and>
                       Some (ip_Name n) = wr_name r)"
proof -
  obtain x where x: "ipRange U cidr = Inr x"
    using assms(3) by (cases q; cases "fst q") (auto simp: ipRange_def Let_def)
  have "(case ParsePrefix (prefix_of r) of Some p \<Rightarrow> prefix_covers p q | None \<Rightarrow> False) \<longleftrightarrow> row_covers x r"
    if "r \<in> set (db_ip_networks db)" for r
  proof -
    have st: "stored_as U r (prefix_of r)" using assms(1) that by blast
    then obtain p where "ParsePrefix (prefix_of r) = Some p"
      by (auto simp: stored_as_def split: sum.splits dest!: ipRange_parses)
    with row_covers_prefix [OF st this assms(3) x] show ?thesis by simp
  qed
  note first = find_cong_set [OF this]
  show ?thesis
  proof (cases "filter (row_covers x) (db_ip_networks db)")
    case Nil
    then show ?thesis by (simp add: first find_filter [of "row_covers x"] MySQL_LookupIPNetwork_def x QueryRow_def assms(2))
  next
    case (Cons r rs)
    have "r \<in> set (filter (row_covers x) (db_ip_networks db))" unfolding Cons by simp
    then have "named_row r" using assms(1) by simp
    from scan_network_named [OF this] Cons show ?thesis
      by (auto simp: first find_filter [of "row_covers x"] MySQL_LookupIPNetwork_def x QueryRow_def assms(2))
  qed
qed

text \<open>Two networks cover the queried address: the one that the table has first is found.\<close>

definition nested_db :: "string database" where
  "nested_db = example_db
     \<lparr>db_ip_networks := [example_network_row,
        example_network_row\<lparr>wr_handle := ''NET0'', wr_start_address := ''192.0.0.0'', wr_end_address := ''192.0.255.255'',
          wr_start_ip := Some 0xC0000000, wr_end_ip := Some 0xC000FFFF\<rparr>]\<rparr>"

theorem MySQL_LookupIPNetwork_covers_witness:
  "(\<exists>n. MySQL_LookupIPNetwork example_dialect no_unicode nested_db ''192.0.2.7/32'' = Inr n \<and> ip_Handle n = ''NET1'') \<and>
   (\<exists>n. MySQL_LookupIPNetwork example_dialect no_unicode nested_db ''192.0.3.0/24'' = Inr n \<and> ip_Handle n = ''NET0'') \<and>
   (\<exists>e. MySQL_LookupIPNetwork example_dialect no_unicode nested_db ''192.0.0.0/8'' = Inl e)"
proof -
  define prefix_of :: "string network_row \<Rightarrow> string" where
    "prefix_of = (\<lambda>r. if wr_handle r = ''NET1'' then ''192.0.2.0/24'' else ''192.0.0.0/16'')"
  have p: "ParsePrefix ''192.0.2.0/24'' = Some (Addr4 0xC0000200, 24)"
    "ParsePrefix ''192.0.0.0/16'' = Some (Addr4 0xC0000000, 16)"
    "ParsePrefix ''192.0.2.7/32'' = Some (Addr4 0xC0000207, 32)"
    "ParsePrefix ''192.0.3.0/24'' = Some (Addr4 0xC0000300, 24)"
    "ParsePrefix ''192.0.0.0/8'' = Some (Addr4 0xC0000000, 8)"
    by (simp_all add: go_eval)
  have rows: "\<forall>r \<in> set (db_ip_networks nested_db). stored_as no_unicode r (prefix_of r) \<and> named_row r"
    by (simp add: nested_db_def example_network_row_def prefix_of_def stored_as_def named_row_def ipRange_def p Let_def
        mask_eq_exp_minus_1)
  note lookup = MySQL_LookupIPNetwork_covers [OF rows example_dialect_fails(1)]
  have covers: "prefix_covers (Addr4 0xC0000200, 24) (Addr4 0xC0000207, 32)"
    "\<not> prefix_covers (Addr4 0xC0000200, 24) (Addr4 0xC0000300, 24)"
    "prefix_covers (Addr4 0xC0000000, 16) (Addr4 0xC0000300, 24)"
    "\<not> prefix_covers (Addr4 0xC0000200, 24) (Addr4 0xC0000000, 8)"
    "\<not> prefix_covers (Addr4 0xC0000000, 16) (Addr4 0xC0000000, 8)"
    by (simp_all add: prefix_covers_def same_prefix4_def mask_eq_exp_minus_1)
  show ?thesis
    using lookup [OF p(3)] lookup [OF p(4)] lookup [OF p(5)]
    by (auto simp: nested_db_def example_network_row_def prefix_of_def p covers)
qed

subsection \<open>Searches\<close>

text \<open>A search pattern as the API documents it: a star stands for any text, a question mark for one character.\<close>

fun wildcard_match :: "(string \<Rightarrow> string \<Rightarrow> bool) \<Rightarrow> string list \<Rightarrow> string list \<Rightarrow> bool" where
  "wildcard_match eq [] s = (s = [])"
| "wildcard_match eq (c # p) s =
     (if c = ''*'' then wildcard_match eq p s \<or> (case s of [] \<Rightarrow> False | _ # s' \<Rightarrow> wildcard_match eq (c # p) s')
      else (case s of [] \<Rightarrow> False | x # s' \<Rightarrow> (c = ''?'' \<or> eq x c) \<and> wildcard_match eq p s'))"

definition sql_special :: "char \<Rightarrow> bool" where
  "sql_special c \<longleftrightarrow> c \<in> {CHR ''%'', CHR ''_'', CHR 0x5C}"

definition sql_char :: "char \<Rightarrow> char" where
  "sql_char c = (if c = CHR ''*'' then CHR ''%'' else if c = CHR ''?'' then CHR ''_'' else c)"

lemma patternToSQL_map: "patternToSQL p = map sql_char p"
  by (induction p) (simp_all add: patternToSQL_def ReplaceAll_def sql_char_def)

lemma concat_characters: "concat (characters s) = s"
  by (induction s) (auto split: list.split)

lemma characters_nonempty: "[] \<notin> set (characters s)"
  by (induction s) (auto split: list.split)

lemma continuation_sql_char: "continuation (sql_char c) = continuation c"
  by (auto simp: continuation_def sql_char_def byte_def)

lemma characters_sql_char: "characters (map sql_char s) = map (map sql_char) (characters s)"
proof (induction s)
  case (Cons c s)
  then show ?case
    using characters_nonempty [of s]
    by (auto simp: continuation_sql_char hd_map split: list.split)
qed simp

text \<open>The wildcards and special characters are ASCII: no longer character contains them.\<close>

lemma sql_char_high: "0x80 \<le> byte c \<Longrightarrow> sql_char c = c"
  by (auto simp: sql_char_def byte_def)

lemma utf8_char_cases:
  assumes "utf8_char g"
  obtains a where "g = [a]" "byte a < 0x80"
  | "map sql_char g = g" "g \<noteq> ''*''" "g \<noteq> ''?''" "g \<noteq> ''%''" "g \<noteq> ''_''"
proof (cases g rule: remdups_adj.cases)
  case (3 a b cs)
  then have "\<forall>c \<in> set (b # cs). continuation c" and "0xC2 \<le> byte a"
    using assms by (auto simp: utf8_char_def split: if_split_asm)
  then have "\<forall>c \<in> set g. 0x80 \<le> byte c" using 3 by (auto simp: continuation_def)
  then have "map sql_char g = g" by (simp add: map_idI sql_char_high)
  with 3 show ?thesis using that(2) by simp
qed (use assms that(1) in \<open>auto simp: utf8_char_def\<close>)

lemma utf8_char_sql_char:
  assumes "utf8_char g"
  shows "utf8_char (map sql_char g)"
  using assms
proof (rule utf8_char_cases)
  fix a assume "g = [a]" and "byte a < 0x80"
  then show ?thesis by (simp add: utf8_char_def sql_char_def byte_def)
qed (use assms in simp)

lemma utf8_patternToSQL: "utf8_text p \<Longrightarrow> utf8_text (patternToSQL p)"
  by (auto simp: utf8_text_def patternToSQL_map characters_sql_char utf8_char_sql_char)

lemma like_patternToSQL:
  "\<forall>g \<in> set p. utf8_char g \<and> (\<forall>c \<in> set g. \<not> sql_special c) \<Longrightarrow>
     like_match eq (map (map sql_char) p) s = wildcard_match eq p s"
proof (induction eq p s rule: wildcard_match.induct)
  case (2 eq c p s)
  then have c: "utf8_char c" "\<forall>x \<in> set c. \<not> sql_special x" by simp_all
  have "map sql_char c = ''%'' \<longleftrightarrow> c = ''*''" "map sql_char c = ''_'' \<longleftrightarrow> c = ''?''"
    "c \<noteq> ''*'' \<and> c \<noteq> ''?'' \<longrightarrow> map sql_char c = c"
    using c(2) by (rule_tac [!] utf8_char_cases [OF c(1)]) (auto simp: sql_char_def sql_special_def)
  with 2 show ?case by (cases s) auto
qed simp

lemma documented_like_pattern:
  assumes "documented_like eq like" and "utf8_text s" and "utf8_text p" and "\<forall>c \<in> set p. \<not> sql_special c"
  shows "like s (patternToSQL p) = wildcard_match eq (characters p) (characters s)"
proof -
  have "CHR 0x5C \<notin> set (patternToSQL p)"
    using assms(4) by (auto simp: patternToSQL_map sql_char_def sql_special_def split: if_splits)
  then have "like s (patternToSQL p) = like_match eq (map (map sql_char) (characters p)) (characters s)"
    using assms(1-3) utf8_patternToSQL [OF assms(3)]
    by (simp add: documented_like_def) (simp add: patternToSQL_map characters_sql_char)
  moreover have "\<forall>g \<in> set (characters p). utf8_char g \<and> (\<forall>c \<in> set g. \<not> sql_special c)"
  proof (intro ballI conjI)
    fix g c assume g: "g \<in> set (characters p)"
    show "utf8_char g" using g assms(3) by (simp add: utf8_text_def)
    assume "c \<in> set g"
    with g have "c \<in> set (concat (characters p))" by auto
    then show "\<not> sql_special c" using assms(4) by (simp add: concat_characters)
  qed
  ultimately show ?thesis by (simp add: like_patternToSQL)
qed

lemma ascii_text:
  assumes "\<forall>c \<in> set s. byte c < 0x80"
  shows "characters s = map (\<lambda>c. [c]) s" and "utf8_text s"
proof -
  show chars: "characters s = map (\<lambda>c. [c]) s"
    using assms
  proof (induction s)
    case (Cons c s)
    then show ?case by (cases s) (auto simp: continuation_def)
  qed simp
  show "utf8_text s" unfolding utf8_text_def chars using assms by (simp add: utf8_char_def)
qed

lemma search_rows_exact:
  assumes "dl_fails D stmt (args @ [Itoa limit]) = None" and "dl_rows_err D stmt (args @ [Itoa limit]) = None"
    and "\<And>r. scan r = (if bad r then Inl e else Inr (f r))"
  shows "search_rows D msg stmt args limit rows scan =
           (if \<exists>r \<in> set (take (nat limit) rows). bad r then Inl e else Inr (map f (take (nat limit) rows)))"
proof -
  have "scan_rows scan rs = (if \<exists>r \<in> set rs. bad r then Inl e else Inr (map f rs))" for rs
    by (induction rs) (auto simp: assms(3))
  then show ?thesis using assms(1,2) by (simp add: search_rows_def)
qed

text \<open>
  C15. What a domain search in the relational stores returns, when the statement succeeds and \<open>LIKE\<close> has
  its documented meaning: for a UTF-8 pattern without the database's own wildcards and escape character,
  the first \<open>limit\<close> domains whose LDH or Unicode name matches the pattern, characters compared as the
  collation \<open>eq\<close> of the columns does (ignoring case in MySQL's schema, exactly in PostgreSQL), each as a
  lookup would show it; but a single row among them without an expiry date fails the whole search.
\<close>

theorem sql_SearchDomains_wildcards:
  assumes "documented_like eq (dl_like D)" and "utf8_text pattern" and "\<forall>c \<in> set pattern. \<not> sql_special c"
    and "\<forall>r \<in> set (db_domains db). utf8_text (dr_ldh_name r) \<and> utf8_text (dr_unicode_name r)"
    and "dl_fails D ''SELECT domains by name'' [patternToSQL pattern, Itoa limit] = None"
    and "dl_rows_err D ''SELECT domains by name'' [patternToSQL pattern, Itoa limit] = None"
  shows "let matches = (\<lambda>name. wildcard_match eq (characters pattern) (characters name));
             found = take (nat limit) (filter (\<lambda>r. matches (dr_ldh_name r) \<or> matches (dr_unicode_name r))
                                         (db_domains db))
         in if \<exists>r \<in> set found. dr_expires_at r = None
            then \<exists>e. sql_SearchDomainsByName src D U db pattern limit = Inl e
            else sql_SearchDomainsByName src D U db pattern limit =
                   Inr (map (\<lambda>r. domain_record U src r (the (dr_expires_at r))) found)"
proof -
  let ?e = "dl_scan_null D ''expires_at''"
  let ?err = "Wrapf (''scan domain: '' @ Error ?e) ?e"
  have scan: "scan_domain_row D U src (Inr r) =
      (if dr_expires_at r = None then Inl ?err else Inr (domain_record U src r (the (dr_expires_at r))))" for r
    by (auto simp: scan_domain_row_def scan_domain_def not_null_def)
  have "filter (\<lambda>r. dl_like D (dr_ldh_name r) (patternToSQL pattern) \<or>
                     dl_like D (dr_unicode_name r) (patternToSQL pattern)) (db_domains db) =
        filter (\<lambda>r. wildcard_match eq (characters pattern) (characters (dr_ldh_name r)) \<or>
                     wildcard_match eq (characters pattern) (characters (dr_unicode_name r))) (db_domains db)"
    using documented_like_pattern [OF assms(1) _ assms(2,3)] assms(4) by (intro filter_cong refl) simp
  moreover have "search_rows D ''search domains'' ''SELECT domains by name'' [patternToSQL pattern] limit rows
      (\<lambda>r. scan_domain_row D U src (Inr r)) =
      (if \<exists>r \<in> set (take (nat limit) rows). dr_expires_at r = None then Inl ?err
       else Inr (map (\<lambda>r. domain_record U src r (the (dr_expires_at r))) (take (nat limit) rows)))" for rows
    by (rule search_rows_exact) (use assms(5,6) scan in \<open>simp_all\<close>)
  ultimately show ?thesis unfolding sql_SearchDomainsByName_def Let_def by simp
qed

text \<open>The same search over columns that ignore case and over columns that do not.\<close>

definition exact_dialect :: "string list dialect" where
  "exact_dialect = example_dialect\<lparr>dl_like := (\<lambda>s p. like_match (=) (characters p) (characters s))\<rparr>"

definition exact_db :: "string list database" where
  "exact_db =
     \<lparr>db_domains = db_domains example_db, db_entities = [], db_nameservers = [], db_domain_nameservers = [],
      db_ip_networks = [], db_autnums = []\<rparr>"

lemma exact_dialect_fails [simp]:
  "dl_fails exact_dialect stmt args = None" "dl_rows_err exact_dialect stmt args = None"
  by (simp_all add: exact_dialect_def)

theorem sql_SearchDomains_wildcards_witness:
  "sql_SearchDomainsByName ''mysql'' example_dialect no_unicode example_db ''EXA*.o?g'' 5 =
     Inr [domain_record no_unicode ''mysql'' (example_domain_row ''example.org'' (Some zero_time)) zero_time] \<and>
   sql_SearchDomainsByName ''postgres'' exact_dialect no_unicode exact_db ''EXA*.o?g'' 5 = Inr [] \<and>
   (\<exists>e. sql_SearchDomainsByName ''mysql'' example_dialect no_unicode example_db ''*.org'' 5 = Inl e)"
proof -
  have like: "documented_like ignoring_case (dl_like example_dialect)" "documented_like (=) (dl_like exact_dialect)"
    by (simp_all add: documented_like_def example_dialect_def exact_dialect_def)
  have ascii: "characters n = map (\<lambda>c. [c]) n \<and> utf8_text n"
    if "n \<in> {''EXA*.o?g'', ''*.org'', ''example.org'', ''expired.org''}" for n
    using that ascii_text [of n] by (auto simp: byte_def)
  have names: "\<forall>r \<in> set (db_domains example_db). utf8_text (dr_ldh_name r) \<and> utf8_text (dr_unicode_name r)"
    using ascii by (simp add: example_db_def example_domain_row_def)
  note search = sql_SearchDomains_wildcards [OF like(1) _ _ names example_dialect_fails,
      where limit = 5 and src = "''mysql''" and U = no_unicode]
  have exact: "\<forall>r \<in> set (db_domains exact_db). utf8_text (dr_ldh_name r) \<and> utf8_text (dr_unicode_name r)"
    using names by (simp add: exact_db_def)
  have rows: "db_domains example_db = [example_domain_row ''example.org'' (Some zero_time),
      example_domain_row ''expired.org'' None]" "db_domains exact_db = db_domains example_db"
    "dr_ldh_name (example_domain_row n t) = n" "dr_unicode_name (example_domain_row n t) = n"
    "dr_expires_at (example_domain_row n t) = t" for n t
    by (simp_all add: example_db_def exact_db_def example_domain_row_def)
  have matches: "wildcard_match ignoring_case (characters ''EXA*.o?g'') (characters ''example.org'')"
    "\<not> wildcard_match ignoring_case (characters ''EXA*.o?g'') (characters ''expired.org'')"
    "wildcard_match ignoring_case (characters ''*.org'') (characters ''expired.org'')"
    "wildcard_match ignoring_case (characters ''*.org'') (characters ''example.org'')"
    "\<not> wildcard_match (=) (characters ''EXA*.o?g'') (characters ''example.org'')"
    "\<not> wildcard_match (=) (characters ''EXA*.o?g'') (characters ''expired.org'')"
    by code_simp+
  have plain: "utf8_text ''EXA*.o?g''" "utf8_text ''*.org''" "\<forall>c \<in> set ''EXA*.o?g''. \<not> sql_special c"
    "\<forall>c \<in> set ''*.org''. \<not> sql_special c"
    using ascii by (simp_all add: sql_special_def)
  show ?thesis
  proof (intro conjI)
    show "sql_SearchDomainsByName ''mysql'' example_dialect no_unicode example_db ''EXA*.o?g'' 5 =
        Inr [domain_record no_unicode ''mysql'' (example_domain_row ''example.org'' (Some zero_time)) zero_time]"
      using search [OF plain(1,3)] by (simp add: rows matches Let_def del: characters.simps wildcard_match.simps)
    show "\<exists>e. sql_SearchDomainsByName ''mysql'' example_dialect no_unicode example_db ''*.org'' 5 = Inl e"
      using search [OF plain(2,4)] by (simp add: rows matches Let_def del: characters.simps wildcard_match.simps)
    show "sql_SearchDomainsByName ''postgres'' exact_dialect no_unicode exact_db ''EXA*.o?g'' 5 = Inr []"
      using sql_SearchDomains_wildcards [OF like(2) plain(1,3) exact exact_dialect_fails, of 5 "''postgres''" no_unicode]
      by (simp add: rows matches Let_def del: characters.simps wildcard_match.simps)
  qed
qed

end
