(* ===== verification/SqlService.thy ===== *)
theory SqlService
  imports Handlers SqlStore
begin

section \<open>The service over the relational stores\<close>

text \<open>
  The handlers and the query service over the interfaces of the two relational stores: how many objects
  a search answers, when a domain lookup answers 200, 400 and 404, and whose card a domain response
  shows as the registrar's. Each property is stated for both stores.
\<close>

text \<open>What the proofs use of either store; the lemmas after it show that both stores have it.\<close>

definition sql_backend ::
  "Interface \<Rightarrow> string \<Rightarrow> 'c dialect \<Rightarrow> unicode \<Rightarrow> (nat \<Rightarrow> 'c database) \<Rightarrow> bool" where
  "sql_backend st src D U hist \<longleftrightarrow>
     snapshot_store st \<and>
     if_LookupDomain st = sql_LookupDomain src D U (hist 0) \<and>
     if_LookupContact st = sql_LookupContact src D U (hist 0) \<and>
     ((\<forall>stmt args. dl_fails D stmt args = None) \<longrightarrow>
        if_GetDomainAggregate st = sql_aggregate src D U (\<lambda>_. hist 0))"

lemma commit_ok: "dl_fails D ''COMMIT'' [] = None \<Longrightarrow> and_then r (commit D) = r"
  by (simp add: and_then_def commit_def split: sum.split)

lemma mysql_backend: "repeatable D \<Longrightarrow> sql_backend (mysql_interface D U hist) ''mysql'' D U hist"
  using mysql_snapshot [of D U hist]
  by (auto simp: sql_backend_def mysql_interface_def MySQL_GetDomainAggregate_def repeatable_def commit_ok)

lemma postgres_backend: "repeatable D \<Longrightarrow> sql_backend (postgres_interface D U hist) ''postgres'' D U hist"
  using postgres_snapshot [of D U hist]
  by (auto simp: sql_backend_def postgres_interface_def postgres_methods Postgres_GetDomainAggregate_def repeatable_def commit_ok)

lemma sql_aggregate_found:
  "(\<exists>agg. sql_aggregate src D U (\<lambda>_. db) name = Inr agg) \<longleftrightarrow>
   (\<exists>d. sql_LookupDomain src D U db name = Inr d)"
  by (auto simp: sql_aggregate_def sql_LookupDomain_def scan_domain_row_def Let_def)

subsection \<open>Domain lookups\<close>

text \<open>
  The answer to a domain lookup for the normalised name \<open>ldh\<close>, given the rows that the database finds for
  it, in the order it yields them.
\<close>

definition answers_rows :: "domain_row list \<Rightarrow> writer \<Rightarrow> writer \<Rightarrow> bool" where
  "answers_rows rows w w' \<longleftrightarrow>
     (case rows of
        [] \<Rightarrow> status_of w' = 404
      | row # _ \<Rightarrow>
          if dr_expires_at row = None then status_of w' = 404
          else status_of w' = 200 \<and>
               (\<exists>resp. w_body w' = w_body w @ [BDomain resp] \<and> Domain_LDHName resp = dr_ldh_name row))"

lemma sql_lookup_answers:
  assumes "sql_backend (svc_store (hd_svc h)) src D U hist" and "\<forall>stmt args. dl_fails D stmt args = None"
    and "NormalizeDomainName U' A N (URLParam r ''domainName'') = Inr (ldh, uni)" and "w_codes w = []"
  shows "answers_rows (domains_named D (hist 0) ldh) w (Handler_LookupDomain U' A N h r w)"
proof -
  have ne: "URLParam r ''domainName'' \<noteq> []" using assms(3) Normalize_empty [of U' A N] by auto
  have agg: "if_GetDomainAggregate (svc_store (hd_svc h)) = sql_aggregate src D U (\<lambda>_. hist 0)"
    using assms(1,2) by (simp add: sql_backend_def)
  have lookup: "sql_LookupDomain src D U (hist 0) ldh =
      (case domains_named D (hist 0) ldh of
         [] \<Rightarrow> Inl (Wrapf (''domain lookup: '' @ Error (dl_no_rows D)) (dl_no_rows D))
       | row # _ \<Rightarrow> wrap_err ''domain lookup'' (scan_domain D U src row))"
    using assms(2) by (simp add: sql_LookupDomain_def QueryRow_def split: list.split)
  show ?thesis
  proof (cases "sql_LookupDomain src D U (hist 0) ldh")
    case (Inl e)
    then obtain e' where "sql_aggregate src D U (\<lambda>_. hist 0) ldh = Inl e'"
      using sql_aggregate_found [of src D U "hist 0" ldh]
      by (cases "sql_aggregate src D U (\<lambda>_. hist 0) ldh") auto
    then have "Service_LookupDomain (hd_svc h) ldh url = Inl e'" for url
      by (simp add: Service_LookupDomain_def agg)
    then have "status_of (Handler_LookupDomain U' A N h r w) = 404"
      using ne assms(3,4) by (auto simp: Handler_LookupDomain_def Let_def write_simps split: sum.split)
    moreover have "case domains_named D (hist 0) ldh of [] \<Rightarrow> True | row # _ \<Rightarrow> dr_expires_at row = None"
      using Inl lookup by (auto simp: scan_domain_def not_null_def split: list.splits option.splits)
    ultimately show ?thesis by (auto simp: answers_rows_def split: list.splits)
  next
    case (Inr d)
    then obtain row rows where rows: "domains_named D (hist 0) ldh = row # rows"
      and d: "scan_domain D U src row = Inr d"
      using lookup by (auto split: list.splits)
    then have exp: "dr_expires_at row \<noteq> None" "d_LDHName d = dr_ldh_name row"
      by (auto simp: scan_domain_def not_null_def split: option.splits)
    obtain a where a: "sql_aggregate src D U (\<lambda>_. hist 0) ldh = Inr a"
      using sql_aggregate_found [of src D U "hist 0" ldh] Inr by auto
    then have "agg_Domain a = d" using sql_aggregate_maps(1) [OF a] Inr by simp
    then have "\<exists>resp. Service_LookupDomain (hd_svc h) ldh url = Inr resp \<and> Domain_LDHName resp = dr_ldh_name row"
      for url
      using a exp by (simp add: Service_LookupDomain_def agg DomainAggregateToRDAP_def domainToRDAP_def Let_def)
    then obtain resp where "Service_LookupDomain (hd_svc h) ldh (requestURL U' h r) = Inr resp"
      "Domain_LDHName resp = dr_ldh_name row" by blast
    then show ?thesis
      using ne assms(3,4) rows exp by (simp add: answers_rows_def Handler_LookupDomain_def Let_def write_simps)
  qed
qed

text \<open>
  C16. Domain lookups over the relational stores, when no statement fails: an invalid name is answered
  400; otherwise the normalised name goes to the database as it is (a final dot is not removed), and
  the answer is 200 with the first domain found, or 404 when there is none; but a domain without an
  expiry date is answered 404 too, although it is stored. All this for every configuration: the handler
  consults neither \<open>rdap.tlds\<close> nor \<open>rdap.max_domain_length\<close>, so a name under a TLD that is not listed, or a
  longer name than configured, is answered like any other.
\<close>

theorem sql_LookupDomain_status:
  assumes "repeatable D" "repeatable D'" and "\<forall>stmt args. dl_fails D stmt args = None \<and> dl_fails D' stmt args = None"
    and "w_codes w = []"
  shows "case NormalizeDomainName U' A N (URLParam r ''domainName'') of
           Inl _ \<Rightarrow> status_of (Handler_LookupDomain U' A N h r w) = 400
         | Inr (ldh, _) \<Rightarrow>
             (svc_store (hd_svc h) = mysql_interface D U hist \<longrightarrow>
                answers_rows (domains_named D (hist 0) ldh) w (Handler_LookupDomain U' A N h r w)) \<and>
             (svc_store (hd_svc h) = postgres_interface D' U hist' \<longrightarrow>
                answers_rows (domains_named D' (hist' 0) ldh) w (Handler_LookupDomain U' A N h r w))"
proof (cases "NormalizeDomainName U' A N (URLParam r ''domainName'')")
  case (Inl e)
  then show ?thesis using assms(4) by (simp add: Handler_LookupDomain_def Let_def write_simps)
next
  case (Inr p)
  obtain ldh uni where "p = (ldh, uni)" by (cases p)
  then show ?thesis
    using Inr assms(3,4) mysql_backend [OF assms(1), of U hist] postgres_backend [OF assms(2), of U hist']
      sql_lookup_answers [of h "''mysql''" D U hist U' A N r] sql_lookup_answers [of h "''postgres''" D' U hist' U' A N r]
    by auto
qed

text \<open>A handler over the example database.\<close>

definition sql_handler :: Handler where
  "sql_handler = example_handler
     \<lparr>hd_svc := (hd_svc example_handler)\<lparr>svc_store := mysql_interface example_dialect no_unicode example_hist\<rparr>\<rparr>"

lemma sql_handler_fields:
  "svc_store (hd_svc sql_handler) = mysql_interface example_dialect no_unicode example_hist"
  "MaxSearchLimit (hd_cfg sql_handler) = 2"
  by (simp_all add: sql_handler_def example_handler_def New_Handler_def example_rdap_config_def)

theorem sql_LookupDomain_status_witness:
  "status_of (Handler_LookupDomain no_unicode no_idna no_idna sql_handler
     (example_request [(''domainName'', ''expired.org'')] []) new_writer) = 404"
proof -
  have n: "NormalizeDomainName no_unicode no_idna no_idna
      (URLParam (example_request [(''domainName'', ''expired.org'')] []) ''domainName'') = Inr (''expired.org'', ''expired.org'')"
    by (simp add: go_eval example_request_def)
  have rows: "domains_named example_dialect (example_hist 0) ''expired.org'' = [example_domain_row ''expired.org'' None]"
    by (simp add: domains_named_def example_hist_def example_db_def example_domain_row_def example_dialect_def)
  show ?thesis
    using sql_LookupDomain_status [OF example_dialect_repeatable example_dialect_repeatable,
        where w = new_writer and U' = no_unicode and A = no_idna and N = no_idna and h = sql_handler
        and r = "example_request [(''domainName'', ''expired.org'')] []" and U = no_unicode
        and hist = example_hist] sql_handler_fields(1)
    by (simp add: n rows answers_rows_def example_domain_row_def new_writer_def)
qed


subsection \<open>The registrar of a response\<close>

lemma sql_LookupDomain_record:
  "sql_LookupDomain src D U db name = Inr d \<Longrightarrow> \<exists>row t. d = domain_record U src row t"
  by (auto simp: sql_LookupDomain_def scan_domain_def)

lemma record_registrar:
  "map_of (d_Contacts (domain_record U src row t)) RoleRegistrant = Some [h] \<Longrightarrow>
   d_Registrar (domain_record U src row t) = h"
  by (auto simp: domain_record_contacts RoleRegistrant_def RoleAdministrative_def RoleTechnical_def
      RoleBilling_def split: option.splits)

lemma sql_registrar:
  assumes "sql_backend (svc_store s) src D U hist" and "Service_LookupDomain s name url = Inr r"
  shows "\<exists>d. if_LookupDomain (svc_store s) name = Inr d \<and> Domain_LDHName r = d_LDHName d \<and>
           (map_of (d_Contacts d) RoleRegistrant = Some [h] \<and> h \<noteq> [] \<longrightarrow>
              (let e = hd (Entities (Domain_Common r))
               in Roles e = [''registrar''] \<and> Handle (Entity_Common e) = h \<and>
                  VCardArray e = (case if_LookupContact (svc_store s) h of
                                    Inr c \<Rightarrow> vcardToJCard (c_VCard c) (c_Handle c)
                                  | Inl _ \<Rightarrow> example_registrar_jcard)))"
proof -
  have snap: "snapshot_store (svc_store s)" and dom: "if_LookupDomain (svc_store s) = sql_LookupDomain src D U (hist 0)"
    using assms(1) by (simp_all add: sql_backend_def)
  obtain d where d: "if_LookupDomain (svc_store s) name = Inr d" "Domain_LDHName r = d_LDHName d"
    "d_Registrar d \<noteq> [] \<Longrightarrow> VCardArray (hd (Entities (Domain_Common r))) =
       (case if_LookupContact (svc_store s) (d_Registrar d) of
          Inr c \<Rightarrow> vcardToJCard (c_VCard c) (c_Handle c) | Inl _ \<Rightarrow> example_registrar_jcard)"
    using snapshot_store.lookup_registrar [OF snap refl assms(2)] by blast
  obtain agg where agg: "if_GetDomainAggregate (svc_store s) name = Inr agg" "r = DomainAggregateToRDAP s agg url"
    using assms(2) by (auto simp: Service_LookupDomain_def split: sum.splits)
  then have "agg_Domain agg = d"
    using snapshot_store.aggregate_domain [OF snap agg(1)] d(1) by simp
  then have "Roles (hd (Entities (Domain_Common r))) = [''registrar'']"
    "Handle (Entity_Common (hd (Entities (Domain_Common r)))) = d_Registrar d"
    by (simp_all add: agg(2) DomainAggregateToRDAP_def domainToRDAP_entities registrar_entity_fields)
  moreover have "map_of (d_Contacts d) RoleRegistrant = Some [h] \<Longrightarrow> d_Registrar d = h"
    using sql_LookupDomain_record [of src D U "hist 0" name d] d(1) record_registrar by (auto simp: dom)
  ultimately show ?thesis using d by (auto simp: Let_def)
qed

text \<open>
  C17. Over the relational stores the registrar entity of a domain response is the registrant: it carries
  the handle and the card of the contact stored as the domain's registrant, whatever the server's mode,
  so a registry publishes the registrant that it withholds over the memory store.
\<close>

theorem sql_registrar_is_registrant:
  assumes "repeatable D" "repeatable D'"
    and "svc_store s = mysql_interface D U hist \<or> svc_store s = postgres_interface D' U hist'"
    and "Service_LookupDomain s name url = Inr r"
  shows "\<exists>d. if_LookupDomain (svc_store s) name = Inr d \<and> Domain_LDHName r = d_LDHName d \<and>
           (map_of (d_Contacts d) RoleRegistrant = Some [h] \<and> h \<noteq> [] \<longrightarrow>
              (let e = hd (Entities (Domain_Common r))
               in Roles e = [''registrar''] \<and> Handle (Entity_Common e) = h \<and>
                  VCardArray e = (case if_LookupContact (svc_store s) h of
                                    Inr c \<Rightarrow> vcardToJCard (c_VCard c) (c_Handle c)
                                  | Inl _ \<Rightarrow> example_registrar_jcard)))"
  using assms(3)
proof
  assume "svc_store s = mysql_interface D U hist"
  then have "sql_backend (svc_store s) ''mysql'' D U hist" using mysql_backend [OF assms(1)] by simp
  from sql_registrar [OF this assms(4)] show ?thesis .
next
  assume "svc_store s = postgres_interface D' U hist'"
  then have "sql_backend (svc_store s) ''postgres'' D' U hist'" using postgres_backend [OF assms(2)] by simp
  from sql_registrar [OF this assms(4)] show ?thesis .
qed

theorem sql_registrar_is_registrant_witness:
  "\<exists>r. Service_LookupDomain (hd_svc sql_handler) ''example.org'' ''u'' = Inr r \<and> Domain_LDHName r = ''example.org'' \<and>
       (let e = hd (Entities (Domain_Common r)) in Roles e = [''registrar''] \<and> Handle (Entity_Common e) = ''R1'')"
proof -
  let ?d = "domain_record no_unicode ''mysql'' (example_domain_row ''example.org'' (Some zero_time)) zero_time"
  have found: "sql_LookupDomain ''mysql'' example_dialect no_unicode example_db ''example.org'' = Inr ?d"
    by (simp add: sql_LookupDomain_def domains_named_def QueryRow_def scan_domain_def not_null_def example_db_def
        example_domain_row_def) (simp add: example_dialect_def)
  have "if_GetDomainAggregate (svc_store (hd_svc sql_handler)) =
      sql_aggregate ''mysql'' example_dialect no_unicode (\<lambda>_. example_hist 0)"
    using mysql_backend [OF example_dialect_repeatable, of no_unicode example_hist]
    by (simp add: sql_backend_def sql_handler_fields)
  then obtain r where r: "Service_LookupDomain (hd_svc sql_handler) ''example.org'' ''u'' = Inr r"
    using sql_aggregate_found [of "''mysql''" example_dialect no_unicode example_db "''example.org''"] found
    by (auto simp: Service_LookupDomain_def example_hist_def)
  have "if_LookupDomain (svc_store (hd_svc sql_handler)) ''example.org'' = Inr ?d"
    using found by (simp add: sql_handler_fields mysql_interface_def example_hist_def)
  moreover have "map_of (d_Contacts ?d) RoleRegistrant = Some [''R1'']"
    by (simp add: domain_record_contacts example_domain_row_def)
  ultimately show ?thesis
    using r sql_registrar_is_registrant [OF example_dialect_repeatable example_dialect_repeatable
        disjI1 [OF sql_handler_fields(1)] r, of "''R1''"]
    by (auto simp: example_domain_row_def Let_def)
qed


subsection \<open>Search limits\<close>

text \<open>
  Over the relational stores, every search and reverse search response holds at most as many objects
  as the configured maximum allows (when it is positive).
\<close>

theorem sql_search_results_limited:
  assumes "svc_store (hd_svc h) = mysql_interface D U hist \<or> svc_store (hd_svc h) = postgres_interface D' U hist'"
    and "MaxSearchLimit (hd_cfg h) > 0"
    and "f \<in> {SearchDomains U' h, SearchEntities U' h, SearchNameservers U' h, ReverseSearchDomains U' h}"
    and "w_codes w = []"
  shows "answers w (f r w) (\<lambda>code b. int (body_count b) \<le> search_limit h r) \<and>
         0 < search_limit h r \<and> search_limit h r \<le> MaxSearchLimit (hd_cfg h)"
  using bounded_store.search_responses_bounded [OF mysql.bounded_store_axioms, of h D U hist w f U' r]
    bounded_store.search_responses_bounded [OF postgres.bounded_store_axioms, of h D' U hist' w f U' r]
    assms search_limit_clamp [of h r] by blast

theorem sql_search_results_limited_witness:
  "answers new_writer (SearchDomains no_unicode sql_handler (example_request [] ''name=e*&limit=9'') new_writer)
     (\<lambda>code b. int (body_count b) \<le> search_limit sql_handler (example_request [] ''name=e*&limit=9''))"
  using sql_search_results_limited [of sql_handler example_dialect no_unicode example_hist
      "undefined" undefined "SearchDomains no_unicode sql_handler" no_unicode new_writer
      "example_request [] ''name=e*&limit=9''"]
  by (simp add: sql_handler_fields new_writer_def)


end
