(* ===== verification/Middleware.thy ===== *)
theory Middleware
  imports Http
begin

section \<open>Middleware: client address, headers, logging\<close>

text \<open>
  \<open>internal/middleware/clientip.go\<close> and \<open>middleware.go\<close>. \<open>TrustedProxyClientIP\<close> resolves the client
  address that the rate limiter and the log see; the theorems say that a peer outside the trusted
  networks cannot choose it. The logger (\<open>go.uber.org/zap\<close>) is a list of entries in the state; the
  duration field is left out.
\<close>

subsection \<open>Client address\<close>

definition peerIP :: "request \<Rightarrow> string" where
  "peerIP r = (case SplitHostPort (RemoteAddr r) of None \<Rightarrow> RemoteAddr r | Some (host, _) \<Rightarrow> host)"

definition remotePort :: "request \<Rightarrow> string" where
  "remotePort r = (case SplitHostPort (RemoteAddr r) of None \<Rightarrow> [] | Some (_, port) \<Rightarrow> port)"

definition forwardedFor :: "request \<Rightarrow> string" where
  "forwardedFor r =
     (let xff = Header_Get r ''X-Forwarded-For''
      in if xff = [] then []
         else let first = TrimSpace (hd (Split (CHR '','') xff)) in if first = [] then [] else first)"

fun parseCIDRs :: "string list \<Rightarrow> IPNet list" where
  "parseCIDRs [] = []"
| "parseCIDRs (c0 # cs) =
     (let c = TrimSpace c0
      in if c = [] then parseCIDRs cs
         else (case ParseIP c of
                 Some ip \<Rightarrow>
                   (let bits = (if v4in6 ip then 32 else 128)
                    in \<lparr>net_IP = ip, net_ones = bits, net_bits = bits\<rparr> # parseCIDRs cs)
               | None \<Rightarrow>
                   (case net_ParseCIDR c of
                      Some (_, ipnet) \<Rightarrow> ipnet # parseCIDRs cs
                    | None \<Rightarrow> parseCIDRs cs)))"

definition ipAllowed :: "string \<Rightarrow> IPNet list \<Rightarrow> bool" where
  "ipAllowed ip trusted =
     (if trusted = [] then False
      else (case ParseIP ip of
              None \<Rightarrow> False
            | Some parsed \<Rightarrow> list_ex (\<lambda>n. net_Contains n parsed) trusted))"

definition resolve_client :: "IPNet list \<Rightarrow> request \<Rightarrow> string" where
  "resolve_client trusted r =
     (let clientIP = peerIP r
      in if ipAllowed clientIP trusted then
           (if forwardedFor r \<noteq> [] then forwardedFor r
            else let xrip = TrimSpace (Header_Get r ''X-Real-IP'')
                 in if xrip \<noteq> [] then xrip else clientIP)
         else clientIP)"

definition TrustedProxyClientIP :: "string list \<Rightarrow> 's middleware" where
  "TrustedProxyClientIP trustedCIDRs next r h =
     (let clientIP = resolve_client (parseCIDRs trustedCIDRs) r
      in next (r\<lparr>RemoteAddr := JoinHostPort clientIP (remotePort r), ctx_client_ip := Some clientIP\<rparr>) h)"

definition GetClientIP :: "request \<Rightarrow> string" where
  "GetClientIP r =
     (case ctx_client_ip r of Some ip \<Rightarrow> if ip \<noteq> [] then ip else peerIP r | None \<Rightarrow> peerIP r)"

subsection \<open>Logging, headers, metrics\<close>

text \<open>
  The logger's \<open>responseWriter\<close> starts at 200 and keeps the last code passed to \<open>WriteHeader\<close> while
  the inner handler runs. After a panic nothing is logged: the deferred recovery is not here.
\<close>

definition logged_status :: "writer \<Rightarrow> writer \<Rightarrow> int" where
  "logged_status before after =
     (case drop (length (w_codes before)) (w_codes after) of [] \<Rightarrow> 200 | cs \<Rightarrow> last cs)"

definition Logger :: "'s middleware" where
  "Logger next r h =
     (let h' = next r h
      in if panicked h' then h'
         else h'\<lparr>logs := logs h' @
                [\<lparr>log_method = Method r, log_path = URL_Path r,
                  log_status = logged_status (out h) (out h'), log_remote = RemoteAddr r,
                  log_user_agent = Header_Get r ''User-Agent''\<rparr>]\<rparr>)"

definition RDAPContentType :: "'s middleware" where
  "RDAPContentType next r h =
     next r (h\<lparr>out := Header_Set ''Content-Type'' ''application/rdap+json'' (out h)\<rparr>)"

definition security_headers :: "(string \<times> string) list" where
  "security_headers =
     [(''Access-Control-Allow-Origin'', ''*''),
      (''Access-Control-Allow-Methods'', ''GET, HEAD, OPTIONS''),
      (''Access-Control-Allow-Headers'', ''Accept, Content-Type, Authorization''),
      (''Access-Control-Max-Age'', ''86400''),
      (''X-Content-Type-Options'', ''nosniff''),
      (''X-Frame-Options'', ''DENY''),
      (''X-XSS-Protection'', ''1; mode=block''),
      (''Referrer-Policy'', ''no-referrer''),
      (''Strict-Transport-Security'', ''max-age=31536000; includeSubDomains'')]"

definition SecurityHeaders :: "'s middleware" where
  "SecurityHeaders next r h =
     next r (h\<lparr>out := foldl (\<lambda>w (k, v). Header_Set k v w) (out h) security_headers\<rparr>)"

text \<open>The wrapped writer of \<open>Metrics\<close> is dropped; the inner handler runs unchanged.\<close>

definition Metrics :: "'s middleware" where
  "Metrics next r h = next r h"

definition GetRequestID :: "request \<Rightarrow> string" where
  "GetRequestID r = (case ctx_request_id r of Some rid \<Rightarrow> rid | None \<Rightarrow> [])"

lemmas middleware_eval [go_eval] =
  peerIP_def remotePort_def forwardedFor_def ipAllowed_def resolve_client_def
  TrustedProxyClientIP_def GetClientIP_def logged_status_def Logger_def RDAPContentType_def
  security_headers_def SecurityHeaders_def Metrics_def GetRequestID_def

subsection \<open>Lemmas\<close>

lemma remotePort_clean:
  "CHR '':'' \<notin> set (remotePort r) \<and> CHR ''['' \<notin> set (remotePort r) \<and> CHR '']'' \<notin> set (remotePort r)"
proof (cases "SplitHostPort (RemoteAddr r)")
  case (Some hp)
  then obtain h p where "SplitHostPort (RemoteAddr r) = Some (h, p)" by (cases hp) auto
  then show ?thesis using SplitHostPort_clean by (simp add: remotePort_def)
qed (simp add: remotePort_def)

lemma peerIP_JoinHostPort:
  assumes "RemoteAddr r' = JoinHostPort ip (remotePort r)"
    and "CHR ''['' \<notin> set ip" "CHR '']'' \<notin> set ip"
  shows "peerIP r' = ip"
  using SplitHostPort_JoinHostPort [OF assms(2,3), of "remotePort r"] remotePort_clean [of r]
  by (simp add: peerIP_def assms(1))

lemma resolve_client_untrusted: "\<not> ipAllowed (peerIP r) trusted \<Longrightarrow> resolve_client trusted r = peerIP r"
  by (simp add: resolve_client_def)

lemma ipAllowed_iff:
  "ipAllowed ip trusted \<longleftrightarrow> (\<exists>a n. ParseIP ip = Some a \<and> n \<in> set trusted \<and> net_Contains n a)"
  by (auto simp: ipAllowed_def list_ex_iff split: option.splits)

lemma untrusted_client:
  assumes "\<not> ipAllowed (peerIP r) (parseCIDRs cidrs)" and "SplitHostPort (RemoteAddr r) = Some (host, port)"
  shows "\<exists>r'. (\<forall>(next :: 's handler) h. TrustedProxyClientIP cidrs next r h = next r' h) \<and>
           ctx_client_ip r' = Some host \<and> peerIP r' = host \<and> GetClientIP r' = host"
proof -
  have host: "peerIP r = host" using assms(2) by (simp add: peerIP_def)
  have clean: "CHR ''['' \<notin> set host" "CHR '']'' \<notin> set host"
    using SplitHostPort_clean [OF assms(2)] by auto
  let ?r = "r\<lparr>RemoteAddr := JoinHostPort host (remotePort r), ctx_client_ip := Some host\<rparr>"
  have step: "\<forall>(next :: 's handler) h. TrustedProxyClientIP cidrs next r h = next ?r h"
    using assms(1) host by (simp add: TrustedProxyClientIP_def resolve_client_untrusted)
  have peer: "peerIP ?r = host"
    by (rule peerIP_JoinHostPort [of _ _ r]) (simp_all add: clean)
  have "GetClientIP ?r = host"
    using peer by (cases "host = []") (auto simp: GetClientIP_def)
  with step peer show ?thesis by (intro exI [of _ ?r]) simp
qed

subsection \<open>Properties\<close>

text \<open>
  C1. The client address is spoof-proof: when the network peer is not in a trusted network, the
  request the rest of the server sees carries the peer's own address, as context value and as the
  host of \<open>RemoteAddr\<close>, whatever headers the client sent. The peer's address is well formed here,
  as \<open>net/http\<close> sets it.
\<close>

theorem TrustedProxyClientIP_untrusted:
  assumes "\<not> ipAllowed (peerIP r) (parseCIDRs cidrs)" and "SplitHostPort (RemoteAddr r) = Some (host, port)"
  shows "\<exists>r'. (\<forall>(next :: 's handler) h. TrustedProxyClientIP cidrs next r h = next r' h) \<and>
           ctx_client_ip r' = Some host \<and> peerIP r' = host \<and> GetClientIP r' = host"
  using untrusted_client [OF assms] .

theorem TrustedProxyClientIP_untrusted_witness:
  "\<exists>r'. (\<forall>next h. TrustedProxyClientIP [''10.0.0.0/8''] (next :: nat handler)
           \<lparr>Method = ''GET'', Host = ''h'', TLS = False,
            Header = [(''X-Forwarded-For'', [''1.2.3.4''])], URL_Path = ''/'', RawQuery = [],
            RemoteAddr = ''192.0.2.7:4711'', URLParams = [], ctx_request_id = None,
            ctx_client_ip = None, ctx_claims = None\<rparr> h = next r' h) \<and>
        ctx_client_ip r' = Some ''192.0.2.7'' \<and> peerIP r' = ''192.0.2.7'' \<and> GetClientIP r' = ''192.0.2.7''"
  by (rule TrustedProxyClientIP_untrusted [where port = "''4711''"]) (simp_all add: go_eval)

end
