(* ===== verification/Auth.thy ===== *)
theory Auth
  imports Http Config
begin

section \<open>Token validation\<close>

text \<open>
  \<open>internal/auth/auth.go\<close>: the key set fetched from the authorization server, the parsing of JSON web
  keys, the key function, and the checks on a token. Integers of type \<open>big.Int\<close> are \<open>int\<close>.

  The JWT library (\<open>github.com/golang-jwt/jwt\<close>) is an argument. Its parser calls back into the key
  function, so a call of it is an interaction tree (\<open>jwt_run\<close>): it asks for the key of a header any
  number of times and finishes with an error or with claims. The network is an argument too: the
  answer to the n-th fetch of the key set. The authenticator's state is its key set and the number of
  fetches made.
\<close>

subsection \<open>Base 64\<close>

definition b64_val :: "char \<Rightarrow> nat option" where
  "b64_val c =
     (if isupper c then Some (byte c - 65)
      else if islower c then Some (byte c - 71)
      else if isdigit c then Some (byte c + 4)
      else if c = CHR ''-'' then Some 62
      else if c = CHR ''_'' then Some 63
      else None)"

text \<open>
  \<open>base64.RawURLEncoding.DecodeString\<close>: line breaks are skipped, padding is not allowed, and the unused
  low bits of the last character are ignored.
\<close>

fun b64_groups :: "nat list \<Rightarrow> nat list option" where
  "b64_groups [] = Some []"
| "b64_groups [a] = None"
| "b64_groups [a, b] = Some [a * 4 + b div 16]"
| "b64_groups [a, b, c] = Some [a * 4 + b div 16, b mod 16 * 16 + c div 4]"
| "b64_groups (a # b # c # d # vs) =
     map_option (\<lambda>bs. [a * 4 + b div 16, b mod 16 * 16 + c div 4, c mod 4 * 64 + d] @ bs) (b64_groups vs)"

definition decodeBase64URL :: "string \<Rightarrow> nat list option" where
  "decodeBase64URL s =
     (let vs = map b64_val (filter (\<lambda>c. c \<noteq> CHR 0x0D \<and> c \<noteq> CHR 0x0A) s)
      in if None \<in> set vs then None else b64_groups (map the vs))"

definition SetBytes :: "nat list \<Rightarrow> int" where
  "SetBytes bs = int (foldl (\<lambda>a b. a * 256 + b) 0 bs)"

subsection \<open>Keys\<close>

type_synonym jwk = "(string \<times> json) list"

datatype public_key = RSA_Key int int | EC_Key string int int

definition json_string :: "jwk \<Rightarrow> string \<Rightarrow> string" where
  "json_string k name = (case map_of k name of Some (JStr s) \<Rightarrow> s | _ \<Rightarrow> [])"

definition base64URLBigInt :: "jwk \<Rightarrow> string \<Rightarrow> int option" where
  "base64URLBigInt k name =
     (let s = json_string k name
      in if s = [] then None else map_option SetBytes (decodeBase64URL s))"

definition parseJWK :: "unicode \<Rightarrow> jwk \<Rightarrow> public_key result" where
  "parseJWK U k =
     (let kty = json_string k ''kty''
      in if kty = ''RSA'' then
           (case (base64URLBigInt k ''n'', base64URLBigInt k ''e'') of
              (Some n, Some e) \<Rightarrow>
                if n \<le> 0 \<or> e \<le> 0 \<or> e \<ge> 2 ^ 63 then Inl (Errorf ''invalid RSA JWK'') else Inr (RSA_Key n e)
            | _ \<Rightarrow> Inl (Errorf ''invalid RSA JWK''))
         else if kty = ''EC'' then
           (let crv = json_string k ''crv''
            in if crv \<notin> {''P-256'', ''P-384'', ''P-521''}
               then Inl (Errorf (''unsupported EC curve '' @ Quote U crv))
               else (case (base64URLBigInt k ''x'', base64URLBigInt k ''y'') of
                       (Some x, Some y) \<Rightarrow>
                         if x \<le> 0 \<or> y \<le> 0 then Inl (Errorf ''invalid EC JWK'') else Inr (EC_Key crv x y)
                     | _ \<Rightarrow> Inl (Errorf ''invalid EC JWK'')))
         else Inl (Errorf (''unsupported JWK kty '' @ Quote U kty)))"

subsection \<open>The authenticator\<close>

record jwtClaims =
  jc_Subject :: string
  jc_Issuer :: string
  jc_Audience :: "string list"
  jc_Scope :: string
  jc_AllowedPurposes :: "string list"
  jc_DoNotTrackAllowed :: bool
  jc_ExpiresAt :: "int option"
  jc_NotBefore :: "int option"
  jc_IssuedAt :: "int option"

record JWTAuthenticator =
  j_cfg :: AuthConfig
  j_jwksURL :: string
  j_keySet :: "(string, public_key) gomap"
  j_fetches :: nat

text \<open>The outcome of one GET of the key set: no response, or a status and the decoded document.\<close>

datatype fetch = No_Response goerror | Response int "jwk list result"

type_synonym network = "string \<Rightarrow> nat \<Rightarrow> fetch"

definition NewJWTAuthenticator :: "AuthConfig \<Rightarrow> JWTAuthenticator" where
  "NewJWTAuthenticator cfg =
     (let url0 = TrimSuffix (JWKSEndpoint cfg) ''/'';
          url = (if url0 = [] then TrimSuffix (Issuer cfg) ''/'' @ ''/.well-known/jwks.json'' else url0)
      in \<lparr>j_cfg = cfg, j_jwksURL = url, j_keySet = [], j_fetches = 0\<rparr>)"

fun collect_keys :: "unicode \<Rightarrow> (string, public_key) gomap \<Rightarrow> jwk list \<Rightarrow> (string, public_key) gomap" where
  "collect_keys U m [] = m"
| "collect_keys U m (k # ks) =
     (case parseJWK U k of
        Inl err \<Rightarrow> collect_keys U m ks
      | Inr key \<Rightarrow>
          (let kid = json_string k ''kid''
           in collect_keys U (if kid = [] then map_put [] key m else map_put kid key m) ks))"

definition refreshKeys ::
  "unicode \<Rightarrow> network \<Rightarrow> JWTAuthenticator \<Rightarrow> goerror option \<times> JWTAuthenticator" where
  "refreshKeys U net j0 =
     (let j = j0\<lparr>j_fetches := Suc (j_fetches j0)\<rparr>; url = j_jwksURL j
      in case net url (j_fetches j0) of
           No_Response err \<Rightarrow> (Some (Wrapf (''fetch jwks '' @ url @ '': '' @ Error err) err), j)
         | Response code doc \<Rightarrow>
             if code \<noteq> 200
             then (Some (Errorf (''fetch jwks '' @ url @ '': HTTP '' @ Itoa code)), j)
             else (case doc of
                     Inl err \<Rightarrow> (Some (Wrapf (''decode jwks: '' @ Error err) err), j)
                   | Inr ks \<Rightarrow>
                       if length ks = 0 then (Some (Errorf ''jwks contains no keys''), j)
                       else (let keySet = collect_keys U [] ks
                             in if length keySet = 0
                                then (Some (Errorf ''jwks contained no supported public keys (rsa/ecdsa)''), j)
                                else (None, j\<lparr>j_keySet := keySet\<rparr>))))"

definition keyfunc ::
  "unicode \<Rightarrow> network \<Rightarrow> jwk \<Rightarrow> JWTAuthenticator \<Rightarrow> public_key result \<times> JWTAuthenticator" where
  "keyfunc U net header j =
     (let kid = json_string header ''kid''
      in case map_of (j_keySet j) kid of
           Some key \<Rightarrow> (Inr key, j)
         | None \<Rightarrow>
             (case refreshKeys U net j of
                (Some err, j') \<Rightarrow> (Inl (Wrapf (''refresh jwks: '' @ Error err) err), j')
              | (None, j') \<Rightarrow>
                  (case map_of (j_keySet j') kid of
                     None \<Rightarrow> (Inl (Errorf (''no public key for kid '' @ Quote U kid)), j')
                   | Some key \<Rightarrow> (Inr key, j'))))"

text \<open>The library's parser: asks for keys, then finishes with the claims and the flag \<open>Valid\<close>.\<close>

datatype jwt_run =
    Finish "(jwtClaims \<times> bool) result"
  | Ask jwk "public_key result \<Rightarrow> jwt_run"

type_synonym jwt_lib = "string list \<Rightarrow> string \<Rightarrow> jwt_run"

primrec run_parser ::
  "unicode \<Rightarrow> network \<Rightarrow> jwt_run \<Rightarrow> JWTAuthenticator \<Rightarrow> (jwtClaims \<times> bool) result \<times> JWTAuthenticator" where
  "run_parser U net (Finish r) = (\<lambda>j. (r, j))"
| "run_parser U net (Ask header k) =
     (\<lambda>j. case keyfunc U net header j of (r, j') \<Rightarrow> run_parser U net (k r) j')"

definition all_algorithms :: "string list" where
  "all_algorithms =
     [''RS256'', ''RS384'', ''RS512'', ''ES256'', ''ES384'', ''ES512'', ''PS256'', ''PS384'', ''PS512'']"

definition supportedAlgorithms :: "AuthConfig \<Rightarrow> string list" where
  "supportedAlgorithms cfg =
     (if length (Algorithms cfg) = 0 then all_algorithms
      else (let out = concat (map (\<lambda>a. concat (map (\<lambda>allowed. if a = allowed then [a] else []) all_algorithms))
                       (Algorithms cfg))
            in if length out = 0 then all_algorithms else out))"

definition audienceContains :: "string list \<Rightarrow> string \<Rightarrow> bool" where
  "audienceContains aud want = list_ex (\<lambda>a. a = want) aud"

text \<open>
  The checks after parsing. Reading the Unix time of an absent date dereferences a nil pointer: the
  call panics.
\<close>

definition check_claims :: "unicode \<Rightarrow> AuthConfig \<Rightarrow> jwtClaims \<Rightarrow> Claims outcome" where
  "check_claims U cfg c =
     (if Issuer cfg \<noteq> [] \<and> jc_Issuer c \<noteq> Issuer cfg
      then Returns (Inl (Errorf (''invalid issuer '' @ Quote U (jc_Issuer c) @ '' (want ''
             @ Quote U (Issuer cfg) @ '')'')))
      else if Audience cfg \<noteq> [] \<and> \<not> audienceContains (jc_Audience c) (Audience cfg)
      then Returns (Inl (Errorf (''invalid audience ['' @ Join '' '' (jc_Audience c) @ ''] (want ''
             @ Quote U (Audience cfg) @ '')'')))
      else (case (jc_ExpiresAt c, jc_IssuedAt c) of
              (Some ex, Some iat) \<Rightarrow>
                Returns (Inr \<lparr>Subject = jc_Subject c, cl_Issuer = jc_Issuer c, cl_Audience = jc_Audience c,
                  Expiry = ex, cl_IssuedAt = iat, Scope = jc_Scope c,
                  AllowedPurposes = jc_AllowedPurposes c, DoNotTrackAllowed = jc_DoNotTrackAllowed c\<rparr>)
            | _ \<Rightarrow> Panics))"

definition ValidateToken ::
  "unicode \<Rightarrow> network \<Rightarrow> jwt_lib \<Rightarrow> string \<Rightarrow> JWTAuthenticator \<Rightarrow> Claims outcome \<times> JWTAuthenticator" where
  "ValidateToken U net lib token j =
     (case run_parser U net (lib (supportedAlgorithms (j_cfg j)) token) j of
        (Inl err, j') \<Rightarrow> (Returns (Inl (Wrapf (''invalid token: '' @ Error err) err)), j')
      | (Inr (claims, valid), j') \<Rightarrow>
          if \<not> valid then (Returns (Inl (Errorf ''invalid token'')), j')
          else (check_claims U (j_cfg j) claims, j'))"

definition Noop_ValidateToken :: "string \<Rightarrow> Claims outcome" where
  "Noop_ValidateToken token =
     Returns (Inr \<lparr>Subject = ''anonymous'', cl_Issuer = ''rdap-server'', cl_Audience = [], Expiry = 0,
       cl_IssuedAt = 0, Scope = ''read'', AllowedPurposes = [], DoNotTrackAllowed = False\<rparr>)"

definition GetClaims :: "request \<Rightarrow> Claims option" where
  "GetClaims r = ctx_claims r"

lemmas auth_eval [go_eval] =
  b64_val_def decodeBase64URL_def SetBytes_def json_string_def base64URLBigInt_def parseJWK_def
  NewJWTAuthenticator_def refreshKeys_def keyfunc_def all_algorithms_def supportedAlgorithms_def
  audienceContains_def check_claims_def ValidateToken_def Noop_ValidateToken_def GetClaims_def

subsection \<open>Bearer middleware\<close>

text \<open>
  \<open>internal/middleware/auth.go\<close>. The \<open>Authenticator\<close> interface value is the function \<open>check\<close> over the
  server's state. A panic sets the flag and leaves the response alone.
\<close>

definition unauthorized :: "string \<Rightarrow> string \<Rightarrow> writer \<Rightarrow> writer" where
  "unauthorized code description w =
     http_Error (''{'' @ [CHR 0x22] @ ''errorCode'' @ [CHR 0x22] @ '':401,'' @ [CHR 0x22] @ ''title'' @ [CHR 0x22] @ '':''
         @ [CHR 0x22] @ ''Unauthorized'' @ [CHR 0x22] @ '','' @ [CHR 0x22] @ ''description'' @ [CHR 0x22] @ '':[''
         @ [CHR 0x22] @ description @ [CHR 0x22] @ '']}'') 401
       (Header_Set ''WWW-Authenticate''
          (''Bearer realm='' @ [CHR 0x22] @ ''rdap'' @ [CHR 0x22] @ '', error='' @ [CHR 0x22] @ code @ [CHR 0x22]
           @ '', error_description='' @ [CHR 0x22] @ description @ [CHR 0x22]) w)"

definition Authenticate :: "(string \<Rightarrow> 's \<Rightarrow> Claims outcome \<times> 's) \<Rightarrow> 's middleware" where
  "Authenticate check next r h =
     (let authHeader = Header_Get r ''Authorization'';
          token = TrimPrefix authHeader ''Bearer ''
      in if authHeader = []
         then h\<lparr>out := unauthorized ''invalid_request'' ''Authorization header required'' (out h)\<rparr>
         else if token = authHeader \<or> token = []
         then h\<lparr>out := unauthorized ''invalid_token'' ''Bearer token required'' (out h)\<rparr>
         else (case check token (srv h) of
                 (Panics, s') \<Rightarrow> h\<lparr>srv := s', panicked := True\<rparr>
               | (Returns (Inl err), s') \<Rightarrow>
                   h\<lparr>srv := s',
                     out := unauthorized ''invalid_token'' ''Invalid or expired token'' (out h)\<rparr>
               | (Returns (Inr claims), s') \<Rightarrow> next (r\<lparr>ctx_claims := Some claims\<rparr>) (h\<lparr>srv := s'\<rparr>)))"

lemmas bearer_eval [go_eval] = unauthorized_def Authenticate_def

subsection \<open>Lemmas\<close>

lemma supportedAlgorithms_subset:
  "set (supportedAlgorithms cfg) \<subseteq> set all_algorithms" "supportedAlgorithms cfg \<noteq> []"
proof -
  have "set (concat (map (\<lambda>a. concat (map (\<lambda>allowed. if a = allowed then [a] else []) all_algorithms)) as))
      \<subseteq> set all_algorithms" for as
    by (auto split: if_splits)
  then show "set (supportedAlgorithms cfg) \<subseteq> set all_algorithms"
    by (simp add: supportedAlgorithms_def Let_def)
  show "supportedAlgorithms cfg \<noteq> []"
    by (simp add: supportedAlgorithms_def all_algorithms_def Let_def)
qed

lemma supportedAlgorithms_configured:
  assumes "set (Algorithms cfg) \<inter> set all_algorithms \<noteq> {}"
  shows "set (supportedAlgorithms cfg) = set (Algorithms cfg) \<inter> set all_algorithms"
proof -
  let ?out = "concat (map (\<lambda>a. concat (map (\<lambda>allowed. if a = allowed then [a] else []) all_algorithms)) (Algorithms cfg))"
  have out: "set ?out = set (Algorithms cfg) \<inter> set all_algorithms" by (auto split: if_splits)
  then have "?out \<noteq> []" "Algorithms cfg \<noteq> []" using assms by auto
  then have "supportedAlgorithms cfg = ?out"
    unfolding supportedAlgorithms_def Let_def by (simp only: length_0_conv if_False)
  then show ?thesis using out by simp
qed

text \<open>
  Where the keys of an authenticator come from: a web key that an earlier answer of the key set
  endpoint contained, with status 200, and that parses.
\<close>

definition published :: "unicode \<Rightarrow> network \<Rightarrow> string \<Rightarrow> nat \<Rightarrow> public_key \<Rightarrow> bool" where
  "published U net url n key \<longleftrightarrow>
     (\<exists>ks. net url n = Response 200 (Inr ks) \<and> (\<exists>k \<in> set ks. parseJWK U k = Inr key))"

definition keys_ok :: "unicode \<Rightarrow> network \<Rightarrow> JWTAuthenticator \<Rightarrow> bool" where
  "keys_ok U net j \<longleftrightarrow>
     (\<forall>kid key. map_of (j_keySet j) kid = Some key \<longrightarrow>
        (\<exists>n < j_fetches j. published U net (j_jwksURL j) n key))"

lemma collect_keys_source:
  "map_of (collect_keys U m ks) kid = Some key \<Longrightarrow>
   map_of m kid = Some key \<or> (\<exists>k \<in> set ks. parseJWK U k = Inr key)"
proof (induction U m ks rule: collect_keys.induct)
  case (2 U m k ks)
  show ?case
  proof (cases "parseJWK U k")
    case (Inl e)
    then show ?thesis using 2 by auto
  next
    case (Inr key')
    have "map_of (map_put (json_string k ''kid'') key' m) kid = Some key \<or> (\<exists>k \<in> set ks. parseJWK U k = Inr key)"
      using "2.IH"(2) [OF Inr refl] "2.prems" Inr by (simp add: Let_def split: if_splits)
    then show ?thesis using Inr by (auto split: if_splits)
  qed
qed simp

lemma refreshKeys_cases:
  assumes "refreshKeys U net j = (err, j')"
  shows "j_cfg j' = j_cfg j" "j_jwksURL j' = j_jwksURL j" "j_fetches j' = Suc (j_fetches j)"
    "err \<noteq> None \<Longrightarrow> j_keySet j' = j_keySet j"
    "keys_ok U net j \<Longrightarrow> keys_ok U net j'"
proof -
  let ?j1 = "j\<lparr>j_fetches := Suc (j_fetches j)\<rparr>"
  consider "j' = ?j1" "err \<noteq> None"
    | ks where "net (j_jwksURL j) (j_fetches j) = Response 200 (Inr ks)" "err = None"
        "j' = ?j1\<lparr>j_keySet := collect_keys U [] ks\<rparr>"
    using assms by (auto simp: refreshKeys_def Let_def split: fetch.splits sum.splits if_splits)
  note cases = this
  show "j_cfg j' = j_cfg j" "j_jwksURL j' = j_jwksURL j" "j_fetches j' = Suc (j_fetches j)"
    "err \<noteq> None \<Longrightarrow> j_keySet j' = j_keySet j"
    by (cases rule: cases; simp)+
  show "keys_ok U net j'" if ok: "keys_ok U net j"
  proof (cases rule: cases)
    case 1
    then have "j_keySet j' = j_keySet j" "j_fetches j' = Suc (j_fetches j)" "j_jwksURL j' = j_jwksURL j"
      by simp_all
    then show ?thesis using ok unfolding keys_ok_def by (metis less_SucI)
  next
    case (2 ks)
    have "published U net (j_jwksURL j) (j_fetches j) key" if "map_of (collect_keys U [] ks) kid = Some key" for kid key
      using collect_keys_source [OF that] 2(1) by (simp add: published_def)
    moreover have "j_keySet j' = collect_keys U [] ks" "j_fetches j' = Suc (j_fetches j)" "j_jwksURL j' = j_jwksURL j"
      using 2(3) by simp_all
    ultimately show ?thesis unfolding keys_ok_def by (metis lessI)
  qed
qed

lemma keyfunc_cases:
  assumes "keyfunc U net header j = (r, j')"
  shows "j_cfg j' = j_cfg j" "j_jwksURL j' = j_jwksURL j"
    "j_fetches j' = j_fetches j \<or> j_fetches j' = Suc (j_fetches j)"
    "map_of (j_keySet j) (json_string header ''kid'') = Some key \<Longrightarrow> r = Inr key \<and> j' = j"
    "r = Inr key \<Longrightarrow> map_of (j_keySet j') (json_string header ''kid'') = Some key"
    "keys_ok U net j \<Longrightarrow> keys_ok U net j'"
proof -
  let ?kid = "json_string header ''kid''"
  consider "r = Inr (the (map_of (j_keySet j) ?kid))" "map_of (j_keySet j) ?kid \<noteq> None" "j' = j"
    | e err where "map_of (j_keySet j) ?kid = None" "refreshKeys U net j = (e, j')" "r = Inl err"
    | key' where "map_of (j_keySet j) ?kid = None" "refreshKeys U net j = (None, j')"
        "map_of (j_keySet j') ?kid = Some key'" "r = Inr key'"
    using assms by (auto simp: keyfunc_def Let_def split: option.splits prod.splits)
  note cases = this
  show "j_cfg j' = j_cfg j" "j_jwksURL j' = j_jwksURL j"
    "j_fetches j' = j_fetches j \<or> j_fetches j' = Suc (j_fetches j)"
    "map_of (j_keySet j) ?kid = Some key \<Longrightarrow> r = Inr key \<and> j' = j"
    "r = Inr key \<Longrightarrow> map_of (j_keySet j') ?kid = Some key"
    "keys_ok U net j \<Longrightarrow> keys_ok U net j'"
    by (cases rule: cases; auto dest: refreshKeys_cases)+
qed

lemma keys_ok_new: "keys_ok U net (NewJWTAuthenticator cfg)"
  by (simp add: keys_ok_def NewJWTAuthenticator_def Let_def)

text \<open>
  The documented behaviour of the parser: a token is reported valid only after its signature was
  verified (\<open>sig\<close>) with a key that the key function returned.
\<close>

primrec verifies :: "(public_key \<Rightarrow> bool) \<Rightarrow> bool \<Rightarrow> jwt_run \<Rightarrow> bool" where
  "verifies sig seen (Finish r) = (case r of Inr (c, valid) \<Rightarrow> valid \<longrightarrow> seen | Inl _ \<Rightarrow> True)"
| "verifies sig seen (Ask header k) =
     ((\<forall>e. verifies sig seen (k (Inl e))) \<and> (\<forall>key. verifies sig (seen \<or> sig key) (k (Inr key))))"

text \<open>
  A run that never reports a valid token. The parser is told the accepted signature algorithms
  (\<open>WithValidMethods\<close>) and documents that a token whose header names another one (\<open>alg\<close>) is not valid.
\<close>

primrec rejects :: "jwt_run \<Rightarrow> bool" where
  "rejects (Finish r) = (\<forall>c. r \<noteq> Inr (c, True))"
| "rejects (Ask header k) = (\<forall>r. rejects (k r))"

definition documented_parser :: "(string \<Rightarrow> string) \<Rightarrow> (public_key \<Rightarrow> bool) \<Rightarrow> jwt_lib \<Rightarrow> string \<Rightarrow> bool" where
  "documented_parser alg sig lib token \<longleftrightarrow>
     (\<forall>methods. verifies sig False (lib methods token) \<and>
        (alg token \<notin> set methods \<longrightarrow> rejects (lib methods token)))"

lemma run_parser_rejects: "rejects run \<Longrightarrow> fst (run_parser U net run j) \<noteq> Inr (c, True)"
proof (induction run arbitrary: j)
  case (Ask header k)
  obtain r j1 where kf: "keyfunc U net header j = (r, j1)" by (cases "keyfunc U net header j")
  show ?case using Ask.IH [OF rangeI, of r j1] Ask.prems by (simp add: kf)
qed simp

lemma run_parser_verified:
  assumes "verifies sig seen run" "run_parser U net run j = (Inr (c, True), j')" "keys_ok U net j"
  shows "(seen \<or> (\<exists>key n. n < j_fetches j' \<and> published U net (j_jwksURL j) n key \<and> sig key)) \<and>
         j_cfg j' = j_cfg j \<and> j_jwksURL j' = j_jwksURL j \<and> keys_ok U net j' \<and> j_fetches j \<le> j_fetches j'"
  using assms
proof (induction run arbitrary: j seen)
  case (Finish r)
  then show ?case by simp
next
  case (Ask header k)
  obtain r j1 where kf: "keyfunc U net header j = (r, j1)" by (cases "keyfunc U net header j")
  note facts = keyfunc_cases [OF kf]
  have run: "run_parser U net (k r) j1 = (Inr (c, True), j')"
    using Ask.prems(2) unfolding run_parser.simps kf prod.case .
  have ok1: "keys_ok U net j1" using facts(6) Ask.prems(3) by simp
  show ?case
  proof (cases r)
    case (Inl e)
    then have "verifies sig seen (k r)" using Ask.prems(1) by simp
    from Ask.IH [OF rangeI this run ok1] show ?thesis using facts(1-3) by auto
  next
    case (Inr key)
    then have v: "verifies sig (seen \<or> sig key) (k r)" using Ask.prems(1) by simp
    obtain n where n: "n < j_fetches j1" "published U net (j_jwksURL j1) n key"
      using facts(5) [OF Inr] ok1 by (auto simp: keys_ok_def)
    from Ask.IH [OF rangeI v run ok1] show ?thesis using facts(1-3) n less_le_trans by fastforce
  qed
qed

subsection \<open>The bearer middleware\<close>

lemma unauthorized_sent:
  assumes "w_codes w = []"
  shows "status_of (unauthorized c d w) = 401 \<and> sent_header (unauthorized c d w) ''WWW-Authenticate'' \<noteq> None"
proof -
  let ?w = "Header_Set ''WWW-Authenticate'' (''Bearer realm='' @ [CHR 0x22] @ ''rdap'' @ [CHR 0x22] @ '', error='' @ [CHR 0x22] @ c @ [CHR 0x22]
         @ '', error_description='' @ [CHR 0x22] @ d @ [CHR 0x22]) w"
  have fresh: "w_codes ?w = []" using assms by (simp add: Header_Set_def)
  have "map_of (w_header ?w) ''WWW-Authenticate'' \<noteq> None" by (simp add: Header_Set_def)
  then show ?thesis
    using http_Error_first(1) [OF fresh] http_Error_first(3) [OF fresh, of "''WWW-Authenticate''"]
    by (simp add: unauthorized_def)
qed

lemma Authenticate_refuses:
  assumes "\<forall>t. Header_Get r ''Authorization'' = ''Bearer '' @ t \<and> t \<noteq> [] \<longrightarrow>
             (\<exists>e. fst (check t (srv h)) = Returns (Inl e))"
  shows "\<exists>code d s'. \<forall>next. Authenticate check next r h = h\<lparr>srv := s', out := unauthorized code d (out h)\<rparr>"
proof -
  let ?a = "Header_Get r ''Authorization''"
  let ?t = "TrimPrefix ?a ''Bearer ''"
  consider "?a = []" | "?a \<noteq> []" "?t = ?a \<or> ?t = []" | "?a \<noteq> []" "?t \<noteq> ?a" "?t \<noteq> []" by blast
  then show ?thesis
  proof cases
    case 1
    then show ?thesis
      by (intro exI [of _ "''invalid_request''"] exI [of _ "''Authorization header required''"] exI [of _ "srv h"])
        (simp add: Authenticate_def)
  next
    case 2
    then show ?thesis
      by (intro exI [of _ "''invalid_token''"] exI [of _ "''Bearer token required''"] exI [of _ "srv h"])
        (simp add: Authenticate_def)
  next
    case 3
    then have "?a = ''Bearer '' @ ?t" by (auto simp: TrimPrefix_def prefix_def split: if_splits)
    then obtain e s' where "check ?t (srv h) = (Returns (Inl e), s')"
      using assms 3(3) by (cases "check ?t (srv h)") auto
    then show ?thesis using 3
      by (intro exI [of _ "''invalid_token''"] exI [of _ "''Invalid or expired token''"] exI [of _ s'])
        (simp add: Authenticate_def Let_def)
  qed
qed

subsection \<open>Encoding\<close>

text \<open>The encoder the key set's author uses, as the reference for the decoder.\<close>

definition b64_alphabet :: string where
  "b64_alphabet = ''ABCDEFGHIJKLMNOPQRSTUVWXYZabcdefghijklmnopqrstuvwxyz0123456789-_''"

fun b64_sextets :: "nat list \<Rightarrow> nat list" where
  "b64_sextets [] = []"
| "b64_sextets [x] = [x div 4, x mod 4 * 16]"
| "b64_sextets [x, y] = [x div 4, x mod 4 * 16 + y div 16, y mod 16 * 4]"
| "b64_sextets (x # y # z # bs) =
     [x div 4, x mod 4 * 16 + y div 16, y mod 16 * 4 + z div 64, z mod 64] @ b64_sextets bs"

definition b64_encode :: "nat list \<Rightarrow> string" where
  "b64_encode bs = map ((!) b64_alphabet) (b64_sextets bs)"

lemma b64_alphabet_values: "map b64_val b64_alphabet = map Some [0..<64]"
  unfolding b64_alphabet_def b64_val_def isupper_def islower_def isdigit_def byte_def by code_simp

lemma b64_val_nth: "v < 64 \<Longrightarrow> b64_val (b64_alphabet ! v) = Some v"
proof -
  assume v: "v < 64"
  have len: "length b64_alphabet = 64" by (simp add: b64_alphabet_def)
  have "map b64_val b64_alphabet ! v = map Some [0..<64] ! v" by (simp only: b64_alphabet_values)
  then show ?thesis using v len by simp
qed

lemma sextets_bound: "\<forall>b \<in> set bs. b < 256 \<Longrightarrow> \<forall>v \<in> set (b64_sextets bs). v < 64"
  by (induction bs rule: b64_sextets.induct) auto

lemma groups_sextets: "\<forall>b \<in> set bs. b < 256 \<Longrightarrow> b64_groups (b64_sextets bs) = Some bs"
proof (induction bs rule: b64_sextets.induct)
  case (4 x y z bs)
  have "x div 4 * 4 + (x mod 4 * 16 + y div 16) div 16 = x"
    "(x mod 4 * 16 + y div 16) mod 16 * 16 + (y mod 16 * 4 + z div 64) div 4 = y"
    "(y mod 16 * 4 + z div 64) mod 4 * 64 + z mod 64 = z"
    using 4 by auto
  with 4 show ?case by simp
qed auto

lemma decode_encode:
  assumes "\<forall>b \<in> set bs. b < 256"
  shows "decodeBase64URL (b64_encode bs) = Some bs"
proof -
  have bound: "\<forall>v \<in> set (b64_sextets bs). v < 64" using sextets_bound assms by blast
  have vals: "map b64_val (b64_encode bs) = map Some (b64_sextets bs)"
    using bound by (simp add: b64_encode_def b64_val_nth)
  have "b64_val (CHR 0x0D) = None" "b64_val (CHR 0x0A) = None"
    by (simp_all add: b64_val_def isupper_def islower_def isdigit_def byte_def)
  moreover have "\<forall>c \<in> set (b64_encode bs). b64_val c \<noteq> None"
    using bound by (auto simp: b64_encode_def b64_val_nth)
  ultimately have "filter (\<lambda>c. c \<noteq> CHR 0x0D \<and> c \<noteq> CHR 0x0A) (b64_encode bs) = b64_encode bs"
    by (intro filter_True) metis
  then show ?thesis
    using vals groups_sextets [OF assms] by (simp add: decodeBase64URL_def Let_def comp_def)
qed

subsection \<open>Properties\<close>

text \<open>
  C34. A token is accepted only if it was signed with a published key by an allowed algorithm and names
  the right issuer and audience. The parser's documented behaviour is the hypothesis: it reports a token
  valid only after verifying its signature with a key the key function returned, and only if the
  token's algorithm is in the list it was given. Then some key that verifies the token was in an answer
  of the configured key set endpoint, fetched by now; the algorithm is one of nine asymmetric ones, and
  one of the configured ones when any of those is among the nine; and the source of the keys stays an
  invariant of the authenticator.
\<close>

theorem ValidateToken_sound:
  assumes "documented_parser alg sig lib token" and "keys_ok U net j"
    and "ValidateToken U net lib token j = (Returns (Inr c), j')"
  shows "(\<exists>key n. n < j_fetches j' \<and> published U net (j_jwksURL j) n key \<and> sig key) \<and>
         alg token \<in> {''RS256'', ''RS384'', ''RS512'', ''ES256'', ''ES384'', ''ES512'', ''PS256'', ''PS384'', ''PS512''} \<and>
         ((\<exists>a \<in> set (Algorithms (j_cfg j)).
             a \<in> {''RS256'', ''RS384'', ''RS512'', ''ES256'', ''ES384'', ''ES512'', ''PS256'', ''PS384'', ''PS512''}) \<longrightarrow>
           alg token \<in> set (Algorithms (j_cfg j))) \<and>
         (Issuer (j_cfg j) \<noteq> [] \<longrightarrow> cl_Issuer c = Issuer (j_cfg j)) \<and>
         (Audience (j_cfg j) \<noteq> [] \<longrightarrow> Audience (j_cfg j) \<in> set (cl_Audience c)) \<and>
         keys_ok U net j'"
proof -
  let ?run = "lib (supportedAlgorithms (j_cfg j)) token"
  obtain jc where run: "run_parser U net ?run j = (Inr (jc, True), j')"
    and checks: "check_claims U (j_cfg j) jc = Returns (Inr c)"
    using assms(3) by (auto simp: ValidateToken_def split: prod.splits sum.splits if_splits)
  have "(Issuer (j_cfg j) \<noteq> [] \<longrightarrow> cl_Issuer c = Issuer (j_cfg j)) \<and>
        (Audience (j_cfg j) \<noteq> [] \<longrightarrow> Audience (j_cfg j) \<in> set (cl_Audience c))"
    using checks by (auto simp: check_claims_def audienceContains_def list_ex_iff split: if_splits option.splits)
  moreover have alg: "alg token \<in> set (supportedAlgorithms (j_cfg j))"
    using run_parser_rejects [of ?run U net j jc] run assms(1) by (auto simp: documented_parser_def)
  moreover have "alg token \<in> set (Algorithms (j_cfg j))" if "\<exists>a \<in> set (Algorithms (j_cfg j)). a \<in> set all_algorithms"
    using alg supportedAlgorithms_configured [of "j_cfg j"] that by blast
  moreover have "alg token \<in> set all_algorithms"
    using alg supportedAlgorithms_subset(1) [of "j_cfg j"] by blast
  moreover have "verifies sig False ?run" using assms(1) by (simp add: documented_parser_def)
  note run_parser_verified [OF this run assms(2)]
  moreover have "{''RS256'', ''RS384'', ''RS512'', ''ES256'', ''ES384'', ''ES512'', ''PS256'', ''PS384'', ''PS512''} =
      set all_algorithms"
    by (simp add: all_algorithms_def)
  ultimately show ?thesis by simp
qed

definition example_jwk :: jwk where
  "example_jwk = [(''kty'', JStr ''RSA''), (''kid'', JStr ''k1''), (''n'', JStr ''AQ''), (''e'', JStr ''Aw'')]"

definition example_net :: network where
  "example_net url n = Response 200 (Inr [example_jwk])"

definition example_auth_config :: AuthConfig where
  "example_auth_config =
     \<lparr>a_Enabled = True, JWKSEndpoint = [], Issuer = ''https://i'', Audience = ''rdap'', Algorithms = []\<rparr>"

definition example_claims :: "int option \<Rightarrow> jwtClaims" where
  "example_claims iat =
     \<lparr>jc_Subject = ''s'', jc_Issuer = ''https://i'', jc_Audience = [''rdap''], jc_Scope = [],
      jc_AllowedPurposes = [], jc_DoNotTrackAllowed = False, jc_ExpiresAt = Some 9, jc_NotBefore = None,
      jc_IssuedAt = iat\<rparr>"

text \<open>
  A parser that reads every token as signed by \<open>RS256\<close> and refuses it when that is not allowed,
  asks for the key \<open>k1\<close> and accepts the token signed with the key of modulus 1.
\<close>

definition example_lib :: "int option \<Rightarrow> jwt_lib" where
  "example_lib iat methods token =
     (if ''RS256'' \<notin> set methods then Finish (Inl (Errorf ''signing method RS256 is invalid''))
      else Ask [(''kid'', JStr ''k1'')]
             (\<lambda>r. case r of
                    Inl e \<Rightarrow> Finish (Inl e)
                  | Inr key \<Rightarrow> if key = RSA_Key 1 3 then Finish (Inr (example_claims iat, True))
                                else Finish (Inl (Errorf ''signature''))))"

lemma example_algorithms: "''RS256'' \<in> set (supportedAlgorithms example_auth_config)"
  by (simp add: supportedAlgorithms_def example_auth_config_def all_algorithms_def)

lemma example_lib_documented: "documented_parser (\<lambda>_. ''RS256'') (\<lambda>key. key = RSA_Key 1 3) (example_lib iat) token"
  by (simp add: documented_parser_def example_lib_def)

definition auth_unicode :: unicode where
  "auth_unicode = \<lparr>uni_ToLower = (\<lambda>s. s), uni_EqualFold = (=), uni_Quote = (\<lambda>s. s)\<rparr>"

lemma example_key: "parseJWK auth_unicode example_jwk = Inr (RSA_Key 1 3)"
  by (simp add: example_jwk_def) (simp add: go_eval)

lemma example_keyfunc:
  "keyfunc auth_unicode example_net [(''kid'', JStr ''k1'')] (NewJWTAuthenticator example_auth_config) =
     (Inr (RSA_Key 1 3),
      (NewJWTAuthenticator example_auth_config)\<lparr>j_fetches := 1, j_keySet := [(''k1'', RSA_Key 1 3)]\<rparr>)"
proof -
  have kid: "json_string example_jwk ''kid'' = ''k1''" "json_string [(''kid'', JStr ''k1'')] ''kid'' = ''k1''"
    by (simp_all add: json_string_def example_jwk_def)
  show ?thesis
    by (simp add: keyfunc_def refreshKeys_def example_net_def kid example_key NewJWTAuthenticator_def Let_def map_put_def)
qed

theorem ValidateToken_sound_witness:
  "\<exists>c j'. ValidateToken auth_unicode example_net (example_lib (Some 1)) ''t'' (NewJWTAuthenticator example_auth_config) =
            (Returns (Inr c), j') \<and> cl_Issuer c = ''https://i''"
proof -
  let ?j = "NewJWTAuthenticator example_auth_config"
  have cfg: "j_cfg ?j = example_auth_config" by (simp add: NewJWTAuthenticator_def Let_def)
  have checks: "\<exists>c. check_claims auth_unicode example_auth_config (example_claims (Some 1)) = Returns (Inr c)"
    by (simp add: check_claims_def example_claims_def example_auth_config_def audienceContains_def)
  have "\<exists>c j'. ValidateToken auth_unicode example_net (example_lib (Some 1)) ''t'' ?j = (Returns (Inr c), j')"
    using checks by (simp add: ValidateToken_def example_lib_def example_algorithms example_keyfunc cfg)
  then obtain c j' where c: "ValidateToken auth_unicode example_net (example_lib (Some 1)) ''t'' ?j = (Returns (Inr c), j')"
    by blast
  have "Issuer example_auth_config = ''https://i''" by (simp add: example_auth_config_def)
  then have "cl_Issuer c = ''https://i''"
    using ValidateToken_sound [OF example_lib_documented keys_ok_new c] by (simp add: cfg)
  then show ?thesis using c by blast
qed

text \<open>
  C35. What the middleware does with each request. With a bearer token that validates, the next handler
  runs, with the claims in the context; with one on which validation panics, the request panics and
  nothing runs; in every other case (no token, or one that validation refuses) the answer is 401 with a
  challenge, and the next handler has no influence on it.
\<close>

theorem Authenticate_guards:
  assumes "w_codes (out h) = []"
  shows "(\<forall>t c s'. Header_Get r ''Authorization'' = ''Bearer '' @ t \<and> t \<noteq> [] \<and>
            check t (srv h) = (Returns (Inr c), s') \<longrightarrow>
            Authenticate check next r h = next (r\<lparr>ctx_claims := Some c\<rparr>) (h\<lparr>srv := s'\<rparr>)) \<and>
         (\<forall>t s'. Header_Get r ''Authorization'' = ''Bearer '' @ t \<and> t \<noteq> [] \<and> check t (srv h) = (Panics, s') \<longrightarrow>
            Authenticate check next r h = h\<lparr>srv := s', panicked := True\<rparr>) \<and>
         ((\<forall>t. Header_Get r ''Authorization'' = ''Bearer '' @ t \<and> t \<noteq> [] \<longrightarrow>
              (\<exists>e. fst (check t (srv h)) = Returns (Inl e))) \<longrightarrow>
            status_of (out (Authenticate check next r h)) = 401 \<and>
            sent_header (out (Authenticate check next r h)) ''WWW-Authenticate'' \<noteq> None \<and>
            (\<forall>next'. Authenticate check next' r h = Authenticate check next r h))"
proof (intro conjI)
  let ?a = "Header_Get r ''Authorization''"
  let ?t = "TrimPrefix ?a ''Bearer ''"
  show "\<forall>t c s'. ?a = ''Bearer '' @ t \<and> t \<noteq> [] \<and> check t (srv h) = (Returns (Inr c), s') \<longrightarrow>
      Authenticate check next r h = next (r\<lparr>ctx_claims := Some c\<rparr>) (h\<lparr>srv := s'\<rparr>)"
    by (auto simp: Authenticate_def TrimPrefix_def Let_def)
  show "\<forall>t s'. ?a = ''Bearer '' @ t \<and> t \<noteq> [] \<and> check t (srv h) = (Panics, s') \<longrightarrow>
      Authenticate check next r h = h\<lparr>srv := s', panicked := True\<rparr>"
    by (auto simp: Authenticate_def TrimPrefix_def Let_def)
  show "(\<forall>t. ?a = ''Bearer '' @ t \<and> t \<noteq> [] \<longrightarrow> (\<exists>e. fst (check t (srv h)) = Returns (Inl e))) \<longrightarrow>
      status_of (out (Authenticate check next r h)) = 401 \<and>
      sent_header (out (Authenticate check next r h)) ''WWW-Authenticate'' \<noteq> None \<and>
      (\<forall>next'. Authenticate check next' r h = Authenticate check next r h)"
  proof
    assume refused: "\<forall>t. ?a = ''Bearer '' @ t \<and> t \<noteq> [] \<longrightarrow> (\<exists>e. fst (check t (srv h)) = Returns (Inl e))"
    obtain code d s' where "\<And>n. Authenticate check n r h = h\<lparr>srv := s', out := unauthorized code d (out h)\<rparr>"
      using Authenticate_refuses [of r check h] refused by blast
    then show "status_of (out (Authenticate check next r h)) = 401 \<and>
      sent_header (out (Authenticate check next r h)) ''WWW-Authenticate'' \<noteq> None \<and>
      (\<forall>next'. Authenticate check next' r h = Authenticate check next r h)"
      using unauthorized_sent [OF assms] by simp
  qed
qed

text \<open>Requests with and without the bearer token \<open>x\<close>, for the witnesses.\<close>

definition bearer_request :: "string \<Rightarrow> request" where
  "bearer_request value =
     \<lparr>Method = ''GET'', Host = ''h'', TLS = False, Header = [(''Authorization'', [value])], URL_Path = ''/'',
      RawQuery = [], RemoteAddr = [], URLParams = [], ctx_request_id = None, ctx_client_ip = None,
      ctx_claims = None\<rparr>"

theorem Authenticate_guards_witness:
  "(let check = (\<lambda>t s. (if t = ''x'' then Noop_ValidateToken t else Returns (Inl (Errorf ''bad'')), s));
        h = \<lparr>srv = (), out = new_writer, logs = [], panicked = False\<rparr>;
        next = (\<lambda>r h. h\<lparr>out := WriteHeader 200 (out h)\<rparr>)
    in status_of (out (Authenticate check next (bearer_request ''Bearer x'') h)) = 200 \<and>
       status_of (out (Authenticate check next (bearer_request ''Bearer y'') h)) = 401)"
proof -
  let ?check = "\<lambda>t s. (if t = ''x'' then Noop_ValidateToken t else Returns (Inl (Errorf ''bad'')), s)"
  let ?h = "\<lparr>srv = (), out = new_writer, logs = [], panicked = False\<rparr>"
  let ?next = "\<lambda>r h. h\<lparr>out := WriteHeader 200 (out h)\<rparr>"
  have codes: "w_codes (out ?h) = []" by (simp add: new_writer_def)
  have get: "Header_Get (bearer_request v) ''Authorization'' = v" for v
    by (simp add: Header_Get_def bearer_request_def map_get_def)
  from Authenticate_guards [OF codes, of "bearer_request ''Bearer x''" ?check ?next]
    Authenticate_guards [OF codes, of "bearer_request ''Bearer y''" ?check ?next]
  show ?thesis by (simp add: get Noop_ValidateToken_def WriteHeader_def new_writer_def status_of_def)
qed

text \<open>
  Exactly when validation panics: the parser accepted the token, issuer and audience are as
  configured, but the token has no expiry or no issue date. The parser is asked to require an expiry,
  not an issue date, so a token without \<open>iat\<close> brings the request down.
\<close>

theorem ValidateToken_panics_iff:
  "fst (ValidateToken U net lib token j) = Panics \<longleftrightarrow>
     (\<exists>c. fst (run_parser U net (lib (supportedAlgorithms (j_cfg j)) token) j) = Inr (c, True) \<and>
          Issuer (j_cfg j) \<in> {[], jc_Issuer c} \<and> Audience (j_cfg j) \<in> {[]} \<union> set (jc_Audience c) \<and>
          (jc_ExpiresAt c = None \<or> jc_IssuedAt c = None))"
proof -
  obtain r j' where run: "run_parser U net (lib (supportedAlgorithms (j_cfg j)) token) j = (r, j')"
    by (cases "run_parser U net (lib (supportedAlgorithms (j_cfg j)) token) j")
  show ?thesis
  proof (cases r)
    case (Inl e)
    then show ?thesis using run by (simp add: ValidateToken_def)
  next
    case (Inr p)
    obtain c valid where p: "p = (c, valid)" by (cases p)
    have "check_claims U (j_cfg j) c = Panics \<longleftrightarrow>
        Issuer (j_cfg j) \<in> {[], jc_Issuer c} \<and> Audience (j_cfg j) \<in> {[]} \<union> set (jc_Audience c) \<and>
        (jc_ExpiresAt c = None \<or> jc_IssuedAt c = None)"
      by (auto simp: check_claims_def audienceContains_def list_ex_iff split: option.splits)
    then show ?thesis using run Inr p by (simp add: ValidateToken_def)
  qed
qed

text \<open>
  Only asymmetric algorithms are ever accepted: the list handed to the parser is never empty and is
  a subset of nine asymmetric ones, the configured ones among them when there are any.
\<close>

theorem supportedAlgorithms_spec:
  "supportedAlgorithms cfg \<noteq> [] \<and>
   set (supportedAlgorithms cfg) =
     (if set (Algorithms cfg) \<inter> set all_algorithms = {} then set all_algorithms
      else set (Algorithms cfg) \<inter> set all_algorithms) \<and>
   ''none'' \<notin> set (supportedAlgorithms cfg) \<and> ''HS256'' \<notin> set (supportedAlgorithms cfg)"
proof (intro conjI)
  show "supportedAlgorithms cfg \<noteq> []" by (rule supportedAlgorithms_subset)
  have "supportedAlgorithms cfg = all_algorithms" if "set (Algorithms cfg) \<inter> set all_algorithms = {}"
  proof -
    have "concat (map (\<lambda>a. concat (map (\<lambda>allowed. if a = allowed then [a] else []) all_algorithms)) (Algorithms cfg)) = []"
      using that by (auto simp: concat_eq_Nil_conv)
    then show ?thesis unfolding supportedAlgorithms_def Let_def by simp
  qed
  then show "set (supportedAlgorithms cfg) =
     (if set (Algorithms cfg) \<inter> set all_algorithms = {} then set all_algorithms
      else set (Algorithms cfg) \<inter> set all_algorithms)"
    using supportedAlgorithms_configured [of cfg] by simp
  have "''none'' \<notin> set all_algorithms" "''HS256'' \<notin> set all_algorithms" by (simp_all add: all_algorithms_def)
  then show "''none'' \<notin> set (supportedAlgorithms cfg)" "''HS256'' \<notin> set (supportedAlgorithms cfg)"
    using supportedAlgorithms_subset(1) [of cfg] by blast+
qed

text \<open>
  The key cache: a known key is returned without a fetch and without a change; an unknown one costs
  exactly one fetch, a failed refresh leaves the cached keys as they were, and a key that is returned is
  the one cached under the token's key id.
\<close>

theorem keyfunc_cache:
  "case keyfunc U net header j of (r, j') \<Rightarrow>
     (case map_of (j_keySet j) (json_string header ''kid'') of
        Some key \<Rightarrow> r = Inr key \<and> j' = j
      | None \<Rightarrow> j_fetches j' = Suc (j_fetches j) \<and>
          (case fst (refreshKeys U net j) of
             Some err \<Rightarrow> r = Inl (Wrapf (''refresh jwks: '' @ Error err) err) \<and> j_keySet j' = j_keySet j
           | None \<Rightarrow> (case map_of (j_keySet j') (json_string header ''kid'') of
                        None \<Rightarrow> r = Inl (Errorf (''no public key for kid '' @ Quote U (json_string header ''kid'')))
                      | Some key \<Rightarrow> r = Inr key)))"
proof -
  obtain e j1 where rf: "refreshKeys U net j = (e, j1)" by (cases "refreshKeys U net j")
  show ?thesis
    using refreshKeys_cases(3,4) [OF rf] rf
    by (cases e) (auto simp: keyfunc_def Let_def split: option.splits)
qed

text \<open>
  C36. The base 64 decoder inverts the standard encoder, and so a published RSA key of positive modulus
  and exponent (below 2 to the 63) is read as that very key.
\<close>

theorem parseJWK_roundtrip:
  assumes "\<forall>b \<in> set nb \<union> set eb. b < 256" and "SetBytes nb > 0" and "SetBytes eb > 0" and "SetBytes eb < 2 ^ 63"
  shows "decodeBase64URL (b64_encode nb) = Some nb \<and>
         parseJWK U [(''kty'', JStr ''RSA''), (''n'', JStr (b64_encode nb)), (''e'', JStr (b64_encode eb))] =
           Inr (RSA_Key (SetBytes nb) (SetBytes eb))"
proof -
  have ne: "b64_encode bs \<noteq> []" if "SetBytes bs > 0" for bs
  proof -
    have "bs \<noteq> []" using that by (auto simp: SetBytes_def)
    then show ?thesis by (cases bs rule: b64_sextets.cases) (simp_all add: b64_encode_def)
  qed
  have dec: "decodeBase64URL (b64_encode nb) = Some nb" "decodeBase64URL (b64_encode eb) = Some eb"
    using assms(1) by (simp_all add: decode_encode)
  then show ?thesis
    using assms ne [OF assms(2)] ne [OF assms(3)]
    by (simp add: parseJWK_def json_string_def base64URLBigInt_def)
qed

theorem parseJWK_roundtrip_witness:
  "parseJWK auth_unicode [(''kty'', JStr ''RSA''), (''n'', JStr (b64_encode [193, 7])), (''e'', JStr (b64_encode [1, 0, 1]))] =
     Inr (RSA_Key 49415 65537)"
  using parseJWK_roundtrip [of "[193, 7]" "[1, 0, 1]" auth_unicode] by (simp add: SetBytes_def)

end
