(* ===== verification/Server.thy ===== *)
theory Server
  imports Handlers Middleware Auth
begin

section \<open>The HTTP server\<close>

text \<open>
  \<open>internal/server/server.go\<close>: the middleware chain around the route table. The router
  (\<open>go-chi/chi\<close>), its middleware package, the CORS handler and the rate limiter are outside the
  repository: \<open>third_party\<close> holds them as middlewares over the server's state, and the route lookup as a
  function of the table; \<open>documented\<close> states what their documentation promises. The state of the server
  is the authenticator (its key cache) and whatever the limiter keeps.

  The theorems are about the composition: without a valid token no part of the registry's data or
  configuration influences an answer, a client that the limiter refuses cannot come back under another
  address by sending headers, and no panic leaves the chain.
\<close>

record 'l server_state =
  ss_auth :: JWTAuthenticator
  ss_limiter :: 'l

record 's third_party =
  tp_RequestID :: "'s middleware"
  tp_Compress :: "'s middleware"
  tp_Recoverer :: "'s middleware"
  tp_Timeout :: "'s middleware"
  tp_CORS :: "'s middleware"
  tp_LimitByIP :: "int \<Rightarrow> int \<Rightarrow> 's middleware"
  tp_find :: "route list \<Rightarrow> request \<Rightarrow> (route \<times> (string, string) gomap) option"
  tp_unmatched :: "request \<Rightarrow> writer \<Rightarrow> writer"

text \<open>\<open>middleware.NewAuthMiddleware\<close>: the authenticator of the middleware is part of the server's state.\<close>

definition NewAuthMiddleware ::
  "unicode \<Rightarrow> network \<Rightarrow> jwt_lib \<Rightarrow> 'l server_state middleware" where
  "NewAuthMiddleware U net lib =
     Authenticate (\<lambda>token s. case ValidateToken U net lib token (ss_auth s) of
                               (res, j) \<Rightarrow> (res, s\<lparr>ss_auth := j\<rparr>))"

text \<open>The \<open>r.Use\<close> calls, in their order.\<close>

definition server_middlewares ::
  "'l server_state third_party \<Rightarrow> unicode \<Rightarrow> network \<Rightarrow> jwt_lib \<Rightarrow> Config \<Rightarrow> 'l server_state middleware list" where
  "server_middlewares T U net lib cfg =
     [tp_RequestID T, tp_Compress T, TrustedProxyClientIP (TrustedIPs (Rate_cfg cfg)), Logger,
      tp_Recoverer T, tp_Timeout T, tp_CORS T]
     @ (if r_Enabled (Rate_cfg cfg)
        then [tp_LimitByIP T (Requests (Rate_cfg cfg)) (Window (Rate_cfg cfg))] else [])
     @ [RDAPContentType, SecurityHeaders]
     @ (if a_Enabled (Auth_cfg cfg) then [NewAuthMiddleware U net lib] else [])
     @ [Metrics]"

definition healthz :: "Config \<Rightarrow> request \<Rightarrow> writer \<Rightarrow> writer" where
  "healthz cfg r w =
     (let q = [CHR 0x22]
      in Write_body (BText (''{'' @ q @ ''status'' @ q @ '':'' @ q @ ''ok'' @ q @ '','' @ q @ ''version'' @ q @ '':''
              @ q @ Version (RDAP_cfg cfg) @ q @ ''}''))
           (WriteHeader 200 (Header_Set ''Content-Type'' ''application/health+json'' w)))"

definition server_routes ::
  "unicode \<Rightarrow> (string \<Rightarrow> string result) \<Rightarrow> (string \<Rightarrow> string result) \<Rightarrow> Config \<Rightarrow> Interface \<Rightarrow> route list" where
  "server_routes U A N cfg store =
     (let svc = New_Service store (RDAP_cfg cfg);
          handler = New_Handler svc (RDAP_cfg cfg) (Rate_cfg cfg) (Auth_cfg cfg) (s_Port (Server_cfg cfg))
      in RegisterRoutes U A N handler
         @ [\<lparr>rt_method = ''GET'', rt_pattern = ''/healthz'', rt_handler = healthz cfg\<rparr>])"

definition serve_routes :: "'s third_party \<Rightarrow> route list \<Rightarrow> 's handler" where
  "serve_routes T routes r h =
     (case tp_find T routes r of
        None \<Rightarrow> respond (tp_unmatched T) r h
      | Some (rt, params) \<Rightarrow> respond (rt_handler rt) (r\<lparr>URLParams := params\<rparr>) h)"

record 's http_server =
  hs_Addr :: string
  hs_Handler :: "'s handler"
  hs_ReadTimeout :: int
  hs_WriteTimeout :: int
  hs_IdleTimeout :: int
  hs_MaxHeaderBytes :: int

definition server_New ::
  "'l server_state third_party \<Rightarrow> unicode \<Rightarrow> (string \<Rightarrow> string result) \<Rightarrow> (string \<Rightarrow> string result) \<Rightarrow>
   network \<Rightarrow> jwt_lib \<Rightarrow> Config \<Rightarrow> Interface \<Rightarrow> 'l server_state http_server" where
  "server_New T U A N net lib cfg store =
     \<lparr>hs_Addr = Addr cfg,
      hs_Handler = chain (server_middlewares T U net lib cfg) (serve_routes T (server_routes U A N cfg store)),
      hs_ReadTimeout = s_ReadTimeout (Server_cfg cfg), hs_WriteTimeout = s_WriteTimeout (Server_cfg cfg),
      hs_IdleTimeout = s_IdleTimeout (Server_cfg cfg), hs_MaxHeaderBytes = s_MaxHeaderBytes (Server_cfg cfg)\<rparr>"

lemmas server_eval [go_eval] =
  NewAuthMiddleware_def server_middlewares_def healthz_def server_routes_def serve_routes_def server_New_def

subsection \<open>What the third-party middlewares promise\<close>

text \<open>
  Each of them either answers a request itself or calls the next handler once, with the request as it is
  up to its context, and may change the response's header fields (the rate limiter adds its
  \<open>X-RateLimit\<close> fields) and, at the end, what was written:
  \<^item> \<open>RequestID\<close> sets the request id; \<open>Compress\<close> changes the encoding of the body, which is not modelled.
  \<^item> \<open>Recoverer\<close> turns a panic into a 500, unless the connection is being upgraded. (It lets
    \<open>http.ErrAbortHandler\<close> through; the panics of this model are run-time errors.)
  \<^item> \<open>Timeout\<close> writes a 504 at the end when its deadline has passed, also while panicking.
  \<^item> \<open>CORS\<close> answers a preflight request itself.
  \<^item> \<open>LimitByIP\<close> answers 429 when the host of \<open>RemoteAddr\<close> has used up its requests, \<open>refuses\<close>, and
    otherwise counts the request.
  \<open>passed_on\<close> and \<open>after\<close> relate what goes in and what comes out.
\<close>

definition preflight :: "request \<Rightarrow> bool" where
  "preflight r \<longleftrightarrow> Method r = ''OPTIONS'' \<and> Header_Get r ''Access-Control-Request-Method'' \<noteq> []"

definition passed_on ::
  "request \<Rightarrow> 'l server_state http \<Rightarrow> request \<Rightarrow> 'l server_state http \<Rightarrow> bool" where
  "passed_on r h r' h' \<longleftrightarrow>
     Method r' = Method r \<and> URL_Path r' = URL_Path r \<and> Header r' = Header r \<and> RemoteAddr r' = RemoteAddr r \<and>
     ctx_client_ip r' = ctx_client_ip r \<and> ss_auth (srv h') = ss_auth (srv h) \<and>
     w_codes (out h') = w_codes (out h) \<and> logs h' = logs h \<and> panicked h' = panicked h"

definition after :: "int set \<Rightarrow> 's http \<Rightarrow> 's http \<Rightarrow> bool" where
  "after late h h' \<longleftrightarrow>
     logs h' = logs h \<and> panicked h' = panicked h \<and>
     (\<exists>cs. w_codes (out h') = w_codes (out h) @ cs \<and> set cs \<subseteq> late)"

definition wraps :: "(request \<Rightarrow> bool) \<Rightarrow> int set \<Rightarrow> 'l server_state middleware \<Rightarrow> bool" where
  "wraps own late m \<longleftrightarrow>
     (\<forall>r h. (own r \<and> (\<exists>a. logs a = logs h \<and> panicked a = panicked h \<and> (\<forall>next. m next r h = a))) \<or>
            (\<exists>r' h' post. passed_on r h r' h' \<and> ss_limiter (srv h') = ss_limiter (srv h) \<and>
               (\<forall>next. m next r h = post (next r' h')) \<and> (\<forall>h1. after late h1 (post h1))))"

definition recovers :: "'l server_state middleware \<Rightarrow> bool" where
  "recovers m \<longleftrightarrow>
     (\<forall>r h. \<exists>r' h' post. passed_on r h r' h' \<and> ss_limiter (srv h') = ss_limiter (srv h) \<and>
        (\<forall>next. m next r h = post (next r' h')) \<and>
        (\<forall>h1. logs (post h1) = logs h1 \<and> \<not> panicked (post h1) \<and>
           w_codes (out (post h1)) = w_codes (out h1) @
             (if panicked h1 \<and> Header_Get r ''Connection'' \<noteq> ''Upgrade'' then [500] else [])))"

definition limits :: "(string \<Rightarrow> 'l \<Rightarrow> bool) \<Rightarrow> 'l server_state middleware \<Rightarrow> bool" where
  "limits refuses m \<longleftrightarrow>
     (\<forall>r h. if refuses (peerIP r) (ss_limiter (srv h))
            then \<exists>a. logs a = logs h \<and> panicked a = panicked h \<and> w_codes (out a) = w_codes (out h) @ [429] \<and>
                     (\<forall>next. m next r h = a)
            else \<exists>r' h' post. passed_on r h r' h' \<and> (\<forall>next. m next r h = post (next r' h')) \<and>
                     (\<forall>h1. after {} h1 (post h1)))"

definition documented :: "(int \<Rightarrow> int \<Rightarrow> string \<Rightarrow> 'l \<Rightarrow> bool) \<Rightarrow> 'l server_state third_party \<Rightarrow> bool" where
  "documented refuses T \<longleftrightarrow>
     wraps (\<lambda>_. False) {} (tp_RequestID T) \<and> wraps (\<lambda>_. False) {} (tp_Compress T) \<and>
     recovers (tp_Recoverer T) \<and> wraps (\<lambda>_. False) {504} (tp_Timeout T) \<and> wraps preflight {} (tp_CORS T) \<and>
     (\<forall>n w. limits (refuses n w) (tp_LimitByIP T n w))"

lemma wrapsD:
  assumes "wraps own late m"
  shows "(\<exists>a. logs a = logs h \<and> panicked a = panicked h \<and> (\<forall>next. m next r h = a)) \<and> own r \<or>
         (\<exists>r' h' post. passed_on r h r' h' \<and> ss_limiter (srv h') = ss_limiter (srv h) \<and>
            (\<forall>next. m next r h = post (next r' h')) \<and> (\<forall>h1. after late h1 (post h1)))"
  using assms unfolding wraps_def by blast

lemma recoversD:
  assumes "recovers m"
  obtains r' h' post where "passed_on r h r' h'" "ss_limiter (srv h') = ss_limiter (srv h)"
    "\<And>next. m next r h = post (next r' h')" "\<And>h1. logs (post h1) = logs h1" "\<And>h1. \<not> panicked (post h1)"
    "\<And>h1. w_codes (out (post h1)) = w_codes (out h1) @
        (if panicked h1 \<and> Header_Get r ''Connection'' \<noteq> ''Upgrade'' then [500] else [])"
  using assms unfolding recovers_def by metis

lemma limitsD:
  assumes "limits refuses m"
  shows "refuses (peerIP r) (ss_limiter (srv h)) \<Longrightarrow>
           \<exists>a. logs a = logs h \<and> panicked a = panicked h \<and> w_codes (out a) = w_codes (out h) @ [429] \<and>
               (\<forall>next. m next r h = a)"
    and "\<not> refuses (peerIP r) (ss_limiter (srv h)) \<Longrightarrow>
           \<exists>r' h' post. passed_on r h r' h' \<and> (\<forall>next. m next r h = post (next r' h')) \<and>
             (\<forall>h1. after {} h1 (post h1))"
  using assms unfolding limits_def by meson+

subsection \<open>Middlewares that pass the header fields on\<close>

text \<open>
  A middleware calls the next handler only with requests related to its own by \<open>R\<close>: two handlers that
  agree on those requests cannot be told apart through it.
\<close>

definition passes :: "(request \<Rightarrow> request \<Rightarrow> bool) \<Rightarrow> 's middleware \<Rightarrow> bool" where
  "passes R m \<longleftrightarrow>
     (\<forall>next next' r h. (\<forall>r' h'. R r r' \<longrightarrow> next r' h' = next' r' h') \<longrightarrow> m next r h = m next' r h)"

lemma passesD: "passes R m \<Longrightarrow> (\<And>r' h'. R r r' \<Longrightarrow> next r' h' = next' r' h') \<Longrightarrow> m next r h = m next' r h"
  by (simp add: passes_def)

lemma passes_chain:
  assumes "\<And>m. m \<in> set ms \<Longrightarrow> passes R m" and "reflp R" and "transp R"
  shows "passes R (chain ms)"
  using assms(1)
proof (induction ms)
  case Nil
  show ?case using assms(2) by (auto simp: passes_def dest: reflpD)
next
  case (Cons m ms)
  have m: "passes R m" and ms: "passes R (chain ms)" using Cons by auto
  show ?case
    unfolding passes_def
  proof (intro allI impI)
    fix next' next'' :: "'a handler" and r h
    assume eq: "\<forall>r' h'. R r r' \<longrightarrow> next' r' h' = next'' r' h'"
    have "chain ms next' r1 h1 = chain ms next'' r1 h1" if "R r r1" for r1 h1
      by (rule passesD [OF ms]) (use eq transpD [OF assms(3) that] in blast)
    then show "chain (m # ms) next' r h = chain (m # ms) next'' r h"
      using passesD [OF m, of r "chain ms next'" "chain ms next''"] by simp
  qed
qed

definition same_headers :: "request \<Rightarrow> request \<Rightarrow> bool" where
  "same_headers r r' \<longleftrightarrow> Header r' = Header r"

lemma same_headers: "reflp same_headers" "transp same_headers" "passed_on r h r' h' \<Longrightarrow> same_headers r r'"
  by (auto simp: same_headers_def passed_on_def intro!: reflpI transpI)

lemma passesI:
  assumes "\<And>r h. (\<exists>a. \<forall>next. m next r h = a) \<or> (\<exists>r' h' post. R r r' \<and> (\<forall>next. m next r h = post (next r' h')))"
  shows "passes R m"
  unfolding passes_def
proof (intro allI impI)
  fix next' next'' :: "'a handler" and r h
  assume eq: "\<forall>r' h'. R r r' \<longrightarrow> next' r' h' = next'' r' h'"
  show "m next' r h = m next'' r h" using assms [of r h] eq by metis
qed

lemma passes_third_party:
  assumes "documented refuses T"
  shows "passes same_headers (tp_RequestID T)" "passes same_headers (tp_Compress T)"
    "passes same_headers (tp_Recoverer T)" "passes same_headers (tp_Timeout T)" "passes same_headers (tp_CORS T)"
    "passes same_headers (tp_LimitByIP T n w)"
proof -
  have w: "passes same_headers m" if "wraps own late m" for own late and m :: "'a server_state middleware"
    by (rule passesI) (use wrapsD [OF that] same_headers(3) in blast)
  show "passes same_headers (tp_RequestID T)" "passes same_headers (tp_Compress T)"
    "passes same_headers (tp_Timeout T)" "passes same_headers (tp_CORS T)"
    using assms w unfolding documented_def by blast+
  have "recovers (tp_Recoverer T)" and lim: "limits (refuses n w) (tp_LimitByIP T n w)"
    using assms by (simp_all add: documented_def)
  then show "passes same_headers (tp_Recoverer T)"
    by (intro passesI) (metis recoversD same_headers(3))
  show "passes same_headers (tp_LimitByIP T n w)"
    by (rule passesI) (use limitsD [OF lim] same_headers(3) in blast)
qed

lemma passes_own:
  "passes same_headers (TrustedProxyClientIP cidrs)" "passes same_headers Logger"
  "passes same_headers RDAPContentType" "passes same_headers SecurityHeaders"
  by (auto simp: passes_def same_headers_def TrustedProxyClientIP_def Logger_def RDAPContentType_def
      SecurityHeaders_def Let_def)

text \<open>The part of the chain before authentication, and before the limiter.\<close>

definition before_limiter :: "'l server_state third_party \<Rightarrow> Config \<Rightarrow> 'l server_state middleware list" where
  "before_limiter T cfg =
     [tp_RequestID T, tp_Compress T, TrustedProxyClientIP (TrustedIPs (Rate_cfg cfg)), Logger,
      tp_Recoverer T, tp_Timeout T, tp_CORS T]"

definition limiter :: "'l server_state third_party \<Rightarrow> Config \<Rightarrow> 'l server_state middleware list" where
  "limiter T cfg =
     (if r_Enabled (Rate_cfg cfg)
      then [tp_LimitByIP T (Requests (Rate_cfg cfg)) (Window (Rate_cfg cfg))] else [])"

definition after_limiter ::
  "unicode \<Rightarrow> network \<Rightarrow> jwt_lib \<Rightarrow> Config \<Rightarrow> 'l server_state middleware list" where
  "after_limiter U net lib cfg =
     (if a_Enabled (Auth_cfg cfg) then [NewAuthMiddleware U net lib] else []) @ [Metrics]"

lemma server_chain:
  "chain (server_middlewares T U net lib cfg) f =
     chain (before_limiter T cfg @ limiter T cfg @ [RDAPContentType, SecurityHeaders])
       (chain (after_limiter U net lib cfg) f)"
  by (simp add: server_middlewares_def before_limiter_def limiter_def after_limiter_def chain_append)

lemma passes_before:
  assumes "documented refuses T"
  shows "passes same_headers (chain (before_limiter T cfg @ limiter T cfg @ [RDAPContentType, SecurityHeaders]))"
  by (rule passes_chain [OF _ same_headers(1,2)])
    (auto simp: before_limiter_def limiter_def passes_third_party [OF assms] passes_own split: if_splits)

subsection \<open>Properties\<close>

text \<open>A request that validation never accepts, whatever the state of the key cache.\<close>

definition unauthenticated :: "unicode \<Rightarrow> network \<Rightarrow> jwt_lib \<Rightarrow> request \<Rightarrow> bool" where
  "unauthenticated U net lib r \<longleftrightarrow>
     (\<forall>t j c. Header_Get r ''Authorization'' = ''Bearer '' @ t \<and> t \<noteq> [] \<longrightarrow>
        fst (ValidateToken U net lib t j) \<noteq> Returns (Inr c))"

lemma auth_blocks:
  assumes "unauthenticated U net lib r"
  shows "NewAuthMiddleware U net lib next r h = NewAuthMiddleware U net lib next' r h"
proof -
  let ?a = "Header_Get r ''Authorization''" and ?t = "TrimPrefix (Header_Get r ''Authorization'') ''Bearer ''"
  show ?thesis
  proof (cases "?a = [] \<or> ?t = ?a \<or> ?t = []")
    case True
    then show ?thesis by (auto simp: NewAuthMiddleware_def Authenticate_def Let_def)
  next
    case False
    then have "?a = ''Bearer '' @ ?t" by (auto simp: TrimPrefix_def prefix_def split: if_splits)
    then have no: "fst (ValidateToken U net lib ?t j) \<noteq> Returns (Inr c)" for j c
      using assms False by (auto simp: unauthenticated_def)
    obtain res j where res: "ValidateToken U net lib ?t (ss_auth (srv h)) = (res, j)" by fastforce
    show ?thesis
    proof (cases res)
      case Panics
      then show ?thesis using res by (simp add: NewAuthMiddleware_def Authenticate_def Let_def)
    next
      case (Returns x)
      with no [of "ss_auth (srv h)"] res obtain e where "x = Inl e" by (cases x) auto
      then show ?thesis using res Returns by (simp add: NewAuthMiddleware_def Authenticate_def Let_def)
    qed
  qed
qed

lemma unauthenticated_headers: "Header r' = Header r \<Longrightarrow> unauthenticated U net lib r' = unauthenticated U net lib r"
  by (simp add: unauthenticated_def Header_Get_def)

text \<open>
  C3. Nothing behind the token check leaks: with authentication enabled, the answer to a request whose
  token validation never accepts is the same over every store, RDAP configuration, IDNA profile and
  listen address: no route, not even the health check, has any influence on it.
\<close>

theorem unauthenticated_learns_nothing:
  assumes "documented refuses T" and "a_Enabled (Auth_cfg cfg)" and "unauthenticated U net lib r"
    and "Auth_cfg cfg' = Auth_cfg cfg" and "Rate_cfg cfg' = Rate_cfg cfg"
  shows "hs_Handler (server_New T U A N net lib cfg store) r h =
         hs_Handler (server_New T U A' N' net lib cfg' store') r h"
proof -
  let ?f = "chain (after_limiter U net lib cfg) (serve_routes T (server_routes U A N cfg store))"
  let ?f' = "chain (after_limiter U net lib cfg') (serve_routes T (server_routes U A' N' cfg' store'))"
  have same: "before_limiter T cfg' = before_limiter T cfg" "limiter T cfg' = limiter T cfg"
    using assms(5) by (simp_all add: before_limiter_def limiter_def)
  have "?f r' h' = ?f' r' h'" if "same_headers r r'" for r' h'
    using that assms(2-4) auth_blocks [of U net lib r'] unauthenticated_headers [of r' r U net lib]
    by (simp add: after_limiter_def same_headers_def)
  from passesD [OF passes_before [OF assms(1)], of r ?f ?f', OF this]
  show ?thesis by (simp add: server_New_def server_chain same)
qed

subsection \<open>Middlewares between a request and the rate limiter\<close>

text \<open>
  A middleware that hands every request but a preflight on, and whose work afterwards is within the
  relation \<open>Q\<close>.
\<close>

definition carries ::
  "('l server_state http \<Rightarrow> 'l server_state http \<Rightarrow> bool) \<Rightarrow> 'l server_state middleware \<Rightarrow> bool" where
  "carries Q m \<longleftrightarrow>
     (\<forall>r h. \<not> preflight r \<longrightarrow>
        (\<exists>r' h' post. passed_on r h r' h' \<and> ss_limiter (srv h') = ss_limiter (srv h) \<and>
           (\<forall>next. m next r h = post (next r' h')) \<and> (\<forall>h1. Q h1 (post h1))))"

lemma carriesD:
  assumes "carries Q m" and "\<not> preflight r"
  obtains r' h' post where "passed_on r h r' h'" "ss_limiter (srv h') = ss_limiter (srv h)"
    "\<And>next. m next r h = post (next r' h')" "\<And>h1. Q h1 (post h1)"
  using assms unfolding carries_def by metis

lemma passed_on_refl: "passed_on r h r h"
  by (simp add: passed_on_def)

lemma passed_on_trans: "passed_on r h r1 h1 \<Longrightarrow> passed_on r1 h1 r2 h2 \<Longrightarrow> passed_on r h r2 h2"
  by (simp add: passed_on_def)

lemma peerIP_addr: "RemoteAddr r' = RemoteAddr r \<Longrightarrow> peerIP r' = peerIP r"
  by (simp add: peerIP_def split: option.split)

lemma passed_on_request:
  assumes "passed_on r h r' h'"
  shows "preflight r' = preflight r" "peerIP r' = peerIP r" "remotePort r' = remotePort r"
    "Header_Get r' k = Header_Get r k" "resolve_client cidrs r' = resolve_client cidrs r"
proof -
  have eq: "RemoteAddr r' = RemoteAddr r" "Header r' = Header r" "Method r' = Method r"
    using assms by (simp_all add: passed_on_def)
  have get: "Header_Get r' k = Header_Get r k" for k by (simp add: Header_Get_def eq)
  have fwd: "forwardedFor r' = forwardedFor r" by (simp add: forwardedFor_def get)
  show "Header_Get r' k = Header_Get r k" by (rule get)
  show "preflight r' = preflight r" by (simp add: preflight_def eq get)
  show peer: "peerIP r' = peerIP r" by (rule peerIP_addr [OF eq(1)])
  show "remotePort r' = remotePort r" unfolding remotePort_def eq ..
  show "resolve_client cidrs r' = resolve_client cidrs r" unfolding resolve_client_def peer fwd get ..
qed

lemma carries_chain:
  assumes "\<And>m. m \<in> set ms \<Longrightarrow> carries Q m" and "reflp Q" and "transp Q"
  shows "carries Q (chain ms)"
  using assms(1)
proof (induction ms)
  case Nil
  show ?case
    unfolding carries_def
    by (intro allI impI exI [of _ "\<lambda>h. h"] exI conjI) (auto simp: passed_on_refl reflpD [OF assms(2)])
next
  case (Cons m ms)
  show ?case
    unfolding carries_def
  proof (intro allI impI)
    fix r :: request and h :: "'a server_state http"
    assume pre: "\<not> preflight r"
    have "carries Q m" using Cons.prems by simp
    from carriesD [OF this pre] obtain r1 h1 post1 where 1: "passed_on r h r1 h1"
      "ss_limiter (srv h1) = ss_limiter (srv h)" "\<And>next. m next r h = post1 (next r1 h1)" "\<And>x. Q x (post1 x)"
      by metis
    have pre1: "\<not> preflight r1" using pre passed_on_request(1) [OF 1(1)] by simp
    have "carries Q (chain ms)" using Cons by simp
    from carriesD [OF this pre1] obtain r2 h2 post2 where 2: "passed_on r1 h1 r2 h2"
      "ss_limiter (srv h2) = ss_limiter (srv h1)" "\<And>next. chain ms next r1 h1 = post2 (next r2 h2)" "\<And>x. Q x (post2 x)"
      by metis
    have "Q x (post1 (post2 x))" for x using transpD [OF assms(3) 2(4) 1(4)] .
    then show "\<exists>r' h' post. passed_on r h r' h' \<and> ss_limiter (srv h') = ss_limiter (srv h) \<and>
        (\<forall>next. chain (m # ms) next r h = post (next r' h')) \<and> (\<forall>h1. Q h1 (post h1))"
      using passed_on_trans [OF 1(1) 2(1)] 1(2,3) 2(2,3)
      by (intro exI [of _ r2] exI [of _ h2] exI [of _ "\<lambda>x. post1 (post2 x)"]) simp
  qed
qed

lemma wraps_carries:
  assumes "wraps own late m" and "\<And>r. own r \<Longrightarrow> preflight r" and "\<And>h h'. after late h h' \<Longrightarrow> Q h h'"
  shows "carries Q m"
  unfolding carries_def
proof (intro allI impI)
  fix r :: request and h :: "'a server_state http"
  assume "\<not> preflight r"
  then show "\<exists>r' h' post. passed_on r h r' h' \<and> ss_limiter (srv h') = ss_limiter (srv h) \<and>
      (\<forall>next. m next r h = post (next r' h')) \<and> (\<forall>h1. Q h1 (post h1))"
    using wrapsD [OF assms(1), of h r] assms(2,3) by metis
qed

lemma documented_carries:
  assumes "documented refuses T" and "\<And>h h'. after {504} h h' \<Longrightarrow> Q h h'" and "\<And>h h'. after {} h h' \<Longrightarrow> Q h h'"
  shows "carries Q (tp_Timeout T)" and "carries Q (tp_CORS T)"
proof -
  have "wraps (\<lambda>_. False) {504} (tp_Timeout T)" "wraps preflight {} (tp_CORS T)"
    using assms(1) by (simp_all add: documented_def)
  then show "carries Q (tp_Timeout T)" "carries Q (tp_CORS T)"
    using wraps_carries [of "\<lambda>_. False" "{504}" "tp_Timeout T" Q] wraps_carries [of preflight "{}" "tp_CORS T" Q]
      assms(2,3) by blast+
qed

text \<open>The two relations used: a response without a panic keeps its status; and \<open>after\<close>.\<close>

definition keeps_status :: "'s http \<Rightarrow> 's http \<Rightarrow> bool" where
  "keeps_status h h' \<longleftrightarrow>
     (\<not> panicked h \<longrightarrow> \<not> panicked h' \<and> (\<exists>cs. w_codes (out h') = w_codes (out h) @ cs))"

lemma keeps_status_order: "reflp keeps_status" "transp keeps_status" "after late h h' \<Longrightarrow> keeps_status h h'"
  by (auto simp: keeps_status_def after_def intro!: reflpI transpI)

lemma after_order: "reflp (after late)" "transp (after late)" "after {} h h' \<Longrightarrow> after late h h'"
  by (auto simp: after_def intro!: reflpI transpI)

lemma Logger_carries: "carries keeps_status Logger"
  unfolding carries_def
proof (intro allI impI)
  fix r :: request and h :: "'a server_state http"
  let ?post = "\<lambda>h'. if panicked h' then h'
         else h'\<lparr>logs := logs h' @
                [\<lparr>log_method = Method r, log_path = URL_Path r,
                  log_status = logged_status (out h) (out h'), log_remote = RemoteAddr r,
                  log_user_agent = Header_Get r ''User-Agent''\<rparr>]\<rparr>"
  show "\<exists>r' h' post. passed_on r h r' h' \<and> ss_limiter (srv h') = ss_limiter (srv h) \<and>
      (\<forall>next. Logger next r h = post (next r' h')) \<and> (\<forall>h1. keeps_status h1 (post h1))"
    by (intro exI [of _ r] exI [of _ h] exI [of _ ?post])
      (simp add: passed_on_refl Logger_def Let_def keeps_status_def)
qed

lemma Recoverer_carries:
  assumes "recovers m"
  shows "carries keeps_status m"
  unfolding carries_def
proof (intro allI impI)
  fix r :: request and h :: "'a server_state http"
  obtain r' h' post where "passed_on r h r' h'" "ss_limiter (srv h') = ss_limiter (srv h)"
    "\<And>next. m next r h = post (next r' h')" "\<And>h1. \<not> panicked (post h1)"
    "\<And>h1. w_codes (out (post h1)) = w_codes (out h1) @
        (if panicked h1 \<and> Header_Get r ''Connection'' \<noteq> ''Upgrade'' then [500] else [])"
    using recoversD [OF assms, of r h] by metis
  then show "\<exists>r' h' post. passed_on r h r' h' \<and> ss_limiter (srv h') = ss_limiter (srv h) \<and>
      (\<forall>next. m next r h = post (next r' h')) \<and> (\<forall>h1. keeps_status h1 (post h1))"
    by (intro exI [of _ r'] exI [of _ h'] exI [of _ post]) (simp add: keeps_status_def)
qed

text \<open>The host that the limiter counts a request for.\<close>

definition limiter_key :: "Config \<Rightarrow> request \<Rightarrow> string" where
  "limiter_key cfg r =
     peerIP (r\<lparr>RemoteAddr := JoinHostPort (resolve_client (parseCIDRs (TrustedIPs (Rate_cfg cfg))) r) (remotePort r)\<rparr>)"

lemma limiter_key_untrusted:
  assumes "SplitHostPort (RemoteAddr r) = Some (host, port)"
    and "\<not> ipAllowed host (parseCIDRs (TrustedIPs (Rate_cfg cfg)))"
  shows "limiter_key cfg r = host"
proof -
  have host: "peerIP r = host" using assms(1) by (simp add: peerIP_def)
  have "CHR ''['' \<notin> set host" "CHR '']'' \<notin> set host"
    using SplitHostPort_clean [OF assms(1)] by auto
  then show ?thesis
    using peerIP_JoinHostPort [of _ host r] assms(2) host
    by (simp add: limiter_key_def resolve_client_untrusted)
qed

text \<open>The whole chain up to the limiter, in two parts around the client address.\<close>

lemma server_handler:
  assumes "documented refuses T"
  obtains q h1 post where
    "passed_on r h (q\<lparr>RemoteAddr := RemoteAddr r, ctx_client_ip := ctx_client_ip r\<rparr>) h1"
    "ss_limiter (srv h1) = ss_limiter (srv h)" "peerIP q = limiter_key cfg r" "\<And>x. after {} x (post x)"
    "\<And>f. chain (before_limiter T cfg) f r h =
            post (Logger (chain [tp_Recoverer T, tp_Timeout T, tp_CORS T] f) q h1)"
    "Method q = Method r" "URL_Path q = URL_Path r" "Header q = Header r"
proof -
  have first: "wraps (\<lambda>_. False) {} m \<Longrightarrow> \<exists>r' h' post. passed_on r h r' h' \<and>
      ss_limiter (srv h') = ss_limiter (srv h) \<and> (\<forall>next. m next r h = post (next r' h')) \<and> (\<forall>h1. after {} h1 (post h1))"
    for m and r and h :: "'a server_state http"
    using wrapsD [of "\<lambda>_. False" "{}" m h r] by blast
  obtain r1 h1 post1 where 1: "passed_on r h r1 h1" "ss_limiter (srv h1) = ss_limiter (srv h)"
    "\<And>next. tp_RequestID T next r h = post1 (next r1 h1)" "\<And>x. after {} x (post1 x)"
    using first [of "tp_RequestID T" r h] assms unfolding documented_def by metis
  obtain r2 h2 post2 where 2: "passed_on r1 h1 r2 h2" "ss_limiter (srv h2) = ss_limiter (srv h1)"
    "\<And>next. tp_Compress T next r1 h1 = post2 (next r2 h2)" "\<And>x. after {} x (post2 x)"
    using first [of "tp_Compress T" r1 h1] assms unfolding documented_def by metis
  note p = passed_on_trans [OF 1(1) 2(1)]
  let ?ip = "resolve_client (parseCIDRs (TrustedIPs (Rate_cfg cfg))) r2"
  let ?q = "r2\<lparr>RemoteAddr := JoinHostPort ?ip (remotePort r2), ctx_client_ip := Some ?ip\<rparr>"
  have eq: "RemoteAddr r2 = RemoteAddr r" "ctx_client_ip r2 = ctx_client_ip r" using p by (simp_all add: passed_on_def)
  show ?thesis
  proof (rule that [of ?q h2 "\<lambda>x. post1 (post2 x)"])
    show "passed_on r h (?q\<lparr>RemoteAddr := RemoteAddr r, ctx_client_ip := ctx_client_ip r\<rparr>) h2"
      using p by (simp add: passed_on_def)
    show "ss_limiter (srv h2) = ss_limiter (srv h)" using 1(2) 2(2) by simp
    show "peerIP ?q = limiter_key cfg r"
      unfolding limiter_key_def using passed_on_request(3,5) [OF p] by (intro peerIP_addr) simp
    show "after {} x (post1 (post2 x))" for x by (rule transpD [OF after_order(2) 2(4) 1(4)])
    show "chain (before_limiter T cfg) f r h =
        post1 (post2 (Logger (chain [tp_Recoverer T, tp_Timeout T, tp_CORS T] f) ?q h2))" for f
      by (simp add: before_limiter_def 1(3) 2(3) TrustedProxyClientIP_def Let_def)
  qed (use p in \<open>simp_all add: passed_on_def\<close>)
qed

text \<open>
  C4. A client cannot escape the rate limiter by sending headers. When the direct peer is no trusted
  proxy and the limiter, at this moment, has no request left for the peer's own address, every request
  of that peer but a CORS preflight is answered 429, whatever header fields it carries, and no store,
  no address resolution and no route has any influence on the answer.
\<close>

theorem limited_peer_refused:
  assumes "documented refuses T" and "r_Enabled (Rate_cfg cfg)"
    and "SplitHostPort (RemoteAddr r) = Some (host, port)"
    and "\<not> ipAllowed host (parseCIDRs (TrustedIPs (Rate_cfg cfg)))"
    and "refuses (Requests (Rate_cfg cfg)) (Window (Rate_cfg cfg)) host (ss_limiter (srv h))"
    and "\<not> preflight r" and "w_codes (out h) = []" and "\<not> panicked h"
  shows "status_of (out (hs_Handler (server_New T U A N net lib cfg store) r h)) = 429 \<and>
         hs_Handler (server_New T U' A' N' net' lib' cfg store') r h =
         hs_Handler (server_New T U A N net lib cfg store) r h"
proof -
  obtain q h1 post where q: "passed_on r h (q\<lparr>RemoteAddr := RemoteAddr r, ctx_client_ip := ctx_client_ip r\<rparr>) h1"
    "ss_limiter (srv h1) = ss_limiter (srv h)" "peerIP q = limiter_key cfg r" "\<And>x. after {} x (post x)"
    "\<And>f. chain (before_limiter T cfg) f r h =
            post (Logger (chain [tp_Recoverer T, tp_Timeout T, tp_CORS T] f) q h1)"
    "Method q = Method r" "Header q = Header r"
    using server_handler [OF assms(1), of r h cfg] by metis
  have carry: "carries keeps_status (chain [Logger, tp_Recoverer T, tp_Timeout T, tp_CORS T])"
  proof (rule carries_chain [OF _ keeps_status_order(1,2)])
    have "recovers (tp_Recoverer T)" using assms(1) by (simp add: documented_def)
    note parts = Logger_carries Recoverer_carries [OF this]
      documented_carries [OF assms(1) keeps_status_order(3) keeps_status_order(3)]
    show "carries keeps_status m" if "m \<in> set [Logger, tp_Recoverer T, tp_Timeout T, tp_CORS T]" for m
      using that parts by auto
  qed
  from carriesD [OF carry, of q h1] obtain r2 h2 post2 where
    2: "passed_on q h1 r2 h2" "ss_limiter (srv h2) = ss_limiter (srv h1)"
    "\<And>f. chain [Logger, tp_Recoverer T, tp_Timeout T, tp_CORS T] f q h1 = post2 (f r2 h2)"
    "\<And>x. keeps_status x (post2 x)"
    using assms(6) q(6,7) by (auto simp: preflight_def Header_Get_def)
  have "peerIP r2 = host"
    using passed_on_request(2) [OF 2(1)] q(3) limiter_key_untrusted [OF assms(3,4)] by simp
  then have "refuses (Requests (Rate_cfg cfg)) (Window (Rate_cfg cfg)) (peerIP r2) (ss_limiter (srv h2))"
    using assms(5) q(2) 2(2) by simp
  then obtain a where a: "panicked a = panicked h2" "w_codes (out a) = w_codes (out h2) @ [429]"
    "\<And>f. tp_LimitByIP T (Requests (Rate_cfg cfg)) (Window (Rate_cfg cfg)) f r2 h2 = a"
    using limitsD(1) assms(1) unfolding documented_def by metis
  have run: "chain (before_limiter T cfg @ limiter T cfg @ rest) f r h = post (post2 a)" for rest f
    using assms(2) a(3) q(5) 2(3) [of "tp_LimitByIP T (Requests (Rate_cfg cfg)) (Window (Rate_cfg cfg)) _"]
    by (simp add: chain_append limiter_def)
  have "\<not> panicked a" "w_codes (out a) = [429]"
    using a(1,2) 2(1) q(1) assms(7,8) by (simp_all add: passed_on_def)
  then have "status_of (out (post (post2 a))) = 429"
    using 2(4) [of a] q(4) [of "post2 a"] by (auto simp: keeps_status_def after_def status_of_def)
  then show ?thesis by (simp add: server_New_def server_chain run)
qed

text \<open>Handlers that leave the log alone, and middlewares that keep them so.\<close>

definition quiet :: "'s handler \<Rightarrow> bool" where
  "quiet f \<longleftrightarrow> (\<forall>r h. logs (f r h) = logs h)"

lemma quiet_chain: "(\<And>m next. m \<in> set ms \<Longrightarrow> quiet next \<Longrightarrow> quiet (m next)) \<Longrightarrow> quiet f \<Longrightarrow> quiet (chain ms f)"
  by (induction ms) auto

lemma quiet_own:
  "quiet next \<Longrightarrow> quiet (RDAPContentType next)" "quiet next \<Longrightarrow> quiet (SecurityHeaders next)"
  "quiet next \<Longrightarrow> quiet (Metrics next)" "quiet next \<Longrightarrow> quiet (NewAuthMiddleware U net lib next)"
  "quiet (serve_routes T routes)"
  by (auto simp: quiet_def RDAPContentType_def SecurityHeaders_def Metrics_def NewAuthMiddleware_def
      Authenticate_def serve_routes_def respond_def Let_def split: option.split prod.split outcome.split sum.split)

lemma quiet_third_party:
  assumes "documented refuses T" and "quiet next"
  shows "quiet (tp_Timeout T next)" "quiet (tp_CORS T next)" "quiet (tp_LimitByIP T n w next)"
    "quiet (tp_Recoverer T next)"
proof -
  have passed: "logs (post (next r' h')) = logs h"
    if "passed_on r h r' h'" "\<And>x. logs (post x) = logs x" for r r' h h' and post :: "'a server_state http \<Rightarrow> 'a server_state http"
    using that assms(2) by (simp add: quiet_def passed_on_def)
  have w: "quiet (m next)" if "wraps own late m" for own late and m :: "'a server_state middleware"
    unfolding quiet_def
  proof (intro allI)
    fix r h
    from wrapsD [OF that, of h r] show "logs (m next r h) = logs h"
      using passed by (auto simp: after_def)
  qed
  show "quiet (tp_Timeout T next)" "quiet (tp_CORS T next)"
    using assms(1) w unfolding documented_def by blast+
  have rec: "recovers (tp_Recoverer T)" and lim: "limits (refuses n w) (tp_LimitByIP T n w)"
    using assms(1) by (simp_all add: documented_def)
  show "quiet (tp_Recoverer T next)"
    unfolding quiet_def
  proof (intro allI)
    fix r h
    show "logs (tp_Recoverer T next r h) = logs h"
      by (rule recoversD [OF rec, of r h]) (use assms(2) in \<open>simp add: quiet_def passed_on_def\<close>)
  qed
  show "quiet (tp_LimitByIP T n w next)"
    unfolding quiet_def
  proof (intro allI)
    fix r h
    show "logs (tp_LimitByIP T n w next r h) = logs h"
    proof (cases "refuses n w (peerIP r) (ss_limiter (srv h))")
      case True
      then show ?thesis using limitsD(1) [OF lim, of r h] by auto
    next
      case False
      then show ?thesis using limitsD(2) [OF lim, of r h] passed by (auto simp: after_def)
    qed
  qed
qed

lemma Header_Set_codes: "w_codes (Header_Set k v w) = w_codes w"
  by (simp add: Header_Set_def)

lemma set_headers_codes: "w_codes (foldl (\<lambda>w (k, v). Header_Set k v w) w hs) = w_codes w"
  by (induction hs arbitrary: w) (auto simp: Header_Set_codes)

lemma auth_panics:
  assumes "Header_Get r ''Authorization'' = ''Bearer '' @ t" and "t \<noteq> []"
    and "fst (ValidateToken U net lib t (ss_auth (srv h))) = Panics"
  shows "\<exists>s. \<forall>next. NewAuthMiddleware U net lib next r h = h\<lparr>srv := s, panicked := True\<rparr>"
proof -
  obtain j where "ValidateToken U net lib t (ss_auth (srv h)) = (Panics, j)"
    using assms(3) by (cases "ValidateToken U net lib t (ss_auth (srv h))") auto
  then show ?thesis
    using assms(1,2) by (auto simp: NewAuthMiddleware_def Authenticate_def TrimPrefix_def Let_def)
qed

text \<open>A request that reaches the token check, on which validation panics.\<close>

lemma chain_panics:
  assumes doc: "documented refuses T" and auth: "a_Enabled (Auth_cfg cfg)" and pre: "\<not> preflight r"
    and free: "\<not> (r_Enabled (Rate_cfg cfg) \<and>
        refuses (Requests (Rate_cfg cfg)) (Window (Rate_cfg cfg)) (peerIP r) (ss_limiter (srv h)))"
    and token: "Header_Get r ''Authorization'' = ''Bearer '' @ t" "t \<noteq> []"
    and panics: "fst (ValidateToken U net lib t (ss_auth (srv h))) = Panics" and codes: "w_codes (out h) = []"
  shows "let x = chain ([tp_Timeout T, tp_CORS T] @ limiter T cfg @ [RDAPContentType, SecurityHeaders]
                    @ after_limiter U net lib cfg) f r h
         in panicked x \<and> set (w_codes (out x)) \<subseteq> {504}"
proof -
  have "carries (after {504}) (chain [tp_Timeout T, tp_CORS T])"
  proof (rule carries_chain [OF _ after_order(1,2)])
    note parts = documented_carries [OF doc, of "after {504}", OF _ after_order(3)]
    show "carries (after {504}) m" if "m \<in> set [tp_Timeout T, tp_CORS T]" for m
      using that parts by auto
  qed
  from carriesD [OF this pre, of h] obtain r1 h1 post1 where 1: "passed_on r h r1 h1"
    "ss_limiter (srv h1) = ss_limiter (srv h)" "\<And>f. chain [tp_Timeout T, tp_CORS T] f r h = post1 (f r1 h1)"
    "\<And>x. after {504} x (post1 x)"
    by metis
  have "\<exists>r2 h2 post2. passed_on r1 h1 r2 h2 \<and> (\<forall>f. chain (limiter T cfg) f r1 h1 = post2 (f r2 h2)) \<and>
      (\<forall>x. after {} x (post2 x))"
  proof (cases "r_Enabled (Rate_cfg cfg)")
    case True
    have "\<not> refuses (Requests (Rate_cfg cfg)) (Window (Rate_cfg cfg)) (peerIP r1) (ss_limiter (srv h1))"
      using free True passed_on_request(2) [OF 1(1)] 1(2) by simp
    moreover have "limits (refuses (Requests (Rate_cfg cfg)) (Window (Rate_cfg cfg)))
        (tp_LimitByIP T (Requests (Rate_cfg cfg)) (Window (Rate_cfg cfg)))"
      using doc by (simp add: documented_def)
    ultimately show ?thesis using limitsD(2) True by (simp add: limiter_def)
  next
    case False
    then show ?thesis
      by (intro exI [of _ r1] exI [of _ h1] exI [of _ "\<lambda>x. x"])
        (simp add: limiter_def passed_on_refl reflpD [OF after_order(1)])
  qed
  then obtain r2 h2 post2 where 2: "passed_on r1 h1 r2 h2" "\<And>f. chain (limiter T cfg) f r1 h1 = post2 (f r2 h2)"
    "\<And>x. after {} x (post2 x)" by blast
  note p = passed_on_trans [OF 1(1) 2(1)]
  let ?set = "foldl (\<lambda>w (k, v). Header_Set k v w)"
  let ?h3 = "h2\<lparr>out := ?set (Header_Set ''Content-Type'' ''application/rdap+json'' (out h2)) security_headers\<rparr>"
  have "Header_Get r2 ''Authorization'' = ''Bearer '' @ t" using token(1) passed_on_request(4) [OF p] by simp
  moreover have "ss_auth (srv ?h3) = ss_auth (srv h)" using p by (simp add: passed_on_def)
  ultimately obtain s where s: "\<And>g. NewAuthMiddleware U net lib g r2 ?h3 = ?h3\<lparr>srv := s, panicked := True\<rparr>"
    using auth_panics [of r2 t U net lib ?h3] token(2) panics by metis
  have "w_codes (out ?h3) = []"
    using p codes by (simp add: set_headers_codes Header_Set_codes passed_on_def)
  moreover have "chain ([tp_Timeout T, tp_CORS T] @ limiter T cfg @ [RDAPContentType, SecurityHeaders]
      @ after_limiter U net lib cfg) f r h = post1 (post2 (?h3\<lparr>srv := s, panicked := True\<rparr>))"
    unfolding chain_append 1(3) 2(2)
    using auth s by (simp add: after_limiter_def RDAPContentType_def SecurityHeaders_def)
  ultimately show ?thesis
    using 1(4) [of "post2 (?h3\<lparr>srv := s, panicked := True\<rparr>)"] 2(3) [of "?h3\<lparr>srv := s, panicked := True\<rparr>"]
    by (auto simp: after_def)
qed

text \<open>
  C5. Every request is logged exactly once, also one whose handler or token check panics. In particular a
  token on which validation panics (one that passes every check but has no issue date) is answered
  500, or 504 if the deadline passed first, instead of 401, and logged as 500. This second part is for
  requests that reach the token check: authentication is enabled, the request is no preflight and
  upgrades no connection, and the limiter has a request left for its host.
\<close>

theorem panics_are_logged:
  assumes "documented refuses T" and "w_codes (out h) = []"
  shows "let h' = hs_Handler (server_New T U A N net lib cfg store) r h
         in \<exists>e. logs h' = logs h @ [e] \<and> log_method e = Method r \<and> log_path e = URL_Path r \<and>
                (a_Enabled (Auth_cfg cfg) \<and> \<not> preflight r \<and> Header_Get r ''Connection'' \<noteq> ''Upgrade'' \<and>
                 \<not> (r_Enabled (Rate_cfg cfg) \<and>
                    refuses (Requests (Rate_cfg cfg)) (Window (Rate_cfg cfg)) (limiter_key cfg r) (ss_limiter (srv h))) \<and>
                 Header_Get r ''Authorization'' = ''Bearer '' @ t \<and> t \<noteq> [] \<and>
                 fst (ValidateToken U net lib t (ss_auth (srv h))) = Panics \<longrightarrow>
                   status_of (out h') \<in> {500, 504} \<and> log_status e = 500)"
proof -
  let ?f = "serve_routes T (server_routes U A N cfg store)"
  let ?ms = "[tp_Timeout T, tp_CORS T] @ limiter T cfg @ [RDAPContentType, SecurityHeaders]
      @ after_limiter U net lib cfg"
  obtain q h1 post where q: "passed_on r h (q\<lparr>RemoteAddr := RemoteAddr r, ctx_client_ip := ctx_client_ip r\<rparr>) h1"
    "ss_limiter (srv h1) = ss_limiter (srv h)" "peerIP q = limiter_key cfg r" "\<And>x. after {} x (post x)"
    "\<And>f. chain (before_limiter T cfg) f r h =
            post (Logger (chain [tp_Recoverer T, tp_Timeout T, tp_CORS T] f) q h1)"
    "Method q = Method r" "URL_Path q = URL_Path r" "Header q = Header r"
    using server_handler [OF assms(1), of r h cfg] by metis
  have h1: "logs h1 = logs h" "w_codes (out h1) = []" "ss_auth (srv h1) = ss_auth (srv h)"
    using q(1) assms(2) by (simp_all add: passed_on_def)
  let ?x = "tp_Recoverer T (chain ?ms ?f) q h1"
  have run: "hs_Handler (server_New T U A N net lib cfg store) r h = post (Logger (tp_Recoverer T (chain ?ms ?f)) q h1)"
    using q(5) by (simp add: server_New_def server_chain chain_append)
  have rec: "recovers (tp_Recoverer T)" using assms(1) by (simp add: documented_def)
  obtain r2 h2 post2 where 2: "passed_on q h1 r2 h2" "ss_limiter (srv h2) = ss_limiter (srv h1)"
    "\<And>next. tp_Recoverer T next q h1 = post2 (next r2 h2)" "\<And>x. \<not> panicked (post2 x)"
    "\<And>x. w_codes (out (post2 x)) = w_codes (out x) @
        (if panicked x \<and> Header_Get q ''Connection'' \<noteq> ''Upgrade'' then [500] else [])"
    using recoversD [OF rec, of q h1] by metis
  have "quiet (chain ?ms ?f)"
    by (rule quiet_chain) (auto simp: limiter_def after_limiter_def quiet_own quiet_third_party [OF assms(1)]
        split: if_splits)
  then have "logs ?x = logs h" using quiet_third_party(4) [OF assms(1)] h1(1) by (simp add: quiet_def)
  moreover have "\<not> panicked ?x" using 2(3,4) by simp
  ultimately have log: "Logger (tp_Recoverer T (chain ?ms ?f)) q h1 = ?x\<lparr>logs := logs h @
      [\<lparr>log_method = Method r, log_path = URL_Path r, log_status = logged_status (out h1) (out ?x),
        log_remote = RemoteAddr q, log_user_agent = Header_Get q ''User-Agent''\<rparr>]\<rparr>"
    by (simp add: Logger_def q(6,7) Let_def)
  have panic: "set (w_codes (out ?x)) \<subseteq> {500, 504} \<and> w_codes (out ?x) \<noteq> [] \<and> last (w_codes (out ?x)) = 500"
    if "a_Enabled (Auth_cfg cfg)" "\<not> preflight r" "Header_Get r ''Connection'' \<noteq> ''Upgrade''"
      "\<not> (r_Enabled (Rate_cfg cfg) \<and>
         refuses (Requests (Rate_cfg cfg)) (Window (Rate_cfg cfg)) (limiter_key cfg r) (ss_limiter (srv h)))"
      "Header_Get r ''Authorization'' = ''Bearer '' @ t" "t \<noteq> []"
      "fst (ValidateToken U net lib t (ss_auth (srv h))) = Panics"
  proof -
    have hdr: "Header_Get q k = Header_Get r k" for k using q(8) by (simp add: Header_Get_def)
    have "\<not> preflight q" using that(2) q(6) hdr by (simp add: preflight_def)
    then have "let y = chain ?ms ?f r2 h2 in panicked y \<and> set (w_codes (out y)) \<subseteq> {504}"
      using chain_panics [OF assms(1) that(1), of r2 h2 t U net lib ?f] passed_on_request [OF 2(1)] 2(1,2) that(4-7)
        q(2,3) h1 hdr
      by (simp add: passed_on_def)
    then show ?thesis using 2(3,5) that(3) hdr by (auto simp: Let_def)
  qed
  have post: "logs (post (?x\<lparr>logs := l\<rparr>)) = l" "w_codes (out (post (?x\<lparr>logs := l\<rparr>))) = w_codes (out ?x)" for l
    using q(4) [of "?x\<lparr>logs := l\<rparr>"] by (auto simp: after_def)
  have status: "status_of (out (post (?x\<lparr>logs := l\<rparr>))) \<in> {500, 504} \<and> logged_status (out h1) (out ?x) = 500"
    if "set (w_codes (out ?x)) \<subseteq> {500, 504} \<and> w_codes (out ?x) \<noteq> [] \<and> last (w_codes (out ?x)) = 500" for l
    using that h1(2) post(2) [of l] by (cases "w_codes (out ?x)") (auto simp: status_of_def logged_status_def)
  show ?thesis
    unfolding run log Let_def post(1) using panic status by auto
qed

subsection \<open>Witnesses\<close>

text \<open>
  Third-party middlewares as documented: a limiter that counts the requests of each host, adds a rate
  limit field and refuses a host that has used up its requests; \<open>CORS\<close> answers preflights.
\<close>

definition example_refuses :: "int \<Rightarrow> int \<Rightarrow> string \<Rightarrow> (string \<Rightarrow> int) \<Rightarrow> bool" where
  "example_refuses n w host counts \<longleftrightarrow> counts host \<ge> n"

definition example_third_party :: "(string \<Rightarrow> int) server_state third_party" where
  "example_third_party =
     \<lparr>tp_RequestID = (\<lambda>next r h. next (r\<lparr>ctx_request_id := Some ''id''\<rparr>) h),
      tp_Compress = (\<lambda>next. next),
      tp_Recoverer = (\<lambda>next r h. let h' = next r h
        in h'\<lparr>panicked := False,
              out := if panicked h' \<and> Header_Get r ''Connection'' \<noteq> ''Upgrade''
                     then WriteHeader 500 (out h') else out h'\<rparr>),
      tp_Timeout = (\<lambda>next. next),
      tp_CORS = (\<lambda>next r h. if preflight r then h\<lparr>out := WriteHeader 200 (out h)\<rparr>
        else next r (h\<lparr>out := Header_Set ''Vary'' ''Origin'' (out h)\<rparr>)),
      tp_LimitByIP = (\<lambda>n w next r h. let counts = ss_limiter (srv h); host = peerIP r
        in if counts host \<ge> n then h\<lparr>out := http_Error ''Too Many Requests'' 429 (out h)\<rparr>
           else next r (h\<lparr>srv := (srv h)\<lparr>ss_limiter := counts(host := counts host + 1)\<rparr>,
                         out := Header_Set ''X-RateLimit-Limit'' (Itoa n) (out h)\<rparr>)),
      tp_find = (\<lambda>routes r. map_option (\<lambda>rt. (rt, []))
        (find (\<lambda>rt. rt_method rt = Method r \<and> rt_pattern rt = URL_Path r) routes)),
      tp_unmatched = (\<lambda>r w. http_Error ''404 page not found'' 404 w)\<rparr>"

lemma after_id: "after late h h"
  by (rule reflpD [OF after_order(1)])

lemma example_third_party_documented: "documented example_refuses example_third_party"
  unfolding documented_def
proof (intro conjI allI)
  have plain: "wraps (\<lambda>_. False) late
      (\<lambda>next r (h :: (string \<Rightarrow> int) server_state http). next (f r) h)"
    if "\<And>r (h :: (string \<Rightarrow> int) server_state http). passed_on r h (f r) h"
    for late and f :: "request \<Rightarrow> request"
    unfolding wraps_def
  proof (intro allI disjI2)
    fix r :: request and h :: "(string \<Rightarrow> int) server_state http"
    show "\<exists>r' h' post. passed_on r h r' h' \<and> ss_limiter (srv h') = ss_limiter (srv h) \<and>
        (\<forall>next. next (f r) h = post (next r' h')) \<and> (\<forall>h1. after late h1 (post h1))"
      by (intro exI [of _ "f r"] exI [of _ h] exI [of _ "\<lambda>x. x"] conjI allI)
        (rule that, rule refl, rule refl, rule after_id)
  qed
  show "wraps (\<lambda>_. False) {} (tp_RequestID example_third_party)"
    using plain [of "\<lambda>r. r\<lparr>ctx_request_id := Some ''id''\<rparr>"] by (simp add: example_third_party_def passed_on_def)
  show "wraps (\<lambda>_. False) {} (tp_Compress example_third_party)"
    "wraps (\<lambda>_. False) {504} (tp_Timeout example_third_party)"
    using plain [of "\<lambda>r. r"] by (simp_all add: example_third_party_def passed_on_def)
  show "recovers (tp_Recoverer example_third_party)"
    unfolding recovers_def
  proof (intro allI)
    fix r :: request and h :: "(string \<Rightarrow> int) server_state http"
    let ?post = "\<lambda>h'. h'\<lparr>panicked := False,
        out := if panicked h' \<and> Header_Get r ''Connection'' \<noteq> ''Upgrade''
               then WriteHeader 500 (out h') else out h'\<rparr>"
    show "\<exists>r' h' post. passed_on r h r' h' \<and> ss_limiter (srv h') = ss_limiter (srv h) \<and>
        (\<forall>next. tp_Recoverer example_third_party next r h = post (next r' h')) \<and>
        (\<forall>h1. logs (post h1) = logs h1 \<and> \<not> panicked (post h1) \<and>
           w_codes (out (post h1)) = w_codes (out h1) @
             (if panicked h1 \<and> Header_Get r ''Connection'' \<noteq> ''Upgrade'' then [500] else []))"
      by (intro exI [of _ r] exI [of _ h] exI [of _ ?post])
        (simp add: example_third_party_def passed_on_refl Let_def WriteHeader_def)
  qed
  show "wraps preflight {} (tp_CORS example_third_party)"
    unfolding wraps_def
  proof (intro allI)
    fix r :: request and h :: "(string \<Rightarrow> int) server_state http"
    show "preflight r \<and> (\<exists>a. logs a = logs h \<and> panicked a = panicked h \<and>
          (\<forall>next. tp_CORS example_third_party next r h = a)) \<or>
        (\<exists>r' h' post. passed_on r h r' h' \<and> ss_limiter (srv h') = ss_limiter (srv h) \<and>
          (\<forall>next. tp_CORS example_third_party next r h = post (next r' h')) \<and> (\<forall>h1. after {} h1 (post h1)))"
    proof (cases "preflight r")
      case True
      then show ?thesis by (simp add: example_third_party_def)
    next
      case False
      then show ?thesis
        by (intro disjI2 exI [of _ r] exI [of _ "h\<lparr>out := Header_Set ''Vary'' ''Origin'' (out h)\<rparr>"] exI [of _ "\<lambda>x. x"])
          (simp add: example_third_party_def passed_on_def Header_Set_def after_id)
    qed
  qed
  show "limits (example_refuses n w) (tp_LimitByIP example_third_party n w)" for n w
    unfolding limits_def
  proof (intro allI)
    fix r :: request and h :: "(string \<Rightarrow> int) server_state http"
    let ?c = "ss_limiter (srv h)"
    let ?h = "h\<lparr>srv := (srv h)\<lparr>ss_limiter := ?c(peerIP r := ?c (peerIP r) + 1)\<rparr>,
        out := Header_Set ''X-RateLimit-Limit'' (Itoa n) (out h)\<rparr>"
    have "\<exists>r' h' post. passed_on r h r' h' \<and> (\<forall>next. tp_LimitByIP example_third_party n w next r h = post (next r' h')) \<and>
        (\<forall>h1. after {} h1 (post h1))" if "\<not> example_refuses n w (peerIP r) ?c"
      using that
      by (intro exI [of _ r] exI [of _ ?h] exI [of _ "\<lambda>x. x"])
        (simp add: example_third_party_def example_refuses_def passed_on_def Header_Set_def after_id Let_def)
    moreover have "\<exists>a. logs a = logs h \<and> panicked a = panicked h \<and> w_codes (out a) = w_codes (out h) @ [429] \<and>
        (\<forall>next. tp_LimitByIP example_third_party n w next r h = a)" if "example_refuses n w (peerIP r) ?c"
      using that
      by (intro exI [of _ "h\<lparr>out := http_Error ''Too Many Requests'' 429 (out h)\<rparr>"])
        (simp add: example_third_party_def example_refuses_def http_Error_def Write_body_def WriteHeader_def
          Header_Set_def Header_Del_def Let_def)
    ultimately show "if example_refuses n w (peerIP r) ?c
        then \<exists>a. logs a = logs h \<and> panicked a = panicked h \<and> w_codes (out a) = w_codes (out h) @ [429] \<and>
                 (\<forall>next. tp_LimitByIP example_third_party n w next r h = a)
        else \<exists>r' h' post. passed_on r h r' h' \<and> (\<forall>next. tp_LimitByIP example_third_party n w next r h = post (next r' h')) \<and>
                 (\<forall>h1. after {} h1 (post h1))"
      by simp
  qed
qed

definition auth_config :: Config where
  "auth_config = example_config\<lparr>Auth_cfg := example_auth_config\<rparr>"

definition limited_config :: Config where
  "limited_config = example_config
     \<lparr>Rate_cfg := \<lparr>r_Enabled = True, Requests = 100, Window = 1, Burst = 0, TrustedIPs = []\<rparr>\<rparr>"

text \<open>A state in which the host 192.0.2.7 has used up its hundred requests.\<close>

definition example_state :: "(string \<Rightarrow> int) server_state http" where
  "example_state =
     \<lparr>srv = \<lparr>ss_auth = NewJWTAuthenticator example_auth_config, ss_limiter = (\<lambda>_. 0)(''192.0.2.7'' := 100)\<rparr>,
      out = new_writer, logs = [], panicked = False\<rparr>"

theorem unauthenticated_learns_nothing_witness:
  "hs_Handler (server_New example_third_party auth_unicode no_idna no_idna example_net (example_lib None)
      auth_config (memory_interface no_unicode no_regexp example_store)) (example_request [] []) example_state =
   hs_Handler (server_New example_third_party auth_unicode no_idna no_idna example_net (example_lib None)
      (auth_config\<lparr>RDAP_cfg := example_rdap_config\<rparr>)
      (memory_interface no_unicode no_regexp (example_store\<lparr>ms_domains := []\<rparr>))) (example_request [] []) example_state"
  by (rule unauthenticated_learns_nothing [OF example_third_party_documented])
    (simp_all add: auth_config_def example_auth_config_def unauthenticated_def Header_Get_def example_request_def
      map_get_def)

theorem limited_peer_refused_witness:
  "status_of (out (hs_Handler (server_New example_third_party auth_unicode no_idna no_idna example_net (example_lib None)
      limited_config (memory_interface no_unicode no_regexp example_store))
      ((example_request [] [])\<lparr>Header := [(''X-Forwarded-For'', [''1.2.3.4''])]\<rparr>) example_state)) = 429"
proof (rule limited_peer_refused [OF example_third_party_documented, THEN conjunct1])
  show "SplitHostPort (RemoteAddr ((example_request [] [])\<lparr>Header := [(''X-Forwarded-For'', [''1.2.3.4''])]\<rparr>)) =
      Some (''192.0.2.7'', ''4711'')"
    by (simp add: example_request_def) (simp add: go_eval)
  show "\<not> ipAllowed ''192.0.2.7'' (parseCIDRs (TrustedIPs (Rate_cfg limited_config)))"
    by (simp add: limited_config_def ipAllowed_def)
qed (simp_all add: limited_config_def example_refuses_def example_state_def new_writer_def preflight_def
      example_request_def)

theorem panics_are_logged_witness:
  "status_of (out (hs_Handler (server_New example_third_party auth_unicode no_idna no_idna example_net
      (example_lib None) auth_config (memory_interface no_unicode no_regexp example_store))
      ((example_request [] [])\<lparr>Header := [(''Authorization'', [''Bearer t''])]\<rparr>) example_state)) \<in> {500, 504}"
proof -
  let ?r = "(example_request [] [])\<lparr>Header := [(''Authorization'', [''Bearer t''])]\<rparr>"
  have cfg: "a_Enabled (Auth_cfg auth_config)" "\<not> r_Enabled (Rate_cfg auth_config)"
    by (simp_all add: auth_config_def example_auth_config_def example_config_def)
  have "j_cfg (NewJWTAuthenticator example_auth_config) = example_auth_config"
    by (simp add: NewJWTAuthenticator_def Let_def)
  moreover have "check_claims auth_unicode example_auth_config (example_claims None) = Panics"
    by (simp add: check_claims_def example_claims_def example_auth_config_def audienceContains_def)
  ultimately have "fst (ValidateToken auth_unicode example_net (example_lib None) ''t'' (ss_auth (srv example_state))) = Panics"
    by (simp add: example_state_def ValidateToken_def example_lib_def example_algorithms example_keyfunc)
  moreover have "Header_Get ?r ''Authorization'' = ''Bearer '' @ ''t''" "\<not> preflight ?r"
    "Header_Get ?r ''Connection'' \<noteq> ''Upgrade''"
    by (simp_all add: Header_Get_def map_get_def example_request_def preflight_def)
  moreover have "w_codes (out example_state) = []" by (simp add: example_state_def new_writer_def)
  ultimately show ?thesis
    using panics_are_logged [OF example_third_party_documented, of example_state auth_unicode no_idna no_idna
        example_net "example_lib None" auth_config "memory_interface no_unicode no_regexp example_store" ?r "''t''"]
      cfg by (auto simp: Let_def)
qed

end
