(* ===== verification/MetricsServer.thy ===== *)
theory MetricsServer
  imports Server
begin

section \<open>Metrics\<close>

text \<open>
  \<open>internal/metrics/metrics.go\<close>: the collectors, their registration when the program starts, and the
  metrics server. The Prometheus client library is outside the repository: its registry is a type
  variable, \<open>register\<close> is \<open>MustRegister\<close> (\<open>None\<close> when it panics), \<open>set_gauge\<close> is \<open>Gauge.Set\<close>, and the
  handler that prints the metrics is an argument of \<open>metrics_NewServer\<close>. The multiplexer of
  \<open>net/http\<close> is modelled on clean request paths, for which it neither cleans nor redirects.
\<close>

datatype collector_kind = CounterVec | HistogramVec | Gauge | Counter

record collector =
  co_kind :: collector_kind
  co_name :: string
  co_help :: string
  co_labels :: "string list"

definition HTTPRequestsTotal :: collector where
  "HTTPRequestsTotal = \<lparr>co_kind = CounterVec, co_name = ''rdap_http_requests_total'',
     co_help = ''Total number of HTTP requests'', co_labels = [''method'', ''path'', ''status'']\<rparr>"

definition HTTPRequestDuration :: collector where
  "HTTPRequestDuration = \<lparr>co_kind = HistogramVec, co_name = ''rdap_http_request_duration_seconds'',
     co_help = ''HTTP request duration in seconds'', co_labels = [''method'', ''path'']\<rparr>"

definition ActiveConnections :: collector where
  "ActiveConnections = \<lparr>co_kind = Gauge, co_name = ''rdap_active_connections'',
     co_help = ''Current number of active connections'', co_labels = []\<rparr>"

definition RateLimitHits :: collector where
  "RateLimitHits = \<lparr>co_kind = Counter, co_name = ''rdap_rate_limit_hits_total'',
     co_help = ''Total number of rate limit hits'', co_labels = []\<rparr>"

definition DomainLookups :: collector where
  "DomainLookups = \<lparr>co_kind = CounterVec, co_name = ''rdap_domain_lookups_total'',
     co_help = ''Total number of domain lookups'', co_labels = [''tld'', ''found'']\<rparr>"

definition EntityLookups :: collector where
  "EntityLookups = \<lparr>co_kind = Counter, co_name = ''rdap_entity_lookups_total'',
     co_help = ''Total number of entity lookups'', co_labels = []\<rparr>"

definition SearchQueries :: collector where
  "SearchQueries = \<lparr>co_kind = CounterVec, co_name = ''rdap_search_queries_total'',
     co_help = ''Total number of search queries'', co_labels = [''type'']\<rparr>"

definition StorageErrors :: collector where
  "StorageErrors = \<lparr>co_kind = CounterVec, co_name = ''rdap_storage_errors_total'',
     co_help = ''Total number of storage errors'', co_labels = [''operation'']\<rparr>"

definition Up :: collector where
  "Up = \<lparr>co_kind = Gauge, co_name = ''rdap_up'',
     co_help = ''1 if the RDAP server is up, 0 otherwise'', co_labels = []\<rparr>"

text \<open>\<open>init\<close>: register the collectors in this order, then set the gauge.\<close>

definition collectors :: "collector list" where
  "collectors = [HTTPRequestsTotal, HTTPRequestDuration, ActiveConnections, RateLimitHits, DomainLookups,
     EntityLookups, SearchQueries, StorageErrors, Up]"

fun register_all :: "(collector \<Rightarrow> 'r \<Rightarrow> 'r option) \<Rightarrow> collector list \<Rightarrow> 'r \<Rightarrow> 'r option" where
  "register_all register [] r = Some r"
| "register_all register (c # cs) r =
     (case register c r of None \<Rightarrow> None | Some r' \<Rightarrow> register_all register cs r')"

definition metrics_init ::
  "(collector \<Rightarrow> 'r \<Rightarrow> 'r option) \<Rightarrow> (collector \<Rightarrow> int \<Rightarrow> 'r \<Rightarrow> 'r) \<Rightarrow> 'r \<Rightarrow> 'r option" where
  "metrics_init register set_gauge r = map_option (set_gauge Up 1) (register_all register collectors r)"

subsection \<open>The metrics server\<close>

definition mux_serve :: "(string \<times> 's handler) list \<Rightarrow> 's handler" where
  "mux_serve routes r h =
     (case map_of routes (URL_Path r) of
        Some f \<Rightarrow> f r h
      | None \<Rightarrow> respond (\<lambda>r w. http_Error ''404 page not found'' 404 w) r h)"

definition metrics_healthz :: "request \<Rightarrow> writer \<Rightarrow> writer" where
  "metrics_healthz r w =
     (let q = [CHR 0x22]
      in Write_body (BText (''{'' @ q @ ''status'' @ q @ '':'' @ q @ ''ok'' @ q @ ''}''))
           (WriteHeader 200 (Header_Set ''Content-Type'' ''application/health+json'' w)))"

definition metrics_NewServer :: "'s handler \<Rightarrow> MetricsConfig \<Rightarrow> 's http_server option" where
  "metrics_NewServer promhttp cfg =
     (if \<not> m_Enabled cfg then None
      else Some \<lparr>hs_Addr = Metrics_Addr cfg,
                 hs_Handler = mux_serve [(''/metrics'', promhttp), (''/healthz'', respond metrics_healthz)],
                 hs_ReadTimeout = 0, hs_WriteTimeout = 0, hs_IdleTimeout = 0, hs_MaxHeaderBytes = 0\<rparr>)"

lemmas collector_defs =
  HTTPRequestsTotal_def HTTPRequestDuration_def ActiveConnections_def RateLimitHits_def DomainLookups_def
  EntityLookups_def SearchQueries_def StorageErrors_def Up_def

lemmas metrics_eval [go_eval] =
  collector_defs collectors_def metrics_init_def mux_serve_def metrics_healthz_def metrics_NewServer_def

subsection \<open>Registration\<close>

text \<open>A valid metric name: \<open>[a-zA-Z_:][a-zA-Z0-9_:]*\<close>.\<close>

definition metric_name_ok :: "string \<Rightarrow> bool" where
  "metric_name_ok s \<longleftrightarrow>
     s \<noteq> [] \<and> \<not> isdigit (hd s) \<and>
     (\<forall>c \<in> set s. islower c \<or> isupper c \<or> isdigit c \<or> c = CHR ''_'' \<or> c = CHR '':'')"

lemma register_all_ok:
  assumes "\<And>c r. metric_name_ok (co_name c) \<Longrightarrow> co_name c \<notin> names r \<Longrightarrow>
             \<exists>r'. register c r = Some r' \<and> names r' = insert (co_name c) (names r)"
    and "distinct (map co_name cs)" and "\<forall>c \<in> set cs. metric_name_ok (co_name c) \<and> co_name c \<notin> names r"
  shows "\<exists>r'. register_all register cs r = Some r' \<and> names r' = co_name ` set cs \<union> names r"
  using assms(2,3)
proof (induction cs arbitrary: r)
  case (Cons c cs)
  then obtain r1 where r1: "register c r = Some r1" "names r1 = insert (co_name c) (names r)"
    using assms(1) [of c r] by auto
  have "\<forall>c' \<in> set cs. metric_name_ok (co_name c') \<and> co_name c' \<notin> names r1"
    using Cons.prems r1(2) by (auto simp: image_iff)
  from Cons.IH [OF _ this] Cons.prems(1) r1 show ?case by auto
qed simp

lemma collectors_distinct: "distinct (map co_name collectors)"
  by (simp add: collectors_def collector_defs)

lemma collectors_valid_list: "list_all (\<lambda>c. metric_name_ok (co_name c)) collectors"
  by code_simp

lemma collectors_valid: "c \<in> set collectors \<Longrightarrow> metric_name_ok (co_name c)"
  using collectors_valid_list by (simp add: list_all_iff)

text \<open>
  The program starts: with a registry that refuses only invalid and already registered names and
  that holds none of the server's names, no registration panics, and afterwards exactly the nine
  collectors have been added.
\<close>

theorem metrics_init_succeeds:
  assumes "\<And>c r. metric_name_ok (co_name c) \<Longrightarrow> co_name c \<notin> names r \<Longrightarrow>
             \<exists>r'. register c r = Some r' \<and> names r' = insert (co_name c) (names r)"
    and "\<And>c v r. names (set_gauge c v r) = names r"
    and "\<And>c. c \<in> set collectors \<Longrightarrow> co_name c \<notin> names r"
  shows "\<exists>r'. metrics_init register set_gauge r = Some r' \<and>
              names r' = names r \<union> co_name ` set collectors \<and> card (co_name ` set collectors) = 9"
proof -
  have "\<forall>c \<in> set collectors. metric_name_ok (co_name c) \<and> co_name c \<notin> names r"
    using collectors_valid assms(3) by blast
  from register_all_ok [where names = names, OF assms(1) collectors_distinct this]
  obtain r' where r': "register_all register collectors r = Some r'"
    "names r' = co_name ` set collectors \<union> names r" by blast
  have "card (co_name ` set collectors) = length collectors"
    using distinct_card [OF collectors_distinct] by simp
  then have "card (co_name ` set collectors) = 9" by (simp add: collectors_def)
  then show ?thesis using r' assms(2) by (auto simp: metrics_init_def)
qed

theorem metrics_init_succeeds_witness:
  "\<exists>names. metrics_init (\<lambda>c r. if metric_name_ok (co_name c) \<and> co_name c \<notin> set r then Some (co_name c # r) else None)
             (\<lambda>_ _ r. r) [''go_goroutines''] = Some names \<and>
           set names = {''go_goroutines''} \<union> co_name ` set collectors"
proof -
  let ?register = "\<lambda>c r. if metric_name_ok (co_name c) \<and> co_name c \<notin> set r then Some (co_name c # r) else None"
  have "co_name c \<notin> set [''go_goroutines'']" if "c \<in> set collectors" for c
    using that by (auto simp: collectors_def collector_defs)
  from metrics_init_succeeds [of set ?register "\<lambda>_ _ r. r", OF _ _ this] show ?thesis by auto
qed

end
