(* ===== verification/SqlOpen.thy ===== *)
theory SqlOpen
  imports SqlStore
begin

section \<open>Opening the relational stores\<close>

text \<open>
  \<open>NewMySQLStore\<close> with \<open>normalizeMySQLDSN\<close> (\<open>internal/store/mysql.go\<close>) and \<open>NewPostgresStore\<close>
  (\<open>postgres.go\<close>). The drivers, \<open>net/url\<close>'s parser and the network are parameters: \<open>mysql_driver\<close> and
  \<open>pgx_driver\<close> hold the functions that the constructors call. A pool is the record of what the
  constructors set; the store is the interface over the database behind the pool. \<open>cfg.MaxOpen\<close> is
  narrowed to an \<open>int32\<close> for PostgreSQL.
\<close>

record mysql_Config =
  mc_User :: string
  mc_Passwd :: string
  mc_Net :: string
  mc_Addr :: string
  mc_DBName :: string
  mc_Params :: "(string, string) gomap"
  mc_Collation :: string
  mc_ParseTime :: bool

record sql_DB =
  db_source :: string
  db_MaxOpen :: "int option"
  db_MaxIdle :: "int option"
  db_MaxLifetime :: "int option"

record URL =
  u_User :: "(string \<times> string) option"
  u_Host :: string
  u_Path :: string
  u_Query :: "(string, string list) gomap"

record mysql_driver =
  my_NewConfig :: mysql_Config
  my_ParseDSN :: "string \<Rightarrow> mysql_Config result"
  my_FormatDSN :: "mysql_Config \<Rightarrow> string"
  my_Open :: "string \<Rightarrow> goerror option"
  my_Ping :: "sql_DB \<Rightarrow> goerror option"
  my_dialect :: "sql_DB \<Rightarrow> string dialect"
  my_hist :: "sql_DB \<Rightarrow> nat \<Rightarrow> string database"

record pgx_Config =
  px_conn :: string
  px_MaxConns :: "32 word"
  px_MinConns :: "32 word"

record pgx_driver =
  pg_ParseConfig :: "string \<Rightarrow> pgx_Config result"
  pg_NewWithConfig :: "pgx_Config \<Rightarrow> goerror option"
  pg_Ping :: "pgx_Config \<Rightarrow> goerror option"
  pg_dialect :: "pgx_Config \<Rightarrow> string list dialect"
  pg_hist :: "pgx_Config \<Rightarrow> nat \<Rightarrow> string list database"

subsection \<open>The MySQL data source name\<close>

text \<open>The URL form may write the address as \<open>tcp(host:port)\<close>: the parentheses are removed before parsing.\<close>

definition unwrap_tcp :: "string \<Rightarrow> string" where
  "unwrap_tcp dsn =
     (case Index dsn ''@tcp('' of
        Some idx \<Rightarrow>
          (let rest = drop (idx + 5) dsn
           in case Index rest '')'' of
                Some i \<Rightarrow> take (idx + 1) dsn @ take i rest @ drop (i + 1) rest
              | None \<Rightarrow> dsn)
      | None \<Rightarrow>
          if prefix ''tcp('' (drop 8 dsn)
          then let rest = drop 12 dsn
               in case Index rest '')'' of
                    Some i \<Rightarrow> take 8 dsn @ take i rest @ drop (i + 1) rest
                  | None \<Rightarrow> dsn
          else dsn)"

definition query_param :: "string \<times> string list \<Rightarrow> mysql_Config \<Rightarrow> mysql_Config" where
  "query_param kv mc =
     (let (k, v) = kv
      in if k = ''parseTime'' then mc\<lparr>mc_ParseTime := length v > 0 \<and> v ! 0 = ''true''\<rparr>
         else if k = ''charset'' then mc\<lparr>mc_Params := map_put ''charset'' (v ! 0) (mc_Params mc)\<rparr>
         else if k = ''collation'' then mc\<lparr>mc_Collation := v ! 0\<rparr>
         else mc\<lparr>mc_Params := map_put k (v ! 0) (mc_Params mc)\<rparr>)"

definition url_config :: "mysql_driver \<Rightarrow> URL \<Rightarrow> mysql_Config" where
  "url_config drv u =
     (let mc0 = (my_NewConfig drv)\<lparr>mc_Net := ''tcp'', mc_Params := []\<rparr>;
          mc1 = (case u_User u of
                   None \<Rightarrow> mc0
                 | Some (name, password) \<Rightarrow> mc0\<lparr>mc_User := name, mc_Passwd := password\<rparr>);
          mc2 = mc1\<lparr>mc_Addr := u_Host u, mc_DBName := TrimPrefix (u_Path u) ''/''\<rparr>
      in fold query_param (u_Query u) mc2)"

definition normalizeMySQLDSN ::
  "unicode \<Rightarrow> (string \<Rightarrow> URL result) \<Rightarrow> mysql_driver \<Rightarrow> string \<Rightarrow> string result" where
  "normalizeMySQLDSN U url_Parse drv dsn =
     (if \<not> prefix ''mysql://'' dsn then Inr dsn
      else case url_Parse (unwrap_tcp dsn) of
             Inl err \<Rightarrow> Inl (Wrapf (''parse mysql URL '' @ Quote U dsn @ '': '' @ Error err) err)
           | Inr u \<Rightarrow> Inr (my_FormatDSN drv (url_config drv u)))"

subsection \<open>The constructors\<close>

definition connection_config :: "mysql_Config \<Rightarrow> mysql_Config" where
  "connection_config mc =
     (let mc1 = mc\<lparr>mc_ParseTime := True\<rparr>
      in if mc_Collation mc1 = [] then mc1\<lparr>mc_Collation := ''utf8mb4_general_ci''\<rparr> else mc1)"

definition sql_pool :: "StorageConfig \<Rightarrow> string \<Rightarrow> sql_DB" where
  "sql_pool cfg source =
     \<lparr>db_source = source,
      db_MaxOpen = (if MaxOpen cfg > 0 then Some (MaxOpen cfg) else None),
      db_MaxIdle = (if MaxIdle cfg > 0 then Some (MaxIdle cfg) else None),
      db_MaxLifetime = Some (60 * minute)\<rparr>"

definition NewMySQLStore ::
  "unicode \<Rightarrow> (string \<Rightarrow> URL result) \<Rightarrow> mysql_driver \<Rightarrow> StorageConfig \<Rightarrow> Interface result" where
  "NewMySQLStore U url_Parse drv cfg =
     and_then (normalizeMySQLDSN U url_Parse drv (DSN cfg)) (\<lambda>dsn.
     and_then (wrap_err ''parse mysql DSN'' (my_ParseDSN drv dsn)) (\<lambda>mc.
       (let source = my_FormatDSN drv (connection_config mc)
        in case my_Open drv source of
             Some err \<Rightarrow> Inl (Wrapf (''open mysql: '' @ Error err) err)
           | None \<Rightarrow>
               (let db = sql_pool cfg source
                in case my_Ping drv db of
                     Some err \<Rightarrow> Inl (Wrapf (''ping database: '' @ Error err) err)
                   | None \<Rightarrow> Inr (mysql_interface (my_dialect drv db) U (my_hist drv db))))))"

definition pgx_limits :: "StorageConfig \<Rightarrow> pgx_Config \<Rightarrow> pgx_Config" where
  "pgx_limits cfg pc =
     (let pc1 = (if MaxOpen cfg > 0 then pc\<lparr>px_MaxConns := of_int (MaxOpen cfg)\<rparr> else pc)
      in if MaxIdle cfg > 0 then pc1\<lparr>px_MinConns := of_int (MaxIdle cfg)\<rparr> else pc1)"

definition NewPostgresStore :: "unicode \<Rightarrow> pgx_driver \<Rightarrow> StorageConfig \<Rightarrow> Interface result" where
  "NewPostgresStore U drv cfg =
     and_then (wrap_err ''parse pgx config'' (pg_ParseConfig drv (DSN cfg))) (\<lambda>pc.
       (let poolCfg = pgx_limits cfg pc
        in case pg_NewWithConfig drv poolCfg of
             Some err \<Rightarrow> Inl (Wrapf (''create pool: '' @ Error err) err)
           | None \<Rightarrow>
               (case pg_Ping drv poolCfg of
                  Some err \<Rightarrow> Inl (Wrapf (''ping database: '' @ Error err) err)
                | None \<Rightarrow> Inr (postgres_interface (pg_dialect drv poolCfg) U (pg_hist drv poolCfg)))))"

lemmas open_eval [go_eval] =
  unwrap_tcp_def query_param_def url_config_def normalizeMySQLDSN_def connection_config_def sql_pool_def
  NewMySQLStore_def pgx_limits_def NewPostgresStore_def

subsection \<open>Lemmas\<close>

lemma Index_at:
  assumes "c \<notin> set s"
  shows "Index (s @ c # p @ t) (c # p) = Some (length s)"
  using assms by (induction s) auto

lemma split_at: "n = length s \<Longrightarrow> take n (s @ t) = s \<and> drop n (s @ t) = t"
  by simp

lemma unwrap_tcp_credentials:
  assumes "CHR ''@'' \<notin> set cred" and "CHR '')'' \<notin> set addr"
  shows "unwrap_tcp (''mysql://'' @ cred @ ''@tcp('' @ addr @ '')'' @ tail) = ''mysql://'' @ cred @ ''@'' @ addr @ tail"
proof -
  have at: "Index (''mysql://'' @ cred @ ''@tcp('' @ addr @ '')'' @ tail) ''@tcp('' = Some (8 + length cred)"
    using Index_at [of "CHR ''@''" "''mysql://'' @ cred" "''tcp(''" "addr @ '')'' @ tail"] assms(1) by simp
  have close: "Index (addr @ '')'' @ tail) '')'' = Some (length addr)"
    using Index_byte_append [OF assms(2), of tail] by simp
  have parts: "drop (8 + length cred + 5) (''mysql://'' @ cred @ ''@tcp('' @ addr @ '')'' @ tail) = addr @ '')'' @ tail"
    "take (8 + length cred + 1) (''mysql://'' @ cred @ ''@tcp('' @ addr @ '')'' @ tail) = ''mysql://'' @ cred @ ''@''"
    using split_at [of "8 + length cred + 5" "''mysql://'' @ cred @ ''@tcp(''" "addr @ '')'' @ tail"]
      split_at [of "8 + length cred + 1" "''mysql://'' @ cred @ ''@''" "''tcp('' @ addr @ '')'' @ tail"] by simp_all
  show ?thesis unfolding unwrap_tcp_def at option.case parts close Let_def by simp
qed

lemma unwrap_tcp_bare:
  assumes "CHR ''@'' \<notin> set addr \<union> set tail" and "CHR '')'' \<notin> set addr"
  shows "unwrap_tcp (''mysql://tcp('' @ addr @ '')'' @ tail) = ''mysql://'' @ addr @ tail"
proof -
  have none: "Index s (CHR ''@'' # p) = None" if "CHR ''@'' \<notin> set s" for s p
    using that by (induction s) auto
  have at: "Index (''mysql://tcp('' @ addr @ '')'' @ tail) ''@tcp('' = None"
    by (rule none) (use assms(1) in simp)
  have close: "Index (addr @ '')'' @ tail) '')'' = Some (length addr)"
    using Index_byte_append [OF assms(2), of tail] by simp
  have parts: "drop 12 (''mysql://tcp('' @ addr @ '')'' @ tail) = addr @ '')'' @ tail"
    "take 8 (''mysql://tcp('' @ addr @ '')'' @ tail) = ''mysql://''"
    "prefix ''tcp('' (drop 8 (''mysql://tcp('' @ addr @ '')'' @ tail))"
    by simp_all
  show ?thesis unfolding unwrap_tcp_def at option.case parts close Let_def using parts(3) by simp
qed

lemma Index_missing: "c \<in> set p \<Longrightarrow> c \<notin> set s \<Longrightarrow> Index s p = None"
  by (induction s) (auto dest!: set_mono_prefix)

lemma unwrap_tcp_plain:
  assumes "CHR ''('' \<notin> set rest"
  shows "unwrap_tcp (''mysql://'' @ rest) = ''mysql://'' @ rest"
proof -
  have "Index (''mysql://'' @ rest) ''@tcp('' = None"
    by (rule Index_missing [of "CHR ''(''"]) (use assms in simp_all)
  moreover have "\<not> prefix ''tcp('' rest" using assms by (auto simp: prefix_def)
  ultimately show ?thesis unfolding unwrap_tcp_def by simp
qed

lemma query_params_keep:
  "mc_Addr (fold query_param q mc) = mc_Addr mc" "mc_Net (fold query_param q mc) = mc_Net mc"
  "mc_User (fold query_param q mc) = mc_User mc" "mc_Passwd (fold query_param q mc) = mc_Passwd mc"
  "mc_DBName (fold query_param q mc) = mc_DBName mc"
  by (induction q arbitrary: mc) (auto simp: query_param_def Let_def)

lemma query_params_values:
  assumes "distinct (map fst q)"
  shows "map_of (mc_Params (fold query_param q mc)) k =
           (if k = ''parseTime'' \<or> k = ''collation'' then map_of (mc_Params mc) k
            else case map_of q k of None \<Rightarrow> map_of (mc_Params mc) k | Some v \<Rightarrow> Some (v ! 0))"
  using assms
proof (induction q arbitrary: mc)
  case (Cons kv q)
  obtain k' v where kv: "kv = (k', v)" by (cases kv)
  have "map_of q k' = None" using Cons.prems kv by (simp add: map_of_eq_None_iff)
  then show ?case using Cons kv by (auto simp: query_param_def Let_def split: option.split)
qed simp

lemma query_params_ParseTime:
  "distinct (map fst q) \<Longrightarrow> mc_ParseTime (fold query_param q mc) =
     (case map_of q ''parseTime'' of None \<Rightarrow> mc_ParseTime mc | Some v \<Rightarrow> length v > 0 \<and> v ! 0 = ''true'')"
proof (induction q arbitrary: mc)
  case (Cons kv q)
  obtain k v where kv: "kv = (k, v)" by (cases kv)
  have "map_of q k = None" using Cons.prems kv by (simp add: map_of_eq_None_iff)
  then show ?case using Cons kv by (auto simp: query_param_def split: option.split)
qed simp

lemma query_params_Collation:
  "distinct (map fst q) \<Longrightarrow> mc_Collation (fold query_param q mc) =
     (case map_of q ''collation'' of None \<Rightarrow> mc_Collation mc | Some v \<Rightarrow> v ! 0)"
proof (induction q arbitrary: mc)
  case (Cons kv q)
  obtain k v where kv: "kv = (k, v)" by (cases kv)
  have "map_of q k = None" using Cons.prems kv by (simp add: map_of_eq_None_iff)
  then show ?case using Cons kv by (auto simp: query_param_def split: option.split)
qed simp

lemma narrow_int32:
  assumes "0 < n" and "n < 2 ^ 32"
  shows "sint (of_int n :: 32 word) = (if n < 2 ^ 31 then n else n - 2 ^ 32)"
proof -
  have "sint (of_int n :: 32 word) = (n + 2 ^ 31) mod 2 ^ 32 - 2 ^ 31"
    by (simp add: sint_sbintrunc' signed_take_bit_eq_take_bit_shift take_bit_eq_mod)
  moreover have "(n + 2 ^ 31) mod 2 ^ 32 = n - 2 ^ 31" if "2 ^ 31 \<le> n"
  proof -
    have "(n - 2 ^ 31 + 2 ^ 32) mod 2 ^ 32 = n - 2 ^ 31"
      unfolding mod_add_self2 using that assms by (simp add: mod_pos_pos_trivial)
    moreover have "n - 2 ^ 31 + 2 ^ 32 = n + 2 ^ 31" by simp
    ultimately show ?thesis by metis
  qed
  ultimately show ?thesis using assms by (simp add: mod_pos_pos_trivial)
qed

subsection \<open>Properties\<close>

text \<open>The backends of \<open>store.New\<close>, with everything the three constructors take from outside.\<close>

definition open_store ::
  "unicode \<Rightarrow> regexp_lib \<Rightarrow> (string \<Rightarrow> int result) \<Rightarrow> gotime \<Rightarrow> (string \<Rightarrow> URL result) \<Rightarrow> pgx_driver \<Rightarrow>
   mysql_driver \<Rightarrow> StorageConfig \<Rightarrow> Interface result" where
  "open_store U R ParseDuration now url_Parse pg my =
     New (\<lambda>cfg. and_then (NewMemoryStore ParseDuration now cfg) (\<lambda>s. Inr (memory_interface U R s)))
       (NewPostgresStore U pg) (NewMySQLStore U url_Parse my)"

text \<open>
  C11. Whatever backend the configuration names, the store that \<open>New\<close> returns satisfies the contract the
  query service relies on: searches are bounded, and, where the database gives repeatable reads their
  documented meaning, aggregates are snapshots.
\<close>

theorem opened_store_contract:
  assumes "open_store U R ParseDuration now url_Parse pg my cfg = Inr st"
  shows "bounded_store st \<and>
         ((\<forall>db. repeatable (my_dialect my db)) \<and> (\<forall>pc. repeatable (pg_dialect pg pc)) \<longrightarrow> snapshot_store st)"
proof -
  from assms consider s where "st = memory_interface U R s"
    | pc where "st = postgres_interface (pg_dialect pg pc) U (pg_hist pg pc)"
    | db where "st = mysql_interface (my_dialect my db) U (my_hist my db)"
    by (auto simp: open_store_def New_def NewPostgresStore_def NewMySQLStore_def Let_def
        split: if_splits option.splits)
  then show ?thesis
  proof cases
    case 1
    then show ?thesis using mem.bounded_store_axioms mem.snapshot_store_axioms by simp
  next
    case 2
    then show ?thesis using postgres.bounded_store_axioms postgres_snapshot by simp
  next
    case 3
    then show ?thesis using mysql.bounded_store_axioms mysql_snapshot by simp
  qed
qed

text \<open>
  The pool limits handed to PostgreSQL: a configured limit below \<open>2 ^ 31\<close> arrives unchanged, a
  limit that is not positive leaves the driver's own; a larger one wraps to 32 bits, so that a limit
  from \<open>2 ^ 31\<close> to \<open>2 ^ 32 - 1\<close> becomes negative.
\<close>

theorem pgx_limits_wrap:
  assumes "0 < MaxOpen cfg" and "MaxOpen cfg < 2 ^ 32"
  shows "sint (px_MaxConns (pgx_limits cfg pc)) =
           (if MaxOpen cfg < 2 ^ 31 then MaxOpen cfg else MaxOpen cfg - 2 ^ 32) \<and>
         (MaxIdle cfg \<le> 0 \<longrightarrow> px_MinConns (pgx_limits cfg pc) = px_MinConns pc)"
  using assms by (simp add: pgx_limits_def Let_def narrow_int32)

text \<open>
  C12. How a MySQL data source name reaches the driver. A name in the driver's own form is passed on as
  it is. A URL, with its address plain or in \<open>tcp(...)\<close>, with or without credentials, is read as the
  plain URL: its host and port become a TCP address, its path the database, its user and password the
  credentials; the parameter \<open>parseTime\<close> sets that option (true only for the text ``true''),
  \<open>collation\<close> the collation, and every other parameter is kept as it is; what the URL does not mention
  stays as the driver's default, and a URL that does not parse is an error.
\<close>

theorem mysql_url_config:
  assumes "dsn = ''mysql://'' @ cred @ ''@tcp('' @ addr @ '')'' @ tail \<and> uri = ''mysql://'' @ cred @ ''@'' @ addr @ tail \<and>
             CHR ''@'' \<notin> set cred \<and> CHR '')'' \<notin> set addr \<or>
           dsn = ''mysql://tcp('' @ addr @ '')'' @ tail \<and> uri = ''mysql://'' @ addr @ tail \<and>
             CHR ''@'' \<notin> set addr \<union> set tail \<and> CHR '')'' \<notin> set addr \<or>
           dsn = ''mysql://'' @ addr \<and> uri = dsn \<and> CHR ''('' \<notin> set addr \<or>
           \<not> prefix ''mysql://'' dsn \<and> uri = dsn"
    and "\<forall>u. url_Parse uri = Inr u \<longrightarrow> distinct (map fst (u_Query u))"
  shows "if \<not> prefix ''mysql://'' dsn then normalizeMySQLDSN U url_Parse drv dsn = Inr dsn
         else case url_Parse uri of
           Inl err \<Rightarrow> \<exists>e. normalizeMySQLDSN U url_Parse drv dsn = Inl e
         | Inr u \<Rightarrow>
             \<exists>mc. normalizeMySQLDSN U url_Parse drv dsn = Inr (my_FormatDSN drv mc) \<and>
               mc_Net mc = ''tcp'' \<and> mc_Addr mc = u_Host u \<and> mc_DBName mc = TrimPrefix (u_Path u) ''/'' \<and>
               (mc_User mc, mc_Passwd mc) =
                 (case u_User u of Some up \<Rightarrow> up
                  | None \<Rightarrow> (mc_User (my_NewConfig drv), mc_Passwd (my_NewConfig drv))) \<and>
               mc_ParseTime mc =
                 (case map_of (u_Query u) ''parseTime'' of Some v \<Rightarrow> length v > 0 \<and> v ! 0 = ''true''
                  | None \<Rightarrow> mc_ParseTime (my_NewConfig drv)) \<and>
               mc_Collation mc =
                 (case map_of (u_Query u) ''collation'' of Some v \<Rightarrow> v ! 0
                  | None \<Rightarrow> mc_Collation (my_NewConfig drv)) \<and>
               (\<forall>k. map_of (mc_Params mc) k =
                  (if k = ''parseTime'' \<or> k = ''collation'' then None
                   else map_option (\<lambda>v. v ! 0) (map_of (u_Query u) k)))"
proof (cases "prefix ''mysql://'' dsn")
  case False
  then show ?thesis by (simp add: normalizeMySQLDSN_def)
next
  case True
  have unwrap: "unwrap_tcp dsn = uri"
    using assms(1) True unwrap_tcp_credentials [of cred addr tail] unwrap_tcp_bare [of addr tail]
      unwrap_tcp_plain [of addr] by (elim disjE conjE) simp_all
  show ?thesis
  proof (cases "url_Parse uri")
    case (Inl err)
    then show ?thesis using True by (simp add: normalizeMySQLDSN_def unwrap)
  next
    case (Inr u)
    then have "distinct (map fst (u_Query u))" using assms(2) by blast
    note params = query_params_values [OF this] query_params_ParseTime [OF this]
      query_params_Collation [OF this]
    show ?thesis
      using True Inr
      by (auto simp: normalizeMySQLDSN_def unwrap url_config_def Let_def query_params_keep params
          intro!: exI [of _ "url_config drv u"] split: option.split prod.split)
  qed
qed

subsection \<open>Witnesses\<close>

text \<open>Drivers that accept everything, in front of the example database and of an empty one.\<close>

definition example_mysql :: mysql_driver where
  "example_mysql =
     (let mc = \<lparr>mc_User = [], mc_Passwd = [], mc_Net = [], mc_Addr = [], mc_DBName = [], mc_Params = [],
                mc_Collation = [], mc_ParseTime = False\<rparr>
      in \<lparr>my_NewConfig = mc, my_ParseDSN = (\<lambda>dsn. Inr mc), my_FormatDSN = mc_Addr, my_Open = (\<lambda>_. None),
          my_Ping = (\<lambda>_. None), my_dialect = (\<lambda>_. example_dialect), my_hist = (\<lambda>_. example_hist)\<rparr>)"

definition example_pgx :: pgx_driver where
  "example_pgx =
     \<lparr>pg_ParseConfig = (\<lambda>dsn. Inr \<lparr>px_conn = dsn, px_MaxConns = 4, px_MinConns = 0\<rparr>),
      pg_NewWithConfig = (\<lambda>_. None), pg_Ping = (\<lambda>_. None), pg_dialect = (\<lambda>_. example_dialect),
      pg_hist = (\<lambda>_ _. \<lparr>db_domains = [], db_entities = [], db_nameservers = [], db_domain_nameservers = [],
                  db_ip_networks = [], db_autnums = []\<rparr>)\<rparr>"

definition example_url :: URL where
  "example_url = \<lparr>u_User = Some (''u'', ''pw''), u_Host = ''db:3306'', u_Path = ''/rdap'',
     u_Query = [(''parseTime'', [''true'']), (''collation'', [''utf8mb4_bin'']), (''charset'', [''utf8mb4''])]\<rparr>"

definition storage :: "string \<Rightarrow> StorageConfig" where
  "storage driver = \<lparr>Driver = driver, DSN = ''mysql://u:pw@tcp(db:3306)/rdap'', MaxOpen = 3000000000, MaxIdle = 0,
     CacheTTL = []\<rparr>"

theorem opened_store_contract_witness:
  "\<exists>st. open_store no_unicode no_regexp (\<lambda>_. Inr 0) zero_time (\<lambda>_. Inr example_url) example_pgx example_mysql
          (storage ''postgres'') = Inr st \<and> bounded_store st \<and> snapshot_store st"
proof -
  have "\<exists>st. open_store no_unicode no_regexp (\<lambda>_. Inr 0) zero_time (\<lambda>_. Inr example_url) example_pgx example_mysql
          (storage ''postgres'') = Inr st"
    by (simp add: open_store_def New_def storage_def NewPostgresStore_def example_pgx_def Let_def)
  then obtain st where st: "open_store no_unicode no_regexp (\<lambda>_. Inr 0) zero_time (\<lambda>_. Inr example_url)
      example_pgx example_mysql (storage ''postgres'') = Inr st" by blast
  moreover have "(\<forall>db. repeatable (my_dialect example_mysql db)) \<and> (\<forall>pc. repeatable (pg_dialect example_pgx pc))"
    by (simp add: example_mysql_def example_pgx_def Let_def example_dialect_repeatable)
  ultimately show ?thesis using opened_store_contract [OF st] by blast
qed

theorem pgx_limits_wrap_witness:
  "sint (px_MaxConns (pgx_limits (storage ''postgres'') \<lparr>px_conn = [], px_MaxConns = 4, px_MinConns = 0\<rparr>)) =
     - 1294967296"
  using pgx_limits_wrap [of "storage ''postgres''" "\<lparr>px_conn = [], px_MaxConns = 4, px_MinConns = 0\<rparr>"]
  by (simp add: storage_def)

text \<open>
  A driver that writes what the parameters say: the three forms of the URL and the driver's own form.
\<close>

definition showing_mysql :: mysql_driver where
  "showing_mysql = example_mysql
     \<lparr>my_FormatDSN := (\<lambda>mc. mc_User mc @ '':'' @ mc_Passwd mc @ ''@'' @ mc_Addr mc @ '' '' @ mc_Collation mc @
        (if mc_ParseTime mc then '' time'' else []))\<rparr>"

theorem mysql_url_config_witness:
  "normalizeMySQLDSN no_unicode (\<lambda>_. Inr example_url) showing_mysql ''mysql://u:pw@tcp(db:3306)/rdap'' =
     Inr ''u:pw@db:3306 utf8mb4_bin time'' \<and>
   normalizeMySQLDSN no_unicode (\<lambda>_. Inr (example_url\<lparr>u_User := None, u_Query := []\<rparr>)) showing_mysql
     ''mysql://tcp(db:3306)/rdap'' = Inr '':@db:3306 '' \<and>
   normalizeMySQLDSN no_unicode (\<lambda>_. Inr example_url) showing_mysql ''mysql://u:pw@db:3306/rdap'' =
     Inr ''u:pw@db:3306 utf8mb4_bin time'' \<and>
   normalizeMySQLDSN no_unicode (\<lambda>_. Inr example_url) showing_mysql ''u:pw@tcp(db:3306)/rdap'' =
     Inr ''u:pw@tcp(db:3306)/rdap''"
proof -
  note config = mysql_url_config [where U = no_unicode and drv = showing_mysql]
  note url = example_url_def showing_mysql_def example_mysql_def Let_def
  show ?thesis
    using config [where dsn = "''mysql://u:pw@tcp(db:3306)/rdap''" and cred = "''u:pw''" and addr = "''db:3306''"
        and tail = "''/rdap''" and uri = "''mysql://u:pw@db:3306/rdap''" and url_Parse = "\<lambda>_. Inr example_url"]
      config [where dsn = "''mysql://tcp(db:3306)/rdap''" and addr = "''db:3306''"
        and tail = "''/rdap''" and uri = "''mysql://db:3306/rdap''"
        and url_Parse = "\<lambda>_. Inr (example_url\<lparr>u_User := None, u_Query := []\<rparr>)"]
      config [where dsn = "''mysql://u:pw@db:3306/rdap''" and addr = "''u:pw@db:3306/rdap''"
        and uri = "''mysql://u:pw@db:3306/rdap''" and url_Parse = "\<lambda>_. Inr example_url"]
      config [where dsn = "''u:pw@tcp(db:3306)/rdap''" and uri = "''u:pw@tcp(db:3306)/rdap''"
        and url_Parse = "\<lambda>_. Inr example_url"]
    by (auto simp: url)
qed

end
