(* ===== verification/Whois.thy ===== *)
theory Whois
  imports Store Rdap
begin

section \<open>The WHOIS gateway\<close>

text \<open>
  \<open>internal/whois\<close>: the renderer (\<open>render.go\<close>), the adapter from the store (\<open>store.go\<close>), and the
  server (\<open>whois.go\<close>): query parsing, answers, one connection, and the life cycle of listener and
  accept loop as a step relation. A text is a byte list; a lookup is a function to a result (its
  context and time-out are not modelled).
\<close>

record WhoisContact =
  wc_Role :: string
  wc_Name :: string
  wc_Org :: string
  wc_Email :: string
  wc_Phone :: string
  wc_Address :: string
  wc_Redacted :: bool

record WhoisNameserver =
  wn_Name :: string
  wn_IPV4 :: "string list"
  wn_IPV6 :: "string list"

record WhoisDomain =
  wd_LDHName :: string
  wd_UnicodeName :: string
  wd_Status :: "string list"
  wd_Registrar :: string
  wd_RegistrarID :: string
  wd_Registrant :: string
  wd_Contacts :: "WhoisContact list"
  wd_Nameservers :: "WhoisNameserver list"
  wd_CreatedAt :: gotime
  wd_UpdatedAt :: gotime
  wd_ExpiresAt :: gotime
  wd_DNSSEC :: bool

type_synonym LookupFunc = "string \<Rightarrow> WhoisDomain result"

definition ErrNotFound :: goerror where
  "ErrNotFound = Sentinel ''object not found''"

definition ErrNotImplemented :: goerror where
  "ErrNotImplemented = Sentinel ''query type not supported''"

subsection \<open>Rendering\<close>

definition crlf :: string where
  "crlf = [CHR 0x0D, CHR 0x0A]"

text \<open>The closure \<open>write\<close>: one line, unless the value is empty.\<close>

definition write_kv :: "string \<Rightarrow> string \<Rightarrow> string" where
  "write_kv k v = (if v \<noteq> [] then k @ '': '' @ v @ crlf else [])"

definition roleLabel :: "unicode \<Rightarrow> string \<Rightarrow> string" where
  "roleLabel U role =
     (let r = ToLower U role
      in if r = ''registrant'' then ''Registrant:''
         else if r = ''administrative'' \<or> r = ''admin'' then ''Administrative Contact:''
         else if r = ''technical'' \<or> r = ''tech'' then ''Technical Contact:''
         else if r = ''billing'' then ''Billing Contact:''
         else if r = ''abuse'' then ''Abuse Contact:''
         else [])"

definition dnssecString :: "bool \<Rightarrow> string" where
  "dnssecString b = (if b then ''signedDelegation'' else ''unsignedDelegation'')"

definition iso :: "gotime \<Rightarrow> string" where
  "iso t = (if IsZero t then [] else format_rfc3339_utc t)"

definition render_contact :: "unicode \<Rightarrow> WhoisContact \<Rightarrow> string" where
  "render_contact U c =
     (let label = roleLabel U (wc_Role c)
      in if label = [] then []
         else crlf @ label @ crlf @
           (if wc_Redacted c then ''   Name: Redacted'' @ crlf
            else write_kv ''   Name'' (wc_Name c)
                 @ write_kv ''   Organization'' (wc_Org c)
                 @ (if wc_Address c \<noteq> []
                    then concat (map (\<lambda>line. write_kv ''   Address'' (TrimSpace line))
                                  (Split (CHR 0x0A) (wc_Address c)))
                    else [])
                 @ write_kv ''   Email'' (wc_Email c)
                 @ write_kv ''   Phone'' (wc_Phone c)))"

definition render_nameserver :: "WhoisNameserver \<Rightarrow> string" where
  "render_nameserver ns =
     ''   '' @ wn_Name ns @ crlf @ concat (map (\<lambda>ip. ''      '' @ ip @ crlf) (wn_IPV4 ns))"

definition RenderDomain :: "unicode \<Rightarrow> WhoisDomain \<Rightarrow> string" where
  "RenderDomain U d =
     ''Domain Name: '' @ wd_LDHName d @ crlf
     @ (if wd_UnicodeName d \<noteq> [] \<and> wd_UnicodeName d \<noteq> wd_LDHName d
        then write_kv ''Internationalized Domain Name'' (wd_UnicodeName d) else [])
     @ write_kv ''Registrar'' (wd_Registrar d)
     @ (if wd_RegistrarID d \<noteq> [] then write_kv ''Registrar IANA ID'' (wd_RegistrarID d) else [])
     @ write_kv ''Registrant Organization'' (wd_Registrant d)
     @ concat (map (render_contact U) (wd_Contacts d))
     @ (if length (wd_Nameservers d) > 0
        then crlf @ ''Name Server:'' @ crlf @ concat (map render_nameserver (wd_Nameservers d)) else [])
     @ write_kv ''DNSSEC'' (dnssecString (wd_DNSSEC d))
     @ write_kv ''Creation Date'' (iso (wd_CreatedAt d))
     @ write_kv ''Updated Date'' (iso (wd_UpdatedAt d))
     @ write_kv ''Expiration Date'' (iso (wd_ExpiresAt d))
     @ write_kv ''Status'' (Join '' '' (wd_Status d))
     @ crlf"

subsection \<open>From the store\<close>

definition statusStrings :: "Status list \<Rightarrow> string list" where
  "statusStrings status = filter (\<lambda>v. v \<noteq> []) (map st_Value status)"

definition contactDisplayName :: "Contact \<Rightarrow> string" where
  "contactDisplayName c =
     (case c_VCard c of
        None \<Rightarrow> c_Handle c
      | Some v \<Rightarrow> if vc_FullName v \<noteq> [] then vc_FullName v
                  else if vc_Organization v \<noteq> [] then vc_Organization v else c_Handle c)"

definition address_text :: "VCardAddress option \<Rightarrow> string" where
  "address_text a =
     (case a of
        None \<Rightarrow> []
      | Some a \<Rightarrow> Join '', '' (filter (\<lambda>p. p \<noteq> [])
                    [va_Street a, va_Locality a, va_Region a, va_PostalCode a, va_CountryName a]))"

definition contactToWhois :: "ContactRole \<Rightarrow> Contact \<Rightarrow> WhoisContact" where
  "contactToWhois role c =
     (let wc = \<lparr>wc_Role = role, wc_Name = [], wc_Org = [], wc_Email = [], wc_Phone = [], wc_Address = [],
                wc_Redacted = (c_Privacy c \<noteq> [] \<and> c_Privacy c \<noteq> PrivacyPublic)\<rparr>;
          wc' = (case c_VCard c of
                   None \<Rightarrow> wc
                 | Some vc \<Rightarrow>
                     wc\<lparr>wc_Name := vc_FullName vc, wc_Org := vc_Organization vc,
                        wc_Email := (if vc_Email vc = [] then vc_ContactURI vc else vc_Email vc),
                        wc_Phone := vc_VoiceTel vc, wc_Address := address_text (vc_Address vc)\<rparr>)
      in if wc_Name wc' = [] then wc'\<lparr>wc_Name := c_Handle c\<rparr> else wc')"

definition whois_contacts :: "DomainAggregate \<Rightarrow> WhoisContact list" where
  "whois_contacts agg =
     concat (map (\<lambda>(role, handles).
                    List.map_filter (\<lambda>h. map_option (contactToWhois role) (map_of (agg_Contacts agg) h)) handles)
               (d_Contacts (agg_Domain agg)))"

definition registrant_name :: "unicode \<Rightarrow> WhoisContact list \<Rightarrow> string" where
  "registrant_name U cs =
     (case find (\<lambda>c. EqualFold U (wc_Role c) ''registrant'' \<and> wc_Name c \<noteq> []) cs of
        Some c \<Rightarrow> wc_Name c
      | None \<Rightarrow> [])"

definition domainToWhois :: "unicode \<Rightarrow> DomainAggregate \<Rightarrow> WhoisDomain" where
  "domainToWhois U agg =
     (let d = agg_Domain agg
      in \<lparr>wd_LDHName = d_LDHName d, wd_UnicodeName = d_UnicodeName d, wd_Status = statusStrings (d_Status d),
          wd_Registrar = (case agg_Registrar agg of None \<Rightarrow> [] | Some c \<Rightarrow> contactDisplayName c),
          wd_RegistrarID =
            (case agg_Registrar agg of
               None \<Rightarrow> []
             | Some c \<Rightarrow> (case c_PublicIDs c of [] \<Rightarrow> [] | p # _ \<Rightarrow> pid_Identifier p)),
          wd_Registrant = registrant_name U (whois_contacts agg),
          wd_Contacts = whois_contacts agg,
          wd_Nameservers = map (\<lambda>ns. \<lparr>wn_Name = ns_LDHName ns, wn_IPV4 = ns_IPV4 ns, wn_IPV6 = ns_IPV6 ns\<rparr>)
                             (d_Nameservers d),
          wd_CreatedAt = md_CreatedAt (d_Metadata d), wd_UpdatedAt = md_UpdatedAt (d_Metadata d),
          wd_ExpiresAt = d_ExpiresAt d,
          wd_DNSSEC = (case d_SecureDNS d of None \<Rightarrow> False | Some s \<Rightarrow> sd_DelegationSigned s)\<rparr>)"

definition StoreLookup :: "unicode \<Rightarrow> Interface \<Rightarrow> LookupFunc" where
  "StoreLookup U st name =
     (case if_GetDomainAggregate st (ToLower U (TrimSuffix name ''.'')) of
        Inl err \<Rightarrow> Inl ErrNotFound
      | Inr agg \<Rightarrow> Inr (domainToWhois U agg))"

subsection \<open>Queries\<close>

definition isNumeric :: "string \<Rightarrow> bool" where
  "isNumeric s \<longleftrightarrow> s \<noteq> [] \<and> list_all isdigit s"

definition keyword_kind :: "string \<Rightarrow> string option" where
  "keyword_kind k =
     (if k = ''domain'' \<or> k = ''dom'' then Some ''domain''
      else if k = ''nameserver'' \<or> k = ''ns'' then Some ''nameserver''
      else if k = ''entity'' \<or> k = ''contact'' then Some ''entity''
      else if k = ''ip'' \<or> k = ''ipnetwork'' \<or> k = ''network'' then Some ''ip''
      else if k = ''asn'' \<or> k = ''autnum'' then Some ''autnum''
      else None)"

definition auto_kind :: "unicode \<Rightarrow> string \<Rightarrow> string" where
  "auto_kind U t =
     (let lower = ToLower U t
      in if prefix ''as'' lower \<and> isNumeric (drop 2 lower) then ''autnum''
         else if CHR ''/'' \<in> set t then ''ip''
         else if prefix ''ns'' lower \<and> CHR ''.'' \<in> set t then ''nameserver''
         else if CHR ''.'' \<in> set t then ''domain''
         else if isNumeric t then ''entity''
         else ''entity'')"

text \<open>
  \<open>fields[0]\<close> is \<open>hd\<close> here: \<open>parseQuery_fields\<close> below shows that the slice is never empty at that
  point, so the index expression cannot panic.
\<close>

definition parseQuery :: "unicode \<Rightarrow> string \<Rightarrow> string \<times> string" where
  "parseQuery U line0 =
     (let line = TrimSpace line0
      in if line = [] then ([], [])
         else
           (let fields = Fields line;
                keyword = (if length fields \<ge> 2 then keyword_kind (ToLower U (hd fields)) else None)
            in case keyword of
                 Some kind \<Rightarrow> (fields ! 1, kind)
               | None \<Rightarrow> (hd fields, auto_kind U (hd fields))))"

definition not_found_text :: string where
  "not_found_text = ''NOT FOUND'' @ crlf @ crlf @ ''% No entries found for the selected source(s).'' @ crlf"

definition other_kind_text :: "unicode \<Rightarrow> string \<Rightarrow> string \<Rightarrow> string" where
  "other_kind_text U kind query =
     ''% This WHOIS gateway serves domain name lookups.'' @ crlf
     @ ''% Query type '' @ Quote U kind @ '' is not supported here; use the RDAP service at /rdap instead.'' @ crlf
     @ ''% e.g. GET /rdap/domain/'' @ query @ crlf"

definition invalid_text :: string where
  "invalid_text = ''INVALID QUERY'' @ crlf @ crlf @ ''% Unrecognized query.'' @ crlf"

definition answer :: "unicode \<Rightarrow> LookupFunc \<Rightarrow> string \<Rightarrow> string" where
  "answer U lookup line =
     (let (query, kind) = parseQuery U line
      in if kind = ''domain'' then
           (case lookup query of
              Inl err \<Rightarrow> if errors_Is err ErrNotFound then not_found_text
                          else ''% ERROR: '' @ Error err @ crlf
            | Inr d \<Rightarrow> RenderDomain U d)
         else if kind \<in> {''nameserver'', ''entity'', ''ip'', ''autnum''} then other_kind_text U kind query
         else invalid_text)"

text \<open>
  One connection: the bytes the client sends before it stops or the deadline passes, to the bytes
  written back. Without a line feed the read fails and nothing is written.
\<close>

definition handle_conn :: "unicode \<Rightarrow> LookupFunc \<Rightarrow> string \<Rightarrow> string" where
  "handle_conn U lookup input =
     (case Index input [CHR 0x0A] of
        None \<Rightarrow> []
      | Some i \<Rightarrow>
          (let line = TrimSpace (take (i + 1) input)
           in if line = [] then ''No query received.'' @ crlf else answer U lookup line))"

lemmas whois_eval [go_eval] =
  ErrNotFound_def ErrNotImplemented_def crlf_def write_kv_def roleLabel_def dnssecString_def iso_def
  render_contact_def render_nameserver_def RenderDomain_def statusStrings_def contactDisplayName_def
  address_text_def contactToWhois_def whois_contacts_def registrant_name_def domainToWhois_def
  StoreLookup_def isNumeric_def keyword_kind_def auto_kind_def parseQuery_def not_found_text_def
  other_kind_text_def invalid_text_def answer_def handle_conn_def

subsection \<open>Life cycle\<close>

text \<open>
  The listeners created so far are an explicit store: a list of flags, true while the socket is open;
  \<open>ws_ln\<close> is the server's field (nil after \<open>Shutdown\<close>), and \<open>Serve\<close> keeps the listener it started
  with. \<open>ws_ctx\<close> says that the context is cancelled. A handled connection is recorded with its input
  and output. The steps are the interleavings of \<open>Listen\<close>, \<open>Serve\<close>, the closer goroutine that waits
  for the context, the accept loop, the owner's cancellation and \<open>Shutdown\<close>.
\<close>

datatype serving = Idle | Accepting nat | Done "goerror option"

record whois_server =
  ws_sockets :: "bool list"
  ws_ln :: "nat option"
  ws_ctx :: bool
  ws_serving :: serving
  ws_handled :: "(string \<times> string) list"
  ws_warnings :: nat

definition whois_New :: whois_server where
  "whois_New = \<lparr>ws_sockets = [], ws_ln = None, ws_ctx = False, ws_serving = Idle, ws_handled = [],
     ws_warnings = 0\<rparr>"

datatype whois_event =
    Listen_Ok | Listen_Fails | Serve_Starts | Serve_Not_Listening | Cancel | Closer_Runs
  | Accept_Conn string | Accept_Fails_Done | Accept_Fails_Again | Shutdown_Closes | Shutdown_Nothing

inductive whois_step ::
  "(string \<Rightarrow> string) \<Rightarrow> whois_server \<Rightarrow> whois_event \<Rightarrow> whois_server \<Rightarrow> bool" for handle
  where
  Listen_Ok: "whois_step handle s Listen_Ok
     (s\<lparr>ws_sockets := ws_sockets s @ [True], ws_ln := Some (length (ws_sockets s))\<rparr>)"
| Listen_Fails: "whois_step handle s Listen_Fails s"
| Serve_Starts: "ws_serving s = Idle \<Longrightarrow> ws_ln s = Some l \<Longrightarrow>
     whois_step handle s Serve_Starts (s\<lparr>ws_serving := Accepting l\<rparr>)"
| Serve_Not_Listening: "ws_serving s = Idle \<Longrightarrow> ws_ln s = None \<Longrightarrow>
     whois_step handle s Serve_Not_Listening
       (s\<lparr>ws_serving := Done (Some (Errorf ''whois serve: listener not started; call Listen first''))\<rparr>)"
| Cancel: "whois_step handle s Cancel (s\<lparr>ws_ctx := True\<rparr>)"
| Closer_Runs: "ws_serving s = Accepting l \<Longrightarrow> ws_ctx s \<Longrightarrow>
     whois_step handle s Closer_Runs (s\<lparr>ws_sockets := (ws_sockets s)[l := False]\<rparr>)"
| Accept_Conn: "ws_serving s = Accepting l \<Longrightarrow> ws_sockets s ! l \<Longrightarrow>
     whois_step handle s (Accept_Conn input) (s\<lparr>ws_handled := ws_handled s @ [(input, handle input)]\<rparr>)"
| Accept_Fails_Done: "ws_serving s = Accepting l \<Longrightarrow> ws_ctx s \<Longrightarrow>
     whois_step handle s Accept_Fails_Done (s\<lparr>ws_serving := Done None\<rparr>)"
| Accept_Fails_Again: "ws_serving s = Accepting l \<Longrightarrow> \<not> ws_ctx s \<Longrightarrow>
     whois_step handle s Accept_Fails_Again (s\<lparr>ws_warnings := Suc (ws_warnings s)\<rparr>)"
| Shutdown_Closes: "ws_ln s = Some l \<Longrightarrow>
     whois_step handle s Shutdown_Closes (s\<lparr>ws_sockets := (ws_sockets s)[l := False], ws_ln := None\<rparr>)"
| Shutdown_Nothing: "ws_ln s = None \<Longrightarrow> whois_step handle s Shutdown_Nothing s"

inductive_cases whois_stepE: "whois_step handle s e s'"

inductive whois_run :: "(string \<Rightarrow> string) \<Rightarrow> whois_event list \<Rightarrow> whois_server \<Rightarrow> bool" for handle where
  start: "whois_run handle [] whois_New"
| step: "whois_run handle es s \<Longrightarrow> whois_step handle s e s' \<Longrightarrow> whois_run handle (es @ [e]) s'"

subsection \<open>Lemmas on queries\<close>

lemma space_runes_first: "\<forall>p \<in> set space_runes. p \<noteq> [] \<and> (byte (hd p) \<le> 32 \<or> 128 \<le> byte (hd p))"
  by (simp add: space_runes_def byte_def)

lemma find_space_none:
  assumes "32 < byte c" "byte c < 128"
  shows "find (\<lambda>p. prefix p (c # cs)) space_runes = None"
proof -
  have "\<not> prefix p (c # cs)" if "p \<in> set space_runes" for p
    using bspec [OF space_runes_first that] assms by (cases p) auto
  then show ?thesis by (simp add: find_prefix_None)
qed

lemma Fields_single:
  assumes "s \<noteq> []" "\<forall>c \<in> set s. 32 < byte c \<and> byte c < 128"
  shows "Fields s = [s]"
proof -
  have aux: "fields_aux acc s = (if rev acc @ s = [] then [] else [rev acc @ s])"
    if "\<forall>c \<in> set s. 32 < byte c \<and> byte c < 128" for acc s
    using that
  proof (induction s arbitrary: acc)
    case (Cons c s)
    then show ?case using find_space_none [of c s] by simp
  qed simp
  show ?thesis using aux [OF assms(2), of "[]"] assms(1) by (simp add: Fields_def)
qed

lemma ldh_name_bytes: "ldh_char c \<or> c = CHR ''.'' \<Longrightarrow> 32 < byte c \<and> byte c < 128"
  by (auto simp: ldh_char_def islower_def isdigit_def byte_def)

lemma parseQuery_fields: "TrimSpace line \<noteq> [] \<Longrightarrow> Fields (TrimSpace line) \<noteq> []"
  by (rule Fields_TrimSpace_not_Nil)

lemma keyword_kind_range:
  "keyword_kind k = Some kind \<Longrightarrow> kind \<in> {''domain'', ''nameserver'', ''entity'', ''ip'', ''autnum''}"
  by (auto simp: keyword_kind_def split: if_splits)

lemma auto_kind_range: "auto_kind U t \<in> {''domain'', ''nameserver'', ''entity'', ''ip'', ''autnum''}"
  by (simp add: auto_kind_def Let_def)

lemma parseQuery_ldh:
  assumes "ValidateLDHName n" "CHR ''.'' \<in> set n"
  shows "parseQuery U n = (n, if prefix ''ns'' n then ''nameserver'' else ''domain'')"
proof -
  have chars: "\<forall>c \<in> set n. ldh_char c \<or> c = CHR ''.''" using ValidateLDHName_chars [OF assms(1)] .
  have bytes: "\<forall>c \<in> set n. 32 < byte c \<and> byte c < 128"
    using chars ldh_name_bytes by blast
  have ne: "n \<noteq> []" using assms(2) by auto
  have low: "ToLower U n = n" using ValidateLDHName_lower [OF assms(1)] by (simp add: ToLower_def)
  have slash: "CHR ''/'' \<notin> set n"
    using chars by (auto simp: ldh_char_def islower_def isdigit_def byte_def)
  have dot: "\<not> isdigit (CHR ''.'')" by (simp add: isdigit_def byte_def)
  have "\<not> (prefix ''as'' n \<and> isNumeric (drop 2 n))"
  proof
    assume a: "prefix ''as'' n \<and> isNumeric (drop 2 n)"
    then obtain r where n: "n = ''as'' @ r" by (auto simp: prefix_def)
    then have "CHR ''.'' \<in> set r" using assms(2) by simp
    then show False using a n dot by (auto simp: isNumeric_def list_all_iff)
  qed
  then show ?thesis
    using TrimSpace_id [OF bytes] Fields_single [OF ne bytes] ne low slash assms(2)
    by (simp add: parseQuery_def auto_kind_def Let_def)
qed

lemma answer_kinds:
  assumes "TrimSpace line \<noteq> []"
  shows "snd (parseQuery U line) \<in> {''domain'', ''nameserver'', ''entity'', ''ip'', ''autnum''}"
  using assms keyword_kind_range auto_kind_range
  by (auto simp: parseQuery_def Let_def split: option.split)

subsection \<open>Line ends\<close>

lemma suffix_crlf [simp]: "suffix crlf crlf" "suffix crlf (x @ crlf)"
  by (simp_all add: suffix_def)

lemma suffix_crlf_append: "suffix crlf y \<Longrightarrow> suffix crlf (x @ y)"
  by (auto simp: suffix_def)

lemma RenderDomain_crlf: "suffix crlf (RenderDomain U d)"
  unfolding RenderDomain_def by (intro suffix_crlf_append) simp

lemma texts_crlf: "suffix crlf not_found_text" "suffix crlf (other_kind_text U k q)" "suffix crlf invalid_text"
  "suffix crlf (''% ERROR: '' @ m @ crlf)"
  unfolding not_found_text_def other_kind_text_def invalid_text_def
  by (intro suffix_crlf_append suffix_crlf)+

lemma answer_crlf: "suffix crlf (answer U lookup line)"
proof (cases "parseQuery U line")
  case (Pair q k)
  then show ?thesis
    by (cases "lookup q") (simp_all only: answer_def Let_def prod.case sum.case texts_crlf RenderDomain_crlf split: if_split, simp_all)
qed

subsection \<open>Redaction\<close>

text \<open>Replace the personal data of the redacted contacts by anything.\<close>

definition scramble :: "(WhoisContact \<Rightarrow> WhoisContact) \<Rightarrow> WhoisContact \<Rightarrow> WhoisContact" where
  "scramble f c =
     (if wc_Redacted c then (f c)\<lparr>wc_Role := wc_Role c, wc_Redacted := True\<rparr> else c)"

lemma render_contact_scramble: "render_contact U (scramble f c) = render_contact U c"
  by (simp add: render_contact_def scramble_def Let_def)

subsection \<open>Lemmas on white space\<close>

lemma space_runes_last: "\<forall>p \<in> set space_runes. p \<noteq> [] \<and> (byte (last p) \<le> 32 \<or> 128 \<le> byte (last p))"
  by (simp add: space_runes_def byte_def)

lemma TrimSpace_ends:
  assumes "s \<noteq> []" "32 < byte (hd s)" "byte (hd s) < 128" "32 < byte (last s)" "byte (last s) < 128"
  shows "TrimSpace s = s"
proof -
  have "\<not> prefix p s \<and> \<not> prefix (rev p) (rev s)" if "p \<in> set space_runes" for p
  proof -
    have ne: "p \<noteq> []" and first: "byte (hd p) \<le> 32 \<or> 128 \<le> byte (hd p)"
      and last: "byte (last p) \<le> 32 \<or> 128 \<le> byte (last p)"
      using bspec [OF space_runes_first that] bspec [OF space_runes_last that] by auto
    have "hd s = hd p" if "prefix p s" using that ne by (auto simp: prefix_def)
    moreover have "last s = last p" if "prefix (rev p) (rev s)"
      using that ne by (auto simp: suffix_to_prefix [symmetric] suffix_def)
    ultimately show ?thesis using first last assms by auto
  qed
  then have "strip space_runes s = s" "strip (map rev space_runes) (rev s) = rev s"
    by (intro strip_fixed disjI2; unfold find_prefix_None; simp)+
  then show ?thesis by (simp add: TrimSpace_def)
qed

lemma fields_aux_word:
  "\<forall>c \<in> set a. 32 < byte c \<and> byte c < 128 \<Longrightarrow> rev acc @ a \<noteq> [] \<Longrightarrow>
   fields_aux acc (a @ CHR 0x20 # b) = (rev acc @ a) # fields_aux [] b"
proof (induction a arbitrary: acc)
  case Nil
  have "find (\<lambda>p. prefix p (CHR 0x20 # b)) space_runes = Some [CHR 0x20]"
    by (simp add: space_runes_def)
  with Nil show ?case by simp
next
  case (Cons c a)
  then show ?case using find_space_none [of c "a @ CHR 0x20 # b"] by simp
qed

lemma Fields_two:
  assumes "a \<noteq> []" "b \<noteq> []" "\<forall>c \<in> set (a @ b). 32 < byte c \<and> byte c < 128"
  shows "Fields (a @ CHR 0x20 # b) = [a, b]"
  using fields_aux_word [of a "[]" b] Fields_single [of b] assms by (simp add: Fields_def)

lemma parseQuery_domain_keyword:
  assumes "ValidateLDHName n" "CHR ''.'' \<in> set n"
  shows "parseQuery U (''domain '' @ n) = (n, ''domain'')"
proof -
  have bytes: "\<forall>c \<in> set n. 32 < byte c \<and> byte c < 128"
    using ValidateLDHName_chars [OF assms(1)] ldh_name_bytes by blast
  have ne: "n \<noteq> []" using assms(2) by auto
  have word: "\<forall>c \<in> set ''domain''. 32 < byte c \<and> byte c < 128" by (simp add: byte_def)
  let ?q = "''domain'' @ CHR 0x20 # n"
  have "TrimSpace ?q = ?q"
    using bytes ne word by (intro TrimSpace_ends) auto
  moreover have "Fields ?q = [''domain'', n]"
    using bytes ne word by (intro Fields_two) auto
  moreover have "ToLower U ''domain'' = ''domain''"
    by (simp add: ToLower_def byte_def lower_byte_def isupper_def)
  ultimately show ?thesis by (simp add: parseQuery_def keyword_kind_def Let_def)
qed

lemma StoreLookup_not_found: "StoreLookup U st q = Inl e \<Longrightarrow> e = ErrNotFound"
  by (auto simp: StoreLookup_def split: sum.splits)

lemma RenderDomain_head: "prefix (''Domain Name: '' @ wd_LDHName d @ crlf) (RenderDomain U d)"
  by (simp add: RenderDomain_def prefix_def)

lemma whois_first_registrant:
  assumes "d_Contacts (agg_Domain agg) = (RoleRegistrant, h # hs) # rest"
    and "map_of (agg_Contacts agg) h = Some c" and "c_VCard c = Some v" and "vc_FullName v \<noteq> []"
  shows "wd_Registrant (domainToWhois U agg) = vc_FullName v"
proof -
  have fold: "EqualFold U RoleRegistrant ''registrant''"
    by (simp add: EqualFold_def RoleRegistrant_def byte_def)
  have "wc_Name (contactToWhois RoleRegistrant c) = vc_FullName v"
    "wc_Role (contactToWhois RoleRegistrant c) = RoleRegistrant"
    using assms(3,4) by (simp_all add: contactToWhois_def Let_def)
  then have "registrant_name U (whois_contacts agg) = vc_FullName v"
    using assms fold by (simp add: registrant_name_def whois_contacts_def List.map_filter_def)
  then show ?thesis by (simp add: domainToWhois_def Let_def)
qed

lemma whois_run_facts:
  "whois_run handle es s \<Longrightarrow>
   (ws_ctx s \<longleftrightarrow> Cancel \<in> set es) \<and>
   (ws_serving s = Done None \<longrightarrow> ws_ctx s) \<and>
   ws_handled s = map (\<lambda>i. (i, handle i)) (List.map_filter (\<lambda>e. case e of Accept_Conn i \<Rightarrow> Some i | _ \<Rightarrow> None) es)"
proof (induction rule: whois_run.induct)
  case start
  then show ?case by (simp add: whois_New_def)
next
  case (step es s e s')
  from step.hyps(2) step.IH show ?case
    by (cases rule: whois_step.cases) (auto simp: map_filter_append)
qed

lemma whois_run_append:
  "whois_run handle es s \<Longrightarrow> whois_step handle s e s' \<Longrightarrow> es' = es @ [e] \<Longrightarrow> whois_run handle es' s'"
  by (simp add: whois_run.step)

subsection \<open>Properties\<close>

text \<open>
  Queries are classified as documented: a bare domain name (a valid name with a dot) is a domain
  query for that name, and so is the name after the keyword \<open>domain\<close>; but a bare name that begins
  with the letters \<open>ns\<close> is taken for a nameserver, also when it is not one (\<open>nsa.gov\<close>).
\<close>

theorem parseQuery_domain_names:
  assumes "ValidateLDHName n" and "CHR ''.'' \<in> set n"
  shows "parseQuery U n = (n, if prefix ''ns'' n then ''nameserver'' else ''domain'') \<and>
         parseQuery U (''domain '' @ n) = (n, ''domain'')"
  using parseQuery_ldh [OF assms] parseQuery_domain_keyword [OF assms] by blast

theorem parseQuery_domain_names_witness:
  "parseQuery \<lparr>uni_ToLower = (\<lambda>s. s), uni_EqualFold = (=), uni_Quote = (\<lambda>s. s)\<rparr> ''nsa.gov'' =
     (''nsa.gov'', ''nameserver'')"
proof -
  have "ValidateLDHName ''nsa.gov''" by (simp add: go_eval)
  from parseQuery_domain_names [OF this] show ?thesis by simp
qed

text \<open>
  Every answer is a sequence of complete lines (it ends with CR LF), and a query with any text in it
  is never called invalid: parsing finds one of the five kinds.
\<close>

theorem answer_total:
  "suffix crlf (answer U lookup line) \<and>
   (TrimSpace line \<noteq> [] \<longrightarrow>
      snd (parseQuery U line) \<in> {''domain'', ''nameserver'', ''entity'', ''ip'', ''autnum''} \<and>
      answer U lookup line \<noteq> invalid_text)"
proof (intro conjI impI)
  show "suffix crlf (answer U lookup line)" by (rule answer_crlf)
  assume "TrimSpace line \<noteq> []"
  then show kind: "snd (parseQuery U line) \<in> {''domain'', ''nameserver'', ''entity'', ''ip'', ''autnum''}"
    by (rule answer_kinds)
  obtain q k where qk: "parseQuery U line = (q, k)" by (cases "parseQuery U line")
  have heads: "hd invalid_text = CHR ''I''" "hd not_found_text = CHR ''N''" "hd (''% ERROR: '' @ m @ crlf) = CHR ''%''"
    "hd (other_kind_text U k' q') = CHR ''%''" "hd (RenderDomain U d) = CHR ''D''" for m k' q' d
    by (simp_all add: invalid_text_def not_found_text_def other_kind_text_def RenderDomain_def)
  have "hd (answer U lookup line) \<noteq> CHR ''I''"
  proof (cases "k = ''domain''")
    case True
    then show ?thesis
      using heads qk by (cases "lookup q") (auto simp: answer_def)
  next
    case False
    then have "answer U lookup line = other_kind_text U k q" using kind qk by (auto simp: answer_def)
    then show ?thesis using heads(4) by simp
  qed
  then show "answer U lookup line \<noteq> invalid_text" using heads(1) by metis
qed

theorem answer_total_witness:
  "answer \<lparr>uni_ToLower = (\<lambda>s. s), uni_EqualFold = (=), uni_Quote = (\<lambda>s. s)\<rparr> (\<lambda>n. Inl ErrNotFound) ''x y'' \<noteq> invalid_text"
proof -
  have "TrimSpace ''x y'' \<noteq> []" by (simp add: go_eval)
  with answer_total show ?thesis by blast
qed

text \<open>
  C38. Redacted contacts are withheld from their contact blocks: the response does not depend on the name,
  organisation, address, e-mail or phone of any redacted contact, however these are replaced.
\<close>

theorem RenderDomain_redacts:
  "RenderDomain U (d\<lparr>wd_Contacts := map (scramble f) (wd_Contacts d)\<rparr>) = RenderDomain U d"
  by (simp add: RenderDomain_def comp_def render_contact_scramble)

text \<open>
  C39. The registrant's name is nevertheless published: when the first contact of a domain is its
  registrant and has a name, the response holds that name in the registrant line, whatever the privacy
  state of the contact.
\<close>

theorem whois_publishes_registrant:
  assumes "d_Contacts (agg_Domain agg) = (RoleRegistrant, h # hs) # rest"
    and "map_of (agg_Contacts agg) h = Some c" and "c_VCard c = Some v" and "vc_FullName v \<noteq> []"
  shows "sublist (''Registrant Organization: '' @ vc_FullName v @ crlf)
           (RenderDomain U (domainToWhois U agg))"
proof -
  have kv: "write_kv ''Registrant Organization'' (wd_Registrant (domainToWhois U agg)) =
      ''Registrant Organization: '' @ vc_FullName v @ crlf"
    using assms(4) by (simp add: write_kv_def whois_first_registrant [OF assms])
  have "\<exists>ps ss. RenderDomain U d = ps @ write_kv ''Registrant Organization'' (wd_Registrant d) @ ss" for d
    unfolding RenderDomain_def
    by (rule exI [of _ "''Domain Name: '' @ wd_LDHName d @ crlf
      @ (if wd_UnicodeName d \<noteq> [] \<and> wd_UnicodeName d \<noteq> wd_LDHName d
         then write_kv ''Internationalized Domain Name'' (wd_UnicodeName d) else [])
      @ write_kv ''Registrar'' (wd_Registrar d)
      @ (if wd_RegistrarID d \<noteq> [] then write_kv ''Registrar IANA ID'' (wd_RegistrarID d) else [])"],
      simp only: append.assoc, rule exI, rule refl)
  then show ?thesis unfolding sublist_def kv [symmetric] by blast
qed

text \<open>The redacted contact of the witness.\<close>

definition example_private :: Contact where
  "example_private =
     Contact ''P1'' [RoleRegistrant] [] (Some (zero_VCard\<lparr>vc_FullName := ''Jo Doe''\<rparr>)) [] PrivacyRedacted [] [] []
       zero_Metadata"

definition example_private_agg :: DomainAggregate where
  "example_private_agg =
     \<lparr>agg_Domain = \<lparr>d_Handle = ''D1'', d_LDHName = ''a.b'', d_UnicodeName = ''a.b'', d_TLD = ''b'', d_Status = [],
        d_ExpiresAt = zero_time, d_Contacts = [(RoleRegistrant, [''P1''])], d_Nameservers = [],
        d_SecureDNS = None, d_Registrar = [], d_Metadata = zero_Metadata\<rparr>,
      agg_Registrar = None, agg_Contacts = [(''P1'', example_private)], agg_Nameservers = []\<rparr>"

theorem whois_publishes_registrant_witness:
  "wc_Redacted (contactToWhois RoleRegistrant example_private) \<and>
   sublist (''Registrant Organization: '' @ ''Jo Doe'' @ crlf)
     (RenderDomain \<lparr>uni_ToLower = (\<lambda>s. s), uni_EqualFold = (=), uni_Quote = (\<lambda>s. s)\<rparr>
       (domainToWhois \<lparr>uni_ToLower = (\<lambda>s. s), uni_EqualFold = (=), uni_Quote = (\<lambda>s. s)\<rparr> example_private_agg))"
proof
  show "wc_Redacted (contactToWhois RoleRegistrant example_private)"
    by (simp add: contactToWhois_def example_private_def Let_def zero_VCard_def address_text_def
        PrivacyRedacted_def PrivacyPublic_def)
  have "vc_FullName (zero_VCard\<lparr>vc_FullName := ''Jo Doe''\<rparr>) = ''Jo Doe''" by simp
  then show "sublist (''Registrant Organization: '' @ ''Jo Doe'' @ crlf)
     (RenderDomain \<lparr>uni_ToLower = (\<lambda>s. s), uni_EqualFold = (=), uni_Quote = (\<lambda>s. s)\<rparr>
       (domainToWhois \<lparr>uni_ToLower = (\<lambda>s. s), uni_EqualFold = (=), uni_Quote = (\<lambda>s. s)\<rparr> example_private_agg))"
    using whois_publishes_registrant [of example_private_agg "''P1''" "[]" "[]" example_private
        "zero_VCard\<lparr>vc_FullName := ''Jo Doe''\<rparr>"]
    by (simp add: example_private_agg_def example_private_def)
qed

text \<open>
  The accept loop returns without error only after the context was cancelled, and what it answered
  is exactly the accepted connections in order, each with the response to its own input.
\<close>

theorem Serve_returns_on_cancel:
  assumes "whois_run handle es s"
  shows "(ws_serving s = Done None \<longrightarrow> Cancel \<in> set es) \<and>
         ws_handled s =
           map (\<lambda>i. (i, handle i)) (List.map_filter (\<lambda>e. case e of Accept_Conn i \<Rightarrow> Some i | _ \<Rightarrow> None) es)"
  using whois_run_facts [OF assms] by blast

theorem Serve_returns_on_cancel_witness:
  "\<exists>s. whois_run (\<lambda>i. i) [Listen_Ok, Serve_Starts, Accept_Conn ''q'', Cancel, Accept_Fails_Done] s \<and>
       ws_serving s = Done None \<and> ws_handled s = [(''q'', ''q'')]"
proof -
  let ?h = "\<lambda>i::string. i"
  let ?s1 = "whois_New\<lparr>ws_sockets := [True], ws_ln := Some 0\<rparr>"
  let ?s2 = "?s1\<lparr>ws_serving := Accepting 0\<rparr>"
  let ?s3 = "?s2\<lparr>ws_handled := [(''q'', ''q'')]\<rparr>"
  let ?s4 = "?s3\<lparr>ws_ctx := True\<rparr>"
  let ?s5 = "?s4\<lparr>ws_serving := Done None\<rparr>"
  have 1: "whois_run ?h [Listen_Ok] ?s1"
    using whois_run.step [OF whois_run.start whois_step.Listen_Ok, of ?h] by (simp add: whois_New_def)
  have 2: "whois_run ?h [Listen_Ok, Serve_Starts] ?s2"
    by (rule whois_run_append [OF 1 whois_step.Serve_Starts]) (simp_all add: whois_New_def)
  have 3: "whois_run ?h [Listen_Ok, Serve_Starts, Accept_Conn ''q''] ?s3"
    using whois_run.step [OF 2 whois_step.Accept_Conn [of ?s2 0 ?h "''q''"]] by (simp add: whois_New_def)
  have 4: "whois_run ?h [Listen_Ok, Serve_Starts, Accept_Conn ''q'', Cancel] ?s4"
    by (rule whois_run_append [OF 3 whois_step.Cancel]) simp
  have 5: "whois_run ?h [Listen_Ok, Serve_Starts, Accept_Conn ''q'', Cancel, Accept_Fails_Done] ?s5"
    by (rule whois_run_append [OF 4 whois_step.Accept_Fails_Done [of _ 0]]) simp_all
  have "ws_handled ?s5 = [(''q'', ''q'')]"
    using Serve_returns_on_cancel [OF 5, THEN conjunct2] by simp
  with 5 show ?thesis by (intro exI [of _ ?s5]) simp
qed

text \<open>
  C37. Closing the listener alone does not end \<open>Serve\<close>: after \<open>Shutdown\<close> without a cancelled context the
  accept loop can fail and go on any number of times, and no run without a cancellation ends it.
\<close>

theorem Serve_spins_after_Shutdown:
  "(\<exists>s. whois_run handle ([Listen_Ok, Serve_Starts, Shutdown_Closes] @ replicate n Accept_Fails_Again) s \<and>
        ws_serving s = Accepting 0 \<and> ws_sockets s = [False] \<and> ws_warnings s = n) \<and>
   \<not> (\<exists>es s. whois_run handle es s \<and> Cancel \<notin> set es \<and> ws_serving s = Done None)"
proof
  let ?s1 = "whois_New\<lparr>ws_sockets := [True], ws_ln := Some 0\<rparr>"
  let ?s2 = "?s1\<lparr>ws_serving := Accepting 0\<rparr>"
  let ?s3 = "?s2\<lparr>ws_sockets := [False], ws_ln := None\<rparr>"
  have 1: "whois_run handle [Listen_Ok] ?s1"
    using whois_run.step [OF whois_run.start whois_step.Listen_Ok, of handle] by (simp add: whois_New_def)
  have 2: "whois_run handle [Listen_Ok, Serve_Starts] ?s2"
    by (rule whois_run_append [OF 1 whois_step.Serve_Starts]) (simp_all add: whois_New_def)
  have 3: "whois_run handle [Listen_Ok, Serve_Starts, Shutdown_Closes] ?s3"
    using whois_run.step [OF 2 whois_step.Shutdown_Closes [of ?s2 0 handle]] by (simp add: whois_New_def)
  show "\<exists>s. whois_run handle ([Listen_Ok, Serve_Starts, Shutdown_Closes] @ replicate n Accept_Fails_Again) s \<and>
        ws_serving s = Accepting 0 \<and> ws_sockets s = [False] \<and> ws_warnings s = n"
  proof (induction n)
    case 0
    show ?case using 3 by (intro exI [of _ ?s3]) (simp add: whois_New_def)
  next
    case (Suc n)
    then obtain s where s: "whois_run handle ([Listen_Ok, Serve_Starts, Shutdown_Closes] @ replicate n Accept_Fails_Again) s"
      "ws_serving s = Accepting 0" "ws_sockets s = [False]" "ws_warnings s = n" by blast
    have "\<not> ws_ctx s" using whois_run_facts [OF s(1)] by simp
    from whois_run_append [OF s(1) whois_step.Accept_Fails_Again [OF s(2) this] refl]
    show ?case using s by (intro exI [of _ "s\<lparr>ws_warnings := Suc (ws_warnings s)\<rparr>"])
        (simp add: replicate_append_same [symmetric])
  qed
  show "\<not> (\<exists>es s. whois_run handle es s \<and> Cancel \<notin> set es \<and> ws_serving s = Done None)"
    using whois_run_facts by blast
qed

end
