(* ===== verification/Lifecycle.thy ===== *)
theory Lifecycle
  imports MetricsServer SqlOpen Whois
begin

section \<open>The life of the process\<close>

text \<open>
  \<open>cmd/rdapd/main.go\<close>, function \<open>run\<close>: load the configuration, open the store, start the metrics server,
  the WHOIS gateway and the RDAP server, wait for a signal, and shut everything down. The main goroutine
  is a deterministic function of the program point and the outcome of the call it makes (\<open>main_step\<close>);
  the three server goroutines, the gateway's own goroutines (the step relation of \<open>Whois\<close>) and the
  signal handler interleave with it (\<open>run_step\<close>).

  The process state holds the local variables of \<open>run\<close>, the cancellation of its context, the stack of
  deferred calls, the number of times the store was closed, and for each HTTP server where it stands:
  not made, its goroutine about to listen, serving (with TLS or without), failed, shut down, or forced
  down by the timeout. After \<open>Shutdown\<close> a server of \<open>net/http\<close> never serves again. Signals go to a
  channel with room for one.
\<close>

datatype http_phase = Created | Starting | Serving bool | Failed | Stopped | Forced

datatype deferred = Cancel_Context | Close_Store | Cancel_Shutdown

datatype point =
    At_Load | At_Store | At_Metrics | At_Whois | At_Server | At_Quit
  | At_Shutdown | At_Metrics_Shutdown | At_Whois_Shutdown
  | Returning "goerror option" | Returned "goerror option"

datatype call = Succeeds | Fails goerror

record ('l, 'm) deps =
  dep_U :: unicode
  dep_ReadFile :: "string \<Rightarrow> string result"
  dep_Unmarshal :: "string \<Rightarrow> Config result"
  dep_open :: "StorageConfig \<Rightarrow> Interface result"
  dep_T :: "'l server_state third_party"
  dep_A :: "string \<Rightarrow> string result"
  dep_N :: "string \<Rightarrow> string result"
  dep_net :: network
  dep_lib :: jwt_lib
  dep_promhttp :: "'m handler"

record ('l, 'm) process =
  p_pc :: point
  p_cfg :: "Config option"
  p_store :: "Interface option"
  p_closes :: nat
  p_ctx :: bool
  p_defers :: "deferred list"
  p_quit :: bool
  p_metrics_srv :: "'m http_server option"
  p_metrics :: http_phase
  p_whois :: "whois_server option"
  p_gateway :: bool
  p_rdap_srv :: "'l server_state http_server option"
  p_rdap :: http_phase
  p_log :: "string list"

text \<open>The first statement of \<open>run\<close> defers the cancellation of its context.\<close>

definition run_start :: "('l, 'm) process" where
  "run_start =
     \<lparr>p_pc = At_Load, p_cfg = None, p_store = None, p_closes = 0, p_ctx = False, p_defers = [Cancel_Context],
      p_quit = False, p_metrics_srv = None, p_metrics = Created, p_whois = None, p_gateway = False,
      p_rdap_srv = None, p_rdap = Created, p_log = []\<rparr>"

subsection \<open>The main goroutine\<close>

definition load_config :: "('l, 'm) deps \<Rightarrow> string \<Rightarrow> ('l, 'm) process \<Rightarrow> ('l, 'm) process" where
  "load_config D path s =
     (case Load (dep_U D) (dep_ReadFile D) (dep_Unmarshal D) path of
        Inl err \<Rightarrow> s\<lparr>p_pc := Returning (Some (Wrapf (''failed to load config: '' @ Error err) err))\<rparr>
      | Inr cfg \<Rightarrow> s\<lparr>p_cfg := Some cfg, p_pc := At_Store\<rparr>)"

definition init_store :: "('l, 'm) deps \<Rightarrow> Config \<Rightarrow> ('l, 'm) process \<Rightarrow> ('l, 'm) process" where
  "init_store D cfg s =
     (case dep_open D (Storage_cfg cfg) of
        Inl err \<Rightarrow> s\<lparr>p_pc := Returning (Some (Wrapf (''failed to init store: '' @ Error err) err))\<rparr>
      | Inr st \<Rightarrow> s\<lparr>p_store := Some st, p_defers := Close_Store # p_defers s, p_pc := At_Metrics\<rparr>)"

definition start_metrics :: "('l, 'm) deps \<Rightarrow> Config \<Rightarrow> ('l, 'm) process \<Rightarrow> ('l, 'm) process" where
  "start_metrics D cfg s =
     (case metrics_NewServer (dep_promhttp D) (Metrics_cfg cfg) of
        None \<Rightarrow> s\<lparr>p_pc := At_Whois\<rparr>
      | Some server \<Rightarrow> s\<lparr>p_metrics_srv := Some server, p_metrics := Starting, p_pc := At_Whois\<rparr>)"

definition whois_listen :: "whois_server \<Rightarrow> whois_server" where
  "whois_listen w = w\<lparr>ws_sockets := ws_sockets w @ [True], ws_ln := Some (length (ws_sockets w))\<rparr>"

definition start_whois :: "call \<Rightarrow> Config \<Rightarrow> ('l, 'm) process \<Rightarrow> ('l, 'm) process" where
  "start_whois c cfg s =
     (if w_Enabled (Whois_cfg cfg)
      then (case c of
              Fails err \<Rightarrow>
                s\<lparr>p_whois := Some whois_New,
                  p_pc := Returning (Some (Wrapf (''whois listen '' @ WhoisAddr cfg @ '': '' @ Error err) err))\<rparr>
            | Succeeds \<Rightarrow> s\<lparr>p_whois := Some (whois_listen whois_New), p_gateway := True, p_pc := At_Server\<rparr>)
      else s\<lparr>p_pc := At_Server\<rparr>)"

definition start_rdap ::
  "('l, 'm) deps \<Rightarrow> Config \<Rightarrow> Interface \<Rightarrow> ('l, 'm) process \<Rightarrow> ('l, 'm) process" where
  "start_rdap D cfg st s =
     s\<lparr>p_rdap_srv := Some (server_New (dep_T D) (dep_U D) (dep_A D) (dep_N D) (dep_net D) (dep_lib D) cfg st),
       p_rdap := Starting, p_pc := At_Quit\<rparr>"

definition on_signal :: "('l, 'm) process \<Rightarrow> ('l, 'm) process" where
  "on_signal s =
     s\<lparr>p_quit := False, p_ctx := True, p_whois := map_option (\<lambda>w. w\<lparr>ws_ctx := True\<rparr>) (p_whois s),
       p_defers := Cancel_Shutdown # p_defers s, p_pc := At_Shutdown\<rparr>"

definition shutdown_rdap :: "call \<Rightarrow> ('l, 'm) process \<Rightarrow> ('l, 'm) process" where
  "shutdown_rdap c s =
     (case c of
        Succeeds \<Rightarrow> s\<lparr>p_rdap := Stopped, p_pc := At_Metrics_Shutdown\<rparr>
      | Fails err \<Rightarrow>
          s\<lparr>p_rdap := Forced,
            p_pc := Returning (Some (Wrapf (''server forced to shutdown: '' @ Error err) err))\<rparr>)"

definition shutdown_metrics :: "call \<Rightarrow> ('l, 'm) process \<Rightarrow> ('l, 'm) process" where
  "shutdown_metrics c s =
     (if p_metrics_srv s = None then s\<lparr>p_pc := At_Whois_Shutdown\<rparr>
      else case c of
             Succeeds \<Rightarrow> s\<lparr>p_metrics := Stopped, p_pc := At_Whois_Shutdown\<rparr>
           | Fails err \<Rightarrow>
               s\<lparr>p_metrics := Forced, p_pc := At_Whois_Shutdown,
                 p_log := p_log s @ [''metrics server forced to shutdown: '' @ Error err]\<rparr>)"

text \<open>\<open>Shutdown\<close> of the gateway: closing a socket that its own goroutine has already closed is an error.\<close>

definition ErrNetClosed :: goerror where
  "ErrNetClosed = Sentinel ''use of closed network connection''"

definition whois_shutdown :: "whois_server \<Rightarrow> goerror option \<times> whois_server" where
  "whois_shutdown w =
     (case ws_ln w of
        None \<Rightarrow> (None, w)
      | Some l \<Rightarrow> (if ws_sockets w ! l then None else Some ErrNetClosed,
                   w\<lparr>ws_sockets := (ws_sockets w)[l := False], ws_ln := None\<rparr>))"

definition shutdown_whois :: "('l, 'm) process \<Rightarrow> ('l, 'm) process" where
  "shutdown_whois s =
     (case p_whois s of
        None \<Rightarrow> s\<lparr>p_pc := Returning None\<rparr>
      | Some w \<Rightarrow>
          (case whois_shutdown w of
             (None, w') \<Rightarrow> s\<lparr>p_whois := Some w', p_pc := Returning None\<rparr>
           | (Some err, w') \<Rightarrow>
               s\<lparr>p_whois := Some w', p_pc := Returning None,
                 p_log := p_log s @ [''whois server forced to shutdown: '' @ Error err]\<rparr>))"

definition run_deferred :: "deferred \<Rightarrow> ('l, 'm) process \<Rightarrow> ('l, 'm) process" where
  "run_deferred d s =
     (case d of
        Cancel_Context \<Rightarrow> s\<lparr>p_ctx := True, p_whois := map_option (\<lambda>w. w\<lparr>ws_ctx := True\<rparr>) (p_whois s)\<rparr>
      | Close_Store \<Rightarrow> s\<lparr>p_closes := Suc (p_closes s)\<rparr>
      | Cancel_Shutdown \<Rightarrow> s)"

definition return_step :: "goerror option \<Rightarrow> ('l, 'm) process \<Rightarrow> ('l, 'm) process" where
  "return_step r s =
     (case p_defers s of
        [] \<Rightarrow> s\<lparr>p_pc := Returned r\<rparr>
      | d # ds \<Rightarrow> run_deferred d (s\<lparr>p_defers := ds\<rparr>))"

definition main_step ::
  "('l, 'm) deps \<Rightarrow> string \<Rightarrow> call \<Rightarrow> ('l, 'm) process \<Rightarrow> ('l, 'm) process option" where
  "main_step D path c s =
     (case p_pc s of
        At_Load \<Rightarrow> Some (load_config D path s)
      | At_Store \<Rightarrow> map_option (\<lambda>cfg. init_store D cfg s) (p_cfg s)
      | At_Metrics \<Rightarrow> map_option (\<lambda>cfg. start_metrics D cfg s) (p_cfg s)
      | At_Whois \<Rightarrow> map_option (\<lambda>cfg. start_whois c cfg s) (p_cfg s)
      | At_Server \<Rightarrow>
          (case (p_cfg s, p_store s) of
             (Some cfg, Some st) \<Rightarrow> Some (start_rdap D cfg st s)
           | _ \<Rightarrow> None)
      | At_Quit \<Rightarrow> if p_quit s then Some (on_signal s) else None
      | At_Shutdown \<Rightarrow> Some (shutdown_rdap c s)
      | At_Metrics_Shutdown \<Rightarrow> Some (shutdown_metrics c s)
      | At_Whois_Shutdown \<Rightarrow> Some (shutdown_whois s)
      | Returning r \<Rightarrow> Some (return_step r s)
      | Returned r \<Rightarrow> None)"

subsection \<open>All goroutines\<close>

definition uses_TLS :: "Config \<Rightarrow> bool" where
  "uses_TLS cfg \<longleftrightarrow> s_TLSCertFile (Server_cfg cfg) \<noteq> [] \<and> s_TLSKeyFile (Server_cfg cfg) \<noteq> []"

text \<open>The steps of the gateway that are its own, not calls by \<open>run\<close>.\<close>

definition gateway_event :: "whois_event \<Rightarrow> bool" where
  "gateway_event e \<longleftrightarrow> e \<notin> {Listen_Ok, Listen_Fails, Cancel, Shutdown_Closes, Shutdown_Nothing}"

definition gateway_log :: "whois_event \<Rightarrow> string list" where
  "gateway_log e =
     (if e = Serve_Not_Listening
      then [''whois server error: whois serve: listener not started; call Listen first''] else [])"

datatype run_event =
    Main call | Rdap_Listens | Rdap_Fails goerror | Metrics_Listens | Metrics_Fails goerror
  | Gateway whois_event | Signal

inductive run_step ::
  "('l, 'm) deps \<Rightarrow> string \<Rightarrow> ('l, 'm) process \<Rightarrow> run_event \<Rightarrow> ('l, 'm) process \<Rightarrow> bool" for D path
  where
  Main: "main_step D path c s = Some s' \<Longrightarrow> run_step D path s (Main c) s'"
| Rdap_Listens: "p_rdap s = Starting \<Longrightarrow> p_cfg s = Some cfg \<Longrightarrow>
     run_step D path s Rdap_Listens (s\<lparr>p_rdap := Serving (uses_TLS cfg)\<rparr>)"
| Rdap_Fails: "p_rdap s \<in> {Starting, Serving True, Serving False} \<Longrightarrow>
     run_step D path s (Rdap_Fails err)
       (s\<lparr>p_rdap := Failed, p_log := p_log s @ [''server error: '' @ Error err]\<rparr>)"
| Metrics_Listens: "p_metrics s = Starting \<Longrightarrow>
     run_step D path s Metrics_Listens (s\<lparr>p_metrics := Serving False\<rparr>)"
| Metrics_Fails: "p_metrics s \<in> {Starting, Serving False} \<Longrightarrow>
     run_step D path s (Metrics_Fails err)
       (s\<lparr>p_metrics := Failed, p_log := p_log s @ [''metrics server error: '' @ Error err]\<rparr>)"
| Gateway: "p_gateway s \<Longrightarrow> p_whois s = Some w \<Longrightarrow> p_store s = Some st \<Longrightarrow> gateway_event e \<Longrightarrow>
     whois_step (handle_conn (dep_U D) (StoreLookup (dep_U D) st)) w e w' \<Longrightarrow>
     run_step D path s (Gateway e) (s\<lparr>p_whois := Some w', p_log := p_log s @ gateway_log e\<rparr>)"
| Signal: "run_step D path s Signal (s\<lparr>p_quit := True\<rparr>)"

inductive_cases run_stepE: "run_step D path s e s'"

inductive run_trace ::
  "('l, 'm) deps \<Rightarrow> string \<Rightarrow> run_event list \<Rightarrow> ('l, 'm) process \<Rightarrow> bool" for D path where
  start: "run_trace D path [] run_start"
| step: "run_trace D path es s \<Longrightarrow> run_step D path s e s' \<Longrightarrow> run_trace D path (es @ [e]) s'"

lemmas lifecycle_eval [go_eval] =
  run_start_def load_config_def init_store_def start_metrics_def whois_listen_def start_whois_def
  start_rdap_def on_signal_def shutdown_rdap_def shutdown_metrics_def whois_shutdown_def shutdown_whois_def
  run_deferred_def return_step_def main_step_def uses_TLS_def gateway_event_def gateway_log_def

subsection \<open>Case analysis\<close>

lemma main_stepE:
  assumes "main_step D path c s = Some s'"
  obtains (Load) "p_pc s = At_Load" "s' = load_config D path s"
  | (Store) cfg where "p_pc s = At_Store" "p_cfg s = Some cfg" "s' = init_store D cfg s"
  | (Metrics) cfg where "p_pc s = At_Metrics" "p_cfg s = Some cfg" "s' = start_metrics D cfg s"
  | (Whois) cfg where "p_pc s = At_Whois" "p_cfg s = Some cfg" "s' = start_whois c cfg s"
  | (Server) cfg st where "p_pc s = At_Server" "p_cfg s = Some cfg" "p_store s = Some st" "s' = start_rdap D cfg st s"
  | (Quit) "p_pc s = At_Quit" "p_quit s" "s' = on_signal s"
  | (Shutdown) "p_pc s = At_Shutdown" "s' = shutdown_rdap c s"
  | (Metrics_Shutdown) "p_pc s = At_Metrics_Shutdown" "s' = shutdown_metrics c s"
  | (Whois_Shutdown) "p_pc s = At_Whois_Shutdown" "s' = shutdown_whois s"
  | (Return) r where "p_pc s = Returning r" "s' = return_step r s"
  using assms by (cases "p_pc s") (auto simp: main_step_def split: option.splits if_splits)

lemmas main_steps =
  load_config_def init_store_def start_metrics_def start_whois_def start_rdap_def on_signal_def
  shutdown_rdap_def shutdown_metrics_def shutdown_whois_def return_step_def run_deferred_def

lemmas main_splits = sum.splits option.splits call.splits if_splits list.splits deferred.splits prod.splits

text \<open>What the steps of the other goroutines leave alone.\<close>

lemma other_steps:
  assumes "run_step D path s e s'" and "\<And>c. e \<noteq> Main c"
  shows "p_pc s' = p_pc s" "p_cfg s' = p_cfg s" "p_store s' = p_store s" "p_closes s' = p_closes s"
    "p_ctx s' = p_ctx s" "p_defers s' = p_defers s" "p_metrics_srv s' = p_metrics_srv s"
    "p_gateway s' = p_gateway s" "p_rdap_srv s' = p_rdap_srv s"
    "p_rdap s \<in> {Created, Stopped, Forced} \<Longrightarrow> p_rdap s' = p_rdap s"
    "p_rdap s \<notin> {Created, Stopped, Forced} \<Longrightarrow> p_rdap s' \<notin> {Created, Stopped, Forced}"
    "p_metrics s \<in> {Created, Stopped, Forced} \<Longrightarrow> p_metrics s' = p_metrics s"
    "p_whois s' = None \<longleftrightarrow> p_whois s = None"
    "p_quit s' \<longleftrightarrow> p_quit s \<or> e = Signal"
  using assms by (auto elim!: run_stepE)

lemma run_induct [consumes 1, case_names Start Main_Step Other]:
  assumes "run_trace D path es s"
    and "P [] run_start"
    and "\<And>es s c s'. run_trace D path es s \<Longrightarrow> P es s \<Longrightarrow> main_step D path c s = Some s' \<Longrightarrow> P (es @ [Main c]) s'"
    and "\<And>es s e s'. run_trace D path es s \<Longrightarrow> P es s \<Longrightarrow> run_step D path s e s' \<Longrightarrow> (\<And>c. e \<noteq> Main c) \<Longrightarrow>
           P (es @ [e]) s'"
  shows "P es s"
  using assms(1)
proof (induction rule: run_trace.induct)
  case start
  show ?case by (rule assms(2))
next
  case (step es s e s')
  show ?case
  proof (cases "\<exists>c. e = Main c")
    case True
    then show ?thesis using step assms(3) by (auto elim!: run_stepE)
  next
    case False
    then show ?thesis using step assms(4) by blast
  qed
qed

subsection \<open>Invariants\<close>

text \<open>The local variables come from the configuration file and the storage it names.\<close>

definition locals_inv :: "('l, 'm) deps \<Rightarrow> string \<Rightarrow> ('l, 'm) process \<Rightarrow> bool" where
  "locals_inv D path s \<longleftrightarrow>
     (\<forall>cfg. p_cfg s = Some cfg \<longrightarrow> Load (dep_U D) (dep_ReadFile D) (dep_Unmarshal D) path = Inr cfg) \<and>
     (\<forall>st. p_store s = Some st \<longrightarrow> (\<exists>cfg. p_cfg s = Some cfg \<and> dep_open D (Storage_cfg cfg) = Inr st)) \<and>
     (\<forall>server. p_rdap_srv s = Some server \<longrightarrow> (\<exists>cfg st. p_cfg s = Some cfg \<and> p_store s = Some st \<and>
        server = server_New (dep_T D) (dep_U D) (dep_A D) (dep_N D) (dep_net D) (dep_lib D) cfg st)) \<and>
     (p_cfg s = None \<longrightarrow> (\<exists>r. p_pc s \<in> {At_Load, Returning r, Returned r})) \<and>
     (p_store s = None \<longrightarrow> (\<exists>r. p_pc s \<in> {At_Load, At_Store, Returning r, Returned r})) \<and>
     (p_pc s = At_Load \<longrightarrow> p_cfg s = None) \<and> (p_pc s \<in> {At_Load, At_Store} \<longrightarrow> p_store s = None) \<and>
     (p_pc s \<in> {At_Quit, At_Shutdown} \<longrightarrow> p_rdap_srv s \<noteq> None) \<and>
     (p_rdap s \<noteq> Created \<longrightarrow> p_rdap_srv s \<noteq> None)"

text \<open>The deferred calls, the context and the store, by program point.\<close>

definition defers_inv :: "('l, 'm) process \<Rightarrow> bool" where
  "defers_inv s \<longleftrightarrow>
     (case p_pc s of
        Returning r \<Rightarrow>
          p_store s \<noteq> None \<and> p_closes s = 0 \<and>
            p_defers s \<in> {[Cancel_Shutdown, Close_Store, Cancel_Context], [Close_Store, Cancel_Context]} \<or>
          p_closes s = (if p_store s = None then 0 else 1) \<and>
            (p_defers s = [Cancel_Context] \<or> p_defers s = [] \<and> p_ctx s)
      | Returned r \<Rightarrow> p_ctx s \<and> p_closes s = (if p_store s = None then 0 else 1)
      | pc \<Rightarrow> p_closes s = 0 \<and>
          p_defers s =
            (if pc \<in> {At_Load, At_Store} then [Cancel_Context]
             else if pc \<in> {At_Shutdown, At_Metrics_Shutdown, At_Whois_Shutdown}
             then [Cancel_Shutdown, Close_Store, Cancel_Context]
             else [Close_Store, Cancel_Context]))"

text \<open>Where the RDAP server stands, by program point.\<close>

definition rdap_inv :: "('l, 'm) process \<Rightarrow> bool" where
  "rdap_inv s \<longleftrightarrow>
     (case p_pc s of
        Returning r \<Rightarrow> p_rdap s \<in> {Created, Stopped, Forced} \<and> (r = None \<longrightarrow> p_rdap s = Stopped)
      | Returned r \<Rightarrow> p_rdap s \<in> {Created, Stopped, Forced} \<and> (r = None \<longrightarrow> p_rdap s = Stopped)
      | pc \<Rightarrow>
          if pc \<in> {At_Quit, At_Shutdown} then p_rdap s \<notin> {Created, Stopped, Forced}
          else if pc \<in> {At_Metrics_Shutdown, At_Whois_Shutdown} then p_rdap s = Stopped
          else p_rdap s = Created)"

lemma run_locals: "run_trace D path es s \<Longrightarrow> locals_inv D path s"
proof (induction rule: run_induct)
  case Start
  show ?case by (simp add: locals_inv_def run_start_def)
next
  case (Main_Step es s c s')
  from Main_Step.hyps(2) show ?case
    by (cases rule: main_stepE) (use Main_Step.IH in \<open>auto simp: locals_inv_def main_steps split: main_splits\<close>)
next
  case (Other es s e s')
  note same = other_steps [OF Other.hyps(2,3)]
  show ?case using Other.IH same(10) by (auto simp: locals_inv_def same)
qed

lemma run_defers: "run_trace D path es s \<Longrightarrow> defers_inv s"
proof (induction rule: run_induct)
  case Start
  show ?case by (simp add: defers_inv_def run_start_def)
next
  case (Main_Step es s c s')
  note locals = run_locals [OF Main_Step.hyps(1)]
  from Main_Step.hyps(2) show ?case
    by (cases rule: main_stepE) (use Main_Step.IH locals in \<open>auto simp: defers_inv_def locals_inv_def main_steps split: main_splits\<close>)
next
  case (Other es s e s')
  note same = other_steps [OF Other.hyps(2,3)]
  show ?case using Other.IH unfolding defers_inv_def same(1,3-6) .
qed

lemma run_rdap: "run_trace D path es s \<Longrightarrow> rdap_inv s"
proof (induction rule: run_induct)
  case Start
  show ?case by (simp add: rdap_inv_def run_start_def)
next
  case (Main_Step es s c s')
  from Main_Step.hyps(2) show ?case
    by (cases rule: main_stepE) (use Main_Step.IH in \<open>auto simp: rdap_inv_def main_steps split: main_splits\<close>)
next
  case (Other es s e s')
  note same = other_steps [OF Other.hyps(2,3)]
  show ?case using Other.IH same(10,11) by (auto simp: rdap_inv_def same split: point.splits)
qed

subsection \<open>Termination of the main goroutine\<close>

definition is_main :: "run_event \<Rightarrow> bool" where
  "is_main e = (case e of Main _ \<Rightarrow> True | _ \<Rightarrow> False)"

text \<open>An upper bound for the steps that the main goroutine still takes.\<close>

definition remaining :: "('l, 'm) process \<Rightarrow> nat" where
  "remaining s =
     (case p_pc s of
        At_Load \<Rightarrow> 13 | At_Store \<Rightarrow> 12 | At_Metrics \<Rightarrow> 11 | At_Whois \<Rightarrow> 10 | At_Server \<Rightarrow> 9 | At_Quit \<Rightarrow> 8
      | At_Shutdown \<Rightarrow> 7 | At_Metrics_Shutdown \<Rightarrow> 6 | At_Whois_Shutdown \<Rightarrow> 5
      | Returning r \<Rightarrow> Suc (length (p_defers s)) | Returned r \<Rightarrow> 0)"

text \<open>The main goroutine alone, with the outcomes of its calls given.\<close>

fun main_iter :: "('l, 'm) deps \<Rightarrow> string \<Rightarrow> call list \<Rightarrow> ('l, 'm) process \<Rightarrow> ('l, 'm) process" where
  "main_iter D path [] s = s"
| "main_iter D path (c # cs) s =
     (case main_step D path c s of None \<Rightarrow> s | Some s' \<Rightarrow> main_iter D path cs s')"

lemma main_step_decreases:
  assumes "main_step D path c s = Some s'" and "defers_inv s"
  shows "remaining s' < remaining s"
  using assms(1)
  by (cases rule: main_stepE)
    (use assms(2) in \<open>auto simp: remaining_def defers_inv_def main_steps split: main_splits\<close>)

lemma main_progress:
  assumes "locals_inv D path s" and "main_step D path c s = None"
  shows "(\<exists>r. p_pc s = Returned r) \<or> p_pc s = At_Quit \<and> \<not> p_quit s"
  using assms by (cases "p_pc s") (auto simp: main_step_def locals_inv_def split: option.splits if_splits)

lemma main_step_trace: "run_trace D path es s \<Longrightarrow> main_step D path c s = Some s' \<Longrightarrow> run_trace D path (es @ [Main c]) s'"
  by (rule run_trace.step [OF _ run_step.Main])

text \<open>Once a signal is there, it stays until the main goroutine has taken it.\<close>

definition past_quit :: "('l, 'm) process \<Rightarrow> bool" where
  "past_quit s \<longleftrightarrow> p_quit s \<or>
     p_pc s \<notin> {At_Load, At_Store, At_Metrics, At_Whois, At_Server, At_Quit}"

lemma main_step_past_quit: "main_step D path c s = Some s' \<Longrightarrow> past_quit s \<Longrightarrow> past_quit s'"
  by (cases rule: main_stepE) (auto simp: past_quit_def main_steps split: main_splits)

lemma main_iter_returns:
  assumes "run_trace D path es s" and "past_quit s" and "remaining s \<le> length cs"
  shows "\<exists>r. p_pc (main_iter D path cs s) = Returned r"
  using assms
proof (induction cs arbitrary: es s)
  case Nil
  then show ?case by (auto simp: remaining_def split: point.splits)
next
  case (Cons c cs)
  show ?case
  proof (cases "main_step D path c s")
    case None
    with main_progress [OF run_locals [OF Cons.prems(1)] None] Cons.prems(2) show ?thesis
      by (auto simp: past_quit_def)
  next
    case (Some s')
    have "remaining s' \<le> length cs"
      using main_step_decreases [OF Some run_defers [OF Cons.prems(1)]] Cons.prems(3) by simp
    from Cons.IH [OF main_step_trace [OF Cons.prems(1) Some] main_step_past_quit [OF Some Cons.prems(2)] this] Some
    show ?thesis by simp
  qed
qed

lemma run_measure: "run_trace D path es s \<Longrightarrow> length (filter is_main es) + remaining s \<le> 13"
proof (induction rule: run_induct)
  case Start
  show ?case by (simp add: run_start_def remaining_def)
next
  case (Main_Step es s c s')
  then show ?case
    using main_step_decreases [OF Main_Step.hyps(2) run_defers [OF Main_Step.hyps(1)]] by (simp add: is_main_def)
next
  case (Other es s e s')
  have "\<forall>c. e \<noteq> Main c" using Other.hyps(3) by blast
  then have "\<not> is_main e" by (cases e) (simp_all add: is_main_def)
  moreover have "remaining s' = remaining s"
    unfolding remaining_def other_steps(1,6) [OF Other.hyps(2,3)] ..
  ultimately show ?case using Other.IH by simp
qed

text \<open>
  C6. The main goroutine terminates: it takes at most 13 steps; it can always take the next one, whatever
  its call returns, unless it has returned or waits for a signal; and once a signal has arrived, 13
  steps are enough to return, whatever the calls return.
\<close>

theorem run_returns:
  assumes "run_trace D path es s"
  shows "length (filter is_main es) \<le> 13 \<and>
         ((\<exists>r. p_pc s = Returned r) \<or> p_pc s = At_Quit \<and> \<not> p_quit s \<or>
            (\<forall>c. \<exists>s'. main_step D path c s = Some s')) \<and>
         (p_quit s \<and> 13 \<le> length cs \<longrightarrow> (\<exists>r. p_pc (main_iter D path cs s) = Returned r))"
proof (intro conjI impI)
  note bound = run_measure [OF assms]
  show "length (filter is_main es) \<le> 13" using bound by simp
  show "(\<exists>r. p_pc s = Returned r) \<or> p_pc s = At_Quit \<and> \<not> p_quit s \<or>
      (\<forall>c. \<exists>s'. main_step D path c s = Some s')"
    using main_progress [OF run_locals [OF assms]] by (meson not_None_eq)
  show "\<exists>r. p_pc (main_iter D path cs s) = Returned r" if "p_quit s \<and> 13 \<le> length cs"
    using main_iter_returns [OF assms, of cs] that bound by (simp add: past_quit_def)
qed

text \<open>
  C7. The resources of the process: the store is closed at most once, never while the RDAP server can
  accept a request, and when \<open>run\<close> returns the context is cancelled and the store closed exactly once
  if it was opened.
\<close>

theorem run_releases:
  assumes "run_trace D path es s"
  shows "p_closes s \<le> 1 \<and> (p_closes s = 1 \<longrightarrow> p_rdap s \<in> {Created, Stopped, Forced}) \<and>
         (\<forall>r. p_pc s = Returned r \<longrightarrow> p_ctx s \<and> (p_closes s = 1 \<longleftrightarrow> p_store s \<noteq> None))"
  using run_defers [OF assms] run_rdap [OF assms]
  by (cases "p_pc s") (auto simp: defers_inv_def rdap_inv_def split: if_splits)

subsection \<open>How the run ends\<close>

definition failure :: "('l, 'm) deps \<Rightarrow> string \<Rightarrow> run_event list \<Rightarrow> goerror \<Rightarrow> bool" where
  "failure D path es e \<longleftrightarrow>
     (\<exists>err. Load (dep_U D) (dep_ReadFile D) (dep_Unmarshal D) path = Inl err \<and>
        e = Wrapf (''failed to load config: '' @ Error err) err) \<or>
     (\<exists>cfg err. Load (dep_U D) (dep_ReadFile D) (dep_Unmarshal D) path = Inr cfg \<and>
        (dep_open D (Storage_cfg cfg) = Inl err \<and> e = Wrapf (''failed to init store: '' @ Error err) err \<or>
         w_Enabled (Whois_cfg cfg) \<and> Main (Fails err) \<in> set es \<and>
           e = Wrapf (''whois listen '' @ WhoisAddr cfg @ '': '' @ Error err) err \<or>
         Signal \<in> set es \<and> Main (Fails err) \<in> set es \<and>
           e = Wrapf (''server forced to shutdown: '' @ Error err) err))"

lemma failure_more: "failure D path es e \<Longrightarrow> failure D path (es @ es') e"
  unfolding failure_def by (auto 0 4)

definition ends_inv :: "('l, 'm) deps \<Rightarrow> string \<Rightarrow> run_event list \<Rightarrow> ('l, 'm) process \<Rightarrow> bool" where
  "ends_inv D path es s \<longleftrightarrow>
     (\<forall>e. p_pc s = Returning (Some e) \<or> p_pc s = Returned (Some e) \<longrightarrow> failure D path es e) \<and>
     (p_quit s \<or> p_rdap s \<in> {Stopped, Forced} \<or>
        p_pc s \<in> {At_Shutdown, At_Metrics_Shutdown, At_Whois_Shutdown, Returning None, Returned None} \<longrightarrow>
        Signal \<in> set es)"

lemma run_ends: "run_trace D path es s \<Longrightarrow> ends_inv D path es s"
proof (induction rule: run_induct)
  case Start
  show ?case by (simp add: ends_inv_def run_start_def)
next
  case (Main_Step es s c s')
  note locals = run_locals [OF Main_Step.hyps(1)]
  have more: "failure D path es e \<Longrightarrow> failure D path (es @ [Main c]) e" for e by (rule failure_more)
  from Main_Step.hyps(2) show ?case
  proof (cases rule: main_stepE)
    case Load
    then show ?thesis using Main_Step.IH
      by (auto simp: ends_inv_def main_steps failure_def split: main_splits)
  next
    case (Store cfg)
    then show ?thesis using Main_Step.IH locals
      by (auto simp: ends_inv_def main_steps failure_def locals_inv_def split: main_splits)
  next
    case (Whois cfg)
    then show ?thesis using Main_Step.IH locals
      by (auto simp: ends_inv_def main_steps failure_def locals_inv_def split: main_splits)
  next
    case Shutdown
    moreover have "\<exists>cfg. p_cfg s = Some cfg" using locals Shutdown by (auto simp: locals_inv_def)
    ultimately show ?thesis using Main_Step.IH locals
      by (auto simp: ends_inv_def main_steps failure_def locals_inv_def split: main_splits)
  qed (use Main_Step.IH more in \<open>auto simp: ends_inv_def main_steps split: main_splits\<close>)
next
  case (Other es s e s')
  note same = other_steps [OF Other.hyps(2,3)]
  have "p_rdap s \<in> {Stopped, Forced}" if "p_rdap s' \<in> {Stopped, Forced}"
    using that same(10,11) by (cases "p_rdap s \<in> {Created, Stopped, Forced}") auto
  then have signal: "Signal \<in> set (es @ [e])"
    if "(p_quit s \<or> e = Signal) \<or> p_rdap s' \<in> {Stopped, Forced} \<or>
        p_pc s \<in> {At_Shutdown, At_Metrics_Shutdown, At_Whois_Shutdown, Returning None, Returned None}"
    using that Other.IH unfolding ends_inv_def by auto
  have "failure D path (es @ [e]) err" if "p_pc s = Returning (Some err) \<or> p_pc s = Returned (Some err)" for err
    using that Other.IH unfolding ends_inv_def by (blast intro: failure_more)
  with signal show ?case unfolding ends_inv_def same(1,14) by blast
qed

text \<open>The metrics server and the sockets of the gateway.\<close>

definition closed_inv :: "('l, 'm) process \<Rightarrow> bool" where
  "closed_inv s \<longleftrightarrow>
     (p_metrics_srv s = None \<longrightarrow> p_metrics s = Created) \<and>
     (p_pc s \<in> {At_Whois_Shutdown, Returning None, Returned None} \<longrightarrow>
        p_metrics s \<in> {Created, Stopped, Forced}) \<and>
     (p_pc s \<in> {At_Load, At_Store, At_Metrics, At_Whois} \<longrightarrow> p_whois s = None) \<and>
     (p_gateway s \<longrightarrow> p_whois s \<noteq> None) \<and>
     (\<forall>w. p_whois s = Some w \<longrightarrow>
        (if p_gateway s
         then (\<exists>open. ws_sockets w = [open] \<and> (ws_ln w = Some 0 \<or> ws_ln w = None \<and> \<not> open)) \<and>
              (\<forall>l. ws_serving w = Accepting l \<longrightarrow> l = 0)
         else \<exists>e. p_pc s \<in> {Returning (Some e), Returned (Some e)}) \<and>
        (p_pc s \<in> {Returning None, Returned None} \<longrightarrow> ws_ln w = None))"

lemma gateway_keeps:
  assumes "whois_step h w e w'" and "gateway_event e"
    and "ws_sockets w = [up]" and "ws_ln w = Some 0 \<or> ws_ln w = None \<and> \<not> up"
    and "\<forall>l. ws_serving w = Accepting l \<longrightarrow> l = 0"
  shows "\<exists>up'. ws_sockets w' = [up'] \<and> (ws_ln w' = Some 0 \<or> ws_ln w' = None \<and> \<not> up')"
    and "\<forall>l. ws_serving w' = Accepting l \<longrightarrow> l = 0" and "ws_ln w' = ws_ln w"
  using assms by (auto simp: gateway_event_def elim!: whois_stepE)

lemma closed_inv_gateway:
  assumes "closed_inv s" and "p_gateway s" and "p_whois s = Some w"
  shows "\<exists>up. ws_sockets w = [up] \<and> (ws_ln w = Some 0 \<or> ws_ln w = None \<and> \<not> up) \<and>
           (\<forall>l. ws_serving w = Accepting l \<longrightarrow> l = 0)"
proof -
  have "\<forall>v. p_whois s = Some v \<longrightarrow>
        (\<exists>up. ws_sockets v = [up] \<and> (ws_ln v = Some 0 \<or> ws_ln v = None \<and> \<not> up)) \<and>
        (\<forall>l. ws_serving v = Accepting l \<longrightarrow> l = 0)"
    using assms(1) unfolding closed_inv_def if_P [OF assms(2)] by blast
  with assms(3) show ?thesis by blast
qed

lemma run_closed: "run_trace D path es s \<Longrightarrow> closed_inv s"
proof (induction rule: run_induct)
  case Start
  show ?case by (simp add: closed_inv_def run_start_def)
next
  case (Main_Step es s c s')
  note rdap = run_rdap [OF Main_Step.hyps(1)]
  from Main_Step.hyps(2) show ?case
    by (cases rule: main_stepE)
      (use Main_Step.IH in \<open>auto simp: closed_inv_def main_steps metrics_NewServer_def whois_listen_def
         whois_shutdown_def whois_New_def split: main_splits\<close>)
next
  case (Other es s e s')
  note same = other_steps [OF Other.hyps(2,3)]
  have before: "p_metrics_srv s = None \<Longrightarrow> p_metrics s = Created"
    "p_pc s \<in> {At_Whois_Shutdown, Returning None, Returned None} \<Longrightarrow> p_metrics s \<in> {Created, Stopped, Forced}"
    using Other.IH unfolding closed_inv_def by blast+
  have metrics: "(p_metrics_srv s = None \<longrightarrow> p_metrics s' = Created) \<and>
      (p_pc s \<in> {At_Whois_Shutdown, Returning None, Returned None} \<longrightarrow> p_metrics s' \<in> {Created, Stopped, Forced})"
  proof (intro conjI impI)
    show "p_metrics s' = Created" if "p_metrics_srv s = None"
      using same(12) before(1) [OF that] by simp
    show "p_metrics s' \<in> {Created, Stopped, Forced}"
      if "p_pc s \<in> {At_Whois_Shutdown, Returning None, Returned None}"
      using same(12) [OF before(2) [OF that]] before(2) [OF that] by simp
  qed
  show ?case
  proof (cases "\<exists>we. e = Gateway we")
    case True
    then obtain we w st w' where g: "p_gateway s" "p_whois s = Some w" "gateway_event we"
      "whois_step (handle_conn (dep_U D) (StoreLookup (dep_U D) st)) w we w'" "p_whois s' = Some w'"
      using Other.hyps(2) by (auto elim!: run_stepE)
    then obtain up where up: "ws_sockets w = [up]" "ws_ln w = Some 0 \<or> ws_ln w = None \<and> \<not> up"
      "\<forall>l. ws_serving w = Accepting l \<longrightarrow> l = 0"
      using closed_inv_gateway [OF Other.IH g(1,2)] by blast
    note keep = gateway_keeps [OF g(4,3) up]
    have "p_pc s \<notin> {At_Load, At_Store, At_Metrics, At_Whois}"
      and "p_pc s \<in> {Returning None, Returned None} \<longrightarrow> ws_ln w' = None"
      using Other.IH g(2) keep(3) unfolding closed_inv_def by auto
    then show ?thesis unfolding closed_inv_def same g(5) using metrics keep(1,2) g(1) by simp
  next
    case False
    then have whois: "p_whois s' = p_whois s" using Other.hyps(2,3) by (auto elim!: run_stepE)
    show ?thesis using Other.IH metrics unfolding closed_inv_def same whois
      by - (elim conjE, intro conjI; assumption)
  qed
qed

text \<open>
  C8. What \<open>run\<close> returns: without an error only after a signal, with the RDAP server shut down gracefully,
  the metrics server down and the gateway's listener closed; otherwise the error says which step
  failed: loading the configuration, opening the store, the gateway's listener, or a graceful
  shutdown that did not finish.
\<close>

theorem run_outcome:
  assumes "run_trace D path es s" and "p_pc s = Returned r"
  shows "(case r of
            Some e \<Rightarrow> failure D path es e
          | None \<Rightarrow> Signal \<in> set es \<and> p_rdap s = Stopped \<and> p_metrics s \<in> {Created, Stopped, Forced} \<and>
                    (\<forall>w. p_whois s = Some w \<longrightarrow> ws_ln w = None \<and> ws_sockets w = [False]))"
proof (cases r)
  case None
  have "ws_ln w = None \<and> ws_sockets w = [False]" if "p_whois s = Some w" for w
    using run_closed [OF assms(1)] that assms(2) None by (auto simp: closed_inv_def split: if_splits)
  then show ?thesis
    using None assms(2) run_ends [OF assms(1)] run_rdap [OF assms(1)] run_closed [OF assms(1)]
    by (simp add: ends_inv_def rdap_inv_def closed_inv_def)
next
  case (Some e)
  then show ?thesis using assms(2) run_ends [OF assms(1)] by (simp add: ends_inv_def)
qed

subsection \<open>The servers that run\<close>

text \<open>The gateway of the process does nothing that the life cycle of \<open>Whois\<close> does not allow.\<close>

definition whois_inv :: "('l, 'm) deps \<Rightarrow> ('l, 'm) process \<Rightarrow> bool" where
  "whois_inv D s \<longleftrightarrow>
     (\<forall>w. p_whois s = Some w \<longrightarrow>
        (\<exists>st wes. p_store s = Some st \<and> whois_run (handle_conn (dep_U D) (StoreLookup (dep_U D) st)) wes w))"

lemma whois_run_starts: "whois_run h [] whois_New" "whois_run h [Listen_Ok] (whois_listen whois_New)"
  using whois_run.step [OF whois_run.start whois_step.Listen_Ok, of h] whois_run.start [of h]
  by (simp_all add: whois_listen_def)

lemma whois_run_cancel: "whois_run h wes w \<Longrightarrow> \<exists>wes'. whois_run h wes' (w\<lparr>ws_ctx := True\<rparr>)"
  using whois_run.step [OF _ whois_step.Cancel] by blast

lemma whois_run_shutdown:
  assumes "whois_run h wes w"
  shows "\<exists>wes'. whois_run h wes' (snd (whois_shutdown w))"
proof (cases "ws_ln w")
  case None
  then show ?thesis using assms by (auto simp: whois_shutdown_def)
next
  case (Some l)
  then show ?thesis using whois_run.step [OF assms whois_step.Shutdown_Closes [OF Some]]
    by (auto simp: whois_shutdown_def)
qed

lemma run_whois: "run_trace D path es s \<Longrightarrow> whois_inv D s"
proof (induction rule: run_induct)
  case Start
  show ?case by (simp add: whois_inv_def run_start_def)
next
  case (Main_Step es s c s')
  note locals = run_locals [OF Main_Step.hyps(1)]
  note closed = run_closed [OF Main_Step.hyps(1)]
  from Main_Step.hyps(2) show ?case
  proof (cases rule: main_stepE)
    case (Whois cfg)
    then obtain st where "p_store s = Some st" using locals by (auto simp: locals_inv_def)
    moreover have "p_whois s = None" using closed Whois unfolding closed_inv_def by blast
    ultimately show ?thesis using Whois whois_run_starts
      by (auto simp: whois_inv_def start_whois_def split: call.split)
  next
    case Quit
    then show ?thesis using Main_Step.IH whois_run_cancel by (fastforce simp: whois_inv_def on_signal_def)
  next
    case Whois_Shutdown
    show ?thesis
    proof (cases "p_whois s")
      case None
      then show ?thesis using Whois_Shutdown by (simp add: whois_inv_def shutdown_whois_def)
    next
      case (Some w)
      then obtain st wes where "p_store s = Some st"
        "whois_run (handle_conn (dep_U D) (StoreLookup (dep_U D) st)) wes w"
        using Main_Step.IH by (auto simp: whois_inv_def)
      moreover have "p_store s' = p_store s" "p_whois s' = Some (snd (whois_shutdown w))"
        using Whois_Shutdown Some by (auto simp: shutdown_whois_def split: prod.split option.split)
      ultimately show ?thesis using whois_run_shutdown by (fastforce simp: whois_inv_def)
    qed
  next
    case (Return r)
    then show ?thesis using Main_Step.IH whois_run_cancel
      by (fastforce simp: whois_inv_def return_step_def run_deferred_def split: list.split deferred.split)
  next
    case (Store cfg)
    moreover have "p_whois s = None" using closed Store unfolding closed_inv_def by blast
    ultimately show ?thesis by (auto simp: whois_inv_def init_store_def split: sum.split)
  qed (use Main_Step.IH in \<open>auto simp: whois_inv_def main_steps split: main_splits\<close>)
next
  case (Other es s e s')
  note same = other_steps [OF Other.hyps(2,3)]
  show ?case
  proof (cases "\<exists>we. e = Gateway we")
    case True
    then obtain we w st w' where "p_whois s = Some w" "p_store s = Some st" "p_whois s' = Some w'"
      "whois_step (handle_conn (dep_U D) (StoreLookup (dep_U D) st)) w we w'"
      using Other.hyps(2) by (auto elim!: run_stepE)
    then show ?thesis using Other.IH same(3) whois_run.step by (fastforce simp: whois_inv_def)
  next
    case False
    then have "p_whois s' = p_whois s" using Other.hyps(2,3) by (auto elim!: run_stepE)
    then show ?thesis using Other.IH by (simp add: whois_inv_def same)
  qed
qed

lemma run_tls: "run_trace D path es s \<Longrightarrow> p_rdap s = Serving tls \<longrightarrow> (\<exists>cfg. p_cfg s = Some cfg \<and> tls = uses_TLS cfg)"
proof (induction rule: run_induct)
  case Start
  show ?case by (simp add: run_start_def)
next
  case (Main_Step es s c s')
  from Main_Step.hyps(2) show ?case
    by (cases rule: main_stepE)
      (use Main_Step.IH run_locals [OF Main_Step.hyps(1)] run_rdap [OF Main_Step.hyps(1)] in
        \<open>auto simp: main_steps locals_inv_def rdap_inv_def split: main_splits\<close>)
next
  case (Other es s e s')
  then show ?case by (auto elim!: run_stepE)
qed

text \<open>
  C9. What the process serves: whenever the RDAP server accepts requests it is the server built from the
  configuration that was loaded and the store that was opened from it, over TLS exactly when the
  certificate file and the key file are both configured; and whatever the gateway has done is a run of the gateway alone over that same
  store, so that each connection was answered from it.
\<close>

theorem process_serves_configured:
  assumes "run_trace D path es s"
  shows "(\<forall>tls. p_rdap s = Serving tls \<longrightarrow>
            (\<exists>cfg st. Load (dep_U D) (dep_ReadFile D) (dep_Unmarshal D) path = Inr cfg \<and>
               dep_open D (Storage_cfg cfg) = Inr st \<and>
               (tls \<longleftrightarrow> s_TLSCertFile (Server_cfg cfg) \<noteq> [] \<and> s_TLSKeyFile (Server_cfg cfg) \<noteq> []) \<and>
               p_rdap_srv s = Some (server_New (dep_T D) (dep_U D) (dep_A D) (dep_N D) (dep_net D) (dep_lib D) cfg st))) \<and>
         (\<forall>w. p_whois s = Some w \<longrightarrow>
            (\<exists>cfg st wes. Load (dep_U D) (dep_ReadFile D) (dep_Unmarshal D) path = Inr cfg \<and>
               dep_open D (Storage_cfg cfg) = Inr st \<and>
               whois_run (handle_conn (dep_U D) (StoreLookup (dep_U D) st)) wes w))"
proof (intro conjI allI impI)
  note locals = run_locals [OF assms]
  fix tls
  assume serving: "p_rdap s = Serving tls"
  then obtain cfg where cfg: "p_cfg s = Some cfg" "tls = uses_TLS cfg" using run_tls [OF assms] by blast
  have "p_rdap_srv s \<noteq> None" using locals serving by (auto simp: locals_inv_def)
  then obtain server where server: "p_rdap_srv s = Some server" by blast
  then obtain cfg' st where st: "p_cfg s = Some cfg'" "p_store s = Some st"
    "server = server_New (dep_T D) (dep_U D) (dep_A D) (dep_N D) (dep_net D) (dep_lib D) cfg' st"
    using locals unfolding locals_inv_def by blast
  moreover have "Load (dep_U D) (dep_ReadFile D) (dep_Unmarshal D) path = Inr cfg"
    using locals cfg(1) unfolding locals_inv_def by blast
  moreover have "\<exists>cfg. p_cfg s = Some cfg \<and> dep_open D (Storage_cfg cfg) = Inr st"
    using locals st(2) unfolding locals_inv_def by blast
  ultimately show "\<exists>cfg st. Load (dep_U D) (dep_ReadFile D) (dep_Unmarshal D) path = Inr cfg \<and>
      dep_open D (Storage_cfg cfg) = Inr st \<and>
      (tls \<longleftrightarrow> s_TLSCertFile (Server_cfg cfg) \<noteq> [] \<and> s_TLSKeyFile (Server_cfg cfg) \<noteq> []) \<and>
      p_rdap_srv s = Some (server_New (dep_T D) (dep_U D) (dep_A D) (dep_N D) (dep_net D) (dep_lib D) cfg st)"
    using cfg server by (simp add: uses_TLS_def)
next
  fix w
  assume "p_whois s = Some w"
  then show "\<exists>cfg st wes. Load (dep_U D) (dep_ReadFile D) (dep_Unmarshal D) path = Inr cfg \<and>
      dep_open D (Storage_cfg cfg) = Inr st \<and>
      whois_run (handle_conn (dep_U D) (StoreLookup (dep_U D) st)) wes w"
    using run_whois [OF assms] run_locals [OF assms] unfolding whois_inv_def locals_inv_def by blast
qed

text \<open>The RDAP server's own failure reaches only the log.\<close>

lemma run_rdap_failed:
  "run_trace D path es s \<Longrightarrow> Rdap_Fails err \<in> set es \<longrightarrow>
     p_rdap s \<in> {Failed, Stopped, Forced} \<and> ''server error: '' @ Error err \<in> set (p_log s)"
proof (induction rule: run_induct)
  case (Main_Step es s c s')
  from Main_Step.hyps(2) show ?case
    by (cases rule: main_stepE)
      (use Main_Step.IH run_rdap [OF Main_Step.hyps(1)] in \<open>auto simp: rdap_inv_def main_steps split: main_splits\<close>)
next
  case (Other es s e s')
  then show ?case by (auto elim!: run_stepE)
qed simp

text \<open>
  C10. A server that cannot serve keeps the process alive: after the RDAP server failed (its address is in
  use, its certificate unreadable) and as long as no signal arrives, \<open>run\<close> waits, whatever happens; it
  neither returns an error nor restarts the server, and only the log shows the failure.
\<close>

theorem failed_server_keeps_waiting:
  assumes "run_trace D path es s" and "Rdap_Fails err \<in> set es" and "Signal \<notin> set es"
  shows "p_pc s = At_Quit \<and> p_rdap s = Failed \<and> (\<forall>c. main_step D path c s = None) \<and>
         ''server error: '' @ Error err \<in> set (p_log s)"
proof -
  have failed: "p_rdap s \<in> {Failed, Stopped, Forced}" "''server error: '' @ Error err \<in> set (p_log s)"
    using run_rdap_failed [OF assms(1)] assms(2) by blast+
  note ends = run_ends [OF assms(1)]
  have "p_rdap s = Failed" "\<not> p_quit s"
    using failed(1) ends assms(3) by (auto simp: ends_inv_def)
  moreover have "p_pc s = At_Quit"
    using run_rdap [OF assms(1)] ends assms(3) \<open>p_rdap s = Failed\<close>
    by (cases "p_pc s") (auto simp: rdap_inv_def ends_inv_def)
  ultimately show ?thesis using failed(2) by (simp add: main_step_def)
qed

subsection \<open>Witnesses\<close>

text \<open>A process with the memory store, the gateway and the metrics server enabled.\<close>

definition run_config :: Config where
  "run_config = example_config\<lparr>Whois_cfg := \<lparr>w_Enabled = True, w_Port = 43\<rparr>,
     Metrics_cfg := \<lparr>m_Enabled = True, m_Host = [], m_Port = 9090\<rparr>\<rparr>"

definition example_deps :: "(string \<Rightarrow> int, unit) deps" where
  "example_deps =
     \<lparr>dep_U = no_unicode, dep_ReadFile = (\<lambda>_. Inr []), dep_Unmarshal = (\<lambda>_. Inr run_config),
      dep_open = open_store no_unicode no_regexp (\<lambda>_. Inr 0) zero_time (\<lambda>_. Inr example_url) example_pgx example_mysql,
      dep_T = example_third_party, dep_A = no_idna, dep_N = no_idna, dep_net = example_net,
      dep_lib = example_lib None, dep_promhttp = (\<lambda>r h. h)\<rparr>"

definition loaded_config :: Config where
  "loaded_config = (let c = setDefaults run_config in c\<lparr>RDAP_cfg := (RDAP_cfg c)\<lparr>Mode := ''registrar''\<rparr>\<rparr>)"

lemma loaded_config_fields:
  "w_Enabled (Whois_cfg loaded_config)" "m_Enabled (Metrics_cfg loaded_config)"
  "Driver (Storage_cfg loaded_config) = ''memory''" "\<not> uses_TLS loaded_config"
  by (simp_all add: loaded_config_def run_config_def example_config_def setDefaults_def Let_def uses_TLS_def
      dflt_def dflt_str_def)

lemma example_load:
  "Load (dep_U example_deps) (dep_ReadFile example_deps) (dep_Unmarshal example_deps) path = Inr loaded_config"
proof -
  have "is_ok (validate no_unicode (setDefaults run_config))"
    unfolding validate_iff setDefaults_keeps by (simp add: run_config_def example_config_def)
  then obtain c where c: "validate no_unicode (setDefaults run_config) = Inr c"
    by (cases "validate no_unicode (setDefaults run_config)") auto
  have "dflt_str ''registrar'' (Mode (RDAP_cfg (setDefaults run_config))) = ''registrar''"
    unfolding setDefaults_keeps by (simp add: dflt_str_def run_config_def example_config_def)
  then have "c = loaded_config" using validate_ok(4) [OF c] by (simp add: loaded_config_def Let_def)
  then show ?thesis using c by (simp add: Load_def example_deps_def)
qed

definition example_open :: Interface where
  "example_open = projr (dep_open example_deps (Storage_cfg loaded_config))"

lemma example_opened: "dep_open example_deps (Storage_cfg loaded_config) = Inr example_open"
  by (simp add: example_open_def example_deps_def open_store_def New_def loaded_config_fields NewMemoryStore_def
      Let_def)

lemma main_iter_trace:
  assumes "run_trace D path es s"
  shows "\<exists>es'. run_trace D path (es @ es') (main_iter D path cs s) \<and> set es' \<subseteq> Main ` set cs"
  using assms
proof (induction cs arbitrary: es s)
  case Nil
  then show ?case by (intro exI [of _ "[]"]) simp
next
  case (Cons c cs)
  show ?case
  proof (cases "main_step D path c s")
    case None
    then show ?thesis using Cons.prems by (intro exI [of _ "[]"]) simp
  next
    case (Some s')
    from Cons.IH [OF main_step_trace [OF Cons.prems Some]] obtain es' where
      "run_trace D path ((es @ [Main c]) @ es') (main_iter D path cs s')" "set es' \<subseteq> Main ` set cs" by blast
    then show ?thesis using Some by (intro exI [of _ "Main c # es'"]) auto
  qed
qed

text \<open>The state in which the process waits, after five steps of the main goroutine.\<close>

definition waiting :: "(string \<Rightarrow> int, unit) process" where
  "waiting = main_iter example_deps ''c'' (replicate 5 Succeeds) run_start"

lemma waiting_state:
  "p_pc waiting = At_Quit" "p_cfg waiting = Some loaded_config" "p_rdap waiting = Starting"
  "\<exists>es. run_trace example_deps ''c'' es waiting \<and> Signal \<notin> set es"
proof -
  have five: "replicate 5 Succeeds = [Succeeds, Succeeds, Succeeds, Succeeds, Succeeds]"
    by (simp add: numeral_eq_Suc)
  show "p_pc waiting = At_Quit" "p_cfg waiting = Some loaded_config" "p_rdap waiting = Starting"
    unfolding waiting_def five
    by (simp_all add: main_step_def load_config_def example_load init_store_def example_opened start_metrics_def
        metrics_NewServer_def loaded_config_fields start_whois_def start_rdap_def run_start_def)
  show "\<exists>es. run_trace example_deps ''c'' es waiting \<and> Signal \<notin> set es"
    unfolding waiting_def
    using main_iter_trace [OF run_trace.start, of example_deps "''c''" "replicate 5 Succeeds"] by auto
qed

lemma signalled: "run_trace D path [Signal] (run_start\<lparr>p_quit := True\<rparr>)"
  using run_trace.step [OF run_trace.start run_step.Signal, of D path] by simp

theorem run_returns_witness:
  "\<exists>r. p_pc (main_iter example_deps ''c'' (replicate 13 Succeeds) (run_start\<lparr>p_quit := True\<rparr>)) = Returned r"
  using run_returns [OF signalled, of example_deps "''c''" "replicate 13 Succeeds"] by simp

text \<open>A run to the end: the signal is there from the start, and every call succeeds.\<close>

definition finished :: "(string \<Rightarrow> int, unit) process" where
  "finished = main_iter example_deps ''c'' (replicate 13 Succeeds) (run_start\<lparr>p_quit := True\<rparr>)"

lemma finished_state:
  "p_pc finished = Returned None" "p_store finished = Some example_open"
  "\<exists>es. run_trace example_deps ''c'' es finished"
proof -
  have all: "replicate 13 Succeeds = [Succeeds, Succeeds, Succeeds, Succeeds, Succeeds, Succeeds, Succeeds,
      Succeeds, Succeeds, Succeeds, Succeeds, Succeeds, Succeeds]"
    by (simp add: numeral_eq_Suc)
  show "p_pc finished = Returned None" "p_store finished = Some example_open"
    unfolding finished_def all
    by (simp_all add: main_step_def load_config_def example_load init_store_def example_opened start_metrics_def
        metrics_NewServer_def loaded_config_fields start_whois_def start_rdap_def run_start_def on_signal_def
        shutdown_rdap_def shutdown_metrics_def shutdown_whois_def whois_listen_def whois_New_def
        whois_shutdown_def return_step_def run_deferred_def)
  show "\<exists>es. run_trace example_deps ''c'' es finished"
    unfolding finished_def using main_iter_trace [OF signalled] by blast
qed

theorem run_releases_witness: "p_ctx finished \<and> p_closes finished = 1"
proof -
  obtain es where "run_trace example_deps ''c'' es finished" using finished_state(3) by blast
  from run_releases [OF this] finished_state(1,2) show ?thesis by auto
qed

theorem run_outcome_witness: "p_rdap finished = Stopped"
proof -
  obtain es where "run_trace example_deps ''c'' es finished" using finished_state(3) by blast
  from run_outcome [OF this finished_state(1)] show ?thesis by simp
qed

theorem process_serves_configured_witness:
  "\<exists>cfg st. p_rdap_srv (waiting\<lparr>p_rdap := Serving False\<rparr>) =
     Some (server_New example_third_party no_unicode no_idna no_idna example_net (example_lib None) cfg st)"
proof -
  obtain es where "run_trace example_deps ''c'' es waiting" using waiting_state(4) by blast
  from run_trace.step [OF this run_step.Rdap_Listens [OF waiting_state(3,2)]]
  have "run_trace example_deps ''c'' (es @ [Rdap_Listens]) (waiting\<lparr>p_rdap := Serving False\<rparr>)"
    using loaded_config_fields(4) by simp
  from process_serves_configured [OF this] show ?thesis by (auto simp: example_deps_def)
qed

theorem failed_server_keeps_waiting_witness:
  "\<exists>es s. run_trace example_deps ''c'' es s \<and> Rdap_Fails (Sentinel ''address already in use'') \<in> set es \<and>
          p_pc s = At_Quit \<and> p_rdap s = Failed \<and> (\<forall>c. main_step example_deps ''c'' c s = None)"
proof -
  let ?e = "Rdap_Fails (Sentinel ''address already in use'')"
  obtain es where es: "run_trace example_deps ''c'' es waiting" "Signal \<notin> set es" using waiting_state(4) by blast
  have "p_rdap waiting \<in> {Starting, Serving True, Serving False}" using waiting_state(3) by simp
  from run_trace.step [OF es(1) run_step.Rdap_Fails [OF this]]
  obtain s where s: "run_trace example_deps ''c'' (es @ [?e]) s" by blast
  have "?e \<in> set (es @ [?e])" "Signal \<notin> set (es @ [?e])" using es(2) by simp_all
  from failed_server_keeps_waiting [OF s this] s show ?thesis by (intro exI [of _ "es @ [?e]"] exI [of _ s]) simp
qed

end
