(* ===== verification/Spec2Isabelle.thy ===== *)
theory Spec2Isabelle
  imports SqlService Lifecycle
begin

text \<open>
  Verification of \<open>go-rdap-server\<close>, an RDAP server (RFC 9082, 9083) with a legacy WHOIS gateway over one
  registry database.

  \<^bold>\<open>The program.\<close> \<open>cmd/rdapd/main.go\<close> loads a YAML configuration, opens a store (memory, PostgreSQL or
  MySQL), and runs up to three servers until a signal arrives. A request to the RDAP server passes the
  middleware chain of \<open>internal/server\<close> (client address, logging, recovery, rate limit, headers, bearer
  tokens), is routed to a handler of \<open>internal/handlers\<close>, which checks its parameters and calls the query
  service of \<open>internal/service\<close>; the service reads registry objects (\<open>internal/domain\<close>) from the store
  (\<open>internal/store\<close>) and maps them to wire objects (\<open>internal/rdap\<close>) according to the server's mode. The
  WHOIS gateway (\<open>internal/whois\<close>) renders the same objects as text. Nothing writes to a store while the
  server runs, except other programs through the database.

  \<^bold>\<open>Theories and the code they model.\<close>
  \<^item> \<open>GoBase\<close>, \<open>GoNet\<close>, \<open>GoRegexp\<close>, \<open>GoJSON\<close>: what the source uses of Go's standard library (strings, numbers,
    times, maps, errors; IP addresses and prefixes, host and port, URL queries; the regular expressions
    the globs compile to; the parser for JSON text), and the collection \<open>go_eval\<close> of
    the equations that evaluate a definition on a concrete input.
  \<^item> \<open>RegistryModel\<close>: \<open>domain/models.go\<close>, \<open>vcard.go\<close>. \<open>RdapModel\<close>, \<open>Rdap\<close>: \<open>rdap/models.go\<close>, \<open>rdap.go\<close> (names,
    conformance, notices, help). \<open>Config\<close>: \<open>config/config.go\<close>.
  \<^item> \<open>Http\<close>: requests, response writers, handlers as state passing. \<open>Middleware\<close>: \<open>middleware/clientip.go\<close>,
    \<open>middleware.go\<close>. \<open>Auth\<close>: \<open>auth/auth.go\<close> and \<open>middleware/auth.go\<close>, with the key cache as state.
  \<^item> \<open>Store\<close>: \<open>store/store.go\<close>, the interface as a record of functions, and its contracts as the locales
    \<open>bounded_store\<close> and \<open>snapshot_store\<close>. \<open>MemoryStore\<close>: \<open>store/memory.go\<close>, with the invariant \<open>mem_inv\<close>.
    \<open>Mapping_JSON\<close>: \<open>store/mapping.go\<close>. \<open>SqlRange\<close>, \<open>SqlTables\<close>, \<open>SqlStore\<close>, \<open>SqlOpen\<close>: \<open>store/mysql.go\<close> and
    \<open>postgres.go\<close> (range computation, row mapping, operations, constructors). Each backend interprets the
    locales on its own interface.
  \<^item> \<open>Service\<close>: \<open>service/service.go\<close>, \<open>extensions.go\<close>. \<open>Handlers\<close>: \<open>handlers/handlers.go\<close>, \<open>response.go\<close>.
    \<open>SqlService\<close>: the service and the handlers over the relational stores.
  \<^item> \<open>Whois\<close>: \<open>whois/whois.go\<close>, \<open>store.go\<close>, \<open>render.go\<close>; the listener's life is a step relation.
  \<^item> \<open>Server\<close>: \<open>server/server.go\<close>, the composition. \<open>MetricsServer\<close>: \<open>metrics/metrics.go\<close>. \<open>Lifecycle\<close>: the
    function \<open>run\<close> of \<open>cmd/rdapd/main.go\<close> and all its goroutines as a step relation.
  \<^item> This theory: properties that span the RDAP and the WHOIS side.

  \<^bold>\<open>Conventions.\<close> A struct is a record, an error a \<open>goerror\<close> in the left summand of a \<open>result\<close>, a panic the
  value \<open>Panics\<close> or the flag \<open>panicked\<close>. A Go string is its list of bytes. A Go map is an association list
  with distinct keys, read in any order where the code ranges over it. Integers are \<open>int\<close> where the code
  does no arithmetic that could overflow, and words where the width matters: addresses, the range of a
  prefix (\<open>uint64\<close>, bytes), autonomous system numbers (\<open>uint32\<close>), the pool limits (\<open>int32\<close>).

  \<^bold>\<open>What the lemmas show.\<close>
  \<^item> Trust boundary: the client address (\<open>Middleware\<close>), tokens (\<open>Auth\<close>), and what the whole chain lets
    through (\<open>Server\<close>: nothing without a token, 429 for a peer over its limit, a panic logged and answered).
  \<^item> Disclosure: registry mode shows no registrant (\<open>Service\<close>), redaction in WHOIS, and where both fail.
  \<^item> Answers: status and body of every route, its headers, notices and conformance, bounds on searches
    (\<open>Handlers\<close>); agreement of RDAP and WHOIS (here).
  \<^item> Stores: lookups and searches against reference definitions, the memory store's invariant, aggregates
    as snapshots, the computed address ranges, rows that do not scan.
  \<^item> Data: name validation against its grammar, configuration invariants, round trips of keys and cards.
  \<^item> Life: the main goroutine terminates in at most 13 steps once a signal is there, releases what it
    opened, and serves what was configured; the accept loop of the gateway.

  \<^bold>\<open>Bounds and fuel.\<close> All functions are total. The loop over host bits (\<open>set_host_bits\<close>) terminates by the
  measure \<open>hostBits - i\<close>; the WHOIS accept loop, which need not end, is a step relation; the JSON parser
  runs on the fuel \<open>json_fuel\<close>, twice the length of the text and one, and \<open>parse_fuel\<close> shows that more fuel never
  changes its result.

  \<^bold>\<open>Parameters.\<close> Code outside the repository is an argument of the definitions that use it, and what its
  documentation promises is a named hypothesis: case folding and quoting beyond ASCII (\<open>unicode\<close>), IDNA, the
  YAML decoder, the URL parser, regular expressions beyond globs (\<open>regexp_lib\<close>), the JWT library as an
  interaction tree that asks for keys (\<open>jwt_lib\<close>) and the authorization server (\<open>network\<close>), the router and
  the third-party middlewares (\<open>third_party\<close>; \<open>documented\<close> leaves them what their documentation leaves
  open: header fields, compression, the limiter's counts and decisions, a timeout's 504), the databases
  with their drivers (\<open>dialect\<close>, \<open>mysql_driver\<close>, \<open>pgx_driver\<close>; \<open>repeatable\<close> for their isolation,
  \<open>documented_like\<close> for \<open>LIKE\<close> under the collation of a column), the Prometheus client.

  \<^bold>\<open>Not modelled.\<close> The command line and \<open>main\<close> itself (\<open>run\<close> is), the text of log lines other than the fields
  the request log records, timings; the encoding of wire objects to JSON text (a body is the value given
  to the encoder); the locks (the memory store is not written after construction, the key cache is read
  and written one request at a time here); the text of SQL statements (each is read as a filter over the
  rows of its tables); the three unused regular expressions of \<open>rdap.go\<close>.
\<close>

section \<open>Properties that span components\<close>

text \<open>
  C19. A domain response is rendered from one snapshot: over the memory store it names the domain that a
  lookup of the name returns, and its registrar entity shows the vCard of the very contact that a
  lookup of the domain's registrar handle returns; the placeholder registrar appears only when that
  contact does not exist.
\<close>

theorem LookupDomain_registrar_snapshot:
  assumes "svc_store s = memory_interface U R m" and "Service_LookupDomain s name url = Inr r"
  shows "\<exists>d. Memory_LookupDomain U m name = Inr d \<and> Domain_LDHName r = d_LDHName d \<and>
           (d_Registrar d \<noteq> [] \<longrightarrow> VCardArray (hd (Entities (Domain_Common r))) =
             (case Memory_LookupContact m (d_Registrar d) of
                Inr c \<Rightarrow> vcardToJCard (c_VCard c) (c_Handle c)
              | Inl _ \<Rightarrow> example_registrar_jcard))"
  using snapshot_store.lookup_registrar [OF mem.snapshot_store_axioms assms]
  by (simp add: memory_interface_def) blast

theorem LookupDomain_registrar_snapshot_witness:
  "\<exists>r. Service_LookupDomain (hd_svc example_handler) ''example.com'' ''u'' = Inr r \<and>
       VCardArray (hd (Entities (Domain_Common r))) =
         vcardToJCard (c_VCard (seed_registrar zero_time)) (c_Handle (seed_registrar zero_time))"
proof -
  let ?s = "hd_svc example_handler"
  have st: "svc_store ?s = memory_interface no_unicode no_regexp example_store"
    by (simp add: example_handler_def New_Handler_def New_Service_def)
  have dom: "Memory_LookupDomain no_unicode example_store ''example.com'' = Inr (seed_domain zero_time)"
    by (simp add: Memory_LookupDomain_def norm_name_def example_store_maps TrimSuffix_def suffix_to_prefix
        ToLower_def byte_def lower_byte_def isupper_def)
  have reg: "Memory_LookupContact example_store (d_Registrar (seed_domain zero_time)) = Inr (seed_registrar zero_time)"
    by (simp add: Memory_LookupContact_def example_store_maps seed_domain_def)
  have "\<exists>agg. Memory_GetDomainAggregate no_unicode example_store ''example.com'' = Inr agg"
    using dom by (auto simp: Memory_LookupDomain_def Memory_GetDomainAggregate_def Let_def split: option.splits)
  then obtain r where r: "Service_LookupDomain ?s ''example.com'' ''u'' = Inr r"
    using st by (auto simp: Service_LookupDomain_def memory_interface_def)
  show ?thesis using LookupDomain_registrar_snapshot [OF st r] dom reg r by (auto simp: seed_domain_def)
qed

text \<open>
  C33. The two services agree about a valid name that has a dot and does not start with ``ns'', over one
  memory store: the gateway answers that there are no entries exactly when RDAP answers 404, and
  otherwise RDAP answers 200 and both name the same domain. (A bare query that starts with ``ns'' the
  gateway takes for a nameserver and one without a dot for an entity, so there they differ.)
\<close>

theorem whois_rdap_agree:
  assumes "svc_store (hd_svc h) = memory_interface U R s" and "mem_inv s"
    and "ValidateLDHName n" and "CHR ''.'' \<in> set n" and "\<not> prefix ''ns'' n"
    and "URLParam r ''domainName'' = n" and "w_codes w = []"
  shows "let wtext = answer U (StoreLookup U (memory_interface U R s)) n;
             w' = Handler_LookupDomain U A N h r w
         in (wtext = not_found_text \<longleftrightarrow> status_of w' = 404) \<and>
            (status_of w' = 404 \<or>
             status_of w' = 200 \<and>
               (\<exists>resp. w_body w' = w_body w @ [BDomain resp] \<and>
                       prefix (''Domain Name: '' @ Domain_LDHName resp @ crlf) wtext))"
proof -
  let ?t = "TrimSuffix n ''.''"
  have t: "ValidateLDHName ?t" "TrimSuffix ?t ''.'' = ?t"
    using ValidateLDHName_TrimSuffix [OF assms(3)] by (auto simp: TrimSuffix_def)
  have low: "ToLower U ?t = ?t" "norm_name U ?t = ?t"
    using ValidateLDHName_lower [OF t(1)] norm_name_ldh [OF t(1)] t(2) by (simp_all add: ToLower_def)
  have query: "parseQuery U n = (n, ''domain'')"
    using parseQuery_ldh [OF assms(3,4)] assms(5) by simp
  have norm: "NormalizeDomainName U A N (URLParam r ''domainName'') = Inr (?t, ?t)"
    using NormalizeDomainName_normal [OF assms(3)] assms(6) by simp
  note status = lookup_domain_status [OF assms(1,2,7), of A N r, unfolded norm sum.case prod.case t(2)]
  have stored: "(\<exists>d \<in> snd ` set (ms_domains s). d_LDHName d = ?t) \<longleftrightarrow> (\<exists>d. map_of (ms_domains s) ?t = Some d)"
    using mem_inv_stored [OF assms(2), of ?t] by auto
  have nf: "prefix (''Domain Name: '' @ x) not_found_text = False" for x
    by (simp add: not_found_text_def)
  show ?thesis
  proof (cases "map_of (ms_domains s) ?t")
    case None
    then have "answer U (StoreLookup U (memory_interface U R s)) n = not_found_text"
      by (simp add: answer_def query StoreLookup_def memory_interface_def Memory_GetDomainAggregate_def low
          ErrNotFound_def)
    then show ?thesis using status stored None by simp
  next
    case (Some d)
    then obtain agg where agg: "Memory_GetDomainAggregate U s ?t = Inr agg"
      by (simp add: Memory_GetDomainAggregate_def low Let_def)
    have d: "agg_Domain agg = d" "d_LDHName d = ?t"
      using aggregate_maps(1) [OF agg] Some mem_inv_stored [OF assms(2), of ?t d] by (simp_all add: low)
    have "answer U (StoreLookup U (memory_interface U R s)) n = RenderDomain U (domainToWhois U agg)"
      by (simp add: answer_def query StoreLookup_def memory_interface_def low agg)
    moreover have "wd_LDHName (domainToWhois U agg) = ?t"
      by (simp add: domainToWhois_def Let_def d)
    ultimately have pre: "prefix (''Domain Name: '' @ ?t @ crlf) (answer U (StoreLookup U (memory_interface U R s)) n)"
      using RenderDomain_head [of "domainToWhois U agg" U] by simp
    then have "answer U (StoreLookup U (memory_interface U R s)) n \<noteq> not_found_text"
      using nf by metis
    then show ?thesis using status stored Some pre by (auto simp: Let_def)
  qed
qed

theorem whois_rdap_agree_witness:
  "let wtext = answer no_unicode (StoreLookup no_unicode (memory_interface no_unicode no_regexp example_store)) ''absent.org'';
       w' = Handler_LookupDomain no_unicode no_idna no_idna example_handler
              (example_request [(''domainName'', ''absent.org'')] []) new_writer
   in wtext = not_found_text \<longleftrightarrow> status_of w' = 404"
proof -
  let ?r = "example_request [(''domainName'', ''absent.org'')] []"
  have "ValidateLDHName ''absent.org''" by (simp add: go_eval)
  moreover have "URLParam ?r ''domainName'' = ''absent.org''" by (simp add: example_request_def URLParam_def)
  moreover have "svc_store (hd_svc example_handler) = memory_interface no_unicode no_regexp example_store"
    by (simp add: example_handler_def New_Handler_def New_Service_def)
  moreover have "w_codes new_writer = []" by (simp add: new_writer_def)
  ultimately show ?thesis
    using whois_rdap_agree [of example_handler no_unicode no_regexp example_store "''absent.org''" ?r new_writer
        no_idna no_idna] example_store_inv by (simp add: Let_def)
qed

end
